(* ===== verification/Prelude.thy ===== *)
theory Prelude
  imports Main
begin

section \<open>Prelude: fact collections and generic lemmas\<close>

text \<open>
  What every component of the payment gateway model shares: the named collections
  the component proofs draw on, the result of a Go function that returns
  \<open>(value, error)\<close>, and small facts about options, sums, lists and maps.

  \<^item> \<open>go_eval\<close> collects the defining equations of the modelled standard library that a
    concrete run unfolds (string trimming, case mapping, numbers);
  \<^item> \<open>gateway_defs\<close> collects the definitions of short handlers and helpers;
  \<^item> \<open>lit\<close> collects the string constants of the source (status names, error codes).
\<close>

named_theorems go_eval "equations that evaluate the modelled Go library on closed terms"
named_theorems gateway_defs "definitions of short operations of the gateway"
named_theorems lit "string constants of the source"

text \<open>
  An \<open>error\<close> value of Go is its message; \<open>nil\<close> is the absence of one. A function that
  returns \<open>(T, error)\<close> returns \<open>Inl msg\<close> for a non-nil error and \<open>Inr v\<close> otherwise.
\<close>

type_synonym gostring = string
type_synonym goerror = string
type_synonym 'a result = "goerror + 'a"

subsection \<open>Sums and options\<close>

lemma case_sum_Inr_iff:
  "(case r of Inl e \<Rightarrow> Inl e | Inr v \<Rightarrow> f v) = Inr w \<longleftrightarrow> (\<exists>v. r = Inr v \<and> f v = Inr w)"
  by (cases r) auto

lemma sum_cases_distinct [simp]: "(\<forall>e. r \<noteq> Inl e) \<longleftrightarrow> (\<exists>v. r = Inr v)"
  by (cases r) auto

lemma not_None_iff: "x \<noteq> None \<longleftrightarrow> (\<exists>y. x = Some y)"
  by (cases x) auto

subsection \<open>Lists\<close>

lemma take_length_append [simp]: "take (length xs) (xs @ ys) = xs"
  by simp

lemma rev_take_rev: "rev (take n (rev xs)) = drop (length xs - n) xs"
  by (simp add: take_rev)

lemma find_Some_set: "find P xs = Some x \<Longrightarrow> P x \<and> x \<in> set xs"
  by (induction xs) (auto split: if_splits)

lemma map_of_Some_set: "map_of kvs k = Some v \<Longrightarrow> (k, v) \<in> set kvs"
  by (rule map_of_SomeD)

lemma filter_nil_iff: "filter P xs = [] \<longleftrightarrow> (\<forall>x\<in>set xs. \<not> P x)"
  by (rule filter_empty_conv)

lemma sum_list_nonneg_mem:
  fixes xs :: "nat list"
  shows "x \<in> set xs \<Longrightarrow> x \<le> sum_list xs"
  by (induction xs) auto

lemma append_sep_inj:
  assumes "c \<notin> set xs" and "c \<notin> set us"
    and "xs @ c # ys = us @ c # vs"
  shows "xs = us \<and> ys = vs"
  using assms
proof (induction xs arbitrary: us)
  case Nil
  then show ?case by (cases us) auto
next
  case (Cons x xs)
  then show ?case by (cases us) auto
qed

end
