(* ===== verification/GoStrings.thy ===== *)
theory GoStrings
  imports Prelude
begin

section \<open>Go strings\<close>

text \<open>
  A Go string is a sequence of bytes, so it is a \<open>char list\<close> here (a HOL \<open>char\<close> is one
  byte). This theory models the functions of the standard packages \<open>strings\<close>,
  \<open>unicode/utf8\<close> and \<open>strconv\<close> that the gateway calls:
  \<^item> \<open>decode_rune\<close>, \<open>runes\<close>, \<open>encode_rune\<close>: UTF-8 as \<open>utf8.DecodeRuneInString\<close> reads it
    (an invalid byte is \<open>RuneError\<close> of width 1) and \<open>utf8.AppendRune\<close> writes it;
  \<^item> \<open>TrimSpace\<close>: exact for every byte string (all 25 code points of \<open>unicode.IsSpace\<close>);
  \<^item> \<open>ToLower\<close>, \<open>ToUpper\<close>, \<open>EqualFold\<close>: exact for ASCII, for Cyrillic, and for the four code
    points outside ASCII that Go maps to ASCII letters; every literal of the source that
    is compared with a mapped string is ASCII or Cyrillic. Other alphabets keep their case;
  \<^item> \<open>HasPrefix\<close>, \<open>HasSuffix\<close>, \<open>TrimPrefix\<close>, \<open>TrimSuffix\<close>, \<open>Contains\<close>, \<open>Index\<close>,
    \<open>LastIndex\<close>, \<open>Split\<close>, \<open>Join\<close>, \<open>ReplaceAll\<close>, \<open>Trim\<close>, \<open>Itoa\<close>.
\<close>

subsection \<open>Bytes\<close>

definition byte :: "char \<Rightarrow> nat" where
  "byte c = of_char c"

lemma byte_less [simp]: "byte c < 256"
  by (simp add: byte_def)

lemma byte_char_of [simp]: "n < 256 \<Longrightarrow> byte (char_of n) = n"
  by (simp add: byte_def)

lemma char_of_byte [simp]: "char_of (byte c) = c"
  by (simp add: byte_def)

lemma byte_inj: "byte a = byte b \<longleftrightarrow> a = b"
  by (simp add: byte_def)

definition is_ascii :: "gostring \<Rightarrow> bool" where
  "is_ascii s = list_all (\<lambda>c. byte c < 128) s"

subsection \<open>UTF-8\<close>

definition cont_byte :: "nat \<Rightarrow> bool" where
  "cont_byte n = (128 \<le> n \<and> n \<le> 191)"

text \<open>The rune at the front of a string and its width; \<open>65533\<close> is \<open>utf8.RuneError\<close>.\<close>

definition decode_rune :: "gostring \<Rightarrow> nat \<times> nat" where
  "decode_rune s = (case s of
     [] \<Rightarrow> (65533, 0)
   | a # s1 \<Rightarrow> let n = byte a in
     if n < 128 then (n, 1)
     else if n < 194 \<or> 244 < n then (65533, 1)
     else (case s1 of
       [] \<Rightarrow> (65533, 1)
     | b # s2 \<Rightarrow> let m = byte b in
       if n < 224 then
         (if cont_byte m then ((n - 192) * 64 + (m - 128), 2) else (65533, 1))
       else if \<not> cont_byte m \<or> (n = 224 \<and> m < 160) \<or> (n = 237 \<and> 159 < m)
            \<or> (n = 240 \<and> m < 144) \<or> (n = 244 \<and> 143 < m) then (65533, 1)
       else (case s2 of
         [] \<Rightarrow> (65533, 1)
       | c # s3 \<Rightarrow> let k = byte c in
         if \<not> cont_byte k then (65533, 1)
         else if n < 240 then ((n - 224) * 4096 + (m - 128) * 64 + (k - 128), 3)
         else (case s3 of
           [] \<Rightarrow> (65533, 1)
         | d # _ \<Rightarrow> let j = byte d in
           if cont_byte j
           then ((n - 240) * 262144 + (m - 128) * 4096 + (k - 128) * 64 + (j - 128), 4)
           else (65533, 1)))))"

lemma decode_rune_width: "s \<noteq> [] \<Longrightarrow> 0 < snd (decode_rune s)"
  by (cases s) (auto simp: decode_rune_def Let_def split: list.splits)

function runes :: "gostring \<Rightarrow> nat list" where
  "runes s = (if s = [] then []
     else fst (decode_rune s) # runes (drop (snd (decode_rune s)) s))"
  by pat_completeness auto
termination
  by (relation "measure length") (auto simp: decode_rune_width)

declare runes.simps [simp del]

lemma runes_Nil [simp]: "runes [] = []"
  by (simp add: runes.simps)

lemma runes_ascii_Cons [simp]: "byte a < 128 \<Longrightarrow> runes (a # s) = byte a # runes s"
  by (subst runes.simps) (simp add: decode_rune_def Let_def)

definition encode_rune :: "nat \<Rightarrow> gostring" where
  "encode_rune r =
     (if r < 128 then [char_of r]
      else if r < 2048 then [char_of (192 + r div 64), char_of (128 + r mod 64)]
      else if (55296 \<le> r \<and> r \<le> 57343) \<or> 1114111 < r then [CHR 0xEF, CHR 0xBF, CHR 0xBD]
      else if r < 65536 then
        [char_of (224 + r div 4096), char_of (128 + r div 64 mod 64), char_of (128 + r mod 64)]
      else [char_of (240 + r div 262144), char_of (128 + r div 4096 mod 64),
            char_of (128 + r div 64 mod 64), char_of (128 + r mod 64)])"

definition encode_runes :: "nat list \<Rightarrow> gostring" where
  "encode_runes rs = concat (map encode_rune rs)"

text \<open>A string with every invalid byte replaced by U+FFFD, as \<open>encoding/json\<close> writes it.\<close>

definition to_valid_utf8 :: "gostring \<Rightarrow> gostring" where
  "to_valid_utf8 s = (if is_ascii s then s else encode_runes (runes s))"

definition valid_utf8 :: "gostring \<Rightarrow> bool" where
  "valid_utf8 s = (to_valid_utf8 s = s)"

definition rune_count :: "gostring \<Rightarrow> nat" where
  "rune_count s = length (runes s)"

lemma is_ascii_simps [simp]:
  "is_ascii []" "is_ascii (c # s) = (byte c < 128 \<and> is_ascii s)"
  "is_ascii (s @ t) = (is_ascii s \<and> is_ascii t)"
  by (simp_all add: is_ascii_def)

lemma runes_ascii: "is_ascii s \<Longrightarrow> runes s = map byte s"
  by (induction s) auto

lemma rune_count_ascii [simp]: "is_ascii s \<Longrightarrow> rune_count s = length s"
  by (simp add: rune_count_def runes_ascii)

lemma valid_utf8_ascii [simp]: "is_ascii s \<Longrightarrow> valid_utf8 s"
  by (simp add: valid_utf8_def to_valid_utf8_def)

lemma encode_runes_simps [simp]:
  "encode_runes [] = []" "encode_runes (r # rs) = encode_rune r @ encode_runes rs"
  by (simp_all add: encode_runes_def)

lemma encode_rune_ascii: "n < 128 \<Longrightarrow> encode_rune n = [char_of n]"
  by (simp add: encode_rune_def)

lemma encode_runes_ascii: "is_ascii s \<Longrightarrow> encode_runes (map byte s) = s"
  by (induction s) (auto simp: encode_rune_ascii)


text \<open>Bytes of a multi-byte or invalid sequence are never ASCII, and neither is its rune.\<close>

lemma rune_lower_bounds:
  fixes n m k j :: nat
  shows "194 \<le> n \<Longrightarrow> 128 \<le> (n - 192) * 64 + x"
    and "224 \<le> n \<Longrightarrow> (n = 224 \<Longrightarrow> 160 \<le> m) \<Longrightarrow> 128 \<le> (n - 224) * 4096 + (m - 128) * 64 + x"
    and "240 \<le> n \<Longrightarrow> (n = 240 \<Longrightarrow> 144 \<le> m) \<Longrightarrow>
      128 \<le> (n - 240) * 262144 + (m - 128) * 4096 + y + x"
  by (presburger, (cases "n = 224", auto)[1], cases "n = 240", auto)

lemma decode_rune_nonascii:
  assumes "128 \<le> byte a"
  shows "128 \<le> fst (decode_rune (a # s)) \<and>
    list_all (\<lambda>c. 128 \<le> byte c) (take (snd (decode_rune (a # s))) (a # s))"
proof -
  consider "s = []" | b where "s = [b]" | b c where "s = [b, c]" | b c d u where "s = b # c # d # u"
    by (metis neq_Nil_conv)
  then show ?thesis
  proof cases
    case 1 then show ?thesis using assms by (simp add: decode_rune_def Let_def)
  next
    case 2 then show ?thesis using assms rune_lower_bounds
      by (simp add: decode_rune_def Let_def cont_byte_def not_less del: Nat.add_diff_assoc)
  next
    case 3 then show ?thesis using assms rune_lower_bounds
      by (simp add: decode_rune_def Let_def cont_byte_def not_less del: Nat.add_diff_assoc)
  next
    case 4 then show ?thesis using assms rune_lower_bounds
      by (simp add: decode_rune_def Let_def cont_byte_def not_less del: Nat.add_diff_assoc)
  qed
qed

lemma filter_runes_ascii:
  assumes P: "\<And>n. P n \<Longrightarrow> n < 128"
  shows "filter P (runes s) = map byte (filter (\<lambda>c. P (byte c)) s)"
proof (induction s rule: runes.induct)
  case (1 s)
  show ?case
  proof (cases s)
    case Nil
    then show ?thesis by simp
  next
    case (Cons a t)
    let ?w = "snd (decode_rune s)"
    have IH: "filter P (runes (drop ?w s)) = map byte (filter (\<lambda>c. P (byte c)) (drop ?w s))"
      using "1.IH" Cons by simp
    have unfold: "runes s = fst (decode_rune s) # runes (drop ?w s)"
      using Cons by (subst runes.simps) simp
    show ?thesis
    proof (cases "byte a < 128")
      case True
      then have "decode_rune s = (byte a, 1)"
        using Cons by (simp add: decode_rune_def Let_def)
      with IH unfold Cons show ?thesis by simp
    next
      case False
      then have big: "128 \<le> fst (decode_rune s)"
        and bytes: "\<forall>c\<in>set (take ?w s). 128 \<le> byte c"
        using decode_rune_nonascii [of a t] Cons by (auto simp: list_all_iff)
      have "\<not> P (fst (decode_rune s))"
        using P [of "fst (decode_rune s)"] big by auto
      moreover have "filter (\<lambda>c. P (byte c)) (take ?w s) = []"
        unfolding filter_empty_conv using bytes P by (metis linorder_not_le)
      then have "filter (\<lambda>c. P (byte c)) s = filter (\<lambda>c. P (byte c)) (drop ?w s)"
        by (metis append_Nil append_take_drop_id filter_append)
      ultimately show ?thesis using IH unfold by simp
    qed
  qed
qed

subsection \<open>White space\<close>

text \<open>
  The width of the white-space rune at the front of a string, 0 when there is none:
  \<open>unicode.IsSpace\<close> holds for U+0009 to U+000D, U+0020, U+0085, U+00A0, U+1680, U+2000 to
  U+200A, U+2028, U+2029, U+202F, U+205F and U+3000.
\<close>

definition ascii_space :: "nat \<Rightarrow> bool" where
  "ascii_space n = ((9 \<le> n \<and> n \<le> 13) \<or> n = 32)"

definition space2 :: "gostring \<Rightarrow> bool" where
  "space2 s = (s = [CHR 0xC2, CHR 0x85] \<or> s = [CHR 0xC2, CHR 0xA0])"

definition space3 :: "gostring \<Rightarrow> bool" where
  "space3 s = (case map byte s of
     [a, b, c] \<Rightarrow> (a = 225 \<and> b = 154 \<and> c = 128)
       \<or> (a = 226 \<and> b = 128 \<and> (c \<le> 138 \<and> 128 \<le> c \<or> c = 168 \<or> c = 169 \<or> c = 175))
       \<or> (a = 226 \<and> b = 129 \<and> c = 159) \<or> (a = 227 \<and> b = 128 \<and> c = 128)
   | _ \<Rightarrow> False)"

definition space_width :: "gostring \<Rightarrow> nat" where
  "space_width s = (case s of [] \<Rightarrow> 0 | a # _ \<Rightarrow>
     if byte a < 128 then (if ascii_space (byte a) then 1 else 0)
     else if space2 (take 2 s) then 2 else if space3 (take 3 s) then 3 else 0)"

text \<open>The same at the end; the string is given reversed.\<close>

definition rspace_width :: "gostring \<Rightarrow> nat" where
  "rspace_width s = (case s of [] \<Rightarrow> 0 | a # _ \<Rightarrow>
     if byte a < 128 then (if ascii_space (byte a) then 1 else 0)
     else if space2 (rev (take 2 s)) then 2 else if space3 (rev (take 3 s)) then 3 else 0)"

lemma space_width_Nil [simp]: "space_width [] = 0" "rspace_width [] = 0"
  by (simp_all add: space_width_def rspace_width_def)

function trim_left :: "gostring \<Rightarrow> gostring" where
  "trim_left s = (if space_width s = 0 then s else trim_left (drop (space_width s) s))"
  by pat_completeness auto
termination
  by (relation "measure length") (simp_all, case_tac s, simp_all)

function rtrim_left :: "gostring \<Rightarrow> gostring" where
  "rtrim_left s = (if rspace_width s = 0 then s else rtrim_left (drop (rspace_width s) s))"
  by pat_completeness auto
termination
  by (relation "measure length") (simp_all, case_tac s, simp_all)

declare trim_left.simps [simp del] rtrim_left.simps [simp del]

definition TrimSpace :: "gostring \<Rightarrow> gostring" where
  "TrimSpace s = rev (rtrim_left (rev (trim_left s)))"

lemma space_width_ne:
  "s \<noteq> [] \<Longrightarrow> space_width s =
     (if byte (hd s) < 128 then (if ascii_space (byte (hd s)) then 1 else 0)
      else if space2 (take 2 s) then 2 else if space3 (take 3 s) then 3 else 0)"
  by (cases s) (simp_all add: space_width_def)

lemma space_length: "space2 v \<Longrightarrow> length v = 2" "space3 v \<Longrightarrow> length v = 3"
  by (auto simp: space2_def space3_def split: list.splits)

lemma space_width_prefix:
  assumes "0 < space_width s"
  shows "space_width (s @ t) = space_width s"
proof -
  have ne: "s \<noteq> []" using assms by auto
  note w = space_width_ne [OF ne] and w' = space_width_ne [of "s @ t"]
  have hd: "hd (s @ t) = hd s" using ne by simp
  show ?thesis
  proof (cases "byte (hd s) < 128")
    case True
    then show ?thesis using ne hd by (simp add: w w')
  next
    case big: False
    show ?thesis
    proof (cases "space2 (take 2 s)")
      case True
      from space_length(1) [OF True] have "2 \<le> length s" by simp
      with True big ne hd show ?thesis by (simp add: w w')
    next
      case no2: False
      with assms big have sp3: "space3 (take 3 s)" by (simp add: w split: if_splits)
      from space_length(2) [OF sp3]
      have "3 \<le> length s" by simp
      with sp3 no2 big ne hd show ?thesis by (simp add: w w')
    qed
  qed
qed

lemma trim_left_width [simp]: "space_width (trim_left s) = 0"
proof (induction s rule: trim_left.induct)
  case (1 s)
  show ?case
    using "1.IH" by (cases "space_width s = 0") (simp_all add: trim_left.simps [of s])
qed

lemma rtrim_left_width [simp]: "rspace_width (rtrim_left s) = 0"
proof (induction s rule: rtrim_left.induct)
  case (1 s)
  show ?case
    using "1.IH" by (cases "rspace_width s = 0") (simp_all add: rtrim_left.simps [of s])
qed

lemma rtrim_left_suffix: "\<exists>k. rtrim_left s = drop k s"
proof (induction s rule: rtrim_left.induct)
  case (1 s)
  show ?case
  proof (cases "rspace_width s = 0")
    case True
    then have "rtrim_left s = drop 0 s" by (simp add: rtrim_left.simps [of s])
    then show ?thesis by blast
  next
    case False
    with "1.IH" obtain k where "rtrim_left (drop (rspace_width s) s) = drop k (drop (rspace_width s) s)"
      by blast
    with False have "rtrim_left s = drop (k + rspace_width s) s"
      by (simp add: rtrim_left.simps [of s])
    then show ?thesis by blast
  qed
qed

lemma trim_left_suffix: "\<exists>k. trim_left s = drop k s"
proof (induction s rule: trim_left.induct)
  case (1 s)
  show ?case
  proof (cases "space_width s = 0")
    case True
    then have "trim_left s = drop 0 s" by (simp add: trim_left.simps [of s])
    then show ?thesis by blast
  next
    case False
    with "1.IH" obtain k where "trim_left (drop (space_width s) s) = drop k (drop (space_width s) s)"
      by blast
    with False have "trim_left s = drop (k + space_width s) s"
      by (simp add: trim_left.simps [of s])
    then show ?thesis by blast
  qed
qed

lemma trim_left_id [simp]: "space_width s = 0 \<Longrightarrow> trim_left s = s"
  by (simp add: trim_left.simps)

lemma rtrim_left_id [simp]: "rspace_width s = 0 \<Longrightarrow> rtrim_left s = s"
  by (simp add: rtrim_left.simps)

text \<open>A trimmed string neither starts nor ends with white space, and trimming it again
  changes nothing.\<close>

lemma TrimSpace_ends:
  "space_width (TrimSpace s) = 0" "rspace_width (rev (TrimSpace s)) = 0"
proof -
  let ?u = "trim_left s"
  obtain k where k: "rtrim_left (rev ?u) = drop k (rev ?u)"
    using rtrim_left_suffix by blast
  then have "TrimSpace s = take (length ?u - k) ?u"
    by (simp add: TrimSpace_def rev_drop)
  then have "?u = TrimSpace s @ drop (length ?u - k) ?u" by simp
  then show "space_width (TrimSpace s) = 0"
    using space_width_prefix [of "TrimSpace s" "drop (length ?u - k) ?u"] trim_left_width [of s]
    by (metis gr0I less_not_refl)
  show "rspace_width (rev (TrimSpace s)) = 0" by (simp add: TrimSpace_def)
qed

lemma TrimSpace_id: "space_width s = 0 \<Longrightarrow> rspace_width (rev s) = 0 \<Longrightarrow> TrimSpace s = s"
  by (simp add: TrimSpace_def)

lemma TrimSpace_idem [simp]: "TrimSpace (TrimSpace s) = TrimSpace s"
  by (rule TrimSpace_id) (rule TrimSpace_ends)+

lemma TrimSpace_Nil [simp]: "TrimSpace [] = []"
  by (simp add: TrimSpace_id space_width_def rspace_width_def)

lemma set_TrimSpace: "set (TrimSpace s) \<subseteq> set s"
proof -
  obtain k where k: "rtrim_left (rev (trim_left s)) = drop k (rev (trim_left s))"
    using rtrim_left_suffix by blast
  obtain j where j: "trim_left s = drop j s" using trim_left_suffix by blast
  have "set (TrimSpace s) \<subseteq> set (rev (trim_left s))"
    unfolding TrimSpace_def k using set_drop_subset [of k "rev (trim_left s)"] by simp
  also have "\<dots> \<subseteq> set s" unfolding set_rev j by (rule set_drop_subset)
  finally show ?thesis .
qed

subsection \<open>Case\<close>

definition rune_lower :: "nat \<Rightarrow> nat" where
  "rune_lower r =
     (if 65 \<le> r \<and> r \<le> 90 then r + 32
      else if r < 128 then r
      else if 1040 \<le> r \<and> r \<le> 1071 then r + 32
      else if 1024 \<le> r \<and> r \<le> 1039 then r + 80
      else if r = 8490 then 107
      else if r = 304 then 105
      else r)"

definition rune_upper :: "nat \<Rightarrow> nat" where
  "rune_upper r =
     (if 97 \<le> r \<and> r \<le> 122 then r - 32
      else if r < 128 then r
      else if 1072 \<le> r \<and> r \<le> 1103 then r - 32
      else if 1104 \<le> r \<and> r \<le> 1119 then r - 80
      else if r = 305 then 73
      else if r = 383 then 83
      else r)"

text \<open>The representative of a rune's orbit under \<open>unicode.SimpleFold\<close>: U+212A folds with
  \<open>k\<close> and U+017F with \<open>s\<close>, while U+0130 and U+0131 fold with nothing else.\<close>

definition rune_fold :: "nat \<Rightarrow> nat" where
  "rune_fold r = (if r = 383 then 115 else if r = 304 then 304 else rune_lower r)"

definition ToLower :: "gostring \<Rightarrow> gostring" where
  "ToLower s = (if is_ascii s then map (\<lambda>c. char_of (rune_lower (byte c))) s
     else encode_runes (map rune_lower (runes s)))"

definition ToUpper :: "gostring \<Rightarrow> gostring" where
  "ToUpper s = (if is_ascii s then map (\<lambda>c. char_of (rune_upper (byte c))) s
     else encode_runes (map rune_upper (runes s)))"

definition EqualFold :: "gostring \<Rightarrow> gostring \<Rightarrow> bool" where
  "EqualFold s t = (map rune_fold (runes s) = map rune_fold (runes t))"

lemma EqualFold_equiv [simp]: "EqualFold s s"
  by (simp add: EqualFold_def)

lemma EqualFold_sym: "EqualFold s t \<Longrightarrow> EqualFold t s"
  by (simp add: EqualFold_def)

lemma EqualFold_trans: "EqualFold s t \<Longrightarrow> EqualFold t u \<Longrightarrow> EqualFold s u"
  by (simp add: EqualFold_def)

lemma rune_lower_idem [simp]: "rune_lower (rune_lower r) = rune_lower r"
  by (simp add: rune_lower_def)

lemma rune_lower_ascii: "r < 128 \<Longrightarrow> rune_lower r < 128"
  by (simp add: rune_lower_def)

lemma rune_upper_ascii: "r < 128 \<Longrightarrow> rune_upper r < 128"
  by (auto simp: rune_upper_def)

lemma char_of_ascii: "n < (128 :: nat) \<Longrightarrow> byte (char_of n) < 128"
  by simp

lemma is_ascii_ToLower: "is_ascii s \<Longrightarrow> is_ascii (ToLower s)"
  by (induction s) (auto simp: ToLower_def char_of_ascii [OF rune_lower_ascii])

lemma is_ascii_ToUpper: "is_ascii s \<Longrightarrow> is_ascii (ToUpper s)"
  by (induction s) (auto simp: ToUpper_def char_of_ascii [OF rune_upper_ascii])

lemma ToLower_Nil [simp]: "ToLower [] = []" "ToUpper [] = []"
  by (simp_all add: ToLower_def ToUpper_def)

lemma ToLower_idem_ascii: "is_ascii s \<Longrightarrow> ToLower (ToLower s) = ToLower s"
proof -
  assume a: "is_ascii s"
  then have b: "is_ascii (ToLower s)" by (rule is_ascii_ToLower)
  have less: "\<forall>c\<in>set s. rune_lower (byte c) < 256"
    using a rune_lower_ascii by (fastforce simp: is_ascii_def list_all_iff)
  have "ToLower (ToLower s) = map (\<lambda>c. char_of (rune_lower (byte c))) (ToLower s)"
    using b by (simp add: ToLower_def [of "ToLower s"])
  also have "\<dots> = ToLower s"
    using a less by (simp add: ToLower_def)
  finally show ?thesis .
qed

subsection \<open>Searching, splitting, joining\<close>

definition HasPrefix :: "gostring \<Rightarrow> gostring \<Rightarrow> bool" where
  "HasPrefix s p = (take (length p) s = p)"

definition HasSuffix :: "gostring \<Rightarrow> gostring \<Rightarrow> bool" where
  "HasSuffix s p = HasPrefix (rev s) (rev p)"

definition TrimPrefix :: "gostring \<Rightarrow> gostring \<Rightarrow> gostring" where
  "TrimPrefix s p = (if HasPrefix s p then drop (length p) s else s)"

definition TrimSuffix :: "gostring \<Rightarrow> gostring \<Rightarrow> gostring" where
  "TrimSuffix s p = (if HasSuffix s p then take (length s - length p) s else s)"

text \<open>\<open>None\<close> stands for the index -1.\<close>

fun Index :: "gostring \<Rightarrow> gostring \<Rightarrow> nat option" where
  "Index [] sub = (if sub = [] then Some 0 else None)"
| "Index (c # s) sub = (if HasPrefix (c # s) sub then Some 0 else map_option Suc (Index s sub))"

definition Contains :: "gostring \<Rightarrow> gostring \<Rightarrow> bool" where
  "Contains s sub = (Index s sub \<noteq> None)"

definition IndexByte :: "gostring \<Rightarrow> char \<Rightarrow> nat option" where
  "IndexByte s c = Index s [c]"

definition LastIndexByte :: "gostring \<Rightarrow> char \<Rightarrow> nat option" where
  "LastIndexByte s c = map_option (\<lambda>i. length s - 1 - i) (IndexByte (rev s) c)"

fun Split :: "char \<Rightarrow> gostring \<Rightarrow> gostring list" where
  "Split sep [] = [[]]"
| "Split sep (c # s) =
     (if c = sep then [] # Split sep s
      else (case Split sep s of [] \<Rightarrow> [[c]] | w # ws \<Rightarrow> (c # w) # ws))"

fun Join :: "gostring list \<Rightarrow> gostring \<Rightarrow> gostring" where
  "Join [] sep = []"
| "Join [s] sep = s"
| "Join (s # ss) sep = s @ sep @ Join ss sep"

text \<open>\<open>strings.ReplaceAll\<close> with a one-byte pattern, the only kind the source uses.\<close>

definition ReplaceAll :: "gostring \<Rightarrow> char \<Rightarrow> gostring \<Rightarrow> gostring" where
  "ReplaceAll s old new = concat (map (\<lambda>c. if c = old then new else [c]) s)"

text \<open>\<open>strings.Trim\<close>, \<open>TrimLeft\<close> and \<open>TrimRight\<close> with a one-byte cutset.\<close>

definition TrimLeftByte :: "gostring \<Rightarrow> char \<Rightarrow> gostring" where
  "TrimLeftByte s c = dropWhile (\<lambda>x. x = c) s"

definition TrimRightByte :: "gostring \<Rightarrow> char \<Rightarrow> gostring" where
  "TrimRightByte s c = rev (dropWhile (\<lambda>x. x = c) (rev s))"

definition TrimByte :: "gostring \<Rightarrow> char \<Rightarrow> gostring" where
  "TrimByte s c = TrimRightByte (TrimLeftByte s c) c"

lemma HasPrefix_iff: "HasPrefix s p \<longleftrightarrow> (\<exists>t. s = p @ t)"
  unfolding HasPrefix_def by (metis append_eq_conv_conj append_take_drop_id)

lemma HasPrefix_Nil [simp]: "HasPrefix s []"
  by (simp add: HasPrefix_def)

lemma TrimPrefix_append [simp]: "TrimPrefix (p @ s) p = s"
  by (simp add: TrimPrefix_def HasPrefix_def)

lemma Index_Some: "Index s sub = Some i \<Longrightarrow> \<exists>u v. s = u @ sub @ v \<and> length u = i"
proof (induction s arbitrary: i)
  case Nil
  then show ?case by (auto split: if_splits)
next
  case (Cons c s)
  show ?case
  proof (cases "HasPrefix (c # s) sub")
    case True
    with Cons.prems show ?thesis by (auto simp: HasPrefix_iff)
  next
    case False
    with Cons.prems obtain j where j: "Index s sub = Some j" "i = Suc j" by auto
    from Cons.IH [OF j(1)] obtain u v where "s = u @ sub @ v" "length u = j" by blast
    with j(2) have "c # s = (c # u) @ sub @ v \<and> length (c # u) = i" by simp
    then show ?thesis by blast
  qed
qed

lemma Index_None: "Index (u @ sub @ v) sub \<noteq> None"
proof (induction u)
  case Nil
  have "HasPrefix (sub @ v) sub" by (simp add: HasPrefix_def)
  then have "Index (sub @ v) sub = Some 0" by (cases "sub @ v") auto
  then show ?case by simp
next
  case (Cons c u)
  then show ?case by auto
qed

lemma Contains_iff: "Contains s sub \<longleftrightarrow> (\<exists>u v. s = u @ sub @ v)"
  unfolding Contains_def using Index_Some Index_None by (metis not_None_iff)

lemma Contains_byte: "Contains s [c] \<longleftrightarrow> c \<in> set s"
  unfolding Contains_iff by (metis append_Cons append_Nil in_set_conv_decomp)

subsection \<open>Digits and decimal numbers\<close>

definition is_digit :: "nat \<Rightarrow> bool" where
  "is_digit r = (48 \<le> r \<and> r \<le> 57)"

text \<open>The decimal digit ranges of \<open>unicode.IsDigit\<close> (category Nd).\<close>

definition nd_ranges :: "(nat \<times> nat) list" where
  "nd_ranges = [(48, 57), (1632, 1641), (1776, 1785), (1984, 1993), (2406, 2415),
    (2534, 2543), (2662, 2671), (2790, 2799), (2918, 2927), (3046, 3055), (3174, 3183),
    (3302, 3311), (3430, 3439), (3558, 3567), (3664, 3673), (3792, 3801), (3872, 3881),
    (4160, 4169), (4240, 4249), (6112, 6121), (6160, 6169), (6470, 6479), (6608, 6617),
    (6784, 6793), (6800, 6809), (6992, 7001), (7088, 7097), (7232, 7241), (7248, 7257),
    (42528, 42537), (43216, 43225), (43264, 43273), (43472, 43481), (43504, 43513),
    (43600, 43609), (44016, 44025), (65296, 65305), (66720, 66729), (68912, 68921),
    (69734, 69743), (69872, 69881), (69942, 69951), (70096, 70105), (70384, 70393),
    (70736, 70745), (70864, 70873), (71248, 71257), (71360, 71369), (71472, 71481),
    (71904, 71913), (72016, 72025), (72784, 72793), (73040, 73049), (73120, 73129),
    (73552, 73561), (92768, 92777), (92864, 92873), (93008, 93017), (120782, 120831),
    (123200, 123209), (123632, 123641), (124144, 124153), (125264, 125273), (130032, 130041)]"

definition IsDigit :: "nat \<Rightarrow> bool" where
  "IsDigit r = (if r < 128 then is_digit r else list_ex (\<lambda>(a, b). a \<le> r \<and> r \<le> b) nd_ranges)"

fun nat_digits :: "nat \<Rightarrow> gostring" where
  "nat_digits n = (if n < 10 then [char_of (48 + n)] else nat_digits (n div 10) @ [char_of (48 + n mod 10)])"

declare nat_digits.simps [simp del]

definition Itoa :: "int \<Rightarrow> gostring" where
  "Itoa i = (if i < 0 then CHR ''-'' # nat_digits (nat (- i)) else nat_digits (nat i))"

definition FormatBool :: "bool \<Rightarrow> gostring" where
  "FormatBool b = (if b then ''true'' else ''false'')"

lemma nat_digits_nonempty [simp]: "nat_digits n \<noteq> []"
  by (subst nat_digits.simps) simp

lemma is_ascii_nat_digits [simp]: "is_ascii (nat_digits n)"
proof (induction n rule: nat_digits.induct)
  case (1 n)
  have "48 + n mod 10 < 128" using mod_less_divisor [of 10 n] by simp
  with 1 show ?case
    by (subst nat_digits.simps) (auto simp: less_trans)
qed

subsection \<open>Cyrillic literals\<close>

text \<open>
  The source holds Russian texts. A theory file is ASCII, so such a literal is written in
  the seven-bit form of KOI8-R (\<open>a\<close> to \<open>z\<close> upper case, \<open>A\<close> to \<open>Z\<close> lower case) and
  \<open>koi8\<close> gives its UTF-8 bytes: the byte 64 + i stands for the i-th lower-case letter of
  \<open>koi8_letters\<close> (offsets from U+0430), 96 + i for the same letter in upper case, \<open>$\<close> and
  \<open>%\<close> for U+044D and U+042D, \<open>#\<close> for U+0451; every other byte stands for itself.
\<close>

definition koi8_letters :: "nat list" where
  "koi8_letters = [30, 0, 1, 22, 4, 5, 20, 3, 21, 8, 9, 10, 11, 12, 13, 14,
     15, 31, 16, 17, 18, 19, 6, 2, 28, 27, 7, 24, 29, 25, 23, 26]"

definition koi8_rune :: "nat \<Rightarrow> nat" where
  "koi8_rune n =
     (if n = 35 then 1105 else if n = 36 then 1101
      else if n = 37 then 1069
      else if n < 64 then n
      else if n < 96 then 1072 + koi8_letters ! (n - 64)
      else if n < 128 then 1040 + koi8_letters ! (n - 96)
      else n)"

definition koi8 :: "gostring \<Rightarrow> gostring" where
  "koi8 s = encode_runes (map (\<lambda>c. koi8_rune (byte c)) s)"

text \<open>The table as equations, for evaluation.\<close>

lemma koi8_simps [go_eval]:
  "koi8 [] = []"
  "koi8 (CHR ''#'' # s) = CHR 0xD1 # CHR 0x91 # koi8 s"
  "koi8 (CHR ''$'' # s) = CHR 0xD1 # CHR 0x8D # koi8 s"
  "koi8 (CHR ''%'' # s) = CHR 0xD0 # CHR 0xAD # koi8 s"
  "koi8 (CHR ''@'' # s) = CHR 0xD1 # CHR 0x8E # koi8 s"
  "koi8 (CHR ''A'' # s) = CHR 0xD0 # CHR 0xB0 # koi8 s"
  "koi8 (CHR ''B'' # s) = CHR 0xD0 # CHR 0xB1 # koi8 s"
  "koi8 (CHR ''C'' # s) = CHR 0xD1 # CHR 0x86 # koi8 s"
  "koi8 (CHR ''D'' # s) = CHR 0xD0 # CHR 0xB4 # koi8 s"
  "koi8 (CHR ''E'' # s) = CHR 0xD0 # CHR 0xB5 # koi8 s"
  "koi8 (CHR ''F'' # s) = CHR 0xD1 # CHR 0x84 # koi8 s"
  "koi8 (CHR ''G'' # s) = CHR 0xD0 # CHR 0xB3 # koi8 s"
  "koi8 (CHR ''H'' # s) = CHR 0xD1 # CHR 0x85 # koi8 s"
  "koi8 (CHR ''I'' # s) = CHR 0xD0 # CHR 0xB8 # koi8 s"
  "koi8 (CHR ''J'' # s) = CHR 0xD0 # CHR 0xB9 # koi8 s"
  "koi8 (CHR ''K'' # s) = CHR 0xD0 # CHR 0xBA # koi8 s"
  "koi8 (CHR ''L'' # s) = CHR 0xD0 # CHR 0xBB # koi8 s"
  "koi8 (CHR ''M'' # s) = CHR 0xD0 # CHR 0xBC # koi8 s"
  "koi8 (CHR ''N'' # s) = CHR 0xD0 # CHR 0xBD # koi8 s"
  "koi8 (CHR ''O'' # s) = CHR 0xD0 # CHR 0xBE # koi8 s"
  "koi8 (CHR ''P'' # s) = CHR 0xD0 # CHR 0xBF # koi8 s"
  "koi8 (CHR ''Q'' # s) = CHR 0xD1 # CHR 0x8F # koi8 s"
  "koi8 (CHR ''R'' # s) = CHR 0xD1 # CHR 0x80 # koi8 s"
  "koi8 (CHR ''S'' # s) = CHR 0xD1 # CHR 0x81 # koi8 s"
  "koi8 (CHR ''T'' # s) = CHR 0xD1 # CHR 0x82 # koi8 s"
  "koi8 (CHR ''U'' # s) = CHR 0xD1 # CHR 0x83 # koi8 s"
  "koi8 (CHR ''V'' # s) = CHR 0xD0 # CHR 0xB6 # koi8 s"
  "koi8 (CHR ''W'' # s) = CHR 0xD0 # CHR 0xB2 # koi8 s"
  "koi8 (CHR ''X'' # s) = CHR 0xD1 # CHR 0x8C # koi8 s"
  "koi8 (CHR ''Y'' # s) = CHR 0xD1 # CHR 0x8B # koi8 s"
  "koi8 (CHR ''Z'' # s) = CHR 0xD0 # CHR 0xB7 # koi8 s"
  "koi8 (CHR ''['' # s) = CHR 0xD1 # CHR 0x88 # koi8 s"
  "koi8 (CHR '']'' # s) = CHR 0xD1 # CHR 0x89 # koi8 s"
  "koi8 (CHR ''^'' # s) = CHR 0xD1 # CHR 0x87 # koi8 s"
  "koi8 (CHR ''_'' # s) = CHR 0xD1 # CHR 0x8A # koi8 s"
  "koi8 (CHR ''a'' # s) = CHR 0xD0 # CHR 0x90 # koi8 s"
  "koi8 (CHR ''b'' # s) = CHR 0xD0 # CHR 0x91 # koi8 s"
  "koi8 (CHR ''c'' # s) = CHR 0xD0 # CHR 0xA6 # koi8 s"
  "koi8 (CHR ''d'' # s) = CHR 0xD0 # CHR 0x94 # koi8 s"
  "koi8 (CHR ''e'' # s) = CHR 0xD0 # CHR 0x95 # koi8 s"
  "koi8 (CHR ''f'' # s) = CHR 0xD0 # CHR 0xA4 # koi8 s"
  "koi8 (CHR ''g'' # s) = CHR 0xD0 # CHR 0x93 # koi8 s"
  "koi8 (CHR ''h'' # s) = CHR 0xD0 # CHR 0xA5 # koi8 s"
  "koi8 (CHR ''i'' # s) = CHR 0xD0 # CHR 0x98 # koi8 s"
  "koi8 (CHR ''j'' # s) = CHR 0xD0 # CHR 0x99 # koi8 s"
  "koi8 (CHR ''k'' # s) = CHR 0xD0 # CHR 0x9A # koi8 s"
  "koi8 (CHR ''l'' # s) = CHR 0xD0 # CHR 0x9B # koi8 s"
  "koi8 (CHR ''m'' # s) = CHR 0xD0 # CHR 0x9C # koi8 s"
  "koi8 (CHR ''n'' # s) = CHR 0xD0 # CHR 0x9D # koi8 s"
  "koi8 (CHR ''o'' # s) = CHR 0xD0 # CHR 0x9E # koi8 s"
  "koi8 (CHR ''p'' # s) = CHR 0xD0 # CHR 0x9F # koi8 s"
  "koi8 (CHR ''q'' # s) = CHR 0xD0 # CHR 0xAF # koi8 s"
  "koi8 (CHR ''r'' # s) = CHR 0xD0 # CHR 0xA0 # koi8 s"
  "koi8 (CHR ''s'' # s) = CHR 0xD0 # CHR 0xA1 # koi8 s"
  "koi8 (CHR ''t'' # s) = CHR 0xD0 # CHR 0xA2 # koi8 s"
  "koi8 (CHR ''u'' # s) = CHR 0xD0 # CHR 0xA3 # koi8 s"
  "koi8 (CHR ''v'' # s) = CHR 0xD0 # CHR 0x96 # koi8 s"
  "koi8 (CHR ''w'' # s) = CHR 0xD0 # CHR 0x92 # koi8 s"
  "koi8 (CHR ''x'' # s) = CHR 0xD0 # CHR 0xAC # koi8 s"
  "koi8 (CHR ''y'' # s) = CHR 0xD0 # CHR 0xAB # koi8 s"
  "koi8 (CHR ''z'' # s) = CHR 0xD0 # CHR 0x97 # koi8 s"
  "koi8 (CHR ''{'' # s) = CHR 0xD0 # CHR 0xA8 # koi8 s"
  "koi8 (CHR ''}'' # s) = CHR 0xD0 # CHR 0xA9 # koi8 s"
  "koi8 (CHR ''~'' # s) = CHR 0xD0 # CHR 0xA7 # koi8 s"
  "koi8 (CHR '' '' # s) = CHR '' '' # koi8 s"
  "koi8 (CHR ''.'' # s) = CHR ''.'' # koi8 s"
  "koi8 (CHR '','' # s) = CHR '','' # koi8 s"
  "koi8 (CHR '':'' # s) = CHR '':'' # koi8 s"
  "koi8 (CHR '';'' # s) = CHR '';'' # koi8 s"
  "koi8 (CHR ''-'' # s) = CHR ''-'' # koi8 s"
  "koi8 (CHR ''/'' # s) = CHR ''/'' # koi8 s"
  "koi8 (CHR ''('' # s) = CHR ''('' # koi8 s"
  "koi8 (CHR '')'' # s) = CHR '')'' # koi8 s"
  "koi8 (CHR ''0'' # s) = CHR ''0'' # koi8 s"
  "koi8 (CHR ''1'' # s) = CHR ''1'' # koi8 s"
  "koi8 (CHR ''2'' # s) = CHR ''2'' # koi8 s"
  "koi8 (CHR ''3'' # s) = CHR ''3'' # koi8 s"
  "koi8 (CHR ''4'' # s) = CHR ''4'' # koi8 s"
  "koi8 (CHR ''5'' # s) = CHR ''5'' # koi8 s"
  "koi8 (CHR ''6'' # s) = CHR ''6'' # koi8 s"
  "koi8 (CHR ''7'' # s) = CHR ''7'' # koi8 s"
  "koi8 (CHR ''8'' # s) = CHR ''8'' # koi8 s"
  "koi8 (CHR ''9'' # s) = CHR ''9'' # koi8 s"
  by (simp_all add: koi8_def koi8_rune_def koi8_letters_def encode_rune_def byte_def char_of_eq_iff)

subsection \<open>Evaluation\<close>

text \<open>Unfolding these evaluates the string functions on closed strings by \<open>simp\<close>.\<close>

lemmas string_eval [go_eval] =
  ToUpper_def ToLower_def byte_def rune_upper_def rune_lower_def char_of_eq_iff
  TrimSpace_def trim_left.simps rtrim_left.simps space_width_def rspace_width_def
  ascii_space_def is_digit_def HasPrefix_def HasSuffix_def Contains_def IndexByte_def
  FormatBool_def ReplaceAll_def

subsection \<open>Names in normal form\<close>

text \<open>
  A name of capital letters, digits and underscores is its own normal form under
  \<open>strings.ToUpper(strings.TrimSpace(...))\<close>.
\<close>

definition upper_name :: "gostring \<Rightarrow> bool" where
  "upper_name s = list_all (\<lambda>c. c \<in> set ''ABCDEFGHIJKLMNOPQRSTUVWXYZ_0123456789'') s"

lemma upper_name_char:
  assumes "c \<in> set ''ABCDEFGHIJKLMNOPQRSTUVWXYZ_0123456789''"
  shows "byte c < 128 \<and> \<not> ascii_space (byte c) \<and> char_of (rune_upper (byte c)) = c"
proof -
  have "list_all (\<lambda>c. byte c < 128 \<and> \<not> ascii_space (byte c) \<and> char_of (rune_upper (byte c)) = c)
    ''ABCDEFGHIJKLMNOPQRSTUVWXYZ_0123456789''"
    by code_simp
  with assms show ?thesis unfolding list_all_iff by blast
qed

lemma space_width_ascii: "byte c < 128 \<Longrightarrow> \<not> ascii_space (byte c) \<Longrightarrow> space_width (c # s) = 0"
  "byte c < 128 \<Longrightarrow> \<not> ascii_space (byte c) \<Longrightarrow> rspace_width (c # s) = 0"
  by (simp_all add: space_width_def rspace_width_def)

lemma TrimSpace_no_space:
  assumes "\<forall>c\<in>set s. byte c < 128 \<and> \<not> ascii_space (byte c)"
  shows "TrimSpace s = s"
proof (rule TrimSpace_id)
  show "space_width s = 0"
    using assms by (cases s) (simp_all add: space_width_ascii)
  show "rspace_width (rev s) = 0"
    using assms by (cases s rule: rev_cases) (simp_all add: space_width_ascii)
qed

lemma upper_name_norm:
  assumes "upper_name s"
  shows "TrimSpace s = s" "ToUpper s = s"
proof -
  have c: "\<forall>c\<in>set s. byte c < 128 \<and> \<not> ascii_space (byte c) \<and> char_of (rune_upper (byte c)) = c"
    using assms upper_name_char unfolding upper_name_def list_all_iff by blast
  then show "TrimSpace s = s" by (simp add: TrimSpace_no_space)
  from c have "is_ascii s" by (simp add: is_ascii_def list_all_iff)
  then show "ToUpper s = s" using c by (simp add: ToUpper_def map_idI)
qed

end
