(* ===== verification/GoNum.thy ===== *)
theory GoNum
  imports Complex_Main GoStrings
begin

section \<open>Go numbers and times\<close>

text \<open>
  \<^item> \<open>f64\<close>: a \<open>float64\<close> by its exact value. Finite values are rationals, the comparisons are
    those of IEEE 754 (every comparison with NaN is false) and \<open>round64\<close> rounds an exact
    result to the nearest double, ties to even, with gradual underflow and overflow to an
    infinity. The two zeros are identified;
  \<^item> \<open>FormatFloat2\<close>: the \<open>%.2f\<close> format;
  \<^item> \<open>gotime\<close>: an instant as nanoseconds since the Unix epoch in UTC, with \<open>Date\<close> (the days
    of the proleptic Gregorian calendar) and the RFC 3339 format.
  The locations and monotonic readings a \<open>time.Time\<close> also carries are not kept.
\<close>

datatype f64 = Fin rat | PosInf | NegInf | NaN

fun f64_less :: "f64 \<Rightarrow> f64 \<Rightarrow> bool" where
  "f64_less (Fin a) (Fin b) = (a < b)"
| "f64_less (Fin a) PosInf = True"
| "f64_less NegInf (Fin b) = True"
| "f64_less NegInf PosInf = True"
| "f64_less _ _ = False"

fun f64_le :: "f64 \<Rightarrow> f64 \<Rightarrow> bool" where
  "f64_le (Fin a) (Fin b) = (a \<le> b)"
| "f64_le NaN _ = False"
| "f64_le _ NaN = False"
| "f64_le NegInf _ = True"
| "f64_le _ PosInf = True"
| "f64_le _ _ = False"

instantiation f64 :: ord
begin
definition less_f64 :: "f64 \<Rightarrow> f64 \<Rightarrow> bool" where "less_f64 = f64_less"
definition less_eq_f64 :: "f64 \<Rightarrow> f64 \<Rightarrow> bool" where "less_eq_f64 = f64_le"
instance ..
end

lemmas f64_order [simp] = less_f64_def less_eq_f64_def

definition finite64 :: "f64 \<Rightarrow> bool" where
  "finite64 x = (case x of Fin _ \<Rightarrow> True | _ \<Rightarrow> False)"

lemma finite64_simps [simp]:
  "finite64 (Fin q)" "\<not> finite64 PosInf" "\<not> finite64 NegInf" "\<not> finite64 NaN"
  by (simp_all add: finite64_def)

text \<open>Go's \<open>==\<close> on floats: NaN differs from itself.\<close>

definition f64_eq :: "f64 \<Rightarrow> f64 \<Rightarrow> bool" where
  "f64_eq x y = (x = y \<and> x \<noteq> NaN)"

subsection \<open>Rounding\<close>

fun bits :: "nat \<Rightarrow> nat" where
  "bits n = (if n = 0 then 0 else Suc (bits (n div 2)))"

declare bits.simps [simp del]

definition pow2 :: "int \<Rightarrow> rat" where
  "pow2 e = (if 0 \<le> e then 2 ^ nat e else 1 / 2 ^ nat (- e))"

definition round_half_even :: "rat \<Rightarrow> int" where
  "round_half_even x = (let f = \<lfloor>x\<rfloor>; d = x - of_int f in
     if d < 1 / 2 then f else if 1 / 2 < d then f + 1 else if even f then f else f + 1)"

definition ilog2 :: "rat \<Rightarrow> int" where
  "ilog2 x = (case quotient_of x of (p, q) \<Rightarrow>
     let e = int (bits (nat p)) - int (bits (nat q)) in if pow2 e \<le> x then e else e - 1)"

definition round64 :: "rat \<Rightarrow> f64" where
  "round64 x = (if x = 0 then Fin 0 else
     let a = \<bar>x\<bar>; e = max (ilog2 a - 52) (- 1074);
         v = of_int (round_half_even (a / pow2 e)) * pow2 e
     in if pow2 1024 \<le> v then (if 0 < x then PosInf else NegInf)
        else Fin (if 0 < x then v else - v))"

fun f64_add :: "f64 \<Rightarrow> f64 \<Rightarrow> f64" where
  "f64_add (Fin a) (Fin b) = round64 (a + b)"
| "f64_add NaN _ = NaN"
| "f64_add _ NaN = NaN"
| "f64_add PosInf NegInf = NaN"
| "f64_add NegInf PosInf = NaN"
| "f64_add PosInf _ = PosInf"
| "f64_add _ PosInf = PosInf"
| "f64_add NegInf _ = NegInf"
| "f64_add _ NegInf = NegInf"

text \<open>Division by a positive count, the only division of floats in the source.\<close>

fun f64_div_count :: "f64 \<Rightarrow> nat \<Rightarrow> f64" where
  "f64_div_count (Fin a) n = (if n = 0 then (if a = 0 then NaN else if 0 < a then PosInf else NegInf)
     else round64 (a / of_nat n))"
| "f64_div_count x n = x"

lemma bits_bounds: "0 < n \<Longrightarrow> 2 ^ (bits n - 1) \<le> n \<and> n < 2 ^ bits n \<and> 0 < bits n"
proof (induction n rule: bits.induct)
  case (1 n)
  show ?case
  proof (cases "n div 2 = 0")
    case True
    with 1 have "n = 1" by simp
    then show ?thesis by (simp add: bits.simps)
  next
    case False
    with 1 have IH: "2 ^ (bits (n div 2) - 1) \<le> n div 2" "n div 2 < 2 ^ bits (n div 2)"
      "0 < bits (n div 2)" by auto
    have b: "bits n = Suc (bits (n div 2))" using "1.prems" by (simp add: bits.simps [of n])
    have "(2 :: nat) ^ bits (n div 2) = 2 * 2 ^ (bits (n div 2) - 1)"
      using IH(3) by (simp flip: power_Suc)
    moreover have "2 * 2 ^ (bits (n div 2) - 1) \<le> n"
      using IH(1) by (simp add: less_eq_div_iff_mult_less_eq mult.commute)
    moreover have "n < 2 * 2 ^ bits (n div 2)"
      using IH(2) by (simp add: div_less_iff_less_mult mult.commute)
    ultimately show ?thesis using b IH(3) by simp
  qed
qed

lemma round_half_even_int [simp]: "round_half_even (of_int i) = i"
  by (simp add: round_half_even_def)

lemma ilog2_nat: "0 < n \<Longrightarrow> ilog2 (of_nat n) = int (bits n) - 1"
proof -
  assume n: "0 < n"
  have one: "bits 1 = 1" by (simp add: bits.simps)
  have q: "quotient_of (of_nat n) = (int n, 1)"
    using Rat.quotient_of_int [of "int n"] by (simp add: Rat.of_int_def)
  have "pow2 (int (bits n) - 1) = of_nat (2 ^ (bits n - 1))"
    using bits_bounds [OF n] by (simp add: pow2_def nat_diff_distrib)
  also have "\<dots> \<le> of_nat n" using bits_bounds [OF n] by (simp only: of_nat_le_iff)
  finally show ?thesis using one by (simp add: ilog2_def q)
qed

text \<open>Every integer up to \<open>2 ^ 53\<close> is a double, so sums of whole amounts are exact.\<close>

lemma round64_nat: "n \<le> 2 ^ 53 \<Longrightarrow> round64 (of_nat n) = Fin (of_nat n)"
proof (cases "n = 0")
  case False
  assume le: "n \<le> 2 ^ 53"
  let ?e = "max (ilog2 (of_nat n) - 52) (- 1074)"
  have bb: "2 ^ (bits n - 1) \<le> n" "0 < bits n" using bits_bounds [of n] False by auto
  have e: "?e = int (bits n) - 53" using False bb by (simp add: ilog2_nat)
  have "bits n - 1 \<le> 53"
    using bb(1) le by (metis le_trans numeral_le_one_iff power_increasing_iff semiring_norm(69) one_less_numeral_iff semiring_norm(76))
  then have b54: "bits n \<le> 54" by simp
  obtain i where i: "(of_nat n :: rat) / pow2 ?e = of_int i"
  proof (cases "bits n = 54")
    case True
    with bb le have "n = 2 ^ 53" by simp
    then have "(of_nat n :: rat) / pow2 ?e = of_int (2 ^ 52)"
      unfolding e using True by (simp add: pow2_def)
    then show ?thesis by (rule that)
  next
    case no: False
    with b54 have small: "bits n \<le> 53" by simp
    have p: "pow2 (int (bits n) - 53) = 1 / 2 ^ (53 - bits n)"
    proof (cases "bits n = 53")
      case True then show ?thesis by (simp add: pow2_def)
    next
      case False
      with small have "nat (53 - int (bits n)) = 53 - bits n" by simp
      with small False show ?thesis by (simp add: pow2_def)
    qed
    have "(of_nat n :: rat) / pow2 ?e = of_int (int n * 2 ^ (53 - bits n))"
      unfolding e p by simp
    then show ?thesis by (rule that)
  qed
  have pos: "0 < pow2 ?e" by (simp add: pow2_def)
  then have v: "of_int (round_half_even ((of_nat n :: rat) / pow2 ?e)) * pow2 ?e = of_nat n"
    unfolding i by (metis i nonzero_eq_divide_eq less_irrefl round_half_even_int)
  have "(of_nat n :: rat) \<le> of_nat (2 ^ 53)" using le by (simp only: of_nat_le_iff)
  also have "\<dots> < pow2 1024" by (simp add: pow2_def)
  finally show ?thesis using False v by (simp add: round64_def Let_def)
qed (simp add: round64_def)

lemma f64_add_nat:
  "m + n \<le> 2 ^ 53 \<Longrightarrow> f64_add (Fin (of_nat m)) (Fin (of_nat n)) = Fin (of_nat (m + n))"
  using round64_nat [of "m + n"] by simp

subsection \<open>Formatting\<close>

definition two_digits :: "nat \<Rightarrow> gostring" where
  "two_digits n = [char_of (48 + n div 10 mod 10), char_of (48 + n mod 10)]"

fun FormatFloat2 :: "f64 \<Rightarrow> gostring" where
  "FormatFloat2 (Fin x) = (let n = nat (round_half_even (\<bar>x\<bar> * 100)) in
     (if x < 0 then ''-'' else '''') @ nat_digits (n div 100) @ ''.'' @ two_digits (n mod 100))"
| "FormatFloat2 PosInf = ''+Inf''"
| "FormatFloat2 NegInf = ''-Inf''"
| "FormatFloat2 NaN = ''NaN''"

subsection \<open>Time\<close>

type_synonym gotime = int

definition Nanosecond :: int where "Nanosecond = 1"
definition Second :: int where "Second = 1000000000"
definition Minute :: int where "Minute = 60000000000"
definition Hour :: int where "Hour = 3600000000000"
definition Day :: int where "Day = 86400000000000"

lemmas durations [simp] = Nanosecond_def Second_def Minute_def Hour_def Day_def

text \<open>Days since 1970-01-01 of a date whose month may exceed 12, as \<open>time.Date\<close> normalises it.\<close>

definition days_from_civil :: "int \<Rightarrow> int \<Rightarrow> int \<Rightarrow> int" where
  "days_from_civil y m d = (let y = y + (m - 1) div 12; m = (m - 1) mod 12 + 1;
       y = (if m \<le> 2 then y - 1 else y); era = y div 400; yoe = y mod 400;
       doy = (153 * ((m + 9) mod 12) + 2) div 5 + d - 1
     in era * 146097 + yoe * 365 + yoe div 4 - yoe div 100 + doy - 719468)"

definition Date :: "int \<Rightarrow> int \<Rightarrow> int \<Rightarrow> gotime" where
  "Date y m d = days_from_civil y m d * Day"

definition civil_from_days :: "int \<Rightarrow> int \<times> int \<times> int" where
  "civil_from_days z = (let z = z + 719468; era = z div 146097; doe = z mod 146097;
       yoe = (doe - doe div 1460 + doe div 36524 - doe div 146096) div 365;
       doy = doe - (365 * yoe + yoe div 4 - yoe div 100);
       mp = (5 * doy + 2) div 153; d = doy - (153 * mp + 2) div 5 + 1;
       m = (if mp < 10 then mp + 3 else mp - 9)
     in (yoe + era * 400 + (if m \<le> 2 then 1 else 0), m, d))"

definition zero_time :: gotime where
  "zero_time = - 62135596800 * Second"

definition IsZero :: "gotime \<Rightarrow> bool" where
  "IsZero t = (t = zero_time)"

definition pad2 :: "int \<Rightarrow> gostring" where
  "pad2 n = two_digits (nat n)"

definition pad4 :: "int \<Rightarrow> gostring" where
  "pad4 n = two_digits (nat (n div 100)) @ two_digits (nat (n mod 100))"

text \<open>\<open>t.UTC().Format(time.RFC3339)\<close> for the years 0 to 9999.\<close>

definition FormatRFC3339 :: "gotime \<Rightarrow> gostring" where
  "FormatRFC3339 t = (let secs = t div Second; s = secs mod 86400 in
     case civil_from_days (secs div 86400) of (y, m, d) \<Rightarrow>
     pad4 y @ ''-'' @ pad2 m @ ''-'' @ pad2 d @ ''T'' @ pad2 (s div 3600) @ '':''
       @ pad2 (s div 60 mod 60) @ '':'' @ pad2 (s mod 60) @ ''Z'')"

text \<open>The fraction of a second in \<open>time.RFC3339Nano\<close>: nine digits without trailing zeros.\<close>

definition nano_fraction :: "int \<Rightarrow> gostring" where
  "nano_fraction ns = (if ns = 0 then '''' else
     ''.'' @ TrimRightByte (two_digits (nat (ns div 10000000)) @ two_digits (nat (ns div 100000 mod 100))
       @ two_digits (nat (ns div 1000 mod 100)) @ two_digits (nat (ns div 10 mod 100))
       @ [char_of (48 + nat (ns mod 10))]) CHR ''0'')"

definition FormatRFC3339Nano :: "gotime \<Rightarrow> gostring" where
  "FormatRFC3339Nano t =
     (let s = FormatRFC3339 t in TrimSuffix s ''Z'' @ nano_fraction (t mod Second) @ ''Z'')"

text \<open>The first days of consecutive months differ by the length of the month.\<close>

definition leap_year :: "int \<Rightarrow> bool" where
  "leap_year y = (4 dvd y \<and> (\<not> 100 dvd y \<or> 400 dvd y))"

definition month_days :: "int \<Rightarrow> int \<Rightarrow> int" where
  "month_days y m = (if m = 2 then (if leap_year y then 29 else 28)
     else if m \<in> {4, 6, 9, 11} then 30 else 31)"

definition leap_days :: "int \<Rightarrow> int" where
  "leap_days y = y div 400 * 146097 + y mod 400 * 365 + (y mod 400) div 4 - (y mod 400) div 100"

lemma leap_days_linear: "leap_days y = 365 * y + y div 4 - y div 100 + y div 400"
proof -
  define q where "q = y div 400"
  define r where "r = y mod 400"
  have y: "y = 400 * q + r" and r: "0 \<le> r" "r < 400" by (simp_all add: q_def r_def)
  have "(r + 4 * (100 * q)) div 4 = 100 * q + r div 4"
    "(r + 100 * (4 * q)) div 100 = 4 * q + r div 100"
    by (simp_all only: div_mult_self2 [of 4] div_mult_self2 [of 100])
  then have "y div 4 = 100 * q + r div 4" "y div 100 = 4 * q + r div 100"
    unfolding y by (simp_all add: algebra_simps)
  then show ?thesis unfolding leap_days_def q_def [symmetric] r_def [symmetric]
    by (simp add: y)
qed

lemma leap_days_step:
  "leap_days y - leap_days (y - 1) = (if leap_year y then 366 else 365)"
proof -
  have step: "y div k - (y - 1) div k = (if k dvd y then 1 else 0)" if "0 < k" for k :: int
  proof (cases "k dvd y")
    case True
    then obtain q where "y = k * q" ..
    moreover have "(k * q - 1) div k = q - 1"
      using that by (intro int_div_pos_eq [of _ _ _ "k - 1"]) (auto simp: algebra_simps)
    ultimately show ?thesis using that by simp
  next
    case False
    then have r: "0 < y mod k"
      using that by (metis dvd_eq_mod_eq_0 pos_mod_sign order_le_less)
    have b: "y mod k < k" using that by simp
    have "y - 1 = k * (y div k) + (y mod k - 1)" by simp
    then have "(y - 1) div k = y div k"
      using r b by (intro int_div_pos_eq [of _ _ _ "y mod k - 1"]) auto
    with False show ?thesis by simp
  qed
  have d: "100 dvd y \<longrightarrow> 4 dvd y" "400 dvd y \<longrightarrow> 100 dvd y"
    using dvd_trans [of 4 100 y] dvd_trans [of 100 400 y] by simp_all
  have "leap_days y - leap_days (y - 1)
      = 365 + (y div 4 - (y - 1) div 4) - (y div 100 - (y - 1) div 100) + (y div 400 - (y - 1) div 400)"
    by (simp add: leap_days_linear)
  also have "\<dots> = 365 + (if 4 dvd y then 1 else 0) - (if 100 dvd y then 1 else 0)
      + (if 400 dvd y then 1 else 0)"
    by (simp only: step [of 4] step [of 100] step [of 400] zero_less_numeral)
  also have "\<dots> = (if leap_year y then 366 else 365)"
    using d unfolding leap_year_def by (cases "4 dvd y"; cases "100 dvd y"; cases "400 dvd y") simp_all
  finally show ?thesis .
qed

lemma days_from_civil_eq:
  "1 \<le> m \<Longrightarrow> m \<le> 12 \<Longrightarrow> days_from_civil y m d =
     leap_days (if m \<le> 2 then y - 1 else y) + (153 * ((m + 9) mod 12) + 2) div 5 + d - 719469"
  "days_from_civil y 13 d = days_from_civil (y + 1) 1 d"
  by (simp_all add: days_from_civil_def leap_days_def Let_def div_pos_pos_trivial mod_pos_pos_trivial)

lemma month_end:
  assumes "1 \<le> m" "m \<le> 12"
  shows "Date y (m + 1) 1 = Date y m (month_days y m + 1)"
proof -
  have "m = 1 \<or> m = 2 \<or> m = 3 \<or> m = 4 \<or> m = 5 \<or> m = 6 \<or> m = 7 \<or> m = 8 \<or> m = 9 \<or> m = 10
    \<or> m = 11 \<or> m = 12" using assms by arith
  then have "days_from_civil y (m + 1) 1 = days_from_civil y m (month_days y m + 1)"
    using leap_days_step [of y]
    by (elim disjE) (simp_all add: days_from_civil_eq month_days_def split: if_splits)
  then show ?thesis by (simp add: Date_def)
qed

end
