(* ===== verification/Dto.thy ===== *)
theory Dto
  imports GoStrings GoNum
begin

section \<open>Data transfer objects (\<open>internal/dto\<close>) and contracts (\<open>internal/contracts\<close>)\<close>

text \<open>
  The records of \<open>src/internal/dto\<close> and \<open>src/internal/contracts/interfaces.go\<close>, one HOL
  record per Go struct with the fields in the order of the source and prefixed by a short
  name of the struct; string constants; the error catalogue; masking of card data and
  tokens. A pointer to a struct is an \<open>option\<close>, a \<open>float64\<close> an \<open>f64\<close>, a \<open>time.Time\<close> the
  instant it denotes, a slice a list.
\<close>

subsection \<open>Constants\<close>

definition PaymentMethodSBP :: gostring where [lit]: "PaymentMethodSBP = koi8 ''sbp''"
definition PaymentMethodCard :: gostring where [lit]: "PaymentMethodCard = koi8 ''bANKOWSKAQ KARTA''"
definition PaymentMethodDigitalWallet :: gostring where [lit]: "PaymentMethodDigitalWallet = koi8 ''cIFROWOJ KO[ELEK''"
definition PaymentMethodDigitalRuble :: gostring where [lit]: "PaymentMethodDigitalRuble = koi8 ''cIFROWOJ RUBLX''"

definition StatusCreated :: gostring where [lit]: "StatusCreated = ''CREATED''"
definition StatusPending :: gostring where [lit]: "StatusPending = ''PENDING''"
definition StatusCaptureRequested :: gostring where [lit]: "StatusCaptureRequested = ''CAPTURE_REQUESTED''"
definition StatusCaptured :: gostring where [lit]: "StatusCaptured = ''CAPTURED''"
definition StatusDeclined :: gostring where [lit]: "StatusDeclined = ''DECLINED''"
definition StatusCancelled :: gostring where [lit]: "StatusCancelled = ''CANCELLED''"
definition StatusFailed :: gostring where [lit]: "StatusFailed = ''FAILED''"

definition RefundStatusProcess :: gostring where [lit]: "RefundStatusProcess = ''PROCESS_REFUND''"
definition RefundStatusSuccess :: gostring where [lit]: "RefundStatusSuccess = ''SUCCESS_REFUND''"
definition RefundStatusFail :: gostring where [lit]: "RefundStatusFail = ''FAIL_REFUND''"

subsection \<open>Payments\<close>

record AmountMoney =
  Amount_Value :: f64
  Amount_Currency :: gostring

record PaymentItem =
  Item_Name :: gostring
  Item_Price :: f64
  Item_Quantity :: f64
  Item_Category :: gostring
  Item_VATTag :: gostring
  Item_PaymentMethod :: gostring
  Item_PaymentObject :: gostring
  Item_IDInternal :: gostring

record DigitalRubleData =
  DR_SmartContractID :: gostring
  DR_RequireMarkedMoney :: bool

record CustomerData =
  Cust_Email :: gostring
  Cust_Phone :: gostring
  Cust_CardNumber :: gostring
  Cust_CardDate :: gostring
  Cust_CvvCode :: gostring
  Cust_DigitalWalletID :: gostring
  Cust_DigitalRubleWalletID :: gostring
  Cust_DigitalRubleAccount :: gostring
  Cust_DigitalRubleIdentifier :: gostring

record PaymentMethodData =
  Method_Type :: gostring

record PaymentInfo =
  Info_Amount :: AmountMoney
  Info_PaymentMethodData :: PaymentMethodData
  Info_CustomerData :: CustomerData
  Info_Items :: "PaymentItem list"
  Info_DigitalRubleData :: DigitalRubleData
  Info_CreatedAt :: gotime
  Info_Description :: gostring

record CreatePaymentRequest =
  Req_MerchantID :: gostring
  Req_IdempotencyKey :: gostring
  Req_PaymentID :: gostring
  Req_CurrentStatus :: gostring
  Req_PaymentInfo :: PaymentInfo

record GatewayError =
  Err_Code :: gostring
  Err_Message :: gostring

record PaymentInfoResponse =
  RInfo_Amount :: AmountMoney
  RInfo_PaymentMethodData :: PaymentMethodData
  RInfo_CustomerData :: CustomerData
  RInfo_Items :: "PaymentItem list"
  RInfo_DigitalRubleData :: DigitalRubleData
  RInfo_Description :: gostring
  RInfo_CreatedAt :: gotime
  RInfo_UpdatedAt :: gotime

record TransactionDetails =
  TD_ExternalTransactionID :: gostring
  TD_PaymentSystem :: gostring
  TD_ProviderStatus :: gostring
  TD_ProviderErrorCode :: gostring
  TD_ProviderErrorMessage :: gostring
  TD_CancellationParty :: gostring
  TD_CancellationReason :: gostring
  TD_PaymentURL :: gostring
  TD_QRID :: gostring
  TD_QRPayload :: gostring
  TD_QRImageDataURI :: gostring
  TD_QRExpiresAt :: gostring
  TD_ParticipantBank :: gostring
  TD_SchemaVersion :: gostring
  TD_SettlementHint :: gostring
  TD_MoneyMark :: gostring
  TD_SmartContractID :: gostring
  TD_SmartContractResult :: gostring
  TD_SmartContractReason :: gostring
  TD_PlatformMessageID :: gostring
  TD_PlatformTransport :: gostring
  TD_PlatformSignatureType :: gostring
  TD_Token :: gostring
  TD_TokenPreview :: gostring
  TD_FraudCheckResult :: gostring
  TD_RetryCount :: int

record PaymentResponse =
  Resp_ID :: gostring
  Resp_MerchantID :: gostring
  Resp_IdempotencyKey :: gostring
  Resp_CurrentStatus :: gostring
  Resp_PaymentInfo :: PaymentInfoResponse
  Resp_TransactionDetails :: TransactionDetails
  Resp_Error :: "GatewayError option"

text \<open>Zero values.\<close>

definition zero_customer :: CustomerData where
  "zero_customer = \<lparr>Cust_Email = '''', Cust_Phone = '''', Cust_CardNumber = '''',
     Cust_CardDate = '''', Cust_CvvCode = '''', Cust_DigitalWalletID = '''',
     Cust_DigitalRubleWalletID = '''', Cust_DigitalRubleAccount = '''', Cust_DigitalRubleIdentifier = ''''\<rparr>"

definition zero_details :: TransactionDetails where
  "zero_details = \<lparr>TD_ExternalTransactionID = '''', TD_PaymentSystem = '''', TD_ProviderStatus = '''',
     TD_ProviderErrorCode = '''', TD_ProviderErrorMessage = '''', TD_CancellationParty = '''',
     TD_CancellationReason = '''', TD_PaymentURL = '''', TD_QRID = '''',
     TD_QRPayload = '''', TD_QRImageDataURI = '''', TD_QRExpiresAt = '''',
     TD_ParticipantBank = '''', TD_SchemaVersion = '''', TD_SettlementHint = '''',
     TD_MoneyMark = '''', TD_SmartContractID = '''', TD_SmartContractResult = '''',
     TD_SmartContractReason = '''', TD_PlatformMessageID = '''', TD_PlatformTransport = '''',
     TD_PlatformSignatureType = '''', TD_Token = '''', TD_TokenPreview = '''',
     TD_FraudCheckResult = '''', TD_RetryCount = 0\<rparr>"

text \<open>A nil \<open>*AmountMoney\<close>, zero amounts and the zero response.\<close>

definition zero_amount :: AmountMoney where
  "zero_amount = \<lparr>Amount_Value = Fin 0, Amount_Currency = ''''\<rparr>"

definition zero_response :: PaymentResponse where
  "zero_response = \<lparr>Resp_ID = '''', Resp_MerchantID = '''', Resp_IdempotencyKey = '''',
     Resp_CurrentStatus = '''',
     Resp_PaymentInfo = \<lparr>RInfo_Amount = zero_amount,
       RInfo_PaymentMethodData = \<lparr>Method_Type = ''''\<rparr>, RInfo_CustomerData = zero_customer,
       RInfo_Items = [],
       RInfo_DigitalRubleData = \<lparr>DR_SmartContractID = '''', DR_RequireMarkedMoney = False\<rparr>,
       RInfo_Description = '''', RInfo_CreatedAt = zero_time, RInfo_UpdatedAt = zero_time\<rparr>,
     Resp_TransactionDetails = zero_details, Resp_Error = None\<rparr>"

subsection \<open>Refunds\<close>

record Refund =
  Refund_ID :: gostring
  Refund_MerchantID :: gostring
  Refund_Status :: gostring
  Refund_Amount :: f64
  Refund_Currency :: gostring
  Refund_EntityType :: gostring
  Refund_EntityID :: gostring
  Refund_PaymentID :: gostring
  Refund_IdempotencyKey :: gostring
  Refund_Provider :: gostring
  Refund_PaymentSystem :: gostring
  Refund_ExternalRefundID :: gostring
  Refund_ProviderStatus :: gostring
  Refund_ProviderErrorCode :: gostring
  Refund_ProviderErrorMsg :: gostring
  Refund_RefundType :: gostring
  Refund_Reason :: gostring
  Refund_CreatedAt :: gotime
  Refund_UpdatedAt :: gotime

record CreateRefundRequest =
  RReq_MerchantID :: gostring
  RReq_PaymentID :: gostring
  RReq_IdempotencyKey :: gostring
  RReq_Amount :: "AmountMoney option"
  RReq_Reason :: gostring

subsection \<open>Contracts\<close>

definition EventPaymentReceived :: gostring where [lit]: "EventPaymentReceived = ''payment_received''"
definition EventPaymentValidated :: gostring where [lit]: "EventPaymentValidated = ''payment_validated''"
definition EventFraudChecked :: gostring where [lit]: "EventFraudChecked = ''fraud_checked''"
definition EventTokenized :: gostring where [lit]: "EventTokenized = ''tokenized''"
definition EventAdapterCalled :: gostring where [lit]: "EventAdapterCalled = ''adapter_called''"
definition EventAdapterResultReceived :: gostring where [lit]: "EventAdapterResultReceived = ''adapter_result_received''"
definition EventPaymentResponseSent :: gostring where [lit]: "EventPaymentResponseSent = ''payment_response_sent''"
definition EventPaymentFailed :: gostring where [lit]: "EventPaymentFailed = ''payment_failed''"
definition EventNotificationSent :: gostring where [lit]: "EventNotificationSent = ''notification_sent''"
definition EventNotificationFailed :: gostring where [lit]: "EventNotificationFailed = ''notification_failed''"
definition EventMerchantWebhookReceived :: gostring where [lit]: "EventMerchantWebhookReceived = ''merchant_webhook_received''"
definition EventAuthorizationFailed :: gostring where [lit]: "EventAuthorizationFailed = ''authorization_failed''"
definition EventNetworkAccessDenied :: gostring where [lit]: "EventNetworkAccessDenied = ''network_access_denied''"
definition EventRefundRequested :: gostring where [lit]: "EventRefundRequested = ''refund_requested''"
definition EventRefundAdapterCalled :: gostring where [lit]: "EventRefundAdapterCalled = ''refund_adapter_called''"
definition EventRefundAdapterResult :: gostring where [lit]: "EventRefundAdapterResult = ''refund_adapter_result_received''"
definition EventRefundResponseSent :: gostring where [lit]: "EventRefundResponseSent = ''refund_response_sent''"
definition EventRefundFailed :: gostring where [lit]: "EventRefundFailed = ''refund_failed''"

definition LogLevelInfo :: gostring where [lit]: "LogLevelInfo = ''INFO''"
definition LogLevelWarn :: gostring where [lit]: "LogLevelWarn = ''WARN''"
definition LogLevelError :: gostring where [lit]: "LogLevelError = ''ERROR''"

record PaymentEvent =
  Ev_Type :: gostring
  Ev_Level :: gostring
  Ev_Service :: gostring
  Ev_MerchantID :: gostring
  Ev_PaymentID :: gostring
  Ev_IdempotencyKey :: gostring
  Ev_CorrelationID :: gostring
  Ev_CurrentStatus :: gostring
  Ev_Timestamp :: gotime
  Ev_Message :: gostring
  Ev_Details :: gostring
  Ev_Context :: "(gostring \<times> gostring) list"

record AntiFraudResult =
  AF_Result :: gostring
  AF_Reason :: gostring

record AdapterResult =
  AR_ExternalTransactionID :: gostring
  AR_PaymentSystem :: gostring
  AR_Status :: gostring
  AR_ProviderStatus :: gostring
  AR_ErrorCode :: gostring
  AR_PaymentURL :: gostring
  AR_QRID :: gostring
  AR_QRPayload :: gostring
  AR_QRImageDataURI :: gostring
  AR_QRExpiresAt :: gotime
  AR_ParticipantBank :: gostring
  AR_SchemaVersion :: gostring
  AR_SettlementHint :: gostring
  AR_MoneyMark :: gostring
  AR_SmartContractID :: gostring
  AR_SmartContractResult :: gostring
  AR_SmartContractReason :: gostring
  AR_PlatformMessageID :: gostring
  AR_PlatformTransport :: gostring
  AR_PlatformSignatureType :: gostring
  AR_ErrorMessage :: gostring

definition zero_result :: AdapterResult where
  "zero_result = \<lparr>AR_ExternalTransactionID = '''', AR_PaymentSystem = '''', AR_Status = '''',
     AR_ProviderStatus = '''', AR_ErrorCode = '''', AR_PaymentURL = '''',
     AR_QRID = '''', AR_QRPayload = '''', AR_QRImageDataURI = '''',
     AR_QRExpiresAt = zero_time, AR_ParticipantBank = '''', AR_SchemaVersion = '''',
     AR_SettlementHint = '''', AR_MoneyMark = '''', AR_SmartContractID = '''',
     AR_SmartContractResult = '''', AR_SmartContractReason = '''', AR_PlatformMessageID = '''',
     AR_PlatformTransport = '''', AR_PlatformSignatureType = '''', AR_ErrorMessage = ''''\<rparr>"

record RefundRequest =
  RfReq_RefundID :: gostring
  RfReq_MerchantID :: gostring
  RfReq_PaymentID :: gostring
  RfReq_IdempotencyKey :: gostring
  RfReq_ExternalPaymentID :: gostring
  RfReq_Amount :: AmountMoney
  RfReq_Reason :: gostring
  RfReq_Full :: bool
  RfReq_Payment :: PaymentResponse

record RefundResult =
  RfRes_ExternalRefundID :: gostring
  RfRes_PaymentSystem :: gostring
  RfRes_Status :: gostring
  RfRes_ProviderStatus :: gostring
  RfRes_ErrorMessage :: gostring

record PaymentRoute =
  Route_MerchantID :: gostring
  Route_PaymentMethod :: gostring
  Route_Provider :: gostring
  Route_PaymentSystem :: gostring
  Route_Priority :: int

subsection \<open>Error catalogue\<close>

record GatewayErrorDefinition =
  Def_Code :: gostring
  Def_Category :: gostring
  Def_PaymentStatus :: gostring
  Def_Retryable :: bool
  Def_DefaultMessage :: gostring
  Def_Description :: gostring

text \<open>\<open>error_catalog.go\<close>: the codes.\<close>

definition ErrorBadRequest :: gostring where [lit]: "ErrorBadRequest = ''BAD_REQUEST''"
definition ErrorMethodNotAllowed :: gostring where [lit]: "ErrorMethodNotAllowed = ''METHOD_NOT_ALLOWED''"
definition ErrorNotFound :: gostring where [lit]: "ErrorNotFound = ''NOT_FOUND''"
definition ErrorNotImplemented :: gostring where [lit]: "ErrorNotImplemented = ''NOT_IMPLEMENTED''"
definition ErrorForbidden :: gostring where [lit]: "ErrorForbidden = ''FORBIDDEN''"
definition ErrorAuthContextMissing :: gostring where [lit]: "ErrorAuthContextMissing = ''AUTH_CONTEXT_MISSING''"
definition ErrorAuthentication :: gostring where [lit]: "ErrorAuthentication = ''AUTHENTICATION_ERROR''"
definition ErrorNetworkAccessDenied :: gostring where [lit]: "ErrorNetworkAccessDenied = ''NETWORK_ACCESS_DENIED''"
definition ErrorHTTPSRequired :: gostring where [lit]: "ErrorHTTPSRequired = ''HTTPS_REQUIRED''"
definition ErrorValidation :: gostring where [lit]: "ErrorValidation = ''VALIDATION_ERROR''"
definition ErrorStorage :: gostring where [lit]: "ErrorStorage = ''STORAGE_ERROR''"
definition ErrorPaymentStorage :: gostring where [lit]: "ErrorPaymentStorage = ''PAYMENT_STORAGE_ERROR''"
definition ErrorPaymentNotFound :: gostring where [lit]: "ErrorPaymentNotFound = ''PAYMENT_NOT_FOUND''"
definition ErrorPaymentNotCaptured :: gostring where [lit]: "ErrorPaymentNotCaptured = ''PAYMENT_NOT_CAPTURED''"
definition ErrorInvalidStoredResponse :: gostring where [lit]: "ErrorInvalidStoredResponse = ''INVALID_STORED_RESPONSE''"
definition ErrorInvalidStoredPayment :: gostring where [lit]: "ErrorInvalidStoredPayment = ''INVALID_STORED_PAYMENT''"
definition ErrorAntifraud :: gostring where [lit]: "ErrorAntifraud = ''ANTIFRAUD_ERROR''"
definition ErrorAntifraudDeclined :: gostring where [lit]: "ErrorAntifraudDeclined = ''ANTIFRAUD_DECLINED''"
definition ErrorRouting :: gostring where [lit]: "ErrorRouting = ''ROUTING_ERROR''"
definition ErrorTokenization :: gostring where [lit]: "ErrorTokenization = ''TOKENIZATION_ERROR''"
definition ErrorAdapterFactory :: gostring where [lit]: "ErrorAdapterFactory = ''ADAPTER_FACTORY_ERROR''"
definition ErrorAdapterFailed :: gostring where [lit]: "ErrorAdapterFailed = ''ADAPTER_FAILED''"
definition ErrorPaymentDeclined :: gostring where [lit]: "ErrorPaymentDeclined = ''PAYMENT_DECLINED''"
definition ErrorCallback :: gostring where [lit]: "ErrorCallback = ''CALLBACK_ERROR''"
definition ErrorProviderUnavailable :: gostring where [lit]: "ErrorProviderUnavailable = ''PROVIDER_UNAVAILABLE''"
definition ErrorWebhookSignatureInvalid :: gostring where [lit]: "ErrorWebhookSignatureInvalid = ''WEBHOOK_SIGNATURE_INVALID''"
definition ErrorWebhookPayloadInvalid :: gostring where [lit]: "ErrorWebhookPayloadInvalid = ''WEBHOOK_PAYLOAD_INVALID''"
definition ErrorYooKassaPaymentDeclined :: gostring where [lit]: "ErrorYooKassaPaymentDeclined = ''YOOKASSA_PAYMENT_DECLINED''"
definition ErrorYooKassaFraudSuspected :: gostring where [lit]: "ErrorYooKassaFraudSuspected = ''YOOKASSA_FRAUD_SUSPECTED''"
definition ErrorDigitalRubleDeclined :: gostring where [lit]: "ErrorDigitalRubleDeclined = ''DIGITAL_RUBLE_PAYMENT_DECLINED''"
definition ErrorDigitalRubleTechnical :: gostring where [lit]: "ErrorDigitalRubleTechnical = ''DIGITAL_RUBLE_TECHNICAL_ERROR''"
definition ErrorDigitalRubleQRExpired :: gostring where [lit]: "ErrorDigitalRubleQRExpired = ''DIGITAL_RUBLE_QR_EXPIRED''"
definition ErrorDigitalRubleMarkFailed :: gostring where [lit]: "ErrorDigitalRubleMarkFailed = ''DIGITAL_RUBLE_MARK_RESTRICTION_FAILED''"
definition ErrorDigitalRubleSOAP :: gostring where [lit]: "ErrorDigitalRubleSOAP = ''DIGITAL_RUBLE_SOAP_ERROR''"
definition ErrorBlockedByProviderFraud :: gostring where [lit]: "ErrorBlockedByProviderFraud = ''BLOCKED_BY_PROVIDER_FRAUD''"
definition ErrorDeclinedByProvider :: gostring where [lit]: "ErrorDeclinedByProvider = ''DECLINED_BY_PROVIDER''"
definition ErrorRefundStoreUnavailable :: gostring where [lit]: "ErrorRefundStoreUnavailable = ''REFUND_STORE_UNAVAILABLE''"
definition ErrorRefundStorage :: gostring where [lit]: "ErrorRefundStorage = ''REFUND_STORAGE_ERROR''"
definition ErrorRefundNotSupported :: gostring where [lit]: "ErrorRefundNotSupported = ''REFUND_NOT_SUPPORTED''"
definition ErrorRefundNotFound :: gostring where [lit]: "ErrorRefundNotFound = ''REFUND_NOT_FOUND''"
definition ErrorRefundFailed :: gostring where [lit]: "ErrorRefundFailed = ''REFUND_FAILED''"
definition ErrorReportStoreUnavailable :: gostring where [lit]: "ErrorReportStoreUnavailable = ''REPORT_STORE_UNAVAILABLE''"
definition ErrorReportStorage :: gostring where [lit]: "ErrorReportStorage = ''REPORT_STORAGE_ERROR''"
definition ErrorMerchantScopeMismatch :: gostring where [lit]: "ErrorMerchantScopeMismatch = ''MERCHANT_SCOPE_MISMATCH''"

definition gatewayErrorCatalog :: "GatewayErrorDefinition list" where
  "gatewayErrorCatalog = [
   \<lparr>Def_Code = ErrorBadRequest, Def_Category = ''request'', Def_PaymentStatus = '''', Def_Retryable = False,
      Def_DefaultMessage = ''request is invalid'',
      Def_Description = koi8 ''nEKORREKTNYJ '' @ ''HTTP-'' @ koi8 ''ZAPROS ILI '' @ ''JSON payload.''\<rparr>,
   \<lparr>Def_Code = ErrorMethodNotAllowed, Def_Category = ''request'', Def_PaymentStatus = '''', Def_Retryable = False,
      Def_DefaultMessage = ''method is not allowed'',
      Def_Description = ''HTTP-'' @ koi8 ''METOD NE PODDERVIWAETSQ '' @ ''endpoint-'' @ koi8 ''OM.''\<rparr>,
   \<lparr>Def_Code = ErrorNotFound, Def_Category = ''request'', Def_PaymentStatus = '''', Def_Retryable = False,
      Def_DefaultMessage = ''endpoint not found'',
      Def_Description = koi8 ''zAPRO[ENNYJ '' @ ''endpoint '' @ koi8 ''NE NAJDEN.''\<rparr>,
   \<lparr>Def_Code = ErrorNotImplemented, Def_Category = ''gateway'', Def_PaymentStatus = StatusFailed, Def_Retryable = False,
      Def_DefaultMessage = ''operation is not implemented'',
      Def_Description = koi8 ''oPERACIQ NE REALIZOWANA ILI PODSISTEMA NE PODKL@^ENA.''\<rparr>,
   \<lparr>Def_Code = ErrorForbidden, Def_Category = ''access'', Def_PaymentStatus = '''', Def_Retryable = False,
      Def_DefaultMessage = ''access is forbidden'',
      Def_Description = koi8 ''rOLX ILI GRANICY MER^ANTA NE POZWOLQ@T WYPOLNITX OPERACI@.''\<rparr>,
   \<lparr>Def_Code = ErrorAuthContextMissing, Def_Category = ''access'', Def_PaymentStatus = '''', Def_Retryable = False,
      Def_DefaultMessage = ''authenticated merchant context is required'',
      Def_Description = koi8 ''zAPROS DO[#L DO '' @ ''handler-'' @ koi8 ''A BEZ KONTEKSTA AUTENTIFICIROWANNOGO MER^ANTA.''\<rparr>,
   \<lparr>Def_Code = ErrorAuthentication, Def_Category = ''authentication'', Def_PaymentStatus = '''', Def_Retryable = False,
      Def_DefaultMessage = ''merchant authentication failed'',
      Def_Description = koi8 ''o[IBKA '' @ ''merchant authentication: '' @ koi8 ''OTSUTSTWU@T ZAGOLOWKI, NEWERNYJ KL@^, PODPISX ILI '' @ ''timestamp.''\<rparr>,
   \<lparr>Def_Code = ErrorNetworkAccessDenied, Def_Category = ''network'', Def_PaymentStatus = '''', Def_Retryable = False,
      Def_DefaultMessage = ''request source IP is not allowed'',
      Def_Description = koi8 ''iSTO^NIK ZAPROSA NE WHODIT W RAZRE[#NNYJ '' @ ''IP/CIDR allowlist.''\<rparr>,
   \<lparr>Def_Code = ErrorHTTPSRequired, Def_Category = ''transport'', Def_PaymentStatus = '''', Def_Retryable = False,
      Def_DefaultMessage = ''HTTPS is required'',
      Def_Description = koi8 ''zAPROS OTKLON#N, POTOMU ^TO WKL@^ENO TREBOWANIE '' @ ''HTTPS.''\<rparr>,
   \<lparr>Def_Code = ErrorValidation, Def_Category = ''validation'', Def_PaymentStatus = StatusFailed, Def_Retryable = False,
      Def_DefaultMessage = ''payment data validation failed'',
      Def_Description = koi8 ''pLAT#VNYE DANNYE NE PRO[LI BIZNES-WALIDACI@.''\<rparr>,
   \<lparr>Def_Code = ErrorStorage, Def_Category = ''storage'', Def_PaymentStatus = StatusFailed, Def_Retryable = True,
      Def_DefaultMessage = ''storage operation failed'',
      Def_Description = koi8 ''oB]AQ O[IBKA ^TENIQ ILI ZAPISI SOSTOQNIQ PLATEVA.''\<rparr>,
   \<lparr>Def_Code = ErrorPaymentStorage, Def_Category = ''storage'', Def_PaymentStatus = StatusFailed, Def_Retryable = True,
      Def_DefaultMessage = ''payment storage operation failed'',
      Def_Description = koi8 ''o[IBKA ^TENIQ PLATEVNOJ TRANZAKCII IZ HRANILI]A.''\<rparr>,
   \<lparr>Def_Code = ErrorPaymentNotFound, Def_Category = ''storage'', Def_PaymentStatus = '''', Def_Retryable = False,
      Def_DefaultMessage = ''payment not found'',
      Def_Description = koi8 ''pLAT#V NE NAJDEN DLQ UKAZANNOGO MER^ANTA.''\<rparr>,
   \<lparr>Def_Code = ErrorPaymentNotCaptured, Def_Category = ''business'', Def_PaymentStatus = '''', Def_Retryable = False,
      Def_DefaultMessage = ''payment is not captured'',
      Def_Description = koi8 ''oPERACIQ RAZRE[ENA TOLXKO DLQ PLATEVA W STATUSE '' @ ''CAPTURED.''\<rparr>,
   \<lparr>Def_Code = ErrorInvalidStoredResponse, Def_Category = ''storage'', Def_PaymentStatus = StatusFailed, Def_Retryable = True,
      Def_DefaultMessage = ''stored payment response is invalid'',
      Def_Description = koi8 ''sOHRAN#NNYJ '' @ ''PaymentResponse '' @ koi8 ''NE UDALOSX RAZOBRATX.''\<rparr>,
   \<lparr>Def_Code = ErrorInvalidStoredPayment, Def_Category = ''storage'', Def_PaymentStatus = StatusFailed, Def_Retryable = True,
      Def_DefaultMessage = ''stored payment is invalid'',
      Def_Description = koi8 ''sOHRAN#NNYJ PLATEV NE UDALOSX RAZOBRATX DLQ DALXNEJ[EJ OPERACII.''\<rparr>,
   \<lparr>Def_Code = ErrorAntifraud, Def_Category = ''antifraud'', Def_PaymentStatus = StatusFailed, Def_Retryable = True,
      Def_DefaultMessage = ''antifraud check failed'',
      Def_Description = koi8 ''aNTIFROD-MODULX ZAWER[ILSQ TEHNI^ESKOJ O[IBKOJ.''\<rparr>,
   \<lparr>Def_Code = ErrorAntifraudDeclined, Def_Category = ''antifraud'', Def_PaymentStatus = StatusDeclined, Def_Retryable = False,
      Def_DefaultMessage = ''payment blocked by antifraud'',
      Def_Description = koi8 ''aNTIFROD-MODULX ZABLOKIROWAL PLAT#V.''\<rparr>,
   \<lparr>Def_Code = ErrorRouting, Def_Category = ''routing'', Def_PaymentStatus = StatusFailed, Def_Retryable = False,
      Def_DefaultMessage = ''payment routing failed'',
      Def_Description = koi8 ''mAR[RUTIZATOR NE SMOG WYBRATX PLATEVNOGO PROWAJDERA.''\<rparr>,
   \<lparr>Def_Code = ErrorTokenization, Def_Category = ''tokenization'', Def_PaymentStatus = StatusFailed, Def_Retryable = True,
      Def_DefaultMessage = ''payment tokenization failed'',
      Def_Description = koi8 ''mODULX TOKENIZACII NE SMOG SOZDATX WNUTRENNIJ TOKEN.''\<rparr>,
   \<lparr>Def_Code = ErrorAdapterFactory, Def_Category = ''adapter'', Def_PaymentStatus = StatusFailed, Def_Retryable = False,
      Def_DefaultMessage = ''payment adapter is not configured'',
      Def_Description = koi8 ''fABRIKA ADAPTEROW NE SMOGLA WERNUTX PROWAJDERA PO WYBRANNOMU KL@^U.''\<rparr>,
   \<lparr>Def_Code = ErrorAdapterFailed, Def_Category = ''adapter'', Def_PaymentStatus = StatusFailed, Def_Retryable = True,
      Def_DefaultMessage = ''payment adapter failed'',
      Def_Description = koi8 ''aDAPTER PROWAJDERA WERNUL TEHNI^ESKIJ SBOJ ILI NEIZWESTNYJ STATUS.''\<rparr>,
   \<lparr>Def_Code = ErrorPaymentDeclined, Def_Category = ''provider'', Def_PaymentStatus = StatusDeclined, Def_Retryable = False,
      Def_DefaultMessage = ''payment was declined by provider'',
      Def_Description = koi8 ''wNE[NIJ PROWAJDER OTKLONIL PLAT#V.''\<rparr>,
   \<lparr>Def_Code = ErrorCallback, Def_Category = ''gateway'', Def_PaymentStatus = StatusFailed, Def_Retryable = True,
      Def_DefaultMessage = ''payment callback handling failed'',
      Def_Description = koi8 ''{L@Z NE SMOG PREOBRAZOWATX REZULXTAT ADAPTERA W '' @ ''PaymentResponse.''\<rparr>,
   \<lparr>Def_Code = ErrorProviderUnavailable, Def_Category = ''provider'', Def_PaymentStatus = StatusFailed, Def_Retryable = True,
      Def_DefaultMessage = ''payment provider is unavailable'',
      Def_Description = koi8 ''wNE[NIJ PROWAJDER NEDOSTUPEN ILI WERNUL SETEWU@ O[IBKU.''\<rparr>,
   \<lparr>Def_Code = ErrorWebhookSignatureInvalid, Def_Category = ''webhook'', Def_PaymentStatus = '''', Def_Retryable = False,
      Def_DefaultMessage = ''webhook signature is invalid'',
      Def_Description = koi8 ''pODPISX '' @ ''webhook-'' @ koi8 ''A WNE[NEJ PLAT#VNOJ SISTEMY NE PRO[LA PROWERKU.''\<rparr>,
   \<lparr>Def_Code = ErrorWebhookPayloadInvalid, Def_Category = ''webhook'', Def_PaymentStatus = '''', Def_Retryable = False,
      Def_DefaultMessage = ''webhook payload is invalid'',
      Def_Description = ''Webhook '' @ koi8 ''WNE[NEJ PLAT#VNOJ SISTEMY IMEET NEKORREKTNOE TELO.''\<rparr>,
   \<lparr>Def_Code = ErrorYooKassaPaymentDeclined, Def_Category = ''provider'', Def_PaymentStatus = StatusDeclined, Def_Retryable = False,
      Def_DefaultMessage = ''YooKassa payment was declined'',
      Def_Description = ''YooKassa '' @ koi8 ''OTMENILA ILI OTKLONILA PLAT#V.''\<rparr>,
   \<lparr>Def_Code = ErrorYooKassaFraudSuspected, Def_Category = ''provider'', Def_PaymentStatus = StatusDeclined, Def_Retryable = False,
      Def_DefaultMessage = ''YooKassa declined payment because fraud was suspected'',
      Def_Description = ''YooKassa '' @ koi8 ''WERNULA '' @ ''cancellation_reason=fraud_suspected.''\<rparr>,
   \<lparr>Def_Code = ErrorDigitalRubleDeclined, Def_Category = ''provider'', Def_PaymentStatus = StatusDeclined, Def_Retryable = False,
      Def_DefaultMessage = ''digital ruble payment was declined'',
      Def_Description = koi8 ''%MULQTOR CIFROWOGO RUBLQ OTKLONIL PLAT#V.''\<rparr>,
   \<lparr>Def_Code = ErrorDigitalRubleTechnical, Def_Category = ''provider'', Def_PaymentStatus = StatusFailed, Def_Retryable = True,
      Def_DefaultMessage = ''digital ruble technical error'',
      Def_Description = koi8 ''%MULQTOR CIFROWOGO RUBLQ WERNUL TEHNI^ESKU@ O[IBKU.''\<rparr>,
   \<lparr>Def_Code = ErrorDigitalRubleQRExpired, Def_Category = ''provider'', Def_PaymentStatus = StatusCancelled, Def_Retryable = False,
      Def_DefaultMessage = ''digital ruble QR code expired'',
      Def_Description = ''QR-'' @ koi8 ''KOD CIFROWOGO RUBLQ IST#K DO PODTWERVDENIQ OPLATY.''\<rparr>,
   \<lparr>Def_Code = ErrorDigitalRubleMarkFailed, Def_Category = ''provider'', Def_PaymentStatus = StatusDeclined, Def_Retryable = False,
      Def_DefaultMessage = ''marked digital ruble restriction failed'',
      Def_Description = koi8 ''sMART-KONTRAKT CIFROWOGO RUBLQ OTKLONIL PLAT#V IZ-ZA NEPODHODQ]EJ MARKIROWKI SREDSTW ILI NEDOSTATO^NOGO MARKIROWANNOGO OSTATKA.''\<rparr>,
   \<lparr>Def_Code = ErrorDigitalRubleSOAP, Def_Category = ''provider'', Def_PaymentStatus = StatusFailed, Def_Retryable = True,
      Def_DefaultMessage = ''digital ruble SOAP emulator failed'',
      Def_Description = ''SOAP-'' @ koi8 ''$MULQTOR PLATFORMY CIFROWOGO RUBLQ NE SMOG OBRABOTATX SOOB]ENIE.''\<rparr>,
   \<lparr>Def_Code = ErrorBlockedByProviderFraud, Def_Category = ''provider'', Def_PaymentStatus = StatusDeclined, Def_Retryable = False,
      Def_DefaultMessage = ''payment blocked by provider antifraud'',
      Def_Description = koi8 ''wNE[NIJ PROWAJDER OTKLONIL PLAT#V PO ANTIFROD-PRI^INE.''\<rparr>,
   \<lparr>Def_Code = ErrorDeclinedByProvider, Def_Category = ''provider'', Def_PaymentStatus = StatusDeclined, Def_Retryable = False,
      Def_DefaultMessage = ''payment declined by provider'',
      Def_Description = koi8 ''oB]IJ '' @ ''provider-level '' @ koi8 ''OTKAZ BEZ ANTIFROD-PRIZNAKA.''\<rparr>,
   \<lparr>Def_Code = ErrorRefundStoreUnavailable, Def_Category = ''refund'', Def_PaymentStatus = '''', Def_Retryable = False,
      Def_DefaultMessage = ''refund store is not configured'',
      Def_Description = koi8 ''hRANILI]E WOZWRATOW NEDOSTUPNO.''\<rparr>,
   \<lparr>Def_Code = ErrorRefundStorage, Def_Category = ''refund'', Def_PaymentStatus = '''', Def_Retryable = True,
      Def_DefaultMessage = ''refund storage operation failed'',
      Def_Description = koi8 ''o[IBKA ^TENIQ ILI ZAPISI WOZWRATA.''\<rparr>,
   \<lparr>Def_Code = ErrorRefundNotSupported, Def_Category = ''refund'', Def_PaymentStatus = '''', Def_Retryable = False,
      Def_DefaultMessage = ''provider does not support refunds'',
      Def_Description = koi8 ''wYBRANNYJ PROWAJDER NE REALIZUET INTERFEJS WOZWRATOW.''\<rparr>,
   \<lparr>Def_Code = ErrorRefundNotFound, Def_Category = ''refund'', Def_PaymentStatus = '''', Def_Retryable = False,
      Def_DefaultMessage = ''refund not found'',
      Def_Description = koi8 ''wOZWRAT NE NAJDEN.''\<rparr>,
   \<lparr>Def_Code = ErrorRefundFailed, Def_Category = ''refund'', Def_PaymentStatus = '''', Def_Retryable = True,
      Def_DefaultMessage = ''refund failed'',
      Def_Description = koi8 ''pROWAJDER WERNUL O[IBKU WOZWRATA.''\<rparr>,
   \<lparr>Def_Code = ErrorReportStoreUnavailable, Def_Category = ''report'', Def_PaymentStatus = '''', Def_Retryable = False,
      Def_DefaultMessage = ''report store is not configured'',
      Def_Description = koi8 ''hRANILI]E OT^#TOW NEDOSTUPNO.''\<rparr>,
   \<lparr>Def_Code = ErrorReportStorage, Def_Category = ''report'', Def_PaymentStatus = '''', Def_Retryable = True,
      Def_DefaultMessage = ''report storage operation failed'',
      Def_Description = koi8 ''o[IBKA POSTROENIQ OT^#TA PO TRANZAKCIQM.''\<rparr>,
   \<lparr>Def_Code = ErrorMerchantScopeMismatch, Def_Category = ''access'', Def_PaymentStatus = '''', Def_Retryable = False,
      Def_DefaultMessage = ''merchant scope mismatch'',
      Def_Description = koi8 ''mER^ANT PYTAETSQ POLU^ITX DANNYE DRUGOGO MER^ANTA.''\<rparr>]"

subsection \<open>Status tests and catalogue lookups\<close>

definition IsValidPaymentStatus :: "gostring \<Rightarrow> bool" where
  "IsValidPaymentStatus status =
     (status \<in> {StatusCreated, StatusPending, StatusCaptureRequested, StatusCaptured,
        StatusDeclined, StatusCancelled, StatusFailed})"

definition NormalizeRefundStatus :: "gostring \<Rightarrow> gostring" where
  "NormalizeRefundStatus status = (let s = ToUpper (TrimSpace status) in
     if s \<in> {RefundStatusProcess, ''PROCESS'', ''PROCESSING'', ''PENDING''}
     then RefundStatusProcess
     else if s \<in> {RefundStatusSuccess, ''SUCCESS'', ''SUCCEEDED'', ''SUCCEEDED_REFUND''}
     then RefundStatusSuccess
     else if s \<in> {RefundStatusFail, ''FAIL'', ''FAILED'', ''CANCELED'', ''CANCELLED''}
     then RefundStatusFail
     else RefundStatusProcess)"

definition GatewayErrorDefinitionByCode :: "gostring \<Rightarrow> GatewayErrorDefinition option" where
  "GatewayErrorDefinitionByCode code =
     (let c = ToUpper (TrimSpace code) in List.find (\<lambda>d. Def_Code d = c) gatewayErrorCatalog)"

definition NewGatewayError :: "gostring \<Rightarrow> gostring \<Rightarrow> GatewayError" where
  "NewGatewayError code message =
     (let c = ToUpper (TrimSpace code);
          m = TrimSpace message;
          m' = (if m = '''' then (case GatewayErrorDefinitionByCode c of
                  Some d \<Rightarrow> Def_DefaultMessage d | None \<Rightarrow> m) else m)
      in \<lparr>Err_Code = c, Err_Message = m'\<rparr>)"

subsection \<open>Masking (\<open>payment.go\<close>)\<close>

definition digitsOnly :: "gostring \<Rightarrow> gostring" where
  "digitsOnly value = encode_runes (filter is_digit (runes value))"

definition MaskCardNumber :: "gostring \<Rightarrow> gostring" where
  "MaskCardNumber pan = (let digits = digitsOnly pan in
     if length digits < 10 then ''''
     else take 6 digits @ replicate (length digits - 10) CHR ''*''
       @ drop (length digits - 4) digits)"

definition TokenPreview :: "gostring \<Rightarrow> gostring" where
  "TokenPreview token = (let t = TrimSpace token in
     if t = '''' then ''''
     else if length t \<le> 12 then t
     else take 8 t @ ''...'' @ drop (length t - 4) t)"

definition Customer_WithoutSensitive :: "CustomerData \<Rightarrow> CustomerData" where
  "Customer_WithoutSensitive c = c\<lparr>Cust_CvvCode := ''''\<rparr>"

definition Customer_Sanitized :: "CustomerData \<Rightarrow> CustomerData" where
  "Customer_Sanitized c =
     Customer_WithoutSensitive (c\<lparr>Cust_CardNumber := MaskCardNumber (Cust_CardNumber c)\<rparr>)"

definition Request_WithoutSensitive :: "CreatePaymentRequest \<Rightarrow> CreatePaymentRequest" where
  "Request_WithoutSensitive r =
     r\<lparr>Req_PaymentInfo := (Req_PaymentInfo r)\<lparr>Info_CustomerData :=
        Customer_WithoutSensitive (Info_CustomerData (Req_PaymentInfo r))\<rparr>\<rparr>"

definition Sanitized :: "PaymentResponse \<Rightarrow> PaymentResponse" where
  "Sanitized r =
     (let info = Resp_PaymentInfo r;
          info' = info\<lparr>RInfo_CustomerData := Customer_Sanitized (RInfo_CustomerData info)\<rparr>;
          td = Resp_TransactionDetails r;
          td' = (if TD_TokenPreview td = '''' then td\<lparr>TD_TokenPreview := TokenPreview (TD_Token td)\<rparr>
                 else td)
      in r\<lparr>Resp_PaymentInfo := info', Resp_TransactionDetails := td'\<lparr>TD_Token := ''''\<rparr>\<rparr>)"

subsection \<open>Facts about masking\<close>

lemma is_digit_ascii: "is_digit n \<Longrightarrow> n < 128"
  by (simp add: is_digit_def)

lemma digitsOnly_filter: "digitsOnly s = filter (\<lambda>c. is_digit (byte c)) s"
proof -
  have "is_ascii (filter (\<lambda>c. is_digit (byte c)) s)"
    by (auto simp: is_ascii_def list_all_iff is_digit_def)
  then show ?thesis
    by (simp add: digitsOnly_def filter_runes_ascii [of is_digit, OF is_digit_ascii]
        encode_runes_ascii)
qed

lemma digitsOnly_simps [simp]:
  "digitsOnly [] = []" "digitsOnly (s @ t) = digitsOnly s @ digitsOnly t"
  "digitsOnly (c # s) = (if is_digit (byte c) then c # digitsOnly s else digitsOnly s)"
  by (simp_all add: digitsOnly_filter)

lemma digitsOnly_id: "\<forall>c\<in>set s. is_digit (byte c) \<Longrightarrow> digitsOnly s = s"
  by (simp add: digitsOnly_filter)

lemma digitsOnly_digits: "c \<in> set (digitsOnly s) \<Longrightarrow> is_digit (byte c)"
  by (simp add: digitsOnly_filter)

lemma digitsOnly_idem [simp]: "digitsOnly (digitsOnly s) = digitsOnly s"
  by (simp add: digitsOnly_filter)

lemma star_no_digit [simp]: "\<not> is_digit (byte CHR ''*'')"
  by code_simp

lemma digitsOnly_stars [simp]: "digitsOnly (replicate n CHR ''*'') = []"
  by (simp add: digitsOnly_filter)

lemma digitsOnly_take_digits [simp]:
  "digitsOnly (take n (digitsOnly s)) = take n (digitsOnly s)"
  "digitsOnly (drop n (digitsOnly s)) = drop n (digitsOnly s)"
  by (rule digitsOnly_id, meson digitsOnly_digits in_set_takeD in_set_dropD)+

lemma digitsOnly_Mask:
  assumes "10 \<le> length (digitsOnly pan)"
  shows "digitsOnly (MaskCardNumber pan)
    = take 6 (digitsOnly pan) @ drop (length (digitsOnly pan) - 4) (digitsOnly pan)"
  using assms by (simp add: MaskCardNumber_def Let_def)

lemma length_Mask [simp]:
  "length (MaskCardNumber pan)
    = (if length (digitsOnly pan) < 10 then 0 else length (digitsOnly pan))"
  by (simp add: MaskCardNumber_def Let_def)

lemma Sanitized_simps [simp]:
  "Cust_CvvCode (RInfo_CustomerData (Resp_PaymentInfo (Sanitized r))) = ''''"
  "Cust_CardNumber (RInfo_CustomerData (Resp_PaymentInfo (Sanitized r)))
     = MaskCardNumber (Cust_CardNumber (RInfo_CustomerData (Resp_PaymentInfo r)))"
  "TD_Token (Resp_TransactionDetails (Sanitized r)) = ''''"
  "Resp_ID (Sanitized r) = Resp_ID r" "Resp_MerchantID (Sanitized r) = Resp_MerchantID r"
  "Resp_IdempotencyKey (Sanitized r) = Resp_IdempotencyKey r"
  "Resp_CurrentStatus (Sanitized r) = Resp_CurrentStatus r"
  "Resp_Error (Sanitized r) = Resp_Error r"
  by (simp_all add: Sanitized_def Customer_Sanitized_def Customer_WithoutSensitive_def Let_def)

lemma Request_WithoutSensitive_simps [simp]:
  "Req_MerchantID (Request_WithoutSensitive r) = Req_MerchantID r"
  "Req_IdempotencyKey (Request_WithoutSensitive r) = Req_IdempotencyKey r"
  "Req_PaymentID (Request_WithoutSensitive r) = Req_PaymentID r"
  "Req_CurrentStatus (Request_WithoutSensitive r) = Req_CurrentStatus r"
  "Info_Amount (Req_PaymentInfo (Request_WithoutSensitive r)) = Info_Amount (Req_PaymentInfo r)"
  "Cust_CvvCode (Info_CustomerData (Req_PaymentInfo (Request_WithoutSensitive r))) = ''''"
  "Cust_CardNumber (Info_CustomerData (Req_PaymentInfo (Request_WithoutSensitive r)))
     = Cust_CardNumber (Info_CustomerData (Req_PaymentInfo r))"
  "Request_WithoutSensitive (Request_WithoutSensitive r) = Request_WithoutSensitive r"
  by (simp_all add: Request_WithoutSensitive_def Customer_WithoutSensitive_def)
subsection \<open>Facts about constants and the catalogue\<close>

lemma status_distinct:
  "distinct [StatusCreated, StatusPending, StatusCaptureRequested, StatusCaptured,
     StatusDeclined, StatusCancelled, StatusFailed]"
  by code_simp

lemma method_distinct:
  "distinct [PaymentMethodSBP, PaymentMethodCard, PaymentMethodDigitalWallet,
     PaymentMethodDigitalRuble]"
  by (simp add: lit koi8_simps)

lemma method_neq [simp]:
  "PaymentMethodSBP \<noteq> PaymentMethodCard" "PaymentMethodSBP \<noteq> PaymentMethodDigitalWallet"
  "PaymentMethodSBP \<noteq> PaymentMethodDigitalRuble"
  "PaymentMethodCard \<noteq> PaymentMethodDigitalWallet"
  "PaymentMethodCard \<noteq> PaymentMethodDigitalRuble"
  "PaymentMethodDigitalWallet \<noteq> PaymentMethodDigitalRuble"
  "PaymentMethodSBP \<noteq> ''''" "PaymentMethodCard \<noteq> ''''"
  "PaymentMethodDigitalWallet \<noteq> ''''" "PaymentMethodDigitalRuble \<noteq> ''''"
  by (simp_all add: lit koi8_simps)

lemmas method_neq_sym [simp] = method_neq [symmetric]

lemma status_neq [simp]:
  "StatusCreated \<noteq> StatusPending" "StatusCreated \<noteq> StatusCaptured"
  "StatusCreated \<noteq> StatusDeclined" "StatusCreated \<noteq> StatusFailed"
  "StatusCreated \<noteq> StatusCancelled" "StatusPending \<noteq> StatusCaptured"
  "StatusPending \<noteq> StatusDeclined" "StatusPending \<noteq> StatusFailed"
  "StatusPending \<noteq> StatusCancelled" "StatusCaptured \<noteq> StatusDeclined"
  "StatusCaptured \<noteq> StatusFailed" "StatusCaptured \<noteq> StatusCancelled"
  "StatusDeclined \<noteq> StatusFailed" "StatusDeclined \<noteq> StatusCancelled"
  "StatusCancelled \<noteq> StatusFailed" "StatusCreated \<noteq> ''''" "StatusPending \<noteq> ''''"
  "StatusCaptured \<noteq> ''''" "StatusDeclined \<noteq> ''''" "StatusFailed \<noteq> ''''"
  "StatusCancelled \<noteq> ''''"
  by (simp_all add: lit)

lemmas status_neq_sym [simp] = status_neq [symmetric]

lemma catalog_codes:
  "map Def_Code gatewayErrorCatalog =
    [ErrorBadRequest, ErrorMethodNotAllowed, ErrorNotFound, ErrorNotImplemented,
     ErrorForbidden, ErrorAuthContextMissing, ErrorAuthentication, ErrorNetworkAccessDenied,
     ErrorHTTPSRequired, ErrorValidation, ErrorStorage, ErrorPaymentStorage,
     ErrorPaymentNotFound, ErrorPaymentNotCaptured, ErrorInvalidStoredResponse,
     ErrorInvalidStoredPayment, ErrorAntifraud, ErrorAntifraudDeclined, ErrorRouting,
     ErrorTokenization, ErrorAdapterFactory, ErrorAdapterFailed, ErrorPaymentDeclined,
     ErrorCallback, ErrorProviderUnavailable, ErrorWebhookSignatureInvalid,
     ErrorWebhookPayloadInvalid, ErrorYooKassaPaymentDeclined, ErrorYooKassaFraudSuspected,
     ErrorDigitalRubleDeclined, ErrorDigitalRubleTechnical, ErrorDigitalRubleQRExpired,
     ErrorDigitalRubleMarkFailed, ErrorDigitalRubleSOAP, ErrorBlockedByProviderFraud,
     ErrorDeclinedByProvider, ErrorRefundStoreUnavailable, ErrorRefundStorage,
     ErrorRefundNotSupported, ErrorRefundNotFound, ErrorRefundFailed,
     ErrorReportStoreUnavailable, ErrorReportStorage, ErrorMerchantScopeMismatch]"
  by (simp add: gatewayErrorCatalog_def)

lemma catalog_upper: "\<forall>d\<in>set gatewayErrorCatalog. upper_name (Def_Code d)"
proof -
  have "list_all upper_name (map Def_Code gatewayErrorCatalog)"
    unfolding catalog_codes by code_simp
  then show ?thesis by (simp add: list_all_iff)
qed

lemma catalog_distinct: "distinct (map Def_Code gatewayErrorCatalog)"
  unfolding catalog_codes by code_simp

lemma find_distinct_key:
  "distinct (map f xs) \<Longrightarrow> x \<in> set xs \<Longrightarrow> List.find (\<lambda>y. f y = f x) xs = Some x"
  by (induction xs) (auto simp: image_iff)

lemma catalog_lookup_set: "GatewayErrorDefinitionByCode c = Some d \<Longrightarrow>
  d \<in> set gatewayErrorCatalog \<and> Def_Code d = ToUpper (TrimSpace c)"
  by (auto simp: GatewayErrorDefinitionByCode_def dest: find_Some_set)

lemma catalog_lookup:
  "d \<in> set gatewayErrorCatalog \<Longrightarrow> ToUpper (TrimSpace c) = Def_Code d \<Longrightarrow>
    GatewayErrorDefinitionByCode c = Some d"
  using find_distinct_key [OF catalog_distinct]
  by (simp add: GatewayErrorDefinitionByCode_def)

lemma catalog_fields:
  "\<forall>d\<in>set gatewayErrorCatalog. Def_Code d \<noteq> '''' \<and> Def_Category d \<noteq> '''' \<and>
     TrimSpace (Def_DefaultMessage d) \<noteq> '''' \<and>
     Def_PaymentStatus d \<in> {'''', StatusFailed, StatusDeclined, StatusCancelled}"
proof -
  have code: "list_all (\<lambda>c. c \<noteq> '''') (map Def_Code gatewayErrorCatalog)"
    unfolding catalog_codes by code_simp
  have cat: "list_all (\<lambda>c. c \<noteq> '''') (map Def_Category gatewayErrorCatalog)"
    by (simp add: gatewayErrorCatalog_def)
  have msg: "list_all (\<lambda>c. TrimSpace c \<noteq> '''') (map Def_DefaultMessage gatewayErrorCatalog)"
    unfolding gatewayErrorCatalog_def list.map GatewayErrorDefinition.simps by code_simp
  have st: "list_all (\<lambda>c. c \<in> {'''', StatusFailed, StatusDeclined, StatusCancelled})
      (map Def_PaymentStatus gatewayErrorCatalog)"
    by (simp add: gatewayErrorCatalog_def)
  show ?thesis using code cat msg st by (simp add: list_all_iff)
qed

subsection \<open>Properties\<close>

text \<open>
  \<open>MaskCardNumber\<close> shows the first six and the last four digits of a card number, at
  their places, and a star for every digit between them; characters that are not digits are
  dropped. A text with fewer than ten digits gives the empty mask.
\<close>

theorem MaskCardNumber_shape:
  "MaskCardNumber pan = (let ds = digitsOnly pan; n = length ds in
     if n < 10 then []
     else map (\<lambda>i. if i < 6 \<or> n \<le> i + 4 then ds ! i else CHR 0x2A) [0..<n])"
proof (cases "length (digitsOnly pan) < 10")
  case True
  then show ?thesis by (simp add: MaskCardNumber_def Let_def)
next
  case False
  let ?ds = "digitsOnly pan"
  have "MaskCardNumber pan = map (\<lambda>i. if i < 6 \<or> length ?ds \<le> i + 4 then ?ds ! i else CHR 0x2A)
    [0..<length ?ds]" (is "?l = ?r")
  proof (rule nth_equalityI)
    show "length ?l = length ?r" using False by simp
    fix i assume "i < length ?l"
    then have i: "i < length ?ds" using False by simp
    have m: "MaskCardNumber pan = take 6 ?ds @ replicate (length ?ds - 10) CHR 0x2A
        @ drop (length ?ds - 4) ?ds"
      using False by (simp add: MaskCardNumber_def Let_def)
    have l6: "length (take 6 ?ds) = 6" using False by simp
    consider "i < 6" | "6 \<le> i" "i < length ?ds - 4" | "6 \<le> i" "length ?ds - 4 \<le> i" by linarith
    then show "?l ! i = ?r ! i"
    proof cases
      case 1
      then show ?thesis using i unfolding m by (simp add: nth_append l6)
    next
      case 2
      then have "i - 6 < length ?ds - 10" "\<not> length ?ds \<le> i + 4" by auto
      then show ?thesis using i 2 unfolding m by (simp add: nth_append l6)
    next
      case 3
      then have "\<not> i - 6 < length ?ds - 10" "length ?ds \<le> i + 4"
        "length ?ds - 4 + (i - 6 - (length ?ds - 10)) = i" using False i by auto
      then show ?thesis using i 3 unfolding m by (simp add: nth_append l6 nth_drop)
    qed
  qed
  with False show ?thesis by (simp add: Let_def)
qed

text \<open>
  Masking is not idempotent. A card number that was already masked loses its stars when
  it is masked again: what is left are the first six and the last four digits side by side,
  a text of ten digits that looks like a shorter number.
\<close>

theorem MaskCardNumber_twice:
  assumes "10 < length (digitsOnly pan)"
  shows "MaskCardNumber (MaskCardNumber pan)
      = take 6 (digitsOnly pan) @ drop (length (digitsOnly pan) - 4) (digitsOnly pan)
    \<and> MaskCardNumber (MaskCardNumber pan) \<noteq> MaskCardNumber pan"
proof -
  let ?ds = "digitsOnly pan"
  have ten: "10 \<le> length ?ds" using assms by simp
  have lens: "length (take 6 ?ds) = 6" "length (drop (length ?ds - 4) ?ds) = 4" using assms by auto
  then have eq: "MaskCardNumber (MaskCardNumber pan) = take 6 ?ds @ drop (length ?ds - 4) ?ds"
    by (simp add: MaskCardNumber_def [of "MaskCardNumber pan"] digitsOnly_Mask [OF ten] Let_def)
  have "length (MaskCardNumber (MaskCardNumber pan)) = 10" unfolding eq using lens by simp
  then have "MaskCardNumber (MaskCardNumber pan) \<noteq> MaskCardNumber pan" using assms
    by (metis length_Mask less_not_refl not_less_iff_gr_or_eq)
  with eq show ?thesis ..
qed

theorem MaskCardNumber_twice_witness:
  "MaskCardNumber (MaskCardNumber ''4111111111111111'') = ''4111111111''"
  using MaskCardNumber_twice [of "''4111111111111111''"] by (simp add: digitsOnly_filter byte_def is_digit_def)

text \<open>Two texts with the same first \<open>m\<close> and last \<open>n\<close> bytes.\<close>

definition same_ends :: "nat \<Rightarrow> nat \<Rightarrow> gostring \<Rightarrow> gostring \<Rightarrow> bool" where
  "same_ends m n s t = (take m s = take m t \<and> drop (length s - n) s = drop (length t - n) t)"

lemma MaskCardNumber_same_ends:
  "length (digitsOnly s) = length (digitsOnly t) \<Longrightarrow> same_ends 6 4 (digitsOnly s) (digitsOnly t) \<Longrightarrow>
    MaskCardNumber s = MaskCardNumber t"
  by (simp add: MaskCardNumber_def same_ends_def Let_def)

lemma TokenPreview_same_ends:
  "12 < length (TrimSpace s) \<Longrightarrow> 12 < length (TrimSpace t) \<Longrightarrow>
    same_ends 8 4 (TrimSpace s) (TrimSpace t) \<Longrightarrow> TokenPreview s = TokenPreview t"
  by (auto simp: TokenPreview_def same_ends_def Let_def)

text \<open>
  C18: What a sanitised response still tells. Two responses that agree but for the CVV code, the
  digits of the card number between the first six and the last four, and the bytes of a token of
  more than twelve bytes between the first eight and the last four (its length included), are
  sanitised to the same value. It holds no CVV code and no token, at most ten digits of the card
  number, and of a long token fifteen bytes, unless the response came with a preview of its own.
\<close>

theorem Sanitized_hides:
  fixes r :: PaymentResponse
  defines "c \<equiv> RInfo_CustomerData (Resp_PaymentInfo r)"
    and "td \<equiv> Resp_TransactionDetails r"
  assumes pan: "length (digitsOnly pan) = length (digitsOnly (Cust_CardNumber c))"
      "same_ends 6 4 (digitsOnly pan) (digitsOnly (Cust_CardNumber c))"
    and token: "12 < length (TrimSpace token)" "12 < length (TrimSpace (TD_Token td))"
      "same_ends 8 4 (TrimSpace token) (TrimSpace (TD_Token td))"
  shows "Sanitized (r\<lparr>Resp_PaymentInfo := (Resp_PaymentInfo r)\<lparr>RInfo_CustomerData :=
             c\<lparr>Cust_CvvCode := cvv, Cust_CardNumber := pan\<rparr>\<rparr>,
           Resp_TransactionDetails := td\<lparr>TD_Token := token\<rparr>\<rparr>) = Sanitized r
    \<and> Cust_CvvCode (RInfo_CustomerData (Resp_PaymentInfo (Sanitized r))) = ''''
    \<and> TD_Token (Resp_TransactionDetails (Sanitized r)) = ''''
    \<and> length (digitsOnly (Cust_CardNumber (RInfo_CustomerData (Resp_PaymentInfo (Sanitized r))))) \<le> 10
    \<and> (TD_TokenPreview td = '''' \<longrightarrow> length (TD_TokenPreview (Resp_TransactionDetails (Sanitized r))) = 15)"
proof (intro conjI impI)
  show "Sanitized (r\<lparr>Resp_PaymentInfo := (Resp_PaymentInfo r)\<lparr>RInfo_CustomerData :=
             c\<lparr>Cust_CvvCode := cvv, Cust_CardNumber := pan\<rparr>\<rparr>,
           Resp_TransactionDetails := td\<lparr>TD_Token := token\<rparr>\<rparr>) = Sanitized r"
    using MaskCardNumber_same_ends [OF pan] TokenPreview_same_ends [OF token]
    by (simp add: c_def td_def Sanitized_def Customer_Sanitized_def Customer_WithoutSensitive_def Let_def)
  let ?card = "Cust_CardNumber c"
  show "length (digitsOnly (Cust_CardNumber (RInfo_CustomerData (Resp_PaymentInfo (Sanitized r))))) \<le> 10"
    using digitsOnly_Mask [of ?card]
    by (cases "length (digitsOnly ?card) < 10") (simp_all add: c_def MaskCardNumber_def Let_def)
  show "length (TD_TokenPreview (Resp_TransactionDetails (Sanitized r))) = 15" if "TD_TokenPreview td = ''''"
    using that token(2) by (auto simp: td_def Sanitized_def TokenPreview_def Let_def)
qed simp_all

definition card_response :: PaymentResponse where
  "card_response = zero_response\<lparr>Resp_PaymentInfo := (Resp_PaymentInfo zero_response)
       \<lparr>RInfo_CustomerData := zero_customer\<lparr>Cust_CvvCode := ''123'', Cust_CardNumber := ''4111 1111 1111 1111''\<rparr>\<rparr>,
     Resp_TransactionDetails := zero_details\<lparr>TD_Token := ''tok_0123456789''\<rparr>\<rparr>"

text \<open>Another code, six other digits and a longer token with the same ends.\<close>

theorem Sanitized_hides_witness:
  "Sanitized (card_response\<lparr>Resp_PaymentInfo := (Resp_PaymentInfo card_response)
       \<lparr>RInfo_CustomerData := zero_customer\<lparr>Cust_CvvCode := ''9876'', Cust_CardNumber := ''4111112345671111''\<rparr>\<rparr>,
     Resp_TransactionDetails := zero_details\<lparr>TD_Token := ''tok_0123xxxx6789''\<rparr>\<rparr>) = Sanitized card_response"
proof -
  have trims: "TrimSpace ''tok_0123456789'' = ''tok_0123456789''" "TrimSpace ''tok_0123xxxx6789'' = ''tok_0123xxxx6789''"
    by (simp_all add: go_eval)
  have digits: "digitsOnly ''4111 1111 1111 1111'' = ''4111111111111111''"
    "digitsOnly ''4111112345671111'' = ''4111112345671111''"
    by (simp_all add: digitsOnly_filter byte_def is_digit_def)
  let ?c = "RInfo_CustomerData (Resp_PaymentInfo card_response)" and ?td = "Resp_TransactionDetails card_response"
  have c: "Cust_CardNumber ?c = ''4111 1111 1111 1111''" "TD_Token ?td = ''tok_0123456789''"
    and upd: "?c\<lparr>Cust_CvvCode := cvv, Cust_CardNumber := pan\<rparr> = zero_customer\<lparr>Cust_CvvCode := cvv, Cust_CardNumber := pan\<rparr>"
      "?td\<lparr>TD_Token := t\<rparr> = zero_details\<lparr>TD_Token := t\<rparr>" for cvv pan t
    by (simp_all add: card_response_def)
  have ends: "same_ends 6 4 ''4111112345671111'' ''4111111111111111''"
    "same_ends 8 4 ''tok_0123xxxx6789'' ''tok_0123456789''" by (simp_all add: same_ends_def)
  have lens: "length ''4111112345671111'' = length ''4111111111111111''" "12 < length ''tok_0123xxxx6789''"
    "12 < length ''tok_0123456789''" by simp_all
  note hides = Sanitized_hides [of "''4111112345671111''" card_response "''tok_0123xxxx6789''" "''9876''",
      unfolded c trims digits upd]
  from hides [OF lens(1) ends(1) lens(2,3) ends(2)] show ?thesis by (rule conjunct1)
qed

text \<open>
  \<open>TokenPreview\<close> shows at most eight leading and four trailing bytes of a long token:
  two trimmed tokens of more than twelve bytes that agree there have the same preview of
  fifteen bytes.
\<close>

theorem TokenPreview_bounds:
  assumes "12 < length (TrimSpace t)" "12 < length (TrimSpace u)"
    and "take 8 (TrimSpace t) = take 8 (TrimSpace u)"
    and "drop (length (TrimSpace t) - 4) (TrimSpace t) = drop (length (TrimSpace u) - 4) (TrimSpace u)"
  shows "TokenPreview t = TokenPreview u \<and> length (TokenPreview t) = 15"
  using assms by (auto simp: TokenPreview_def Let_def)

theorem TokenPreview_bounds_witness:
  "TokenPreview ''tok_0123456789'' = TokenPreview ''tok_0123xx6789''"
proof -
  have "TrimSpace ''tok_0123456789'' = ''tok_0123456789''"
    "TrimSpace ''tok_0123xx6789'' = ''tok_0123xx6789''" by (simp_all add: go_eval)
  with TokenPreview_bounds [of "''tok_0123456789''" "''tok_0123xx6789''"] show ?thesis by simp
qed

text \<open>
  The error catalogue is a table: its codes are distinct, every entry has a code, a
  category and a default message and at most one of the final payment statuses, and a
  lookup finds each entry under its code however the code is padded or capitalised, and
  nothing else.
\<close>

theorem error_catalog_table:
  "distinct (map Def_Code gatewayErrorCatalog) \<and>
   (\<forall>d\<in>set gatewayErrorCatalog. Def_Category d \<noteq> [] \<and> Def_DefaultMessage d \<noteq> [] \<and>
      Def_PaymentStatus d \<in> {[], StatusFailed, StatusDeclined, StatusCancelled} \<and>
      GatewayErrorDefinitionByCode (Def_Code d) = Some d) \<and>
   (GatewayErrorDefinitionByCode code = Some e
      \<longleftrightarrow> e \<in> set gatewayErrorCatalog \<and> Def_Code e = ToUpper (TrimSpace code))"
proof (intro conjI ballI)
  show "distinct (map Def_Code gatewayErrorCatalog)" by (rule catalog_distinct)
  fix d assume d: "d \<in> set gatewayErrorCatalog"
  with catalog_fields show "Def_Category d \<noteq> []" by blast
  from d catalog_fields show "Def_DefaultMessage d \<noteq> []" by (metis TrimSpace_Nil)
  from d catalog_fields
  show "Def_PaymentStatus d \<in> {[], StatusFailed, StatusDeclined, StatusCancelled}" by blast
  from d catalog_upper have "upper_name (Def_Code d)" by blast
  with d show "GatewayErrorDefinitionByCode (Def_Code d) = Some d"
    by (simp add: catalog_lookup upper_name_norm)
next
  show "GatewayErrorDefinitionByCode code = Some e
      \<longleftrightarrow> e \<in> set gatewayErrorCatalog \<and> Def_Code e = ToUpper (TrimSpace code)"
    using catalog_lookup catalog_lookup_set by metis
qed

theorem error_catalog_table_witness:
  "GatewayErrorDefinitionByCode ErrorRouting = Some (gatewayErrorCatalog ! 18)"
proof -
  have "gatewayErrorCatalog ! 18 \<in> set gatewayErrorCatalog"
    "Def_Code (gatewayErrorCatalog ! 18) = ErrorRouting"
    by (simp_all add: gatewayErrorCatalog_def)
  moreover have "upper_name ErrorRouting" by (simp add: upper_name_def lit)
  ultimately show ?thesis
    using error_catalog_table [of ErrorRouting "gatewayErrorCatalog ! 18"]
    by (simp add: upper_name_norm)
qed

text \<open>
  \<open>NewGatewayError\<close> with a code of the catalogue never yields an empty message: a blank
  message becomes the default one and any other message is kept trimmed.
\<close>

theorem NewGatewayError_message:
  assumes "GatewayErrorDefinitionByCode code = Some d"
  shows "Err_Code (NewGatewayError code message) = Def_Code d
    \<and> Err_Message (NewGatewayError code message) \<noteq> ''''
    \<and> Err_Message (NewGatewayError code message)
        = (if TrimSpace message = '''' then Def_DefaultMessage d else TrimSpace message)"
proof -
  from catalog_lookup_set [OF assms] have d: "d \<in> set gatewayErrorCatalog"
    "Def_Code d = ToUpper (TrimSpace code)" by auto
  then have "GatewayErrorDefinitionByCode (ToUpper (TrimSpace code)) = Some d"
    using catalog_upper upper_name_norm catalog_lookup by metis
  moreover have "Def_DefaultMessage d \<noteq> ''''" using catalog_fields d(1) by (metis TrimSpace_Nil)
  ultimately show ?thesis using d by (simp add: NewGatewayError_def Let_def)
qed

theorem NewGatewayError_message_witness:
  "Err_Message (NewGatewayError '' routing_error '' '' '') = ''payment routing failed''"
proof -
  let ?d = "gatewayErrorCatalog ! 18"
  have norm: "ToUpper (TrimSpace '' routing_error '') = ErrorRouting" by (simp add: lit go_eval)
  have d: "?d \<in> set gatewayErrorCatalog" "Def_Code ?d = ErrorRouting"
    "Def_DefaultMessage ?d = ''payment routing failed''"
    by (simp_all add: gatewayErrorCatalog_def)
  have "GatewayErrorDefinitionByCode '' routing_error '' = Some ?d"
    by (rule catalog_lookup) (simp_all only: d norm)
  from NewGatewayError_message [OF this, of "'' ''"] d(3) show ?thesis
    by (simp add: go_eval)
qed

text \<open>
  \<open>NormalizeRefundStatus\<close> maps every provider status to one of the three refund
  statuses and leaves those three as they are.
\<close>

theorem NormalizeRefundStatus_range:
  "NormalizeRefundStatus s \<in> {RefundStatusProcess, RefundStatusSuccess, RefundStatusFail}
   \<and> NormalizeRefundStatus (NormalizeRefundStatus s) = NormalizeRefundStatus s"
proof -
  have range: "NormalizeRefundStatus t \<in> {RefundStatusProcess, RefundStatusSuccess, RefundStatusFail}"
    for t by (simp add: NormalizeRefundStatus_def Let_def)
  have "NormalizeRefundStatus RefundStatusProcess = RefundStatusProcess"
    "NormalizeRefundStatus RefundStatusSuccess = RefundStatusSuccess"
    "NormalizeRefundStatus RefundStatusFail = RefundStatusFail"
    by (simp_all add: NormalizeRefundStatus_def lit go_eval)
  with range [of s] show ?thesis by (metis insertE singletonD)
qed

end
