(* ===== verification/Validator.thy ===== *)
theory Validator
  imports Dto
begin

section \<open>Payment data validator (\<open>internal/subsystems/validator\<close>)\<close>

text \<open>
  \<open>Validate\<close> normalises a request, checks the struct tags of \<open>createPaymentValidationModel\<close>,
  then the fields the payment method needs, and strips the CVV code in every case.

  The tags are checked by \<open>github.com/go-playground/validator\<close>, which is not part of the
  repository: the tags it defines itself are the fields of a parameter of type \<open>playground\<close>,
  and \<open>documented_tags\<close> states what its documentation says of them (\<open>required\<close>: not the zero
  value, \<open>min\<close>/\<open>max\<close>: the number of runes, \<open>gt\<close>/\<open>lte\<close>: the comparison; nothing is said of
  \<open>email\<close>). The walk over the fields is the documented one: fields in order, nested structs
  in place, \<open>omitempty\<close> skips a zero value, the first failing tag of a field is its error.
  The tags the repository registers (\<open>NewPaymentDataValidator\<close>) are \<open>validate...\<close> below, and
  the structs \<open>toValidationModel\<close> fills are records of the same names.
\<close>

subsection \<open>Normalisation\<close>

definition onlyDigits :: "gostring \<Rightarrow> gostring" where
  "onlyDigits value = encode_runes (filter is_digit (runes value))"

definition normalizePhone :: "gostring \<Rightarrow> gostring" where
  "normalizePhone phone =
     (let p = TrimSpace phone;
          p = ReplaceAll p CHR '' '' '''';
          p = ReplaceAll p CHR ''-'' '''';
          p = ReplaceAll p CHR ''('' '''';
          p = ReplaceAll p CHR '')'' ''''
      in p)"

definition normalizeCustomer :: "CustomerData \<Rightarrow> CustomerData" where
  "normalizeCustomer c = c\<lparr>
     Cust_Email := ToLower (TrimSpace (Cust_Email c)),
     Cust_Phone := normalizePhone (Cust_Phone c),
     Cust_CardNumber := onlyDigits (Cust_CardNumber c),
     Cust_CardDate := TrimSpace (Cust_CardDate c),
     Cust_CvvCode := TrimSpace (Cust_CvvCode c),
     Cust_DigitalWalletID := TrimSpace (Cust_DigitalWalletID c),
     Cust_DigitalRubleWalletID := TrimSpace (Cust_DigitalRubleWalletID c),
     Cust_DigitalRubleAccount := TrimSpace (Cust_DigitalRubleAccount c),
     Cust_DigitalRubleIdentifier := TrimSpace (Cust_DigitalRubleIdentifier c)\<rparr>"

definition normalizeItem :: "PaymentItem \<Rightarrow> PaymentItem" where
  "normalizeItem i = i\<lparr>
     Item_Name := TrimSpace (Item_Name i),
     Item_Category := ToLower (TrimSpace (Item_Category i)),
     Item_VATTag := TrimSpace (Item_VATTag i),
     Item_PaymentMethod := TrimSpace (Item_PaymentMethod i),
     Item_PaymentObject := TrimSpace (Item_PaymentObject i),
     Item_IDInternal := TrimSpace (Item_IDInternal i)\<rparr>"

definition normalizeInfo :: "PaymentInfo \<Rightarrow> PaymentInfo" where
  "normalizeInfo p = p\<lparr>
     Info_Amount := (Info_Amount p)\<lparr>Amount_Currency :=
       ToUpper (TrimSpace (Amount_Currency (Info_Amount p)))\<rparr>,
     Info_PaymentMethodData := (Info_PaymentMethodData p)\<lparr>Method_Type :=
       TrimSpace (Method_Type (Info_PaymentMethodData p))\<rparr>,
     Info_CustomerData := normalizeCustomer (Info_CustomerData p),
     Info_Items := map normalizeItem (Info_Items p),
     Info_DigitalRubleData := (Info_DigitalRubleData p)\<lparr>DR_SmartContractID :=
       TrimSpace (DR_SmartContractID (Info_DigitalRubleData p))\<rparr>,
     Info_Description := TrimSpace (Info_Description p)\<rparr>"

text \<open>
  The loop over the items writes into the slice the caller holds too, so the caller's
  request has normalised items afterwards (\<open>share_items\<close>).
\<close>

definition normalizeRequest :: "CreatePaymentRequest \<Rightarrow> CreatePaymentRequest" where
  "normalizeRequest r = r\<lparr>
     Req_MerchantID := TrimSpace (Req_MerchantID r),
     Req_IdempotencyKey := TrimSpace (Req_IdempotencyKey r),
     Req_PaymentID := TrimSpace (Req_PaymentID r),
     Req_CurrentStatus := TrimSpace (Req_CurrentStatus r),
     Req_PaymentInfo := normalizeInfo (Req_PaymentInfo r)\<rparr>"

definition share_items :: "CreatePaymentRequest \<Rightarrow> CreatePaymentRequest" where
  "share_items r = r\<lparr>Req_PaymentInfo := (Req_PaymentInfo r)\<lparr>Info_Items :=
     map normalizeItem (Info_Items (Req_PaymentInfo r))\<rparr>\<rparr>"

subsection \<open>The registered tags\<close>

definition is_letter :: "nat \<Rightarrow> bool" where
  "is_letter n = ((65 \<le> n \<and> n \<le> 90) \<or> (97 \<le> n \<and> n \<le> 122))"

text \<open>\<open>^[class]{lo,hi}$\<close> for a class of ASCII characters.\<close>

definition matches :: "(nat \<Rightarrow> bool) \<Rightarrow> nat \<Rightarrow> nat \<Rightarrow> gostring \<Rightarrow> bool" where
  "matches P lo hi s = (lo \<le> length s \<and> length s \<le> hi \<and> list_all (\<lambda>c. P (byte c)) s)"

definition phoneRegexp :: "gostring \<Rightarrow> bool" where
  "phoneRegexp s = (HasPrefix s ''+7'' \<and> matches is_digit 10 10 (drop 2 s))"

definition cardDateRegexp :: "gostring \<Rightarrow> bool" where
  "cardDateRegexp s = (case s of
     [a, b, sep, c, d] \<Rightarrow>
       (a = CHR ''0'' \<and> is_digit (byte b) \<and> b \<noteq> CHR ''0'' \<or> a = CHR ''1'' \<and> b \<in> set ''012'')
       \<and> sep = CHR ''/'' \<and> is_digit (byte c) \<and> is_digit (byte d)
   | _ \<Rightarrow> False)"

definition cardDigitsRegexp :: "gostring \<Rightarrow> bool" where
  "cardDigitsRegexp = matches is_digit 13 19"

definition cvvRegexp :: "gostring \<Rightarrow> bool" where
  "cvvRegexp = matches is_digit 3 4"

definition walletIDRegexp :: "gostring \<Rightarrow> bool" where
  "walletIDRegexp = matches (\<lambda>n. is_letter n \<or> is_digit n \<or> n = 95 \<or> n = 45) 3 64"

definition drIdentifierRegexp :: "gostring \<Rightarrow> bool" where
  "drIdentifierRegexp =
     matches (\<lambda>n. is_letter n \<or> is_digit n \<or> n = 95 \<or> n = 46 \<or> n = 58 \<or> n = 45) 3 70"

definition drAccountRegexp :: "gostring \<Rightarrow> bool" where
  "drAccountRegexp = matches (\<lambda>n. is_letter n \<or> is_digit n) 1 34"

text \<open>The loop of \<open>luhnValid\<close> from the last byte to the first; the digit is a byte
  difference, so it wraps modulo 256.\<close>

fun luhn_loop :: "gostring \<Rightarrow> bool \<Rightarrow> int \<Rightarrow> int" where
  "luhn_loop [] dbl s = s"
| "luhn_loop (c # cs) dbl s =
     (let digit = int ((byte c + 208) mod 256);
          digit = (if dbl then (if 2 * digit > 9 then 2 * digit - 9 else 2 * digit) else digit)
      in luhn_loop cs (\<not> dbl) (s + digit))"

definition luhnValid :: "gostring \<Rightarrow> bool" where
  "luhnValid number = (luhn_loop (rev number) False 0 mod 10 = 0)"

definition atoi :: "gostring \<Rightarrow> int" where
  "atoi value = foldl (\<lambda>result r. result * 10 + (int r - 48)) 0 (runes value)"

definition validatePaymentMethod :: "gostring \<Rightarrow> bool" where
  "validatePaymentMethod s = (s \<in> {PaymentMethodSBP, PaymentMethodCard,
     PaymentMethodDigitalWallet, PaymentMethodDigitalRuble})"

definition validateCurrency :: "gostring \<Rightarrow> bool" where
  "validateCurrency s = (s = ''RUB'')"

definition validateCardNumber :: "gostring \<Rightarrow> bool" where
  "validateCardNumber s = (cardDigitsRegexp s \<and> luhnValid s)"

definition validateCardExpiration :: "gotime \<Rightarrow> gostring \<Rightarrow> bool" where
  "validateCardExpiration now value =
     (if \<not> cardDateRegexp value then False
      else let parts = Split CHR ''/'' value;
               month = atoi (parts ! 0);
               year = 2000 + atoi (parts ! 1);
               expiration = Date year (month + 1) 1 - Nanosecond
           in now < expiration)"

definition validatePaymentStatus :: "gostring \<Rightarrow> bool" where
  "validatePaymentStatus s = IsValidPaymentStatus s"

definition validatePhoneRU :: "gostring \<Rightarrow> bool" where
  "validatePhoneRU s = phoneRegexp s"

definition validateCVV :: "gostring \<Rightarrow> bool" where
  "validateCVV s = cvvRegexp s"

definition validateWalletID :: "gostring \<Rightarrow> bool" where
  "validateWalletID s = walletIDRegexp s"

definition validateDigitalRubleIdentifier :: "gostring \<Rightarrow> bool" where
  "validateDigitalRubleIdentifier s = drIdentifierRegexp s"

definition validateDigitalRubleAccount :: "gostring \<Rightarrow> bool" where
  "validateDigitalRubleAccount s = drAccountRegexp s"

text \<open>
  The tags \<open>NewPaymentDataValidator\<close> registers with the library, at a time \<open>now\<close>. The library
  panics on a tag it does not know; every tag of the validation model is in the table.
\<close>

definition NewPaymentDataValidator :: "gotime \<Rightarrow> (gostring \<times> (gostring \<Rightarrow> bool)) list" where
  "NewPaymentDataValidator now = [
     (''payment_method'', validatePaymentMethod),
     (''currency'', validateCurrency),
     (''phone_ru'', validatePhoneRU),
     (''card_number'', validateCardNumber),
     (''card_exp'', validateCardExpiration now),
     (''cvv'', validateCVV),
     (''wallet_id'', validateWalletID),
     (''digital_ruble_identifier'', validateDigitalRubleIdentifier),
     (''digital_ruble_account'', validateDigitalRubleAccount),
     (''payment_status'', validatePaymentStatus)]"

subsection \<open>The validation model\<close>

record amountValidationModel =
  VA_Value :: f64
  VA_Currency :: gostring

record paymentMethodDataValidationModel =
  VT_Type :: gostring

record customerDataValidationModel =
  VC_Email :: gostring
  VC_Phone :: gostring
  VC_CardNumber :: gostring
  VC_CardDate :: gostring
  VC_CvvCode :: gostring
  VC_DigitalWalletID :: gostring
  VC_DigitalRubleWalletID :: gostring
  VC_DigitalRubleAccount :: gostring
  VC_DigitalRubleIdentifier :: gostring

record paymentItemValidationModel =
  VI_Name :: gostring
  VI_Price :: f64
  VI_Quantity :: f64
  VI_Category :: gostring
  VI_VATTag :: gostring
  VI_PaymentMethod :: gostring
  VI_PaymentObject :: gostring
  VI_IDInternal :: gostring

record digitalRubleDataValidationModel =
  VD_SmartContractID :: gostring

record paymentInfoValidationModel =
  VP_Amount :: amountValidationModel
  VP_PaymentMethodData :: paymentMethodDataValidationModel
  VP_CustomerData :: customerDataValidationModel
  VP_Items :: "paymentItemValidationModel list"
  VP_DigitalRubleData :: digitalRubleDataValidationModel
  VP_CreatedAt :: gotime
  VP_Description :: gostring

record createPaymentValidationModel =
  VM_MerchantID :: gostring
  VM_IdempotencyKey :: gostring
  VM_PaymentID :: gostring
  VM_CurrentStatus :: gostring
  VM_PaymentInfo :: paymentInfoValidationModel

definition toPaymentItemValidationModels :: "PaymentItem list \<Rightarrow> paymentItemValidationModel list" where
  "toPaymentItemValidationModels items = map (\<lambda>item.
     \<lparr>VI_Name = Item_Name item, VI_Price = Item_Price item, VI_Quantity = Item_Quantity item,
      VI_Category = Item_Category item, VI_VATTag = Item_VATTag item,
      VI_PaymentMethod = Item_PaymentMethod item, VI_PaymentObject = Item_PaymentObject item,
      VI_IDInternal = Item_IDInternal item\<rparr>) items"

definition customer_model :: "CustomerData \<Rightarrow> customerDataValidationModel" where
  "customer_model c =
     \<lparr>VC_Email = Cust_Email c, VC_Phone = Cust_Phone c, VC_CardNumber = Cust_CardNumber c,
      VC_CardDate = Cust_CardDate c, VC_CvvCode = Cust_CvvCode c,
      VC_DigitalWalletID = Cust_DigitalWalletID c,
      VC_DigitalRubleWalletID = Cust_DigitalRubleWalletID c,
      VC_DigitalRubleAccount = Cust_DigitalRubleAccount c,
      VC_DigitalRubleIdentifier = Cust_DigitalRubleIdentifier c\<rparr>"

definition toValidationModel :: "CreatePaymentRequest \<Rightarrow> createPaymentValidationModel" where
  "toValidationModel req = (let p = Req_PaymentInfo req in
     \<lparr>VM_MerchantID = Req_MerchantID req, VM_IdempotencyKey = Req_IdempotencyKey req,
      VM_PaymentID = Req_PaymentID req, VM_CurrentStatus = Req_CurrentStatus req,
      VM_PaymentInfo =
        \<lparr>VP_Amount = \<lparr>VA_Value = Amount_Value (Info_Amount p),
           VA_Currency = Amount_Currency (Info_Amount p)\<rparr>,
         VP_PaymentMethodData = \<lparr>VT_Type = Method_Type (Info_PaymentMethodData p)\<rparr>,
         VP_CustomerData = customer_model (Info_CustomerData p),
         VP_Items = toPaymentItemValidationModels (Info_Items p),
         VP_DigitalRubleData =
           \<lparr>VD_SmartContractID = DR_SmartContractID (Info_DigitalRubleData p)\<rparr>,
         VP_CreatedAt = Info_CreatedAt p, VP_Description = Info_Description p\<rparr>\<rparr>)"

subsection \<open>The walk over the validation model\<close>

record playground =
  PG_required_string :: "gostring \<Rightarrow> bool"
  PG_required_float :: "f64 \<Rightarrow> bool"
  PG_required_time :: "gotime \<Rightarrow> bool"
  PG_min :: "nat \<Rightarrow> gostring \<Rightarrow> bool"
  PG_max :: "nat \<Rightarrow> gostring \<Rightarrow> bool"
  PG_gt :: "f64 \<Rightarrow> f64 \<Rightarrow> bool"
  PG_lte :: "f64 \<Rightarrow> f64 \<Rightarrow> bool"
  PG_email :: "gostring \<Rightarrow> bool"

definition documented_tags :: "playground \<Rightarrow> bool" where
  "documented_tags pg =
     ((\<forall>s. PG_required_string pg s = (s \<noteq> ''''))
      \<and> (\<forall>x. PG_required_float pg x = (x \<noteq> Fin 0))
      \<and> (\<forall>t. PG_required_time pg t = (\<not> IsZero t))
      \<and> (\<forall>n s. PG_min pg n s = (n \<le> rune_count s))
      \<and> (\<forall>n s. PG_max pg n s = (rune_count s \<le> n))
      \<and> (\<forall>p x. PG_gt pg p x = (p < x))
      \<and> (\<forall>p x. PG_lte pg p x = (x \<le> p)))"

text \<open>The library as documented, with a given \<open>email\<close> check.\<close>

definition documented_playground :: "(gostring \<Rightarrow> bool) \<Rightarrow> playground" where
  "documented_playground email = \<lparr>PG_required_string = (\<lambda>s. s \<noteq> ''''),
     PG_required_float = (\<lambda>x. x \<noteq> Fin 0), PG_required_time = (\<lambda>t. \<not> IsZero t),
     PG_min = (\<lambda>n s. n \<le> rune_count s), PG_max = (\<lambda>n s. rune_count s \<le> n),
     PG_gt = (\<lambda>p x. p < x), PG_lte = (\<lambda>p x. x \<le> p), PG_email = email\<rparr>"

lemma documented_playground [simp]: "documented_tags (documented_playground email)"
  by (simp add: documented_tags_def documented_playground_def)

record FieldError =
  FE_Namespace :: gostring
  FE_Tag :: gostring
  FE_Param :: gostring

text \<open>A tag with its parameter and the outcome of its check on the value of the field.\<close>

type_synonym tag_check = "gostring \<times> gostring \<times> bool"

definition field_errors :: "gostring \<Rightarrow> tag_check list \<Rightarrow> FieldError list" where
  "field_errors ns tags = (case List.find (\<lambda>(_, _, ok). \<not> ok) tags of
     None \<Rightarrow> []
   | Some (tag, par, _) \<Rightarrow> [\<lparr>FE_Namespace = ns, FE_Tag = tag, FE_Param = par\<rparr>])"

definition omitempty_errors :: "gostring \<Rightarrow> gostring \<Rightarrow> tag_check list \<Rightarrow> FieldError list" where
  "omitempty_errors ns s tags = (if s = '''' then [] else field_errors ns tags)"

definition required_text :: "playground \<Rightarrow> gostring \<Rightarrow> tag_check" where
  "required_text pg s = (''required'', '''', PG_required_string pg s)"

definition min_text :: "playground \<Rightarrow> nat \<Rightarrow> gostring \<Rightarrow> tag_check" where
  "min_text pg n s = (''min'', nat_digits n, PG_min pg n s)"

definition max_text :: "playground \<Rightarrow> nat \<Rightarrow> gostring \<Rightarrow> tag_check" where
  "max_text pg n s = (''max'', nat_digits n, PG_max pg n s)"

definition amount_tags :: "playground \<Rightarrow> nat \<Rightarrow> f64 \<Rightarrow> tag_check list" where
  "amount_tags pg hi x = [(''required'', '''', PG_required_float pg x),
     (''gt'', ''0'', PG_gt pg (Fin 0) x),
     (''lte'', nat_digits hi, PG_lte pg (Fin (of_nat hi)) x)]"

text \<open>A tag of the repository on the value of a field.\<close>

definition custom_tag :: "gotime \<Rightarrow> gostring \<Rightarrow> gostring \<Rightarrow> tag_check" where
  "custom_tag now tag s = (tag, '''', (case map_of (NewPaymentDataValidator now) tag of
     Some f \<Rightarrow> f s | None \<Rightarrow> False))"

definition amount_errors :: "playground \<Rightarrow> gotime \<Rightarrow> gostring \<Rightarrow> amountValidationModel \<Rightarrow> FieldError list" where
  "amount_errors pg now ns a =
     field_errors (ns @ ''.Value'') (amount_tags pg 1000000 (VA_Value a)) @
     field_errors (ns @ ''.Currency'')
       [required_text pg (VA_Currency a),
        custom_tag now ''currency'' (VA_Currency a)]"

definition customer_errors :: "playground \<Rightarrow> gotime \<Rightarrow> gostring \<Rightarrow> customerDataValidationModel \<Rightarrow> FieldError list" where
  "customer_errors pg now ns c =
     omitempty_errors (ns @ ''.Email'') (VC_Email c)
       [(''email'', '''', PG_email pg (VC_Email c)), max_text pg 254 (VC_Email c)] @
     omitempty_errors (ns @ ''.Phone'') (VC_Phone c)
       [custom_tag now ''phone_ru'' (VC_Phone c)] @
     omitempty_errors (ns @ ''.CardNumber'') (VC_CardNumber c)
       [custom_tag now ''card_number'' (VC_CardNumber c)] @
     omitempty_errors (ns @ ''.CardDate'') (VC_CardDate c)
       [custom_tag now ''card_exp'' (VC_CardDate c)] @
     omitempty_errors (ns @ ''.CvvCode'') (VC_CvvCode c)
       [custom_tag now ''cvv'' (VC_CvvCode c)] @
     omitempty_errors (ns @ ''.DigitalWalletID'') (VC_DigitalWalletID c)
       [custom_tag now ''wallet_id'' (VC_DigitalWalletID c)] @
     omitempty_errors (ns @ ''.DigitalRubleWalletID'') (VC_DigitalRubleWalletID c)
       [custom_tag now ''digital_ruble_identifier'' (VC_DigitalRubleWalletID c)] @
     omitempty_errors (ns @ ''.DigitalRubleAccount'') (VC_DigitalRubleAccount c)
       [custom_tag now ''digital_ruble_account'' (VC_DigitalRubleAccount c)] @
     omitempty_errors (ns @ ''.DigitalRubleIdentifier'') (VC_DigitalRubleIdentifier c)
       [custom_tag now ''digital_ruble_identifier'' (VC_DigitalRubleIdentifier c)]"

definition item_errors :: "playground \<Rightarrow> gostring \<Rightarrow> paymentItemValidationModel \<Rightarrow> FieldError list" where
  "item_errors pg ns i =
     field_errors (ns @ ''.Name'')
       [required_text pg (VI_Name i), min_text pg 1 (VI_Name i), max_text pg 128 (VI_Name i)] @
     field_errors (ns @ ''.Price'') (amount_tags pg 1000000 (VI_Price i)) @
     field_errors (ns @ ''.Quantity'') (amount_tags pg 100000 (VI_Quantity i)) @
     omitempty_errors (ns @ ''.Category'') (VI_Category i) [max_text pg 64 (VI_Category i)] @
     omitempty_errors (ns @ ''.VATTag'') (VI_VATTag i) [max_text pg 32 (VI_VATTag i)] @
     omitempty_errors (ns @ ''.PaymentMethod'') (VI_PaymentMethod i)
       [max_text pg 32 (VI_PaymentMethod i)] @
     omitempty_errors (ns @ ''.PaymentObject'') (VI_PaymentObject i)
       [max_text pg 32 (VI_PaymentObject i)] @
     omitempty_errors (ns @ ''.IDInternal'') (VI_IDInternal i) [max_text pg 64 (VI_IDInternal i)]"

fun items_errors :: "playground \<Rightarrow> gostring \<Rightarrow> nat \<Rightarrow> paymentItemValidationModel list \<Rightarrow> FieldError list" where
  "items_errors pg ns n [] = []"
| "items_errors pg ns n (i # is) =
     item_errors pg (ns @ ''['' @ nat_digits n @ '']'') i @ items_errors pg ns (Suc n) is"

definition info_errors :: "playground \<Rightarrow> gotime \<Rightarrow> gostring \<Rightarrow> paymentInfoValidationModel \<Rightarrow> FieldError list" where
  "info_errors pg now ns p =
     amount_errors pg now (ns @ ''.Amount'') (VP_Amount p) @
     (let t = VT_Type (VP_PaymentMethodData p) in
      field_errors (ns @ ''.PaymentMethodData.Type'')
        [required_text pg t, custom_tag now ''payment_method'' t]) @
     customer_errors pg now (ns @ ''.CustomerData'') (VP_CustomerData p) @
     items_errors pg (ns @ ''.Items'') 0 (VP_Items p) @
     (let s = VD_SmartContractID (VP_DigitalRubleData p) in
      omitempty_errors (ns @ ''.DigitalRubleData.SmartContractID'') s [max_text pg 64 s]) @
     field_errors (ns @ ''.CreatedAt'')
       [(''required'', '''', PG_required_time pg (VP_CreatedAt p))] @
     field_errors (ns @ ''.Description'')
       [required_text pg (VP_Description p), min_text pg 3 (VP_Description p),
        max_text pg 255 (VP_Description p)]"

definition struct_errors :: "playground \<Rightarrow> gotime \<Rightarrow> createPaymentValidationModel \<Rightarrow> FieldError list" where
  "struct_errors pg now r = (let ns = ''createPaymentValidationModel'' in
     field_errors (ns @ ''.MerchantID'') [required_text pg (VM_MerchantID r),
       min_text pg 3 (VM_MerchantID r), max_text pg 64 (VM_MerchantID r)] @
     field_errors (ns @ ''.IdempotencyKey'') [required_text pg (VM_IdempotencyKey r),
       min_text pg 8 (VM_IdempotencyKey r), max_text pg 128 (VM_IdempotencyKey r)] @
     field_errors (ns @ ''.PaymentID'') [required_text pg (VM_PaymentID r),
       min_text pg 3 (VM_PaymentID r), max_text pg 64 (VM_PaymentID r)] @
     field_errors (ns @ ''.CurrentStatus'') [required_text pg (VM_CurrentStatus r),
       custom_tag now ''payment_status'' (VM_CurrentStatus r)] @
     info_errors pg now (ns @ ''.PaymentInfo'') (VM_PaymentInfo r))"

subsection \<open>Error texts\<close>

definition replacements :: "(gostring \<times> gostring) list" where
  "replacements = [
     (''createPaymentValidationModel'', ''request''),
     (''PaymentInfo'', ''payment_info''),
     (''Amount'', ''amount''),
     (''PaymentMethodData'', ''payment_method_data''),
     (''CustomerData'', ''customer_data''),
     (''MerchantID'', ''merchant_id''),
     (''IdempotencyKey'', ''idempotency_key''),
     (''PaymentID'', ''payment_id''),
     (''CurrentStatus'', ''current_status''),
     (''Value'', ''value''),
     (''Currency'', ''currency''),
     (''Type'', ''type''),
     (''Email'', ''email''),
     (''Phone'', ''phone''),
     (''CardNumber'', ''card_number''),
     (''CardDate'', ''card_date''),
     (''CvvCode'', ''CVV_code''),
     (''DigitalWalletID'', ''digital_wallet_id''),
     (''DigitalRubleWalletID'', ''digital_ruble_wallet_id''),
     (''DigitalRubleAccount'', ''digital_ruble_account''),
     (''DigitalRubleIdentifier'', ''digital_ruble_identifier''),
     (''Items'', ''items''),
     (''Category'', ''category''),
     (''DigitalRubleData'', ''digital_ruble_data''),
     (''SmartContractID'', ''smart_contract_id''),
     (''CreatedAt'', ''created_at''),
     (''Description'', ''description'')]"

definition jsonFieldName :: "gostring \<Rightarrow> gostring" where
  "jsonFieldName namespace =
     (let parts = map (\<lambda>p. case map_of replacements p of Some r \<Rightarrow> r | None \<Rightarrow> p)
        (Split CHR ''.'' namespace);
          parts = (if parts \<noteq> [] \<and> hd parts = ''request'' then tl parts else parts)
      in Join parts ''.'')"

definition maxAmountValue :: f64 where
  "maxAmountValue = Fin 1000000"

definition validationErrorMessage :: "FieldError \<Rightarrow> gostring" where
  "validationErrorMessage err =
     (let field = jsonFieldName (FE_Namespace err); tag = FE_Tag err; par = FE_Param err in
      if tag = ''required'' then field @ '' '' @ koi8 ''OBQZATELEN''
      else if tag = ''min'' then field @ '' '' @ koi8 ''DOLVEN BYTX NE KORO^E '' @ par @ '' '' @ koi8 ''SIMWOLOW''
      else if tag = ''max'' then field @ '' '' @ koi8 ''DOLVEN BYTX NE DLINNEE '' @ par @ '' '' @ koi8 ''SIMWOLOW''
      else if tag = ''gt'' then field @ '' '' @ koi8 ''DOLVEN BYTX BOLX[E 0''
      else if tag = ''lte'' then field @ '' '' @ koi8 ''NE DOLVEN PREWY[ATX '' @ FormatFloat2 maxAmountValue
      else if tag = ''payment_status'' then field @ '' '' @ koi8 ''SODERVIT NEDOPUSTIMYJ STATUS PLATEVA''
      else if tag = ''oneof'' then field @ '' '' @ koi8 ''SODERVIT NEDOPUSTIMOE ZNA^ENIE''
      else if tag = ''email'' then field @ '' '' @ koi8 ''DOLVEN BYTX KORREKTNYM '' @ ''email''
      else if tag = ''payment_method'' then field @ '' '' @ koi8 ''DOLVEN BYTX ODNIM IZ: sbp, bANKOWSKAQ KARTA, cIFROWOJ KO[ELEK, cIFROWOJ RUBLX''
      else if tag = ''currency'' then field @ '' '' @ koi8 ''DOLVEN BYTX '' @ ''RUB''
      else if tag = ''phone_ru'' then field @ '' '' @ koi8 ''DOLVEN BYTX W FORMATE +79991234567''
      else if tag = ''card_number'' then field @ '' '' @ koi8 ''DOLVEN BYTX KORREKTNYM NOMEROM KARTY''
      else if tag = ''card_exp'' then field @ '' '' @ koi8 ''DOLVEN BYTX W FORMATE mm/gg I NE BYTX PROSRO^ENNYM''
      else if tag = ''cvv'' then field @ '' '' @ koi8 ''DOLVEN SOSTOQTX IZ 3 ILI 4 CIFR''
      else if tag = ''wallet_id'' then field @ '' '' @ koi8 ''DOLVEN SODERVATX 3-64 SIMWOLA: LATINSKIE BUKWY, CIFRY, '' @ ''_ '' @ koi8 ''ILI -''
      else if tag = ''digital_ruble_identifier'' then field @ '' '' @ koi8 ''DOLVEN SODERVATX 3-70 SIMWOLOW: LATINSKIE BUKWY, CIFRY, '' @ ''_, ., :, -''
      else if tag = ''digital_ruble_account'' then field @ '' '' @ koi8 ''DOLVEN SODERVATX DO 34 LATINSKIH BUKW ILI CIFR''
      else field @ '' '' @ koi8 ''NE PRO[#L PROWERKU '' @ tag)"

definition formatValidationError :: "FieldError list \<Rightarrow> goerror" where
  "formatValidationError errs = Join (map validationErrorMessage errs) ''; ''"

subsection \<open>Fields the payment method needs\<close>

definition validatePaymentMethodSpecificFields :: "CreatePaymentRequest \<Rightarrow> goerror option" where
  "validatePaymentMethodSpecificFields r =
     (let customer = Info_CustomerData (Req_PaymentInfo r);
          t = Method_Type (Info_PaymentMethodData (Req_PaymentInfo r)) in
      if t = PaymentMethodSBP then
        (if Cust_Phone customer = '''' then
           Some (''customer_data.phone '' @ koi8 ''OBQZATELEN DLQ OPLATY ^EREZ sbp'') else None)
      else if t = PaymentMethodCard then
        (let missing =
             (if Cust_CardNumber customer = '''' then [''customer_data.card_number''] else []) @
             (if Cust_CardDate customer = '''' then [''customer_data.card_date''] else []) @
             (if Cust_CvvCode customer = '''' then [''customer_data.CVV_code''] else [])
         in if missing \<noteq> [] then
           Some (koi8 ''DLQ OPLATY BANKOWSKOJ KARTOJ OBQZATELXNY POLQ: '' @ Join missing '', '')
         else None)
      else if t = PaymentMethodDigitalWallet then
        (if Cust_DigitalWalletID customer = '''' then
           Some (''customer_data.digital_wallet_id '' @ koi8 ''OBQZATELEN DLQ OPLATY CIFROWYM KO[ELXKOM'') else None)
      else if t = PaymentMethodDigitalRuble then
        (if Cust_DigitalRubleWalletID customer = '''' \<and> Cust_DigitalRubleIdentifier customer = ''''
            \<and> Cust_DigitalWalletID customer = '''' then
           Some (koi8 ''DLQ OPLATY CIFROWYM RUBLEM UKAVITE '' @ ''customer_data.digital_ruble_wallet_id '' @ koi8 ''ILI '' @ ''customer_data.digital_ruble_identifier'') else None)
      else None)"

text \<open>
  \<open>ctx_err\<close> is \<open>ctx.Err()\<close> at the call and \<open>now\<close> the clock the card date is compared with. The
  request comes back in every case, so the result is the request and the error, if any.
\<close>

definition Validate :: "playground \<Rightarrow> goerror option \<Rightarrow> gotime \<Rightarrow> CreatePaymentRequest
    \<Rightarrow> CreatePaymentRequest \<times> goerror option" where
  "Validate pg ctx_err now req = (case ctx_err of
     Some e \<Rightarrow> (Request_WithoutSensitive req, Some e)
   | None \<Rightarrow>
       (let normalized = normalizeRequest req;
            errs = struct_errors pg now (toValidationModel normalized) in
        if errs \<noteq> [] then (Request_WithoutSensitive normalized, Some (formatValidationError errs))
        else (case validatePaymentMethodSpecificFields normalized of
                Some e \<Rightarrow> (Request_WithoutSensitive normalized, Some e)
              | None \<Rightarrow> (Request_WithoutSensitive normalized, None))))"

subsection \<open>What a valid payment is\<close>

text \<open>
  The contract of the validator, stated over a normalised request: \<open>valid_payment email now r\<close>
  for the library's notion \<open>email\<close> of an address.
\<close>

definition text_between :: "nat \<Rightarrow> nat \<Rightarrow> gostring \<Rightarrow> bool" where
  "text_between lo hi s = (lo \<le> rune_count s \<and> rune_count s \<le> hi)"

definition valid_customer :: "(gostring \<Rightarrow> bool) \<Rightarrow> gotime \<Rightarrow> CustomerData \<Rightarrow> bool" where
  "valid_customer email now c =
     ((Cust_Email c = '''' \<or> email (Cust_Email c) \<and> text_between 0 254 (Cust_Email c))
      \<and> (Cust_Phone c = '''' \<or> phoneRegexp (Cust_Phone c))
      \<and> (Cust_CardNumber c = '''' \<or> cardDigitsRegexp (Cust_CardNumber c) \<and> luhnValid (Cust_CardNumber c))
      \<and> (Cust_CardDate c = '''' \<or> validateCardExpiration now (Cust_CardDate c))
      \<and> (Cust_CvvCode c = '''' \<or> cvvRegexp (Cust_CvvCode c))
      \<and> (Cust_DigitalWalletID c = '''' \<or> walletIDRegexp (Cust_DigitalWalletID c))
      \<and> (Cust_DigitalRubleWalletID c = '''' \<or> drIdentifierRegexp (Cust_DigitalRubleWalletID c))
      \<and> (Cust_DigitalRubleAccount c = '''' \<or> drAccountRegexp (Cust_DigitalRubleAccount c))
      \<and> (Cust_DigitalRubleIdentifier c = '''' \<or> drIdentifierRegexp (Cust_DigitalRubleIdentifier c)))"

definition valid_item :: "PaymentItem \<Rightarrow> bool" where
  "valid_item i =
     (text_between 1 128 (Item_Name i)
      \<and> Fin 0 < Item_Price i \<and> Item_Price i \<le> Fin 1000000
      \<and> Fin 0 < Item_Quantity i \<and> Item_Quantity i \<le> Fin 100000
      \<and> text_between 0 64 (Item_Category i) \<and> text_between 0 32 (Item_VATTag i)
      \<and> text_between 0 32 (Item_PaymentMethod i) \<and> text_between 0 32 (Item_PaymentObject i)
      \<and> text_between 0 64 (Item_IDInternal i))"

definition method_fields :: "gostring \<Rightarrow> CustomerData \<Rightarrow> bool" where
  "method_fields t c =
     ((t = PaymentMethodSBP \<longrightarrow> Cust_Phone c \<noteq> '''')
      \<and> (t = PaymentMethodCard \<longrightarrow>
           Cust_CardNumber c \<noteq> '''' \<and> Cust_CardDate c \<noteq> '''' \<and> Cust_CvvCode c \<noteq> '''')
      \<and> (t = PaymentMethodDigitalWallet \<longrightarrow> Cust_DigitalWalletID c \<noteq> '''')
      \<and> (t = PaymentMethodDigitalRuble \<longrightarrow> Cust_DigitalRubleWalletID c \<noteq> ''''
           \<or> Cust_DigitalRubleIdentifier c \<noteq> '''' \<or> Cust_DigitalWalletID c \<noteq> ''''))"

definition valid_payment :: "(gostring \<Rightarrow> bool) \<Rightarrow> gotime \<Rightarrow> CreatePaymentRequest \<Rightarrow> bool" where
  "valid_payment email now r =
     (let p = Req_PaymentInfo r; t = Method_Type (Info_PaymentMethodData p) in
      text_between 3 64 (Req_MerchantID r) \<and> text_between 8 128 (Req_IdempotencyKey r)
      \<and> text_between 3 64 (Req_PaymentID r) \<and> IsValidPaymentStatus (Req_CurrentStatus r)
      \<and> Fin 0 < Amount_Value (Info_Amount p) \<and> Amount_Value (Info_Amount p) \<le> Fin 1000000
      \<and> Amount_Currency (Info_Amount p) = ''RUB''
      \<and> validatePaymentMethod t \<and> method_fields t (Info_CustomerData p)
      \<and> valid_customer email now (Info_CustomerData p)
      \<and> list_all valid_item (Info_Items p)
      \<and> text_between 0 64 (DR_SmartContractID (Info_DigitalRubleData p))
      \<and> Info_CreatedAt p \<noteq> zero_time \<and> text_between 3 255 (Info_Description p))"

lemma field_errors_nil: "field_errors ns tags = [] \<longleftrightarrow> list_all (\<lambda>(_, _, ok). ok) tags"
  unfolding field_errors_def by (induction tags) auto

lemma omitempty_errors_nil:
  "omitempty_errors ns s tags = [] \<longleftrightarrow> s = '''' \<or> list_all (\<lambda>(_, _, ok). ok) tags"
  by (auto simp: omitempty_errors_def field_errors_nil)

lemma rune_count_Nil [simp]: "rune_count '''' = 0"
  by (simp add: rune_count_def)

lemma rune_count_pos: "Suc 0 \<le> rune_count s \<longleftrightarrow> s \<noteq> ''''"
  by (subst rune_count_def, subst runes.simps) simp

lemmas tag_simps = field_errors_nil omitempty_errors_nil required_text_def min_text_def
  max_text_def amount_tags_def text_between_def documented_tags_def

lemma amount_nonzero: "Fin 0 < x \<Longrightarrow> x \<noteq> Fin 0"
  by auto

lemma amount_tags_iff:
  "documented_tags pg \<Longrightarrow> list_all (\<lambda>(_, _, ok). ok) (amount_tags pg hi x)
     \<longleftrightarrow> Fin 0 < x \<and> x \<le> Fin (of_nat hi)"
  using amount_nonzero by (auto simp: tag_simps)

lemma optional_nil:
  "documented_tags pg \<Longrightarrow> omitempty_errors ns s [max_text pg n s] = [] \<longleftrightarrow> text_between 0 n s"
  by (auto simp: tag_simps)

lemma text_errors_nil:
  "documented_tags pg \<Longrightarrow> 0 < lo \<Longrightarrow>
     field_errors ns [required_text pg s, min_text pg lo s, max_text pg hi s] = []
       \<longleftrightarrow> text_between lo hi s"
  by (auto simp: tag_simps)

lemma custom_tag_simps [simp]:
  "custom_tag now ''payment_method'' s = (''payment_method'', '''', validatePaymentMethod s)"
  "custom_tag now ''currency'' s = (''currency'', '''', validateCurrency s)"
  "custom_tag now ''phone_ru'' s = (''phone_ru'', '''', phoneRegexp s)"
  "custom_tag now ''card_number'' s = (''card_number'', '''', validateCardNumber s)"
  "custom_tag now ''card_exp'' s = (''card_exp'', '''', validateCardExpiration now s)"
  "custom_tag now ''cvv'' s = (''cvv'', '''', cvvRegexp s)"
  "custom_tag now ''wallet_id'' s = (''wallet_id'', '''', walletIDRegexp s)"
  "custom_tag now ''digital_ruble_identifier'' s
     = (''digital_ruble_identifier'', '''', drIdentifierRegexp s)"
  "custom_tag now ''digital_ruble_account'' s = (''digital_ruble_account'', '''', drAccountRegexp s)"
  "custom_tag now ''payment_status'' s = (''payment_status'', '''', IsValidPaymentStatus s)"
  by (simp_all add: custom_tag_def NewPaymentDataValidator_def validatePaymentStatus_def
      validatePhoneRU_def validateCVV_def validateWalletID_def validateDigitalRubleIdentifier_def
      validateDigitalRubleAccount_def)

lemma items_errors_nil: "documented_tags pg \<Longrightarrow>
    items_errors pg ns n (toPaymentItemValidationModels is) = [] \<longleftrightarrow> list_all valid_item is"
proof (induction "is" arbitrary: n)
  case (Cons i "is")
  then show ?case
    by (simp add: toPaymentItemValidationModels_def item_errors_def valid_item_def
        field_errors_nil [of _ "amount_tags _ _ _"] amount_tags_iff optional_nil text_errors_nil
        del: f64_order)
qed (simp add: toPaymentItemValidationModels_def)

lemma customer_errors_nil: "documented_tags pg \<Longrightarrow>
    customer_errors pg now ns (customer_model c) = [] \<longleftrightarrow> valid_customer (PG_email pg) now c"
  by (simp add: customer_errors_def customer_model_def valid_customer_def tag_simps
      validateCardNumber_def)

lemma amount_errors_nil: "documented_tags pg \<Longrightarrow> amount_errors pg now ns a = [] \<longleftrightarrow>
    Fin 0 < VA_Value a \<and> VA_Value a \<le> Fin 1000000 \<and> VA_Currency a = ''RUB''"
  by (simp add: amount_errors_def field_errors_nil amount_tags_iff)
    (auto simp: tag_simps validateCurrency_def)

lemma status_not_empty: "IsValidPaymentStatus s \<Longrightarrow> s \<noteq> ''''"
  by (auto simp: IsValidPaymentStatus_def lit)

lemma method_not_empty: "validatePaymentMethod s \<Longrightarrow> s \<noteq> ''''"
  by (auto simp: validatePaymentMethod_def)

lemma specific_fields_none:
  "validatePaymentMethodSpecificFields r = None \<longleftrightarrow>
     method_fields (Method_Type (Info_PaymentMethodData (Req_PaymentInfo r)))
       (Info_CustomerData (Req_PaymentInfo r))"
  by (auto simp: validatePaymentMethodSpecificFields_def method_fields_def Let_def)

lemma struct_errors_nil:
  assumes "documented_tags pg"
  shows "struct_errors pg now (toValidationModel r) = [] \<and> validatePaymentMethodSpecificFields r = None
    \<longleftrightarrow> valid_payment (PG_email pg) now r"
proof -
  have status: "field_errors ns [required_text pg s, (t, u, IsValidPaymentStatus s)] = []
      \<longleftrightarrow> IsValidPaymentStatus s" for ns t u s
    using assms status_not_empty by (auto simp: tag_simps)
  have meth_iff: "field_errors ns [required_text pg s, (t, u, validatePaymentMethod s)] = []
      \<longleftrightarrow> validatePaymentMethod s" for ns t u s
    using assms method_not_empty by (auto simp: tag_simps)
  have time_iff: "field_errors ns [(t, u, PG_required_time pg x)] = [] \<longleftrightarrow> x \<noteq> zero_time" for ns t u x
    using assms by (simp add: tag_simps IsZero_def)
  show ?thesis
    unfolding struct_errors_def info_errors_def valid_payment_def specific_fields_none Let_def
      toValidationModel_def custom_tag_simps
    by (simp only: createPaymentValidationModel.simps paymentInfoValidationModel.simps
        amountValidationModel.simps paymentMethodDataValidationModel.simps
        digitalRubleDataValidationModel.simps append_is_Nil_conv status meth_iff time_iff optional_nil [OF assms]
        text_errors_nil [OF assms] amount_errors_nil [OF assms] customer_errors_nil [OF assms]
        items_errors_nil [OF assms] zero_less_numeral simp_thms) blast
qed

subsection \<open>The Luhn check\<close>

definition luhn_value :: "bool \<Rightarrow> char \<Rightarrow> int" where
  "luhn_value dbl c = (let digit = int ((byte c + 208) mod 256) in
     if dbl then (if 2 * digit > 9 then 2 * digit - 9 else 2 * digit) else digit)"

lemma luhn_loop_step: "luhn_loop (c # cs) dbl s = luhn_loop cs (\<not> dbl) (s + luhn_value dbl c)"
  by (simp add: luhn_value_def Let_def)

lemma luhn_loop_acc: "luhn_loop cs dbl s = s + luhn_loop cs dbl 0"
proof (induction cs arbitrary: dbl s)
  case (Cons c cs)
  show ?case unfolding luhn_loop_step using Cons.IH [of "\<not> dbl"] by (metis add.assoc add_0)
qed simp

lemma luhn_loop_append:
  "luhn_loop (xs @ ys) dbl s = luhn_loop ys (if even (length xs) then dbl else \<not> dbl) (luhn_loop xs dbl s)"
  by (induction xs arbitrary: dbl s) (simp_all add: Let_def)

lemma luhn_value_digit:
  assumes "is_digit (byte c)"
  obtains n :: int where "0 \<le> n" "n \<le> 9" "int (byte c) = 48 + n" "luhn_value False c = n"
    "luhn_value True c = (if 2 * n > 9 then 2 * n - 9 else 2 * n)"
proof -
  have b: "48 \<le> byte c" "byte c \<le> 57" using assms by (simp_all add: is_digit_def)
  then have d: "(byte c + 208) mod 256 = byte c - 48"
    by (simp add: mod_if)
  with b show thesis by (intro that [of "int (byte c) - 48"]) (auto simp: luhn_value_def of_nat_diff)
qed

lemma luhn_one:
  "luhnValid (ys @ a # xs) \<longleftrightarrow>
     (luhn_loop (rev xs) False 0 + luhn_loop (rev ys) (even (length xs)) 0
      + luhn_value (odd (length xs)) a) mod 10 = 0"
proof -
  have "luhn_loop (rev (ys @ a # xs)) False 0
      = luhn_loop (rev ys) (even (length xs))
          (luhn_loop (rev xs) False 0 + luhn_value (odd (length xs)) a)"
    by (simp add: luhn_loop_append luhn_loop_step del: luhn_loop.simps(2))
  then show ?thesis unfolding luhnValid_def
    by (subst (asm) luhn_loop_acc) (simp add: algebra_simps)
qed

lemma luhn_two:
  "luhnValid (ys @ a # b # xs) \<longleftrightarrow>
     (luhn_loop (rev xs) False 0 + luhn_loop (rev ys) (odd (length xs)) 0
      + (luhn_value (odd (length xs)) b + luhn_value (even (length xs)) a)) mod 10 = 0"
proof -
  have "luhn_loop (rev (ys @ a # b # xs)) False 0
      = luhn_loop (rev ys) (odd (length xs))
          (luhn_loop (rev xs) False 0 + luhn_value (odd (length xs)) b + luhn_value (even (length xs)) a)"
    by (simp add: luhn_loop_append luhn_loop_step del: luhn_loop.simps(2))
  then show ?thesis unfolding luhnValid_def
    by (subst (asm) luhn_loop_acc) (simp add: algebra_simps)
qed

lemma diff_mod_10:
  "((x :: int) + p) mod 10 = 0 \<Longrightarrow> (x + q) mod 10 = 0 \<Longrightarrow> (p - q) mod 10 = 0"
  by presburger

lemma digit_cases: "(0 :: int) \<le> n \<Longrightarrow> n \<le> 9 \<Longrightarrow> n \<in> {0, 1, 2, 3, 4, 5, 6, 7, 8, 9}"
  unfolding insert_iff empty_iff by arith

definition doubled :: "int \<Rightarrow> int" where
  "doubled n = (if 2 * n > 9 then 2 * n - 9 else 2 * n)"

lemma doubled_inj:
  "n \<in> {0, 1, 2, 3, 4, 5, 6, 7, 8, 9} \<Longrightarrow> m \<in> {0, 1, 2, 3, 4, 5, 6, 7, 8, 9} \<Longrightarrow>
     (doubled n - doubled m) mod 10 = 0 \<Longrightarrow> n = m"
  by (auto simp: doubled_def)

lemma doubled_swap:
  "n \<in> {0, 1, 2, 3, 4, 5, 6, 7, 8, 9} \<Longrightarrow> m \<in> {0, 1, 2, 3, 4, 5, 6, 7, 8, 9} \<Longrightarrow>
     (m + doubled n - (n + doubled m)) mod 10 = 0 \<Longrightarrow> n = m \<or> n = 0 \<and> m = 9 \<or> n = 9 \<and> m = 0"
  by (auto simp: doubled_def)

lemma luhn_digit:
  assumes "is_digit (byte c)"
  obtains n where "n \<in> {0, 1, 2, 3, 4, 5, 6, 7, 8, 9}" "int (byte c) = 48 + n"
    "\<And>d. luhn_value d c = (if d then doubled n else n)"
proof -
  obtain n where "0 \<le> n" "n \<le> 9" "int (byte c) = 48 + n" "luhn_value False c = n"
    "luhn_value True c = (if 2 * n > 9 then 2 * n - 9 else 2 * n)"
    using luhn_value_digit [OF assms] .
  moreover from this(1,2) have "n \<in> {0, 1, 2, 3, 4, 5, 6, 7, 8, 9}" by (rule digit_cases)
  ultimately show thesis by (intro that [of n]) (simp_all add: doubled_def)
qed

lemma luhn_value_cases:
  assumes "is_digit (byte a)" "is_digit (byte b)" "(x + luhn_value d a) mod 10 = 0"
    "(x + luhn_value d b) mod 10 = 0"
  shows "a = b"
proof -
  obtain n where n: "n \<in> {0, 1, 2, 3, 4, 5, 6, 7, 8, 9}" "int (byte a) = 48 + n"
    "\<And>d. luhn_value d a = (if d then doubled n else n)" using luhn_digit [OF assms(1)] by blast
  obtain m where m: "m \<in> {0, 1, 2, 3, 4, 5, 6, 7, 8, 9}" "int (byte b) = 48 + m"
    "\<And>d. luhn_value d b = (if d then doubled m else m)" using luhn_digit [OF assms(2)] by blast
  from diff_mod_10 [OF assms(3,4)]
  have "((if d then doubled n else n) - (if d then doubled m else m)) mod 10 = 0"
    by (simp only: n m)
  then have "n = m" using doubled_inj [OF n(1) m(1)] n(1) m(1) by (cases d) auto
  with n(2) m(2) have "byte a = byte b" by simp
  then show ?thesis by (simp add: byte_inj)
qed

lemma luhn_swap_cases:
  assumes "is_digit (byte a)" "is_digit (byte b)"
    "(x + (luhn_value d b + luhn_value (\<not> d) a)) mod 10 = 0"
    "(x + (luhn_value d a + luhn_value (\<not> d) b)) mod 10 = 0"
  shows "a = b \<or> {a, b} = {CHR ''0'', CHR ''9''}"
proof -
  obtain n where n: "n \<in> {0, 1, 2, 3, 4, 5, 6, 7, 8, 9}" "int (byte a) = 48 + n"
    "\<And>d. luhn_value d a = (if d then doubled n else n)" using luhn_digit [OF assms(1)] by blast
  obtain m where m: "m \<in> {0, 1, 2, 3, 4, 5, 6, 7, 8, 9}" "int (byte b) = 48 + m"
    "\<And>d. luhn_value d b = (if d then doubled m else m)" using luhn_digit [OF assms(2)] by blast
  from diff_mod_10 [OF assms(3,4)] diff_mod_10 [OF assms(4,3)]
  have "(m + doubled n - (n + doubled m)) mod 10 = 0"
    by (cases d) (simp_all add: n(3) m(3) algebra_simps)
  note doubled_swap [OF n(1) m(1) this]
  moreover have zero_nine: "int (byte CHR ''0'') = 48 + 0" "int (byte CHR ''9'') = 48 + 9"
    by (simp_all add: byte_def)
  ultimately
  have "byte a = byte b \<or> byte a = byte CHR ''0'' \<and> byte b = byte CHR ''9''
      \<or> byte a = byte CHR ''9'' \<and> byte b = byte CHR ''0''"
    using n(2) m(2) zero_nine by (metis of_nat_eq_iff)
  then show ?thesis unfolding byte_inj by auto
qed

subsection \<open>Properties of the Luhn check\<close>

text \<open>
  C21: The Luhn check finds every single wrong digit: if two card numbers differ in exactly
  one digit, at most one of them passes.
\<close>

theorem luhnValid_single_error:
  assumes "is_digit (byte a)" and "is_digit (byte b)" and "a \<noteq> b"
    and "luhnValid (ys @ a # xs)"
  shows "\<not> luhnValid (ys @ b # xs)"
  using luhn_value_cases [OF assms(1,2) assms(4) [unfolded luhn_one]] assms(3)
  by (auto simp: luhn_one)

theorem luhnValid_single_error_witness: "\<not> luhnValid ''4111111111111112''"
  using luhnValid_single_error [of "CHR ''1''" "CHR ''2''" "''411111111111111''" "''''"]
  by (simp add: luhnValid_def byte_def is_digit_def)

text \<open>
  It also finds every transposition of two adjacent digits, except that of 0 and 9.
\<close>

theorem luhnValid_transposition:
  assumes "is_digit (byte a)" and "is_digit (byte b)" and "a \<noteq> b"
    and "{a, b} \<noteq> {CHR ''0'', CHR ''9''}" and "luhnValid (ys @ a # b # xs)"
  shows "\<not> luhnValid (ys @ b # a # xs)"
proof
  assume "luhnValid (ys @ b # a # xs)"
  with assms(5) luhn_swap_cases [OF assms(1,2), of _ "odd (length xs)"]
  have "a = b \<or> {a, b} = {CHR ''0'', CHR ''9''}" unfolding luhn_two by simp
  with assms(3,4) show False by blast
qed

theorem luhnValid_transposition_witness: "\<not> luhnValid ''1411111111111111''"
  using luhnValid_transposition [of "CHR ''4''" "CHR ''1''" "''''" "''11111111111111''"]
  by (simp add: luhnValid_def byte_def is_digit_def doubleton_eq_iff)

subsection \<open>Card dates\<close>

definition digit_of :: "char \<Rightarrow> int" where
  "digit_of c = int (byte c) - 48"

lemma Split_no_sep: "sep \<notin> set s \<Longrightarrow> Split sep s = [s]"
  by (induction s) auto

lemma Split_append: "sep \<notin> set s \<Longrightarrow> Split sep (s @ sep # t) = s # Split sep t"
  by (induction s) (auto split: list.splits)

lemma atoi_two: "is_digit (byte a) \<Longrightarrow> is_digit (byte b) \<Longrightarrow> atoi [a, b] = 10 * digit_of a + digit_of b"
  by (simp add: atoi_def digit_of_def is_digit_def)

lemma digit_slash: "is_digit (byte c) \<Longrightarrow> c \<noteq> CHR ''/''"
  by (auto simp: is_digit_def byte_def)

lemma cardDate_month:
  assumes "cardDateRegexp [a, b, sep, c, d]"
  shows "is_digit (byte a)" "is_digit (byte b)" "is_digit (byte c)" "is_digit (byte d)"
    "sep = CHR ''/''" "1 \<le> 10 * digit_of a + digit_of b" "10 * digit_of a + digit_of b \<le> 12"
proof -
  from assms have r: "a = CHR ''0'' \<and> is_digit (byte b) \<and> b \<noteq> CHR ''0''
      \<or> a = CHR ''1'' \<and> (b = CHR ''0'' \<or> b = CHR ''1'' \<or> b = CHR ''2'')"
    "is_digit (byte c)" "is_digit (byte d)" "sep = CHR ''/''"
    by (simp_all add: cardDateRegexp_def)
  then show "is_digit (byte c)" "is_digit (byte d)" "sep = CHR ''/''" by simp_all
  have "b \<noteq> CHR ''0'' \<Longrightarrow> byte b \<noteq> 48" using byte_inj [of b "CHR ''0''"] by (simp add: byte_def)
  with r(1) show "is_digit (byte a)" "is_digit (byte b)" "1 \<le> 10 * digit_of a + digit_of b"
    "10 * digit_of a + digit_of b \<le> 12"
    by (auto simp: is_digit_def byte_def digit_of_def)
qed

lemma validateCardExpiration_eq:
  assumes "cardDateRegexp [a, b, sep, c, d]"
  defines "y \<equiv> 2000 + (10 * digit_of c + digit_of d)" and "m \<equiv> 10 * digit_of a + digit_of b"
  shows "validateCardExpiration now [a, b, sep, c, d] \<longleftrightarrow> now + 1 < Date y m (month_days y m + 1)"
proof -
  note r = cardDate_month [OF assms(1)]
  have "Split CHR ''/'' ([a, b] @ CHR ''/'' # [c, d]) = [[a, b], [c, d]]"
    using r(1-4) by (subst Split_append) (auto simp: digit_slash [symmetric] dest: digit_slash)
  then have "Split CHR ''/'' [a, b, sep, c, d] = [[a, b], [c, d]]" using r(5) by simp
  then have "validateCardExpiration now [a, b, sep, c, d] \<longleftrightarrow> now < Date y (m + 1) 1 - 1"
    using assms(1) r(1-4) by (simp add: validateCardExpiration_def atoi_two y_def m_def Let_def)
  also have "\<dots> \<longleftrightarrow> now + 1 < Date y m (month_days y m + 1)"
    unfolding month_end [OF r(6,7), folded m_def] by auto
  finally show ?thesis .
qed

text \<open>
  A card date MM/YY is accepted exactly until the end of its month: until the midnight
  in UTC that follows the last day of the month MM of the year 20YY (its 28th, 29th, 30th
  or 31st), less the last nanosecond but one.
\<close>

theorem validateCardExpiration_month_end:
  assumes "cardDateRegexp [a, b, sep, c, d]"
  shows "let y = 2000 + (10 * digit_of c + digit_of d); m = 10 * digit_of a + digit_of b in
      1 \<le> m \<and> m \<le> 12 \<and>
      (validateCardExpiration now [a, b, sep, c, d] \<longleftrightarrow> now + 1 < Date y m (month_days y m) + Day)"
proof -
  have "Date y m (k + 1) = Date y m k + Day" for y m k
    by (simp add: Date_def days_from_civil_def Let_def algebra_simps)
  with validateCardExpiration_eq [OF assms] cardDate_month(6,7) [OF assms] show ?thesis
    by (simp add: Let_def)
qed

theorem validateCardExpiration_month_end_witness:
  "validateCardExpiration (Date 2028 2 29) ''02/28'' \<and> \<not> validateCardExpiration (Date 2028 3 1) ''02/28''"
  using validateCardExpiration_month_end [of "CHR ''0''" "CHR ''2''" "CHR ''/''" "CHR ''2''" "CHR ''8''"]
  by (simp add: cardDateRegexp_def is_digit_def byte_def digit_of_def month_days_def leap_year_def
      Date_def days_from_civil_def Let_def)

subsection \<open>Normal forms\<close>

lemma ReplaceAll_filter: "ReplaceAll s c '''' = filter (\<lambda>x. x \<noteq> c) s"
  by (induction s) (auto simp: ReplaceAll_def)

lemma normalizePhone_filter:
  "normalizePhone p = filter (\<lambda>x. x \<notin> set '' -()'') (TrimSpace p)"
  by (simp add: normalizePhone_def ReplaceAll_filter Let_def conj_ac)

lemma onlyDigits_digitsOnly: "onlyDigits = digitsOnly"
  by (rule ext) (simp add: onlyDigits_def digitsOnly_def)

lemma norm_strings [simp]:
  "Req_MerchantID (normalizeRequest r) = TrimSpace (Req_MerchantID r)"
  "Req_IdempotencyKey (normalizeRequest r) = TrimSpace (Req_IdempotencyKey r)"
  "Req_PaymentID (normalizeRequest r) = TrimSpace (Req_PaymentID r)"
  "Req_CurrentStatus (normalizeRequest r) = TrimSpace (Req_CurrentStatus r)"
  "Req_PaymentInfo (normalizeRequest r) = normalizeInfo (Req_PaymentInfo r)"
  by (simp_all add: normalizeRequest_def)

text \<open>
  C20: With the documented tags, the validator accepts a request exactly when its normalised
  form is a valid payment (lengths counted in characters, an amount in (0, 1000000] RUB, a
  known method with the fields it needs, well-formed contact and card data, valid items),
  and what it returns, accepted or not, is the normalised request without its CVV code.
\<close>

theorem Validate_accepts_iff:
  assumes "documented_tags pg"
  shows "(snd (Validate pg None now req) = None
      \<longleftrightarrow> valid_payment (PG_email pg) now (normalizeRequest req))
    \<and> fst (Validate pg None now req) = Request_WithoutSensitive (normalizeRequest req)"
  using struct_errors_nil [OF assms, of now "normalizeRequest req"]
  by (auto simp: Validate_def Let_def split: option.splits)

text \<open>A request to evaluate the model on: a payment by card, with padded texts.\<close>

definition sample_request :: CreatePaymentRequest where
  "sample_request = \<lparr>Req_MerchantID = ''merchant_1 '', Req_IdempotencyKey = ''idem-0001'',
     Req_PaymentID = ''pay_1'', Req_CurrentStatus = StatusCreated,
     Req_PaymentInfo = \<lparr>
       Info_Amount = \<lparr>Amount_Value = Fin 1500, Amount_Currency = ''rub''\<rparr>,
       Info_PaymentMethodData = \<lparr>Method_Type = PaymentMethodCard\<rparr>,
       Info_CustomerData = zero_customer\<lparr>Cust_CardNumber := ''4111 1111 1111 1111'',
         Cust_CardDate := ''12/29'', Cust_CvvCode := ''123''\<rparr>,
       Info_Items = [],
       Info_DigitalRubleData = \<lparr>DR_SmartContractID = '''', DR_RequireMarkedMoney = False\<rparr>,
       Info_CreatedAt = Date 2026 5 1, Info_Description = ''order 1''\<rparr>\<rparr>"

definition sample_normalized :: CreatePaymentRequest where
  "sample_normalized = sample_request\<lparr>Req_MerchantID := ''merchant_1'',
     Req_PaymentInfo := (Req_PaymentInfo sample_request)\<lparr>
       Info_Amount := \<lparr>Amount_Value = Fin 1500, Amount_Currency = ''RUB''\<rparr>,
       Info_CustomerData := zero_customer\<lparr>Cust_CardNumber := ''4111111111111111'',
         Cust_CardDate := ''12/29'', Cust_CvvCode := ''123''\<rparr>\<rparr>\<rparr>"

lemma TrimSpace_method: "TrimSpace PaymentMethodCard = PaymentMethodCard"
proof (rule TrimSpace_id)
  show "space_width PaymentMethodCard = 0"
    by (simp add: lit koi8_simps space_width_def byte_def space2_def space3_def)
  show "rspace_width (rev PaymentMethodCard) = 0"
    by (simp add: lit koi8_simps rspace_width_def byte_def space2_def space3_def)
qed

lemma sample_normalized: "normalizeRequest sample_request = sample_normalized"
proof -
  have "TrimSpace StatusCreated = StatusCreated" by (simp add: lit go_eval)
  moreover have "TrimSpace ''merchant_1 '' = ''merchant_1''" "TrimSpace ''idem-0001'' = ''idem-0001''"
    "TrimSpace ''pay_1'' = ''pay_1''" "TrimSpace ''rub'' = ''rub''" "ToUpper ''rub'' = ''RUB''"
    "TrimSpace ''12/29'' = ''12/29''" "TrimSpace ''123'' = ''123''" "TrimSpace ''order 1'' = ''order 1''"
    by (simp_all add: go_eval)
  moreover have "onlyDigits ''4111 1111 1111 1111'' = ''4111111111111111''"
    by (simp add: onlyDigits_digitsOnly digitsOnly_filter byte_def is_digit_def)
  ultimately show ?thesis
    by (simp add: sample_request_def sample_normalized_def normalizeRequest_def normalizeInfo_def
        normalizeCustomer_def zero_customer_def TrimSpace_method normalizePhone_filter)
qed

lemma sample_valid: "valid_payment email (Date 2026 5 1) sample_normalized"
proof -
  have date: "validateCardExpiration (Date 2026 5 1) ''12/29''"
    using validateCardExpiration_eq [of "CHR ''1''" "CHR ''2''" "CHR ''/''" "CHR ''2''" "CHR ''9''"]
    by (simp add: cardDateRegexp_def is_digit_def byte_def digit_of_def month_days_def
        Date_def days_from_civil_def Let_def)
  have card: "cardDigitsRegexp ''4111111111111111'' \<and> luhnValid ''4111111111111111''
      \<and> cvvRegexp ''123''"
    by (simp add: cardDigitsRegexp_def cvvRegexp_def matches_def luhnValid_def byte_def is_digit_def)
  show ?thesis using date card
    by (simp add: valid_payment_def sample_normalized_def sample_request_def valid_customer_def
        zero_customer_def method_fields_def validatePaymentMethod_def text_between_def
        IsValidPaymentStatus_def byte_def Date_def days_from_civil_def zero_time_def Let_def)
qed

theorem Validate_accepts_iff_witness:
  "Validate (documented_playground (\<lambda>_. True)) None (Date 2026 5 1) sample_request
     = (Request_WithoutSensitive sample_normalized, None)"
  using Validate_accepts_iff [OF documented_playground, of "\<lambda>_. True" "Date 2026 5 1" sample_request]
    sample_valid by (simp add: sample_normalized prod_eq_iff)

end
