(* ===== verification/Antifraud.thy ===== *)
theory Antifraud
  imports Dto
begin

section \<open>Antifraud (\<open>internal/subsystems/antifraud\<close>)\<close>

text \<open>
  The rules of \<open>rule_based_antifraud.go\<close>, the sliding-window counters of \<open>velocity.go\<close>, the
  list of disposable e-mail domains and the OPA policy.

  Parameters: \<open>hash\<close> is \<open>hex.EncodeToString(sha256.Sum256(...))\<close>; \<open>raw\<close> is the text of the
  embedded file \<open>disposable_email_domains.txt\<close>; the OPA engine is outside the repository, but
  its policy is a text of the source and is translated rule by rule
  (\<open>opaAntiFraudModule\<close>: the set of findings in the order OPA returns a set, which is that of the
  reasons). The policy is absent (\<open>OpaNil\<close>) when it could not be prepared, and an evaluation
  may fail (\<open>OpaErr\<close>). The store is guarded by a mutex in the source, so \<open>recordAndCount\<close> is
  one atomic step.
\<close>

definition ResultPassed :: gostring where [lit]: "ResultPassed = ''PASSED''"
definition ResultReview :: gostring where [lit]: "ResultReview = ''REVIEW''"
definition ResultBlocked :: gostring where [lit]: "ResultBlocked = ''BLOCKED''"

definition defaultReviewAmountLimit :: f64 where "defaultReviewAmountLimit = Fin 100000"
definition defaultBlockAmountLimit :: f64 where "defaultBlockAmountLimit = Fin 500000"
definition maxRiskScoreBeforeReview :: int where "maxRiskScoreBeforeReview = 30"
definition maxRiskScoreBeforeBlock :: int where "maxRiskScoreBeforeBlock = 80"

record fraudRuleResult =
  Rule_Name :: gostring
  Rule_Score :: int
  Rule_Block :: bool
  Rule_Reason :: gostring

definition no_rule :: fraudRuleResult where
  "no_rule = \<lparr>Rule_Name = '''', Rule_Score = 0, Rule_Block = False, Rule_Reason = ''''\<rparr>"

definition af_onlyDigits :: "gostring \<Rightarrow> gostring" where
  "af_onlyDigits value = encode_runes (filter IsDigit (runes value))"

subsection \<open>Disposable e-mail domains (\<open>disposable_domains.go\<close>)\<close>

definition normalizeEmailDomain :: "gostring \<Rightarrow> gostring" where
  "normalizeEmailDomain value = TrimByte (ToLower (TrimSpace value)) CHR ''.''"

definition loadDisposableEmailDomains :: "gostring \<Rightarrow> gostring set" where
  "loadDisposableEmailDomains raw =
     set (filter (\<lambda>d. d \<noteq> '''' \<and> \<not> HasPrefix d ''#'')
       (map normalizeEmailDomain (Split (CHR 0x0A) raw)))"

text \<open>The loop that drops one label after the other.\<close>

function domain_loop :: "gostring set \<Rightarrow> gostring \<Rightarrow> bool" where
  "domain_loop domains d =
     (if d = '''' then False
      else if d \<in> domains then True
      else (case IndexByte d CHR ''.'' of
              None \<Rightarrow> False
            | Some dot \<Rightarrow> domain_loop domains (drop (dot + 1) d)))"
  by pat_completeness auto
termination
  by (relation "measure (\<lambda>(_, d). length d)") (auto simp: IndexByte_def dest: Index_Some)

declare domain_loop.simps [simp del]

definition isDisposableEmailDomain :: "gostring set \<Rightarrow> gostring \<Rightarrow> bool" where
  "isDisposableEmailDomain domains d = domain_loop domains (normalizeEmailDomain d)"

definition isDisposableEmail :: "gostring set \<Rightarrow> gostring \<Rightarrow> bool" where
  "isDisposableEmail domains email = (case LastIndexByte email CHR ''@'' of
     None \<Rightarrow> False
   | Some p \<Rightarrow> if p = length email - 1 then False
       else isDisposableEmailDomain domains (drop (p + 1) email))"

subsection \<open>Velocity (\<open>velocity.go\<close>)\<close>

definition velocityWindow5m :: int where "velocityWindow5m = 5 * Minute"
definition velocityWindow30m :: int where "velocityWindow30m = 30 * Minute"
definition velocityWindow1h :: int where "velocityWindow1h = Hour"
definition velocityWindow24h :: int where "velocityWindow24h = 24 * Hour"

record velocityEvent =
  VE_MerchantID :: gostring
  VE_PaymentID :: gostring
  VE_SeenKey :: gostring
  VE_At :: gotime
  VE_CardHash :: gostring
  VE_EmailHash :: gostring
  VE_PhoneHash :: gostring
  VE_WalletHash :: gostring

record velocityStore =
  Vel_events :: "velocityEvent list"
  Vel_seen :: "gostring set"

record velocityCounts =
  VC_CardAttempts1h :: int
  VC_EmailAttempts30m :: int
  VC_PhoneAttempts1h :: int
  VC_WalletAttempts1h :: int
  VC_MerchantAttempts5m :: int
  VC_DistinctCardsPerEmail24h :: int
  VC_DistinctCardsPerPhone24h :: int

definition zero_counts :: velocityCounts where
  "zero_counts = \<lparr>VC_CardAttempts1h = 0, VC_EmailAttempts30m = 0, VC_PhoneAttempts1h = 0,
     VC_WalletAttempts1h = 0, VC_MerchantAttempts5m = 0, VC_DistinctCardsPerEmail24h = 0,
     VC_DistinctCardsPerPhone24h = 0\<rparr>"

definition newVelocityStore :: velocityStore where
  "newVelocityStore = \<lparr>Vel_events = [], Vel_seen = {}\<rparr>"

definition seenKey :: "CreatePaymentRequest \<Rightarrow> gostring" where
  "seenKey r = Join [TrimSpace (Req_MerchantID r), TrimSpace (Req_PaymentID r),
     TrimSpace (Req_IdempotencyKey r)] '':''"

definition normalizeEmail :: "gostring \<Rightarrow> gostring" where
  "normalizeEmail email = ToLower (TrimSpace email)"

definition velocityWalletID :: "CreatePaymentRequest \<Rightarrow> gostring" where
  "velocityWalletID r = (let c = Info_CustomerData (Req_PaymentInfo r) in
     if TrimSpace (Cust_DigitalRubleWalletID c) \<noteq> '''' then Cust_DigitalRubleWalletID c
     else if TrimSpace (Cust_DigitalRubleIdentifier c) \<noteq> '''' then Cust_DigitalRubleIdentifier c
     else Cust_DigitalWalletID c)"

definition hashSensitive :: "(gostring \<Rightarrow> gostring) \<Rightarrow> gostring \<Rightarrow> gostring" where
  "hashSensitive hash value = (let v = TrimSpace value in if v = '''' then '''' else hash v)"

definition velocity_event ::
  "(gostring \<Rightarrow> gostring) \<Rightarrow> CreatePaymentRequest \<Rightarrow> gotime \<Rightarrow> velocityEvent" where
  "velocity_event hash r now = (let c = Info_CustomerData (Req_PaymentInfo r) in
     \<lparr>VE_MerchantID = TrimSpace (Req_MerchantID r), VE_PaymentID = TrimSpace (Req_PaymentID r),
      VE_SeenKey = seenKey r, VE_At = now,
      VE_CardHash = hashSensitive hash (af_onlyDigits (Cust_CardNumber c)),
      VE_EmailHash = hashSensitive hash (normalizeEmail (Cust_Email c)),
      VE_PhoneHash = hashSensitive hash (af_onlyDigits (Cust_Phone c)),
      VE_WalletHash = hashSensitive hash (ToLower (TrimSpace (velocityWalletID r)))\<rparr>)"

definition pruneLocked :: "gotime \<Rightarrow> velocityStore \<Rightarrow> velocityStore" where
  "pruneLocked cutoff s =
     (let kept = filter (\<lambda>e. \<not> VE_At e < cutoff) (Vel_events s) in
      \<lparr>Vel_events = kept,
       Vel_seen = set (filter (\<lambda>k. k \<noteq> '''') (map VE_SeenKey kept))\<rparr>)"

text \<open>\<open>if b { counts.X++ }\<close>.\<close>

definition bump :: "bool \<Rightarrow> ((int \<Rightarrow> int) \<Rightarrow> velocityCounts \<Rightarrow> velocityCounts) \<Rightarrow>
    velocityCounts \<Rightarrow> velocityCounts" where
  "bump b upd c = (if b then upd (\<lambda>n. n + 1) c else c)"

text \<open>One round of the counting loop; the two sets hold the distinct card fingerprints.\<close>

definition count_event :: "velocityEvent \<Rightarrow> gotime \<Rightarrow>
    velocityCounts \<times> gostring set \<times> gostring set \<Rightarrow> velocityEvent \<Rightarrow>
    velocityCounts \<times> gostring set \<times> gostring set" where
  "count_event current now acc e = (case acc of (counts, byEmail, byPhone) \<Rightarrow>
     if VE_MerchantID e \<noteq> VE_MerchantID current then acc
     else
       let age = now - VE_At e;
           counts = bump (age \<le> velocityWindow5m) VC_MerchantAttempts5m_update counts;
           counts = bump (VE_CardHash current \<noteq> '''' \<and> VE_CardHash e = VE_CardHash current
             \<and> age \<le> velocityWindow1h) VC_CardAttempts1h_update counts;
           counts = bump (VE_EmailHash current \<noteq> '''' \<and> VE_EmailHash e = VE_EmailHash current
             \<and> age \<le> velocityWindow30m) VC_EmailAttempts30m_update counts;
           counts = bump (VE_PhoneHash current \<noteq> '''' \<and> VE_PhoneHash e = VE_PhoneHash current
             \<and> age \<le> velocityWindow1h) VC_PhoneAttempts1h_update counts;
           counts = bump (VE_WalletHash current \<noteq> '''' \<and> VE_WalletHash e = VE_WalletHash current
             \<and> age \<le> velocityWindow1h) VC_WalletAttempts1h_update counts;
           byEmail = (if VE_EmailHash current \<noteq> '''' \<and> VE_EmailHash e = VE_EmailHash current
               \<and> VE_CardHash e \<noteq> '''' \<and> age \<le> velocityWindow24h
             then insert (VE_CardHash e) byEmail else byEmail);
           byPhone = (if VE_PhoneHash current \<noteq> '''' \<and> VE_PhoneHash e = VE_PhoneHash current
               \<and> VE_CardHash e \<noteq> '''' \<and> age \<le> velocityWindow24h
             then insert (VE_CardHash e) byPhone else byPhone)
       in (counts, byEmail, byPhone))"

definition countLocked :: "velocityEvent \<Rightarrow> gotime \<Rightarrow> velocityStore \<Rightarrow> velocityCounts" where
  "countLocked current now s =
     (case foldl (count_event current now) (zero_counts, {}, {}) (Vel_events s) of
        (counts, byEmail, byPhone) \<Rightarrow>
          counts\<lparr>VC_DistinctCardsPerEmail24h := int (card byEmail),
                 VC_DistinctCardsPerPhone24h := int (card byPhone)\<rparr>)"

definition record_event :: "velocityEvent \<Rightarrow> velocityStore \<Rightarrow> velocityStore" where
  "record_event e s =
     (if VE_SeenKey e \<noteq> '''' then
        (if VE_SeenKey e \<notin> Vel_seen s
         then s\<lparr>Vel_events := Vel_events s @ [e], Vel_seen := insert (VE_SeenKey e) (Vel_seen s)\<rparr>
         else s)
      else s\<lparr>Vel_events := Vel_events s @ [e]\<rparr>)"

definition recordAndCount :: "(gostring \<Rightarrow> gostring) \<Rightarrow> CreatePaymentRequest \<Rightarrow> gotime \<Rightarrow>
    velocityStore \<Rightarrow> velocityCounts \<times> velocityStore" where
  "recordAndCount hash r now s =
     (let event = velocity_event hash r now;
          s1 = pruneLocked (now - velocityWindow24h) s;
          s2 = record_event event s1
      in (countLocked event now s2, s2))"

definition counts_empty :: "velocityCounts \<Rightarrow> bool" where
  "counts_empty c = (VC_CardAttempts1h c = 0 \<and> VC_EmailAttempts30m c = 0
     \<and> VC_PhoneAttempts1h c = 0 \<and> VC_WalletAttempts1h c = 0 \<and> VC_MerchantAttempts5m c = 0
     \<and> VC_DistinctCardsPerEmail24h c = 0 \<and> VC_DistinctCardsPerPhone24h c = 0)"

subsection \<open>The OPA policy (\<open>opa_policy.go\<close>)\<close>

datatype opa_policy = OpaNil | OpaOk | OpaErr goerror

record opaInput =
  In_merchant_id :: gostring
  In_payment_id :: gostring
  In_idempotency_key :: gostring
  In_amount :: f64
  In_currency :: gostring
  In_payment_method :: gostring
  In_email :: gostring
  In_phone :: gostring
  In_card_last4 :: gostring
  In_digital_wallet_id :: gostring
  In_digital_ruble_wallet_id :: gostring
  In_digital_ruble_identifier :: gostring
  In_description :: gostring

definition cardLast4 :: "gostring \<Rightarrow> gostring" where
  "cardLast4 pan = (let digits = af_onlyDigits pan in
     if length digits < 4 then [] else drop (length digits - 4) digits)"

definition opa_input :: "CreatePaymentRequest \<Rightarrow> opaInput" where
  "opa_input r = (let p = Req_PaymentInfo r; c = Info_CustomerData p in
     \<lparr>In_merchant_id = TrimSpace (Req_MerchantID r),
      In_payment_id = TrimSpace (Req_PaymentID r),
      In_idempotency_key = TrimSpace (Req_IdempotencyKey r),
      In_amount = Amount_Value (Info_Amount p),
      In_currency = Amount_Currency (Info_Amount p),
      In_payment_method = Method_Type (Info_PaymentMethodData p),
      In_email = TrimSpace (Cust_Email c),
      In_phone = TrimSpace (Cust_Phone c),
      In_card_last4 = cardLast4 (Cust_CardNumber c),
      In_digital_wallet_id = TrimSpace (Cust_DigitalWalletID c),
      In_digital_ruble_wallet_id = TrimSpace (Cust_DigitalRubleWalletID c),
      In_digital_ruble_identifier = TrimSpace (Cust_DigitalRubleIdentifier c),
      In_description = TrimSpace (Info_Description p)\<rparr>)"

text \<open>
  A finding as the policy builds it: its three members are always there, \<open>result\<close> and \<open>reason\<close>
  are texts and \<open>score\<close> is the number 100, so \<open>intValue\<close> and \<open>stringValue\<close> return them as they are.
\<close>

record finding =
  Fd_result :: gostring
  Fd_score :: int
  Fd_reason :: gostring

definition opaAntiFraudModule :: "opaInput \<Rightarrow> finding list" where
  "opaAntiFraudModule i =
     (if Fin 500000 \<le> In_amount i then
        [\<lparr>Fd_result = ''BLOCKED'', Fd_score = 100,
          Fd_reason = ''OPA policy blocked payment: amount exceeds 500000''\<rparr>] else []) @
     (if ToLower (In_digital_wallet_id i) = ''opa_blocked_wallet'' then
        [\<lparr>Fd_result = ''BLOCKED'', Fd_score = 100,
          Fd_reason = ''OPA policy blocked payment: digital wallet is in deny list''\<rparr>] else []) @
     (if ToLower (In_email i) = ''opa.blocked@example.com'' then
        [\<lparr>Fd_result = ''BLOCKED'', Fd_score = 100,
          Fd_reason = ''OPA policy blocked payment: email is in deny list''\<rparr>] else [])"

definition opa_result :: "finding list \<Rightarrow> fraudRuleResult" where
  "opa_result findings =
     (if findings = [] then no_rule
      else
        let totalScore = sum_list (map Fd_score findings);
            block = list_ex (\<lambda>f. EqualFold (Fd_result f) ResultBlocked) findings;
            reasons = filter (\<lambda>r. r \<noteq> '''') (map (\<lambda>f. TrimSpace (Fd_reason f)) findings)
        in if totalScore = 0 \<and> reasons = [] then no_rule
           else \<lparr>Rule_Name = ''opa_policy'', Rule_Score = totalScore, Rule_Block = block,
                 Rule_Reason = Join reasons ''; ''\<rparr>)"

definition checkOPA :: "opa_policy \<Rightarrow> CreatePaymentRequest \<Rightarrow> fraudRuleResult result" where
  "checkOPA policy r = (case policy of
     OpaNil \<Rightarrow> Inr no_rule
   | OpaErr e \<Rightarrow> Inl (''evaluate opa antifraud policy: '' @ e)
   | OpaOk \<Rightarrow> Inr (opa_result (opaAntiFraudModule (opa_input r))))"

subsection \<open>The rules (\<open>rule_based_antifraud.go\<close>)\<close>

text \<open>Appends a reason and adds a score when a condition holds, as each \<open>if\<close> of
  \<open>checkVelocity\<close> does; the counter is printed between two texts.\<close>

definition velocity_hit :: "gostring \<Rightarrow> int \<Rightarrow> gostring \<Rightarrow> int \<Rightarrow> int \<times> gostring" where
  "velocity_hit a n b score = (score, a @ Itoa n @ b)"

definition velocity_hits :: "velocityCounts \<Rightarrow> (int \<times> gostring) list" where
  "velocity_hits v =
     (let n = VC_CardAttempts1h v; hit = velocity_hit ''same card fingerprint has '' n '' attempts in 1h''
      in if n \<ge> 5 then [hit 70] else if n \<ge> 4 then [hit 40] else []) @
     (let n = VC_EmailAttempts30m v
      in if n \<ge> 5 then [velocity_hit ''same email has '' n '' attempts in 30m'' 35] else []) @
     (let n = VC_PhoneAttempts1h v
      in if n \<ge> 6 then [velocity_hit ''same phone has '' n '' attempts in 1h'' 30] else []) @
     (let n = VC_WalletAttempts1h v; hit = velocity_hit ''same wallet has '' n '' attempts in 1h''
      in if n \<ge> 6 then [hit 55] else if n \<ge> 4 then [hit 35] else []) @
     (let n = VC_DistinctCardsPerEmail24h v; hit = velocity_hit ''email used '' n '' distinct cards in 24h''
      in if n \<ge> 5 then [hit 60] else if n \<ge> 3 then [hit 30] else []) @
     (let n = VC_DistinctCardsPerPhone24h v; hit = velocity_hit ''phone used '' n '' distinct cards in 24h''
      in if n \<ge> 5 then [hit 60] else if n \<ge> 3 then [hit 30] else []) @
     (let n = VC_MerchantAttempts5m v
      in if n \<ge> 30 then [velocity_hit ''merchant has '' n '' attempts in 5m'' 20] else [])"

definition checkVelocity :: "velocityCounts \<Rightarrow> fraudRuleResult" where
  "checkVelocity v =
     (if counts_empty v then no_rule
      else
        let hits = velocity_hits v;
            score = sum_list (map fst hits);
            block = (VC_CardAttempts1h v \<ge> 5 \<or> VC_WalletAttempts1h v \<ge> 6)
        in if score = 0 then no_rule
           else \<lparr>Rule_Name = ''velocity_scorecard'', Rule_Score = score, Rule_Block = block,
                 Rule_Reason = Join (map snd hits) ''; ''\<rparr>)"

definition checkAmount :: "CreatePaymentRequest \<Rightarrow> fraudRuleResult" where
  "checkAmount r =
     (let amount = Amount_Value (Info_Amount (Req_PaymentInfo r)) in
      if defaultBlockAmountLimit \<le> amount then
        \<lparr>Rule_Name = ''amount_block_limit'', Rule_Score = 100, Rule_Block = True,
         Rule_Reason = ''amount '' @ FormatFloat2 amount @ '' exceeds block limit ''
           @ FormatFloat2 defaultBlockAmountLimit\<rparr>
      else if defaultReviewAmountLimit \<le> amount then
        \<lparr>Rule_Name = ''amount_review_limit'', Rule_Score = 35, Rule_Block = False,
         Rule_Reason = ''amount '' @ FormatFloat2 amount @ '' exceeds review limit ''
           @ FormatFloat2 defaultReviewAmountLimit\<rparr>
      else no_rule)"

definition blockedCards :: "(gostring \<times> gostring) list" where
  "blockedCards = [(''4000000000000002'', ''blocked test card number''),
     (''4111111111110002'', ''blocked card number'')]"

definition blockedLast4 :: "(gostring \<times> gostring) list" where
  "blockedLast4 = [(''0002'', ''card is in blocked last4 test list''),
     (''9995'', ''card is in suspicious last4 test list'')]"

definition checkCard :: "CreatePaymentRequest \<Rightarrow> fraudRuleResult" where
  "checkCard r =
     (if Method_Type (Info_PaymentMethodData (Req_PaymentInfo r)) \<noteq> PaymentMethodCard then no_rule
      else
        let pan = af_onlyDigits (Cust_CardNumber (Info_CustomerData (Req_PaymentInfo r))) in
        if pan = '''' then no_rule
        else (case map_of blockedCards pan of
          Some reason \<Rightarrow> \<lparr>Rule_Name = ''blocked_card'', Rule_Score = 100, Rule_Block = True,
            Rule_Reason = reason\<rparr>
        | None \<Rightarrow>
            if length pan \<ge> 4 then
              let last4 = drop (length pan - 4) pan in
              (case map_of blockedLast4 last4 of
                 Some reason \<Rightarrow> \<lparr>Rule_Name = ''suspicious_card_last4'', Rule_Score = 60,
                   Rule_Block = (last4 = ''0002''), Rule_Reason = reason\<rparr>
               | None \<Rightarrow> no_rule)
            else no_rule))"

definition digitalWalletRiskID :: "CreatePaymentRequest \<Rightarrow> gostring" where
  "digitalWalletRiskID r = (let c = Info_CustomerData (Req_PaymentInfo r) in
     if TrimSpace (Cust_DigitalRubleWalletID c) \<noteq> '''' then Cust_DigitalRubleWalletID c
     else if TrimSpace (Cust_DigitalRubleIdentifier c) \<noteq> '''' then Cust_DigitalRubleIdentifier c
     else Cust_DigitalWalletID c)"

definition blockedWallets :: "(gostring \<times> gostring) list" where
  "blockedWallets = [(''blocked_wallet'', ''digital wallet is blocked''),
     (''fraud_wallet'', ''digital wallet is marked as fraudulent''),
     (''dr_wallet_blocked'', ''digital ruble wallet is blocked''),
     (''dr_wallet_fraud'', ''digital ruble wallet is marked as fraudulent'')]"

definition checkDigitalWallet :: "CreatePaymentRequest \<Rightarrow> fraudRuleResult" where
  "checkDigitalWallet r =
     (let t = Method_Type (Info_PaymentMethodData (Req_PaymentInfo r)) in
      if t \<noteq> PaymentMethodDigitalWallet \<and> t \<noteq> PaymentMethodDigitalRuble then no_rule
      else (case map_of blockedWallets (ToLower (TrimSpace (digitalWalletRiskID r))) of
        Some reason \<Rightarrow> \<lparr>Rule_Name = ''blocked_wallet'', Rule_Score = 100, Rule_Block = True,
          Rule_Reason = reason\<rparr>
      | None \<Rightarrow> no_rule))"

text \<open>The counting loop of \<open>hasTooManyRepeatedDigits\<close>: stops when a rune is seen the
  seventh time.\<close>

fun repeated_loop :: "(nat \<Rightarrow> nat) \<Rightarrow> nat list \<Rightarrow> bool" where
  "repeated_loop counts [] = False"
| "repeated_loop counts (r # rs) =
     (let counts = counts(r := counts r + 1) in
      if counts r \<ge> 7 then True else repeated_loop counts rs)"

definition hasTooManyRepeatedDigits :: "gostring \<Rightarrow> bool" where
  "hasTooManyRepeatedDigits value =
     (let digits = af_onlyDigits value in
      if length digits < 7 then False else repeated_loop (\<lambda>_. 0) (runes digits))"

definition blockedPhones :: "(gostring \<times> gostring) list" where
  "blockedPhones = [(''+79990000000'', ''phone is in blocked list''),
     (''+70000000000'', ''phone is in blocked list'')]"

definition checkPhone :: "CreatePaymentRequest \<Rightarrow> fraudRuleResult" where
  "checkPhone r =
     (let phone = TrimSpace (Cust_Phone (Info_CustomerData (Req_PaymentInfo r))) in
      if phone = '''' then no_rule
      else (case map_of blockedPhones phone of
        Some reason \<Rightarrow> \<lparr>Rule_Name = ''blocked_phone'', Rule_Score = 100, Rule_Block = True,
          Rule_Reason = reason\<rparr>
      | None \<Rightarrow>
          if hasTooManyRepeatedDigits phone then
            \<lparr>Rule_Name = ''suspicious_phone'', Rule_Score = 20, Rule_Block = False,
             Rule_Reason = ''phone contains too many repeated digits''\<rparr>
          else no_rule))"

definition checkEmail :: "gostring set \<Rightarrow> CreatePaymentRequest \<Rightarrow> fraudRuleResult" where
  "checkEmail domains r =
     (let email = ToLower (TrimSpace (Cust_Email (Info_CustomerData (Req_PaymentInfo r)))) in
      if email = '''' then no_rule
      else if Contains email ''fraud'' \<or> Contains email ''scam'' \<or> Contains email ''blocked'' then
        \<lparr>Rule_Name = ''suspicious_email_keyword'', Rule_Score = 40, Rule_Block = False,
         Rule_Reason = ''email contains suspicious keyword''\<rparr>
      else if isDisposableEmail domains email then
        \<lparr>Rule_Name = ''temporary_email_domain'', Rule_Score = 25, Rule_Block = False,
         Rule_Reason = ''email uses disposable domain from Castle list''\<rparr>
      else no_rule)"

definition suspiciousWords :: "gostring list" where
  "suspiciousWords = [''fraud'', ''scam'', koi8 ''OBNAL'', koi8 ''MO[EN'', ''blocked'']"

definition checkDescription :: "CreatePaymentRequest \<Rightarrow> fraudRuleResult" where
  "checkDescription r =
     (let description = ToLower (TrimSpace (Info_Description (Req_PaymentInfo r))) in
      if description = '''' then no_rule
      else if list_ex (\<lambda>w. Contains description w) suspiciousWords then
        \<lparr>Rule_Name = ''suspicious_description'', Rule_Score = 30, Rule_Block = False,
         Rule_Reason = ''payment description contains suspicious keyword''\<rparr>
      else no_rule)"

definition joinReasons :: "gostring list \<Rightarrow> gostring" where
  "joinReasons reasons =
     (let filtered = filter (\<lambda>r. TrimSpace r \<noteq> '''') reasons in
      if filtered = [] then ''antifraud rule triggered'' else Join filtered ''; '')"

text \<open>The scoring loop of \<open>Check\<close> and the verdict after it.\<close>

fun score_loop :: "int \<Rightarrow> gostring list \<Rightarrow> fraudRuleResult list \<Rightarrow> AntiFraudResult" where
  "score_loop totalScore reasons [] =
     (if maxRiskScoreBeforeBlock \<le> totalScore then
        \<lparr>AF_Result = ResultBlocked, AF_Reason = ''risk score '' @ Itoa totalScore
           @ '' exceeds block threshold '' @ Itoa maxRiskScoreBeforeBlock @ '': '' @ joinReasons reasons\<rparr>
      else if maxRiskScoreBeforeReview \<le> totalScore then
        \<lparr>AF_Result = ResultReview, AF_Reason = ''risk score '' @ Itoa totalScore
           @ '' requires manual review: '' @ joinReasons reasons\<rparr>
      else if 0 < totalScore then
        \<lparr>AF_Result = ResultReview, AF_Reason = joinReasons reasons\<rparr>
      else \<lparr>AF_Result = ResultPassed, AF_Reason = ''no suspicious antifraud rules triggered''\<rparr>)"
| "score_loop totalScore reasons (r # rs) =
     (if Rule_Name r = '''' then score_loop totalScore reasons rs
      else
        let totalScore = (if 0 < Rule_Score r then totalScore + Rule_Score r else totalScore);
            reasons = (if Rule_Reason r \<noteq> '''' then reasons @ [Rule_Reason r] else reasons)
        in if Rule_Block r then
             \<lparr>AF_Result = ResultBlocked, AF_Reason = ''risk score '' @ Itoa totalScore
                @ '' blocked: '' @ joinReasons reasons\<rparr>
           else score_loop totalScore reasons rs)"

definition rule_results :: "gostring set \<Rightarrow> CreatePaymentRequest \<Rightarrow> velocityCounts
    \<Rightarrow> fraudRuleResult \<Rightarrow> fraudRuleResult list" where
  "rule_results domains r velocity opaResult =
     [opaResult, checkAmount r, checkCard r, checkDigitalWallet r, checkPhone r,
      checkEmail domains r, checkDescription r, checkVelocity velocity]"

text \<open>
  \<open>Check\<close>: the context error, the clock, the velocity store (recorded before OPA is asked,
  so it also changes when OPA fails).
\<close>

definition Check :: "(gostring \<Rightarrow> gostring) \<Rightarrow> gostring \<Rightarrow> opa_policy \<Rightarrow> goerror option \<Rightarrow> gotime
    \<Rightarrow> CreatePaymentRequest \<Rightarrow> velocityStore \<Rightarrow> AntiFraudResult result \<times> velocityStore" where
  "Check hash raw policy ctx_err now r s = (case ctx_err of
     Some e \<Rightarrow> (Inl e, s)
   | None \<Rightarrow>
       (case recordAndCount hash r now s of (velocity, s') \<Rightarrow>
         (case checkOPA policy r of
            Inl e \<Rightarrow> (Inl e, s')
          | Inr opaResult \<Rightarrow>
              (Inr (score_loop 0 []
                 (rule_results (loadDisposableEmailDomains raw) r velocity opaResult)), s'))))"

subsection \<open>Scores and verdicts\<close>

definition blocking :: "fraudRuleResult list \<Rightarrow> bool" where
  "blocking rs = list_ex (\<lambda>r. Rule_Name r \<noteq> '''' \<and> Rule_Block r) rs"

definition risk_score :: "fraudRuleResult list \<Rightarrow> int" where
  "risk_score rs = sum_list (map (\<lambda>r. if Rule_Name r \<noteq> '''' \<and> 0 < Rule_Score r then Rule_Score r else 0) rs)"

definition verdict :: "fraudRuleResult list \<Rightarrow> gostring" where
  "verdict rs = (if blocking rs \<or> 80 \<le> risk_score rs then ResultBlocked
     else if 0 < risk_score rs then ResultReview else ResultPassed)"

lemma risk_score_nonneg: "0 \<le> risk_score rs"
  unfolding risk_score_def by (induction rs) auto

lemma risk_score_Cons: "risk_score (r # rs) =
    (if Rule_Name r \<noteq> '''' \<and> 0 < Rule_Score r then Rule_Score r else 0) + risk_score rs"
  by (simp add: risk_score_def)

lemma blocking_Cons: "blocking (r # rs) = (Rule_Name r \<noteq> '''' \<and> Rule_Block r \<or> blocking rs)"
  by (simp add: blocking_def)

lemma score_loop_result:
  "AF_Result (score_loop t reasons rs) =
     (if blocking rs \<or> 80 \<le> t + risk_score rs then ResultBlocked
      else if 0 < t + risk_score rs then ResultReview else ResultPassed)"
proof (induction rs arbitrary: t reasons)
  case Nil
  then show ?case
    by (simp add: blocking_def risk_score_def maxRiskScoreBeforeBlock_def maxRiskScoreBeforeReview_def)
next
  case (Cons r rs)
  show ?case
    by (cases "Rule_Name r = ''''"; cases "0 < Rule_Score r"; cases "Rule_Block r")
      (simp_all add: Cons.IH risk_score_Cons blocking_Cons Let_def add.assoc)
qed

lemma score_loop_verdict: "AF_Result (score_loop 0 [] rs) = verdict rs"
  by (simp add: score_loop_result verdict_def)

subsection \<open>Velocity counters\<close>

definition vel_inv :: "velocityStore \<Rightarrow> bool" where
  "vel_inv s = (Vel_seen s = VE_SeenKey ` set (Vel_events s)
     \<and> distinct (map VE_SeenKey (Vel_events s)) \<and> '''' \<notin> Vel_seen s)"

lemma seenKey_not_empty [simp]: "seenKey r \<noteq> ''''"
  by (simp add: seenKey_def)

lemma event_simps [simp]:
  "VE_SeenKey (velocity_event hash r now) = seenKey r"
  "VE_At (velocity_event hash r now) = now"
  "VE_MerchantID (velocity_event hash r now) = TrimSpace (Req_MerchantID r)"
  by (simp_all add: velocity_event_def Let_def)

lemma vel_inv_keys: "vel_inv s \<Longrightarrow> e \<in> set (Vel_events s) \<Longrightarrow> VE_SeenKey e \<noteq> ''''"
  unfolding vel_inv_def by (metis image_eqI)

lemma prune_inv:
  assumes "vel_inv s"
  shows "vel_inv (pruneLocked c s)"
proof -
  let ?kept = "filter (\<lambda>e. \<not> VE_At e < c) (Vel_events s)"
  have keys: "filter (\<lambda>k. k \<noteq> '''') (map VE_SeenKey ?kept) = map VE_SeenKey ?kept"
    using vel_inv_keys [OF assms] by (simp add: filter_id_conv)
  have "distinct (map VE_SeenKey ?kept)"
    using assms by (simp add: vel_inv_def distinct_map_filter)
  moreover have "'''' \<notin> VE_SeenKey ` set ?kept"
    using vel_inv_keys [OF assms] by force
  ultimately show ?thesis
    unfolding pruneLocked_def Let_def keys by (simp add: vel_inv_def)
qed

lemma record_inv: "vel_inv s \<Longrightarrow> VE_SeenKey e \<noteq> '''' \<Longrightarrow> vel_inv (record_event e s)"
  by (auto simp: vel_inv_def record_event_def)

lemma prune_fresh: "e \<in> set (Vel_events (pruneLocked c s)) \<Longrightarrow> c \<le> VE_At e"
  by (simp add: pruneLocked_def Let_def)

lemma prune_id:
  "vel_inv s \<Longrightarrow> \<forall>e\<in>set (Vel_events s). c \<le> VE_At e \<Longrightarrow> pruneLocked c s = s"
proof -
  assume inv: "vel_inv s" and fresh: "\<forall>e\<in>set (Vel_events s). c \<le> VE_At e"
  then have kept: "filter (\<lambda>e. \<not> VE_At e < c) (Vel_events s) = Vel_events s"
    by (simp add: filter_id_conv not_less)
  have keys: "filter (\<lambda>k. k \<noteq> '''') (map VE_SeenKey (Vel_events s)) = map VE_SeenKey (Vel_events s)"
    using vel_inv_keys [OF inv] by (simp add: filter_id_conv)
  show "pruneLocked c s = s"
    unfolding pruneLocked_def Let_def kept keys using inv by (simp add: vel_inv_def)
qed

lemma record_seen: "VE_SeenKey e \<noteq> '''' \<Longrightarrow> VE_SeenKey e \<in> Vel_seen (record_event e s)"
  by (simp add: record_event_def)

lemma record_events: "set (Vel_events (record_event e s)) \<subseteq> insert e (set (Vel_events s))"
  by (auto simp: record_event_def)

lemma recordAndCount_store:
  "snd (recordAndCount hash r now s)
     = record_event (velocity_event hash r now) (pruneLocked (now - velocityWindow24h) s)"
  by (simp add: recordAndCount_def Let_def)

lemma recordAndCount_counts:
  "fst (recordAndCount hash r now s)
     = countLocked (velocity_event hash r now) now (snd (recordAndCount hash r now s))"
  by (simp add: recordAndCount_def Let_def)

text \<open>The retained events of the payer's merchant that match a condition on their age.\<close>

definition tenant_events :: "velocityEvent \<Rightarrow> velocityStore \<Rightarrow> velocityEvent list" where
  "tenant_events e s = filter (\<lambda>x. VE_MerchantID x = VE_MerchantID e) (Vel_events s)"

definition attempts :: "gotime \<Rightarrow> int \<Rightarrow> (velocityEvent \<Rightarrow> bool) \<Rightarrow> velocityEvent list \<Rightarrow> int" where
  "attempts now window P es = int (length (filter (\<lambda>x. P x \<and> now - VE_At x \<le> window) es))"

definition same_hash :: "(velocityEvent \<Rightarrow> gostring) \<Rightarrow> velocityEvent \<Rightarrow> velocityEvent \<Rightarrow> bool" where
  "same_hash h e x = (h e \<noteq> '''' \<and> h x = h e)"

definition used_cards :: "gotime \<Rightarrow> (velocityEvent \<Rightarrow> bool) \<Rightarrow> velocityEvent list \<Rightarrow> gostring set" where
  "used_cards now P es = VE_CardHash ` {x \<in> set es. P x \<and> VE_CardHash x \<noteq> ''''
     \<and> now - VE_At x \<le> velocityWindow24h}"

definition velocity_spec :: "velocityEvent \<Rightarrow> gotime \<Rightarrow> velocityEvent list \<Rightarrow> velocityCounts" where
  "velocity_spec e now es = \<lparr>
     VC_CardAttempts1h = attempts now velocityWindow1h (same_hash VE_CardHash e) es,
     VC_EmailAttempts30m = attempts now velocityWindow30m (same_hash VE_EmailHash e) es,
     VC_PhoneAttempts1h = attempts now velocityWindow1h (same_hash VE_PhoneHash e) es,
     VC_WalletAttempts1h = attempts now velocityWindow1h (same_hash VE_WalletHash e) es,
     VC_MerchantAttempts5m = attempts now velocityWindow5m (\<lambda>_. True) es,
     VC_DistinctCardsPerEmail24h = int (card (used_cards now (same_hash VE_EmailHash e) es)),
     VC_DistinctCardsPerPhone24h = int (card (used_cards now (same_hash VE_PhoneHash e) es))\<rparr>"

lemma attempts_snoc: "attempts now w P (es @ [x])
    = attempts now w P es + (if P x \<and> now - VE_At x \<le> w then 1 else 0)"
  by (simp add: attempts_def)

lemma used_cards_snoc: "used_cards now P (es @ [x]) =
    (if P x \<and> VE_CardHash x \<noteq> '''' \<and> now - VE_At x \<le> velocityWindow24h
     then insert (VE_CardHash x) (used_cards now P es) else used_cards now P es)"
  by (auto simp: used_cards_def)

lemma bump_simps:
  "bump b VC_MerchantAttempts5m_update c
     = c\<lparr>VC_MerchantAttempts5m := VC_MerchantAttempts5m c + (if b then 1 else 0)\<rparr>"
  "bump b VC_CardAttempts1h_update c
     = c\<lparr>VC_CardAttempts1h := VC_CardAttempts1h c + (if b then 1 else 0)\<rparr>"
  "bump b VC_EmailAttempts30m_update c
     = c\<lparr>VC_EmailAttempts30m := VC_EmailAttempts30m c + (if b then 1 else 0)\<rparr>"
  "bump b VC_PhoneAttempts1h_update c
     = c\<lparr>VC_PhoneAttempts1h := VC_PhoneAttempts1h c + (if b then 1 else 0)\<rparr>"
  "bump b VC_WalletAttempts1h_update c
     = c\<lparr>VC_WalletAttempts1h := VC_WalletAttempts1h c + (if b then 1 else 0)\<rparr>"
  by (simp_all add: bump_def)

lemma count_fold:
  "foldl (count_event e now) (zero_counts, {}, {}) es =
     ((velocity_spec e now (filter (\<lambda>x. VE_MerchantID x = VE_MerchantID e) es))
        \<lparr>VC_DistinctCardsPerEmail24h := 0, VC_DistinctCardsPerPhone24h := 0\<rparr>,
      used_cards now (same_hash VE_EmailHash e) (filter (\<lambda>x. VE_MerchantID x = VE_MerchantID e) es),
      used_cards now (same_hash VE_PhoneHash e) (filter (\<lambda>x. VE_MerchantID x = VE_MerchantID e) es))"
proof (induction es rule: rev_induct)
  case Nil
  show ?case by (simp add: zero_counts_def velocity_spec_def attempts_def used_cards_def)
next
  case (snoc x es)
  show ?case
  proof (cases "VE_MerchantID x = VE_MerchantID e")
    case False
    with snoc show ?thesis by (simp add: count_event_def)
  next
    case True
    with snoc show ?thesis
      by (simp add: count_event_def velocity_spec_def attempts_snoc used_cards_snoc same_hash_def
          bump_simps Let_def conj_assoc split del: if_split)
  qed
qed

lemma countLocked_spec: "countLocked e now s = velocity_spec e now (tenant_events e s)"
  by (simp add: countLocked_def count_fold tenant_events_def velocity_spec_def)

subsection \<open>Domains\<close>

lemma IndexByte_Some_dot: "IndexByte d c = Some i \<Longrightarrow> \<exists>u v. d = u @ c # v \<and> length u = i \<and> c \<notin> set u"
proof (induction d arbitrary: i)
  case Nil
  then show ?case by (simp add: IndexByte_def)
next
  case (Cons x d)
  show ?case
  proof (cases "x = c")
    case True
    with Cons.prems have "i = 0" by (simp add: IndexByte_def HasPrefix_def)
    with True have "x # d = [] @ c # d \<and> length [] = i \<and> c \<notin> set []" by simp
    then show ?thesis by blast
  next
    case False
    with Cons.prems obtain j where j: "IndexByte d c = Some j" "i = Suc j"
      by (auto simp: IndexByte_def HasPrefix_def)
    from Cons.IH [OF j(1)] obtain u v where "d = u @ c # v" "length u = j" "c \<notin> set u" by blast
    with False j(2) have "x # d = (x # u) @ c # v \<and> length (x # u) = i \<and> c \<notin> set (x # u)" by simp
    then show ?thesis by blast
  qed
qed

lemma IndexByte_None: "IndexByte d c = None \<longleftrightarrow> c \<notin> set d"
  by (induction d) (auto simp: IndexByte_def HasPrefix_def)

text \<open>A name and everything after one of its dots.\<close>

definition domain_suffix :: "gostring \<Rightarrow> gostring \<Rightarrow> bool" where
  "domain_suffix x d = (x \<noteq> '''' \<and> (d = x \<or> (\<exists>u. d = u @ ''.'' @ x)))"

lemma domain_loop_iff: "domain_loop domains d \<longleftrightarrow> (\<exists>x\<in>domains. domain_suffix x d)"
proof (induction domains d rule: domain_loop.induct)
  case (1 domains d)
  show ?case
  proof (cases "d = '''' \<or> d \<in> domains")
    case True
    then show ?thesis
      by (subst domain_loop.simps) (auto simp: domain_suffix_def)
  next
    case ne: False
    show ?thesis
    proof (cases "IndexByte d CHR ''.''")
      case None
      then have "CHR ''.'' \<notin> set d" by (simp add: IndexByte_None)
      with None ne show ?thesis by (subst domain_loop.simps) (auto simp: domain_suffix_def)
    next
      case (Some i)
      from IndexByte_Some_dot [OF Some] obtain u v where d: "d = u @ CHR ''.'' # v" "length u = i"
        "CHR ''.'' \<notin> set u" by blast
      then have rest: "drop (i + 1) d = v" by simp
      have "domain_loop domains d = domain_loop domains v"
        using ne Some rest by (subst domain_loop.simps) simp
      also have "\<dots> \<longleftrightarrow> (\<exists>x\<in>domains. domain_suffix x v)"
        using "1.IH" ne Some rest by auto
      also have "\<dots> \<longleftrightarrow> (\<exists>x\<in>domains. domain_suffix x d)"
      proof -
        have "domain_suffix x v \<longleftrightarrow> domain_suffix x d" if "x \<in> domains" for x
        proof
          assume "domain_suffix x v"
          then consider "x \<noteq> ''''" "v = x" | w where "x \<noteq> ''''" "v = w @ ''.'' @ x"
            unfolding domain_suffix_def by blast
          then have "(\<exists>p. d = p @ ''.'' @ x) \<and> x \<noteq> ''''"
          proof cases
            case 1
            then show ?thesis using d(1) by auto
          next
            case (2 w)
            then have "d = (u @ ''.'' @ w) @ ''.'' @ x" using d(1) by simp
            with 2(1) show ?thesis by blast
          qed
          then show "domain_suffix x d" unfolding domain_suffix_def by blast
        next
          assume s: "domain_suffix x d"
          have "d \<noteq> x" using that ne by blast
          with s obtain w where w: "x \<noteq> ''''" "d = w @ CHR ''.'' # x"
            unfolding domain_suffix_def by auto
          show "domain_suffix x v"
          proof (cases "CHR ''.'' \<in> set w")
            case False
            with append_sep_inj [OF d(3) False, of v x] d(1) w(2) have "v = x" by simp
            with w(1) show ?thesis by (simp add: domain_suffix_def)
          next
            case True
            then obtain p q where p: "w = p @ CHR ''.'' # q" "CHR ''.'' \<notin> set p"
              using split_list_first [OF True] by blast
            then have "u @ CHR ''.'' # v = p @ CHR ''.'' # (q @ CHR ''.'' # x)" using d(1) w by simp
            from append_sep_inj [OF d(3) p(2) this] have "v = q @ ''.'' @ x" by simp
            with w(1) show ?thesis unfolding domain_suffix_def by blast
          qed
        qed
        then show ?thesis by blast
      qed
      finally show ?thesis .
    qed
  qed
qed

lemma recordAndCount_fresh:
  assumes "e \<in> set (Vel_events (snd (recordAndCount hash r now s)))"
  shows "now - velocityWindow24h \<le> VE_At e"
proof -
  from assms have "e = velocity_event hash r now \<or>
      e \<in> set (Vel_events (pruneLocked (now - velocityWindow24h) s))"
    unfolding recordAndCount_store using record_events by blast
  then show ?thesis
    using prune_fresh [of e "now - velocityWindow24h" s] by (auto simp: velocityWindow24h_def)
qed

subsection \<open>Properties\<close>

text \<open>Requests to evaluate the model on.\<close>

definition key_request :: "gostring \<Rightarrow> gostring \<Rightarrow> CreatePaymentRequest" where
  "key_request merchant payment = \<lparr>Req_MerchantID = merchant, Req_IdempotencyKey = ''idem-0001'',
     Req_PaymentID = payment, Req_CurrentStatus = StatusCreated,
     Req_PaymentInfo = \<lparr>Info_Amount = zero_amount, Info_PaymentMethodData = \<lparr>Method_Type = ''''\<rparr>,
       Info_CustomerData = zero_customer, Info_Items = [],
       Info_DigitalRubleData = \<lparr>DR_SmartContractID = '''', DR_RequireMarkedMoney = False\<rparr>,
       Info_CreatedAt = zero_time, Info_Description = ''''\<rparr>\<rparr>"

definition large_request :: "f64 \<Rightarrow> CreatePaymentRequest" where
  "large_request amount = (key_request [CHR 0x6D] [CHR 0x70])
     \<lparr>Req_PaymentInfo := (Req_PaymentInfo (key_request [] []))\<lparr>Info_Amount :=
       \<lparr>Amount_Value = amount, Amount_Currency = []\<rparr>\<rparr>\<rparr>"

text \<open>
  The verdict of \<open>Check\<close>. When the policy can be evaluated there is one, and it is
  BLOCKED exactly when a triggered rule blocks or the positive scores of the triggered
  rules add up to 80 or more, PASSED exactly when no rule blocks and the sum is 0, and
  REVIEW otherwise.
\<close>

theorem Check_verdict:
  assumes "checkOPA policy r = Inr opa"
  shows "\<exists>v. fst (Check hash raw policy None now r s) = Inr v \<and>
    AF_Result v = verdict (rule_results (loadDisposableEmailDomains raw) r
      (fst (recordAndCount hash r now s)) opa)"
  using assms by (simp add: Check_def score_loop_verdict split: prod.splits)

theorem Check_verdict_witness:
  "\<exists>v. fst (Check (\<lambda>x. x) '''' OpaNil None 0 (large_request (Fin 500)) newVelocityStore) = Inr v \<and>
    AF_Result v = verdict (rule_results (loadDisposableEmailDomains '''') (large_request (Fin 500))
      (fst (recordAndCount (\<lambda>x. x) (large_request (Fin 500)) 0 newVelocityStore)) no_rule)"
  by (rule Check_verdict) (simp add: checkOPA_def)

lemma blocking_member: "x \<in> set rs \<Longrightarrow> Rule_Name x \<noteq> '''' \<Longrightarrow> Rule_Block x \<Longrightarrow> blocking rs"
  unfolding blocking_def list_ex_iff by blast

lemma risk_score_member:
  assumes "x \<in> set rs" "Rule_Name x \<noteq> ''''" "0 < Rule_Score x"
  shows "Rule_Score x \<le> risk_score rs"
  using assms
proof (induction rs)
  case (Cons y rs)
  then show ?case using risk_score_nonneg [of rs]
    by (cases "x = y") (auto simp: risk_score_Cons)
qed simp

text \<open>
  An amount of 500000 or more is blocked, whatever the other rules, the history and the
  OPA policy say, and an amount of 100000 or more never passes unreviewed.
\<close>

theorem Check_large_amount:
  assumes "fst (Check hash raw policy None now r s) = Inr v"
    and "defaultReviewAmountLimit \<le> Amount_Value (Info_Amount (Req_PaymentInfo r))"
  shows "AF_Result v \<noteq> ResultPassed
    \<and> (defaultBlockAmountLimit \<le> Amount_Value (Info_Amount (Req_PaymentInfo r))
        \<longrightarrow> AF_Result v = ResultBlocked)"
proof -
  obtain opa where opa: "checkOPA policy r = Inr opa"
    using assms(1) by (auto simp: Check_def split: prod.splits sum.splits)
  define rs where "rs = rule_results (loadDisposableEmailDomains raw) r
    (fst (recordAndCount hash r now s)) opa"
  have v: "AF_Result v = verdict rs"
    using assms(1) opa by (auto simp: Check_def score_loop_verdict rs_def split: prod.splits)
  have mem: "checkAmount r \<in> set rs" by (simp add: rs_def rule_results_def)
  have rule: "Rule_Name (checkAmount r) \<noteq> ''''" "0 < Rule_Score (checkAmount r)"
    "defaultBlockAmountLimit \<le> Amount_Value (Info_Amount (Req_PaymentInfo r))
      \<longrightarrow> Rule_Block (checkAmount r)"
    using assms(2) by (simp_all add: checkAmount_def Let_def)
  from risk_score_member [OF mem rule(1,2)] rule(2) have "0 < risk_score rs" by simp
  with v mem rule show ?thesis
    by (auto simp: verdict_def lit dest: blocking_member)
qed

theorem Check_large_amount_witness:
  "\<exists>v. fst (Check (\<lambda>x. x) [] OpaNil None 0 (large_request (Fin 500000)) newVelocityStore) = Inr v
     \<and> AF_Result v = ResultBlocked"
proof -
  obtain v where v: "fst (Check (\<lambda>x. x) [] OpaNil None 0 (large_request (Fin 500000)) newVelocityStore)
      = Inr v"
    by (cases "recordAndCount (\<lambda>x. x) (large_request (Fin 500000)) 0 newVelocityStore")
      (simp add: Check_def checkOPA_def)
  from Check_large_amount [OF this] have "AF_Result v = ResultBlocked"
    by (simp add: large_request_def key_request_def defaultReviewAmountLimit_def
        defaultBlockAmountLimit_def)
  with v show ?thesis by blast
qed

text \<open>
  C22: The velocity store keeps its invariant: the set of seen keys is the set of the keys of
  the recorded attempts and no attempt is recorded twice; and after a check no attempt
  older than 24 hours is left (as long as the clock does not run backwards past the
  recorded attempts).
\<close>

theorem recordAndCount_inv:
  assumes "vel_inv s"
  shows "vel_inv (snd (recordAndCount hash r now s))
    \<and> (\<forall>e\<in>set (Vel_events (snd (recordAndCount hash r now s))). now - VE_At e \<le> velocityWindow24h)
    \<and> seenKey r \<in> Vel_seen (snd (recordAndCount hash r now s))"
proof (intro conjI ballI)
  show "vel_inv (snd (recordAndCount hash r now s))"
    unfolding recordAndCount_store using record_inv [OF prune_inv [OF assms]] by simp
  show "seenKey r \<in> Vel_seen (snd (recordAndCount hash r now s))"
    unfolding recordAndCount_store using record_seen by (metis event_simps(1) seenKey_not_empty)
  fix e assume "e \<in> set (Vel_events (snd (recordAndCount hash r now s)))"
  from recordAndCount_fresh [OF this] show "now - VE_At e \<le> velocityWindow24h" by simp
qed

theorem recordAndCount_inv_witness:
  "vel_inv (snd (recordAndCount (\<lambda>x. x) (large_request (Fin 500)) 7 newVelocityStore))"
proof -
  have "vel_inv newVelocityStore" by (simp add: vel_inv_def newVelocityStore_def)
  from recordAndCount_inv [OF this] show ?thesis by blast
qed

text \<open>
  An attempt is counted once per key: recording a request whose key
  \<open>merchant:payment:idempotency\<close> equals that of an attempt recorded just before leaves the
  store unchanged. This is how a repeated request is not counted twice; it also means that
  two merchants whose identifiers contain colons can share a key, and then the second
  merchant's attempt is not recorded at all (the witness).
\<close>

theorem recordAndCount_same_key:
  assumes "vel_inv s" and "seenKey q = seenKey r"
  shows "snd (recordAndCount hash q now (snd (recordAndCount hash r now s)))
    = snd (recordAndCount hash r now s)"
proof -
  let ?s = "snd (recordAndCount hash r now s)"
  have inv: "vel_inv ?s"
    unfolding recordAndCount_store using record_inv [OF prune_inv [OF assms(1)]] by simp
  have "\<forall>e\<in>set (Vel_events ?s). now - velocityWindow24h \<le> VE_At e"
    using recordAndCount_fresh by blast
  then have "pruneLocked (now - velocityWindow24h) ?s = ?s" by (rule prune_id [OF inv])
  moreover have "seenKey q \<in> Vel_seen ?s"
    unfolding recordAndCount_store using record_seen assms(2) by (metis event_simps(1) seenKey_not_empty)
  ultimately show ?thesis
    unfolding recordAndCount_store [of hash q] by (simp add: record_event_def)
qed

theorem recordAndCount_same_key_witness:
  "snd (recordAndCount (\<lambda>x. x) (key_request ''shop:eu'' ''1'') 7
      (snd (recordAndCount (\<lambda>x. x) (key_request ''shop'' ''eu:1'') 7 newVelocityStore)))
    = snd (recordAndCount (\<lambda>x. x) (key_request ''shop'' ''eu:1'') 7 newVelocityStore)"
  by (rule recordAndCount_same_key)
    (simp_all add: vel_inv_def newVelocityStore_def seenKey_def key_request_def go_eval)

text \<open>
  C23: The counters are those of the specification: per merchant, the number of retained
  attempts with the same card, e-mail, telephone or wallet fingerprint inside the window,
  and the number of distinct cards seen with the e-mail or the telephone in 24 hours.
\<close>

theorem recordAndCount_spec:
  "fst (recordAndCount hash r now s)
     = velocity_spec (velocity_event hash r now) now
         (filter (\<lambda>x. VE_MerchantID x = TrimSpace (Req_MerchantID r))
           (Vel_events (snd (recordAndCount hash r now s))))"
  by (simp add: recordAndCount_counts countLocked_spec tenant_events_def)

text \<open>
  An e-mail domain is disposable exactly when the list holds the normalised domain or
  what follows one of its dots.
\<close>

theorem isDisposableEmailDomain_iff:
  "isDisposableEmailDomain domains d \<longleftrightarrow>
     (\<exists>x\<in>domains. x \<noteq> '''' \<and>
       (normalizeEmailDomain d = x \<or> (\<exists>u. normalizeEmailDomain d = u @ ''.'' @ x)))"
  by (simp add: isDisposableEmailDomain_def domain_loop_iff domain_suffix_def)

end
