(* ===== verification/Json.thy ===== *)
theory Json
  imports Dto
begin

section \<open>JSON documents (\<open>encoding/json\<close> as the gateway uses it)\<close>

text \<open>
  A payload text is either no JSON document (\<open>JRaw\<close>, which includes the empty text) or a
  document, given by its tree (\<open>JDoc\<close>): white space and the escaping of characters are not
  kept. \<open>JTime t\<close> is a string literal that is the RFC 3339 form of the instant \<open>t\<close>, \<open>JStr\<close>
  every other string literal; an object is the list of its members, duplicates included.

  \<^item> \<open>enc_T\<close> is \<open>json.Marshal\<close> of the struct \<open>T\<close>: the members in the order of the fields,
    under the names of the tags, without the \<open>omitempty\<close> fields that are zero. Marshalling
    fails on an infinity, NaN, or a year outside 0 to 9999 (\<open>json_ok\<close>);
  \<^item> \<open>dec_struct tab_T\<close> is \<open>json.Unmarshal\<close> into a \<open>T\<close>: member by member, exact name first,
    then ignoring case, unknown members skipped, \<open>null\<close> leaving the field alone, the last
    duplicate winning; a member of the wrong type is an error (\<open>None\<close>). A number of integer value
    stands for its literal without fraction or exponent, the only one that \<open>json.Marshal\<close>
    writes below \<open>10^21\<close>; a literal such as \<open>3.0\<close>, which an \<open>int\<close> field refuses and a
    \<open>float64\<close> field reads, has no tree of its own. The \<open>int\<close> of \<open>retry_count\<close> is unbounded here;
  \<^item> \<open>SanitizePaymentPayloadJSON\<close> and its helpers are those of \<open>dto/payment.go\<close>.
\<close>

datatype json =
    JNull
  | JBool bool
  | JNum f64
  | JStr gostring
  | JTime gotime
  | JArr "json list"
  | JObj "(gostring \<times> json) list"

datatype jtext = JRaw gostring | JDoc json

subsection \<open>Marshalling\<close>

definition year_ok :: "gotime \<Rightarrow> bool" where
  "year_ok t = (Date 0 1 1 \<le> t \<and> t < Date 10000 1 1)"

fun json_ok :: "json \<Rightarrow> bool" and json_oks :: "json list \<Rightarrow> bool"
  and json_okm :: "(gostring \<times> json) list \<Rightarrow> bool" where
  "json_ok (JNum x) = finite64 x"
| "json_ok (JTime t) = year_ok t"
| "json_ok (JArr js) = json_oks js"
| "json_ok (JObj kvs) = json_okm kvs"
| "json_ok _ = True"
| "json_oks [] = True"
| "json_oks (j # js) = (json_ok j \<and> json_oks js)"
| "json_okm [] = True"
| "json_okm (kv # kvs) = (json_ok (snd kv) \<and> json_okm kvs)"

definition Marshal :: "json \<Rightarrow> jtext result" where
  "Marshal j = (if json_ok j then Inr (JDoc j) else Inl ''json: unsupported value'')"

definition emit_str :: "gostring \<Rightarrow> gostring \<Rightarrow> (gostring \<times> json) list" where
  "emit_str k s = [(k, JStr (to_valid_utf8 s))]"

definition omit_str :: "gostring \<Rightarrow> gostring \<Rightarrow> (gostring \<times> json) list" where
  "omit_str k s = (if s = '''' then [] else emit_str k s)"

definition omit_bool :: "gostring \<Rightarrow> bool \<Rightarrow> (gostring \<times> json) list" where
  "omit_bool k b = (if b then [(k, JBool True)] else [])"

subsection \<open>Unmarshalling\<close>

type_synonym 'r jfields = "(gostring \<times> (json \<Rightarrow> 'r \<Rightarrow> 'r option)) list"

definition lookup_field :: "'r jfields \<Rightarrow> gostring \<Rightarrow> (json \<Rightarrow> 'r \<Rightarrow> 'r option) option" where
  "lookup_field T k = (case map_of T k of
     Some d \<Rightarrow> Some d
   | None \<Rightarrow> map_option snd (List.find (\<lambda>f. EqualFold (fst f) k) T))"

fun dec_fields :: "'r jfields \<Rightarrow> (gostring \<times> json) list \<Rightarrow> 'r \<Rightarrow> 'r option" where
  "dec_fields T [] r = Some r"
| "dec_fields T ((k, v) # kvs) r = (case lookup_field T k of
     None \<Rightarrow> dec_fields T kvs r
   | Some d \<Rightarrow> (case d v r of None \<Rightarrow> None | Some r' \<Rightarrow> dec_fields T kvs r'))"

definition dec_struct :: "'r jfields \<Rightarrow> json \<Rightarrow> 'r \<Rightarrow> 'r option" where
  "dec_struct T j r = (case j of
     JNull \<Rightarrow> Some r | JObj kvs \<Rightarrow> dec_fields T kvs r | _ \<Rightarrow> None)"

definition dec_str :: "((gostring \<Rightarrow> gostring) \<Rightarrow> 'r \<Rightarrow> 'r) \<Rightarrow> json \<Rightarrow> 'r \<Rightarrow> 'r option" where
  "dec_str upd j r = (case j of
     JNull \<Rightarrow> Some r | JStr s \<Rightarrow> Some (upd (\<lambda>_. s) r)
   | JTime t \<Rightarrow> Some (upd (\<lambda>_. FormatRFC3339Nano t) r) | _ \<Rightarrow> None)"

definition dec_num :: "((f64 \<Rightarrow> f64) \<Rightarrow> 'r \<Rightarrow> 'r) \<Rightarrow> json \<Rightarrow> 'r \<Rightarrow> 'r option" where
  "dec_num upd j r = (case j of
     JNull \<Rightarrow> Some r | JNum x \<Rightarrow> Some (upd (\<lambda>_. x) r) | _ \<Rightarrow> None)"

definition dec_int :: "((int \<Rightarrow> int) \<Rightarrow> 'r \<Rightarrow> 'r) \<Rightarrow> json \<Rightarrow> 'r \<Rightarrow> 'r option" where
  "dec_int upd j r = (case j of
     JNull \<Rightarrow> Some r
   | JNum (Fin q) \<Rightarrow> if q = of_int \<lfloor>q\<rfloor> then Some (upd (\<lambda>_. \<lfloor>q\<rfloor>) r) else None
   | _ \<Rightarrow> None)"

definition dec_bool :: "((bool \<Rightarrow> bool) \<Rightarrow> 'r \<Rightarrow> 'r) \<Rightarrow> json \<Rightarrow> 'r \<Rightarrow> 'r option" where
  "dec_bool upd j r = (case j of
     JNull \<Rightarrow> Some r | JBool b \<Rightarrow> Some (upd (\<lambda>_. b) r) | _ \<Rightarrow> None)"

definition dec_time :: "((gotime \<Rightarrow> gotime) \<Rightarrow> 'r \<Rightarrow> 'r) \<Rightarrow> json \<Rightarrow> 'r \<Rightarrow> 'r option" where
  "dec_time upd j r = (case j of
     JNull \<Rightarrow> Some r | JTime t \<Rightarrow> Some (upd (\<lambda>_. t) r) | _ \<Rightarrow> None)"

definition dec_sub :: "('r \<Rightarrow> 's) \<Rightarrow> (('s \<Rightarrow> 's) \<Rightarrow> 'r \<Rightarrow> 'r) \<Rightarrow> 's jfields
    \<Rightarrow> json \<Rightarrow> 'r \<Rightarrow> 'r option" where
  "dec_sub get upd T j r =
     (case dec_struct T j (get r) of None \<Rightarrow> None | Some x \<Rightarrow> Some (upd (\<lambda>_. x) r))"

definition zero_item :: PaymentItem where
  "zero_item = \<lparr>Item_Name = '''', Item_Price = Fin 0, Item_Quantity = Fin 0,
     Item_Category = '''', Item_VATTag = '''', Item_PaymentMethod = '''',
     Item_PaymentObject = '''', Item_IDInternal = ''''\<rparr>"

subsection \<open>The structs\<close>

definition enc_AmountMoney :: "AmountMoney \<Rightarrow> json" where
  "enc_AmountMoney r = JObj (
     [(''value'', JNum (Amount_Value r))] @
     emit_str ''currency'' (Amount_Currency r))"

definition tab_AmountMoney :: "AmountMoney jfields" where
  "tab_AmountMoney =
    [(''value'', dec_num Amount_Value_update),
     (''currency'', dec_str Amount_Currency_update)]"

definition enc_PaymentItem :: "PaymentItem \<Rightarrow> json" where
  "enc_PaymentItem r = JObj (
     emit_str ''name'' (Item_Name r) @
     [(''price'', JNum (Item_Price r))] @
     [(''quantity'', JNum (Item_Quantity r))] @
     omit_str ''category'' (Item_Category r) @
     omit_str ''vat_tag'' (Item_VATTag r) @
     omit_str ''payment_method'' (Item_PaymentMethod r) @
     omit_str ''payment_object'' (Item_PaymentObject r) @
     omit_str ''id_internal'' (Item_IDInternal r))"

definition tab_PaymentItem :: "PaymentItem jfields" where
  "tab_PaymentItem =
    [(''name'', dec_str Item_Name_update),
     (''price'', dec_num Item_Price_update),
     (''quantity'', dec_num Item_Quantity_update),
     (''category'', dec_str Item_Category_update),
     (''vat_tag'', dec_str Item_VATTag_update),
     (''payment_method'', dec_str Item_PaymentMethod_update),
     (''payment_object'', dec_str Item_PaymentObject_update),
     (''id_internal'', dec_str Item_IDInternal_update)]"

definition omit_items :: "gostring \<Rightarrow> PaymentItem list \<Rightarrow> (gostring \<times> json) list" where
  "omit_items k xs = (if xs = [] then [] else [(k, JArr (map enc_PaymentItem xs))])"

fun dec_item_list :: "json list \<Rightarrow> PaymentItem list option" where
  "dec_item_list [] = Some []"
| "dec_item_list (j # js) = (case dec_struct tab_PaymentItem j zero_item of
     None \<Rightarrow> None
   | Some x \<Rightarrow> (case dec_item_list js of None \<Rightarrow> None | Some xs \<Rightarrow> Some (x # xs)))"

definition dec_items ::
  "((PaymentItem list \<Rightarrow> PaymentItem list) \<Rightarrow> 'r \<Rightarrow> 'r) \<Rightarrow> json \<Rightarrow> 'r \<Rightarrow> 'r option" where
  "dec_items upd j r = (case j of
     JNull \<Rightarrow> Some (upd (\<lambda>_. []) r)
   | JArr js \<Rightarrow> (case dec_item_list js of None \<Rightarrow> None | Some xs \<Rightarrow> Some (upd (\<lambda>_. xs) r))
   | _ \<Rightarrow> None)"

definition enc_DigitalRubleData :: "DigitalRubleData \<Rightarrow> json" where
  "enc_DigitalRubleData r = JObj (
     omit_str ''smart_contract_id'' (DR_SmartContractID r) @
     omit_bool ''require_marked_money'' (DR_RequireMarkedMoney r))"

definition tab_DigitalRubleData :: "DigitalRubleData jfields" where
  "tab_DigitalRubleData =
    [(''smart_contract_id'', dec_str DR_SmartContractID_update),
     (''require_marked_money'', dec_bool DR_RequireMarkedMoney_update)]"

definition enc_CustomerData :: "CustomerData \<Rightarrow> json" where
  "enc_CustomerData r = JObj (
     omit_str ''email'' (Cust_Email r) @
     omit_str ''phone'' (Cust_Phone r) @
     omit_str ''card_number'' (Cust_CardNumber r) @
     omit_str ''card_date'' (Cust_CardDate r) @
     omit_str ''CVV_code'' (Cust_CvvCode r) @
     omit_str ''digital_wallet_id'' (Cust_DigitalWalletID r) @
     omit_str ''digital_ruble_wallet_id'' (Cust_DigitalRubleWalletID r) @
     omit_str ''digital_ruble_account'' (Cust_DigitalRubleAccount r) @
     omit_str ''digital_ruble_identifier'' (Cust_DigitalRubleIdentifier r))"

definition tab_CustomerData :: "CustomerData jfields" where
  "tab_CustomerData =
    [(''email'', dec_str Cust_Email_update),
     (''phone'', dec_str Cust_Phone_update),
     (''card_number'', dec_str Cust_CardNumber_update),
     (''card_date'', dec_str Cust_CardDate_update),
     (''CVV_code'', dec_str Cust_CvvCode_update),
     (''digital_wallet_id'', dec_str Cust_DigitalWalletID_update),
     (''digital_ruble_wallet_id'', dec_str Cust_DigitalRubleWalletID_update),
     (''digital_ruble_account'', dec_str Cust_DigitalRubleAccount_update),
     (''digital_ruble_identifier'', dec_str Cust_DigitalRubleIdentifier_update)]"

definition enc_PaymentMethodData :: "PaymentMethodData \<Rightarrow> json" where
  "enc_PaymentMethodData r = JObj (
     emit_str ''type'' (Method_Type r))"

definition tab_PaymentMethodData :: "PaymentMethodData jfields" where
  "tab_PaymentMethodData =
    [(''type'', dec_str Method_Type_update)]"

definition enc_GatewayError :: "GatewayError \<Rightarrow> json" where
  "enc_GatewayError r = JObj (
     omit_str ''code'' (Err_Code r) @
     omit_str ''message'' (Err_Message r))"

definition tab_GatewayError :: "GatewayError jfields" where
  "tab_GatewayError =
    [(''code'', dec_str Err_Code_update),
     (''message'', dec_str Err_Message_update)]"

definition dec_error :: "('r \<Rightarrow> GatewayError option) \<Rightarrow>
    ((GatewayError option \<Rightarrow> GatewayError option) \<Rightarrow> 'r \<Rightarrow> 'r) \<Rightarrow> json \<Rightarrow> 'r \<Rightarrow> 'r option" where
  "dec_error get upd j r = (case j of
     JNull \<Rightarrow> Some (upd (\<lambda>_. None) r)
   | _ \<Rightarrow> (let e = (case get r of None \<Rightarrow> \<lparr>Err_Code = '''', Err_Message = ''''\<rparr> | Some e \<Rightarrow> e) in
       (case dec_struct tab_GatewayError j e of
          None \<Rightarrow> None | Some x \<Rightarrow> Some (upd (\<lambda>_. Some x) r))))"

definition enc_PaymentInfoResponse :: "PaymentInfoResponse \<Rightarrow> json" where
  "enc_PaymentInfoResponse r = JObj (
     [(''amount'', enc_AmountMoney (RInfo_Amount r))] @
     [(''payment_method_data'', enc_PaymentMethodData (RInfo_PaymentMethodData r))] @
     [(''customer_data'', enc_CustomerData (RInfo_CustomerData r))] @
     omit_items ''items'' (RInfo_Items r) @
     [(''digital_ruble_data'', enc_DigitalRubleData (RInfo_DigitalRubleData r))] @
     emit_str ''description'' (RInfo_Description r) @
     [(''created_at'', JTime (RInfo_CreatedAt r))] @
     [(''updated_at'', JTime (RInfo_UpdatedAt r))])"

definition tab_PaymentInfoResponse :: "PaymentInfoResponse jfields" where
  "tab_PaymentInfoResponse =
    [(''amount'', dec_sub RInfo_Amount RInfo_Amount_update tab_AmountMoney),
     (''payment_method_data'', dec_sub RInfo_PaymentMethodData RInfo_PaymentMethodData_update tab_PaymentMethodData),
     (''customer_data'', dec_sub RInfo_CustomerData RInfo_CustomerData_update tab_CustomerData),
     (''items'', dec_items RInfo_Items_update),
     (''digital_ruble_data'', dec_sub RInfo_DigitalRubleData RInfo_DigitalRubleData_update tab_DigitalRubleData),
     (''description'', dec_str RInfo_Description_update),
     (''created_at'', dec_time RInfo_CreatedAt_update),
     (''updated_at'', dec_time RInfo_UpdatedAt_update)]"

definition enc_TransactionDetails :: "TransactionDetails \<Rightarrow> json" where
  "enc_TransactionDetails r = JObj (
     emit_str ''external_transaction_id'' (TD_ExternalTransactionID r) @
     emit_str ''payment_system'' (TD_PaymentSystem r) @
     omit_str ''provider_status'' (TD_ProviderStatus r) @
     omit_str ''provider_error_code'' (TD_ProviderErrorCode r) @
     omit_str ''provider_error_message'' (TD_ProviderErrorMessage r) @
     omit_str ''cancellation_party'' (TD_CancellationParty r) @
     omit_str ''cancellation_reason'' (TD_CancellationReason r) @
     omit_str ''payment_url'' (TD_PaymentURL r) @
     omit_str ''qr_id'' (TD_QRID r) @
     omit_str ''qr_payload'' (TD_QRPayload r) @
     omit_str ''qr_image_data_uri'' (TD_QRImageDataURI r) @
     omit_str ''qr_expires_at'' (TD_QRExpiresAt r) @
     omit_str ''participant_bank'' (TD_ParticipantBank r) @
     omit_str ''schema_version'' (TD_SchemaVersion r) @
     omit_str ''settlement_hint'' (TD_SettlementHint r) @
     omit_str ''money_mark'' (TD_MoneyMark r) @
     omit_str ''smart_contract_id'' (TD_SmartContractID r) @
     omit_str ''smart_contract_result'' (TD_SmartContractResult r) @
     omit_str ''smart_contract_reason'' (TD_SmartContractReason r) @
     omit_str ''platform_message_id'' (TD_PlatformMessageID r) @
     omit_str ''platform_transport'' (TD_PlatformTransport r) @
     omit_str ''platform_signature_type'' (TD_PlatformSignatureType r) @
     omit_str ''token'' (TD_Token r) @
     omit_str ''token_preview'' (TD_TokenPreview r) @
     emit_str ''fraud_check_result'' (TD_FraudCheckResult r) @
     [(''retry_count'', JNum (Fin (of_int (TD_RetryCount r))))])"

definition tab_TransactionDetails :: "TransactionDetails jfields" where
  "tab_TransactionDetails =
    [(''external_transaction_id'', dec_str TD_ExternalTransactionID_update),
     (''payment_system'', dec_str TD_PaymentSystem_update),
     (''provider_status'', dec_str TD_ProviderStatus_update),
     (''provider_error_code'', dec_str TD_ProviderErrorCode_update),
     (''provider_error_message'', dec_str TD_ProviderErrorMessage_update),
     (''cancellation_party'', dec_str TD_CancellationParty_update),
     (''cancellation_reason'', dec_str TD_CancellationReason_update),
     (''payment_url'', dec_str TD_PaymentURL_update),
     (''qr_id'', dec_str TD_QRID_update),
     (''qr_payload'', dec_str TD_QRPayload_update),
     (''qr_image_data_uri'', dec_str TD_QRImageDataURI_update),
     (''qr_expires_at'', dec_str TD_QRExpiresAt_update),
     (''participant_bank'', dec_str TD_ParticipantBank_update),
     (''schema_version'', dec_str TD_SchemaVersion_update),
     (''settlement_hint'', dec_str TD_SettlementHint_update),
     (''money_mark'', dec_str TD_MoneyMark_update),
     (''smart_contract_id'', dec_str TD_SmartContractID_update),
     (''smart_contract_result'', dec_str TD_SmartContractResult_update),
     (''smart_contract_reason'', dec_str TD_SmartContractReason_update),
     (''platform_message_id'', dec_str TD_PlatformMessageID_update),
     (''platform_transport'', dec_str TD_PlatformTransport_update),
     (''platform_signature_type'', dec_str TD_PlatformSignatureType_update),
     (''token'', dec_str TD_Token_update),
     (''token_preview'', dec_str TD_TokenPreview_update),
     (''fraud_check_result'', dec_str TD_FraudCheckResult_update),
     (''retry_count'', dec_int TD_RetryCount_update)]"

definition enc_PaymentResponse :: "PaymentResponse \<Rightarrow> json" where
  "enc_PaymentResponse r = JObj (
     emit_str ''id'' (Resp_ID r) @
     emit_str ''merchant_id'' (Resp_MerchantID r) @
     emit_str ''idempotency_key'' (Resp_IdempotencyKey r) @
     emit_str ''current_status'' (Resp_CurrentStatus r) @
     [(''payment_info'', enc_PaymentInfoResponse (Resp_PaymentInfo r))] @
     [(''transaction_details'', enc_TransactionDetails (Resp_TransactionDetails r))] @
     [(''error'', case Resp_Error r of None \<Rightarrow> JNull | Some e \<Rightarrow> enc_GatewayError e)])"

definition tab_PaymentResponse :: "PaymentResponse jfields" where
  "tab_PaymentResponse =
    [(''id'', dec_str Resp_ID_update),
     (''merchant_id'', dec_str Resp_MerchantID_update),
     (''idempotency_key'', dec_str Resp_IdempotencyKey_update),
     (''current_status'', dec_str Resp_CurrentStatus_update),
     (''payment_info'', dec_sub Resp_PaymentInfo Resp_PaymentInfo_update tab_PaymentInfoResponse),
     (''transaction_details'', dec_sub Resp_TransactionDetails Resp_TransactionDetails_update tab_TransactionDetails),
     (''error'', dec_error Resp_Error Resp_Error_update)]"

definition MarshalResponse :: "PaymentResponse \<Rightarrow> jtext result" where
  "MarshalResponse r = Marshal (enc_PaymentResponse r)"

text \<open>\<open>json.Unmarshal(payload, &resp)\<close> into a zero response.\<close>

definition UnmarshalResponse :: "jtext \<Rightarrow> PaymentResponse option" where
  "UnmarshalResponse p = (case p of
     JRaw _ \<Rightarrow> None | JDoc j \<Rightarrow> dec_struct tab_PaymentResponse j zero_response)"

subsection \<open>Sanitising a payload\<close>

definition isSensitiveAuthenticationKey :: "gostring \<Rightarrow> bool" where
  "isSensitiveAuthenticationKey key =
     (ToLower (TrimSpace key) \<in> {''cvv_code'', ''cvv'', ''cvc'', ''cid''})"

text \<open>
  \<open>removeSensitiveAuthenticationData\<close> deletes in place and reports whether it deleted
  anything: \<open>strip_sensitive\<close> is the value it leaves behind, \<open>has_sensitive\<close> the report.
\<close>

fun strip_sensitive :: "json \<Rightarrow> json" and strip_list :: "json list \<Rightarrow> json list"
  and strip_members :: "(gostring \<times> json) list \<Rightarrow> (gostring \<times> json) list" where
  "strip_sensitive (JObj kvs) = JObj (strip_members kvs)"
| "strip_sensitive (JArr js) = JArr (strip_list js)"
| "strip_sensitive j = j"
| "strip_list [] = []"
| "strip_list (j # js) = strip_sensitive j # strip_list js"
| "strip_members [] = []"
| "strip_members (kv # kvs) =
     (if isSensitiveAuthenticationKey (fst kv) then strip_members kvs
      else (fst kv, strip_sensitive (snd kv)) # strip_members kvs)"

fun has_sensitive :: "json \<Rightarrow> bool" and has_list :: "json list \<Rightarrow> bool"
  and has_members :: "(gostring \<times> json) list \<Rightarrow> bool" where
  "has_sensitive (JObj kvs) = has_members kvs"
| "has_sensitive (JArr js) = has_list js"
| "has_sensitive j = False"
| "has_list [] = False"
| "has_list (j # js) = (has_sensitive j \<or> has_list js)"
| "has_members [] = False"
| "has_members (kv # kvs) =
     (isSensitiveAuthenticationKey (fst kv) \<or> has_sensitive (snd kv) \<or> has_members kvs)"

text \<open>
  Unmarshalling into \<open>any\<close> builds maps, so the last of several members with one key
  remains; the order of members is not significant in what it marshals to.
\<close>

fun last_members :: "(gostring \<times> json) list \<Rightarrow> (gostring \<times> json) list" where
  "last_members [] = []"
| "last_members (kv # kvs) =
     (if fst kv \<in> fst ` set kvs then last_members kvs else kv # last_members kvs)"

fun json_any :: "json \<Rightarrow> json" and any_list :: "json list \<Rightarrow> json list"
  and any_members :: "(gostring \<times> json) list \<Rightarrow> (gostring \<times> json) list" where
  "json_any (JObj kvs) = JObj (last_members (any_members kvs))"
| "json_any (JArr js) = JArr (any_list js)"
| "json_any j = j"
| "any_list [] = []"
| "any_list (j # js) = json_any j # any_list js"
| "any_members [] = []"
| "any_members (kv # kvs) = (fst kv, json_any (snd kv)) # any_members kvs"

definition sanitizeGenericPaymentJSON :: "jtext \<Rightarrow> jtext" where
  "sanitizeGenericPaymentJSON payload = (case payload of
     JRaw _ \<Rightarrow> payload
   | JDoc j \<Rightarrow> if \<not> has_sensitive (json_any j) then payload
     else (case Marshal (strip_sensitive (json_any j)) of Inl _ \<Rightarrow> payload | Inr b \<Rightarrow> b))"

definition SanitizePaymentPayloadJSON :: "jtext \<Rightarrow> jtext" where
  "SanitizePaymentPayloadJSON payload =
     (case UnmarshalResponse payload of
        None \<Rightarrow> payload
      | Some resp \<Rightarrow>
          if Resp_ID resp = '''' \<and> Resp_MerchantID resp = '''' \<and> Resp_IdempotencyKey resp = ''''
          then sanitizeGenericPaymentJSON payload
          else (case MarshalResponse (Sanitized resp) of
                  Inl _ \<Rightarrow> sanitizeGenericPaymentJSON payload | Inr b \<Rightarrow> b))"

subsection \<open>Unmarshalling a marshalled response\<close>

text \<open>\<open>utf8_T r\<close>: every text of \<open>r\<close> is valid UTF-8.\<close>

definition utf8_AmountMoney :: "AmountMoney \<Rightarrow> bool" where
  "utf8_AmountMoney r = (
    valid_utf8 (Amount_Currency r))"

definition utf8_PaymentItem :: "PaymentItem \<Rightarrow> bool" where
  "utf8_PaymentItem r = (
    valid_utf8 (Item_Name r) \<and> valid_utf8 (Item_Category r) \<and>
    valid_utf8 (Item_VATTag r) \<and> valid_utf8 (Item_PaymentMethod r) \<and>
    valid_utf8 (Item_PaymentObject r) \<and> valid_utf8 (Item_IDInternal r))"

definition utf8_DigitalRubleData :: "DigitalRubleData \<Rightarrow> bool" where
  "utf8_DigitalRubleData r = (
    valid_utf8 (DR_SmartContractID r))"

definition utf8_CustomerData :: "CustomerData \<Rightarrow> bool" where
  "utf8_CustomerData r = (
    valid_utf8 (Cust_Email r) \<and> valid_utf8 (Cust_Phone r) \<and>
    valid_utf8 (Cust_CardNumber r) \<and> valid_utf8 (Cust_CardDate r) \<and>
    valid_utf8 (Cust_CvvCode r) \<and> valid_utf8 (Cust_DigitalWalletID r) \<and>
    valid_utf8 (Cust_DigitalRubleWalletID r) \<and> valid_utf8 (Cust_DigitalRubleAccount r) \<and>
    valid_utf8 (Cust_DigitalRubleIdentifier r))"

definition utf8_PaymentMethodData :: "PaymentMethodData \<Rightarrow> bool" where
  "utf8_PaymentMethodData r = (
    valid_utf8 (Method_Type r))"

definition utf8_GatewayError :: "GatewayError \<Rightarrow> bool" where
  "utf8_GatewayError r = (
    valid_utf8 (Err_Code r) \<and> valid_utf8 (Err_Message r))"

definition utf8_PaymentInfoResponse :: "PaymentInfoResponse \<Rightarrow> bool" where
  "utf8_PaymentInfoResponse r = (
    utf8_AmountMoney (RInfo_Amount r) \<and> utf8_PaymentMethodData (RInfo_PaymentMethodData r) \<and>
    utf8_CustomerData (RInfo_CustomerData r) \<and> list_all utf8_PaymentItem (RInfo_Items r) \<and>
    utf8_DigitalRubleData (RInfo_DigitalRubleData r) \<and> valid_utf8 (RInfo_Description r))"

definition utf8_TransactionDetails :: "TransactionDetails \<Rightarrow> bool" where
  "utf8_TransactionDetails r = (
    valid_utf8 (TD_ExternalTransactionID r) \<and> valid_utf8 (TD_PaymentSystem r) \<and>
    valid_utf8 (TD_ProviderStatus r) \<and> valid_utf8 (TD_ProviderErrorCode r) \<and>
    valid_utf8 (TD_ProviderErrorMessage r) \<and> valid_utf8 (TD_CancellationParty r) \<and>
    valid_utf8 (TD_CancellationReason r) \<and> valid_utf8 (TD_PaymentURL r) \<and>
    valid_utf8 (TD_QRID r) \<and> valid_utf8 (TD_QRPayload r) \<and>
    valid_utf8 (TD_QRImageDataURI r) \<and> valid_utf8 (TD_QRExpiresAt r) \<and>
    valid_utf8 (TD_ParticipantBank r) \<and> valid_utf8 (TD_SchemaVersion r) \<and>
    valid_utf8 (TD_SettlementHint r) \<and> valid_utf8 (TD_MoneyMark r) \<and>
    valid_utf8 (TD_SmartContractID r) \<and> valid_utf8 (TD_SmartContractResult r) \<and>
    valid_utf8 (TD_SmartContractReason r) \<and> valid_utf8 (TD_PlatformMessageID r) \<and>
    valid_utf8 (TD_PlatformTransport r) \<and> valid_utf8 (TD_PlatformSignatureType r) \<and>
    valid_utf8 (TD_Token r) \<and> valid_utf8 (TD_TokenPreview r) \<and>
    valid_utf8 (TD_FraudCheckResult r))"

definition utf8_PaymentResponse :: "PaymentResponse \<Rightarrow> bool" where
  "utf8_PaymentResponse r = (
    valid_utf8 (Resp_ID r) \<and> valid_utf8 (Resp_MerchantID r) \<and>
    valid_utf8 (Resp_IdempotencyKey r) \<and> valid_utf8 (Resp_CurrentStatus r) \<and>
    utf8_PaymentInfoResponse (Resp_PaymentInfo r) \<and>
    utf8_TransactionDetails (Resp_TransactionDetails r) \<and>
    (case Resp_Error r of None \<Rightarrow> True | Some e \<Rightarrow> utf8_GatewayError e))"

lemmas zero_defs = zero_amount_def zero_item_def zero_customer_def zero_details_def zero_response_def

lemma dec_struct_JObj: "dec_struct T (JObj kvs) r = dec_fields T kvs r"
  by (simp add: dec_struct_def)

lemma dec_emit_str:
  "lookup_field T k = Some (dec_str upd) \<Longrightarrow> valid_utf8 s \<Longrightarrow>
    dec_fields T (emit_str k s @ kvs) r = dec_fields T kvs (upd (\<lambda>_. s) r)"
  by (simp add: emit_str_def dec_str_def valid_utf8_def)

lemma dec_omit_str:
  "lookup_field T k = Some (dec_str upd) \<Longrightarrow> valid_utf8 s \<Longrightarrow> upd (\<lambda>_. []) r = r \<Longrightarrow>
    dec_fields T (omit_str k s @ kvs) r = dec_fields T kvs (upd (\<lambda>_. s) r)"
  by (simp add: omit_str_def dec_emit_str)

lemma dec_omit_bool:
  "lookup_field T k = Some (dec_bool upd) \<Longrightarrow> upd (\<lambda>_. False) r = r \<Longrightarrow>
    dec_fields T (omit_bool k b @ kvs) r = dec_fields T kvs (upd (\<lambda>_. b) r)"
  by (cases b) (simp_all add: omit_bool_def dec_bool_def)

lemmas dec_steps = dec_emit_str dec_omit_str dec_omit_bool
  dec_emit_str [where kvs = "[]", simplified] dec_omit_str [where kvs = "[]", simplified]
  dec_omit_bool [where kvs = "[]", simplified]

lemmas dec_leaves = dec_struct_JObj dec_num_def dec_int_def dec_time_def dec_sub_def lookup_field_def

lemma dec_AmountMoney:
  "utf8_AmountMoney r \<Longrightarrow> dec_struct tab_AmountMoney (enc_AmountMoney r) zero_amount = Some r"
  by (cases r) (simp add: enc_AmountMoney_def tab_AmountMoney_def utf8_AmountMoney_def zero_defs dec_steps dec_leaves)

lemma dec_PaymentItem:
  "utf8_PaymentItem r \<Longrightarrow> dec_struct tab_PaymentItem (enc_PaymentItem r) zero_item = Some r"
  by (cases r) (simp add: enc_PaymentItem_def tab_PaymentItem_def utf8_PaymentItem_def zero_defs dec_steps dec_leaves)

lemma dec_item_list_enc:
  "list_all utf8_PaymentItem xs \<Longrightarrow> dec_item_list (map enc_PaymentItem xs) = Some xs"
  by (induction xs) (simp_all add: dec_PaymentItem)

lemma dec_omit_items:
  "lookup_field T k = Some (dec_items upd) \<Longrightarrow> list_all utf8_PaymentItem xs \<Longrightarrow> upd (\<lambda>_. []) r = r \<Longrightarrow>
    dec_fields T (omit_items k xs @ kvs) r
      = dec_fields T kvs (upd (\<lambda>_. xs) r)"
  by (simp add: omit_items_def dec_items_def dec_item_list_enc)

lemma dec_DigitalRubleData:
  "utf8_DigitalRubleData r \<Longrightarrow> dec_struct tab_DigitalRubleData (enc_DigitalRubleData r) \<lparr>DR_SmartContractID = '''', DR_RequireMarkedMoney = False\<rparr> = Some r"
  by (cases r) (simp add: enc_DigitalRubleData_def tab_DigitalRubleData_def utf8_DigitalRubleData_def zero_defs dec_steps dec_leaves)

lemma dec_CustomerData:
  "utf8_CustomerData r \<Longrightarrow> dec_struct tab_CustomerData (enc_CustomerData r) zero_customer = Some r"
  by (cases r) (simp add: enc_CustomerData_def tab_CustomerData_def utf8_CustomerData_def zero_defs dec_steps dec_leaves)

lemma dec_PaymentMethodData:
  "utf8_PaymentMethodData r \<Longrightarrow> dec_struct tab_PaymentMethodData (enc_PaymentMethodData r) \<lparr>Method_Type = ''''\<rparr> = Some r"
  by (cases r) (simp add: enc_PaymentMethodData_def tab_PaymentMethodData_def utf8_PaymentMethodData_def zero_defs dec_steps dec_leaves)

lemma dec_GatewayError:
  "utf8_GatewayError r \<Longrightarrow> dec_struct tab_GatewayError (enc_GatewayError r) \<lparr>Err_Code = '''', Err_Message = ''''\<rparr> = Some r"
  by (cases r) (simp add: enc_GatewayError_def tab_GatewayError_def utf8_GatewayError_def zero_defs dec_steps dec_leaves)

lemma dec_error_enc:
  "get r = None \<Longrightarrow> (case x of None \<Rightarrow> True | Some e \<Rightarrow> utf8_GatewayError e) \<Longrightarrow>
    dec_error get upd (case x of None \<Rightarrow> JNull | Some e \<Rightarrow> enc_GatewayError e) r
      = Some (upd (\<lambda>_. x) r)"
  using dec_GatewayError
  by (cases x) (simp_all add: dec_error_def enc_GatewayError_def)

lemma dec_PaymentInfoResponse:
  "utf8_PaymentInfoResponse r \<Longrightarrow> dec_struct tab_PaymentInfoResponse (enc_PaymentInfoResponse r) (Resp_PaymentInfo zero_response) = Some r"
  by (cases r) (simp add: enc_PaymentInfoResponse_def tab_PaymentInfoResponse_def utf8_PaymentInfoResponse_def zero_defs dec_steps dec_leaves
    dec_AmountMoney [unfolded zero_defs] dec_PaymentMethodData dec_CustomerData [unfolded zero_defs]
    dec_DigitalRubleData dec_omit_items)

lemma dec_TransactionDetails:
  "utf8_TransactionDetails r \<Longrightarrow> dec_struct tab_TransactionDetails (enc_TransactionDetails r) zero_details = Some r"
  by (cases r) (simp add: enc_TransactionDetails_def tab_TransactionDetails_def utf8_TransactionDetails_def zero_defs dec_steps dec_leaves)

lemma dec_PaymentResponse:
  "utf8_PaymentResponse r \<Longrightarrow> dec_struct tab_PaymentResponse (enc_PaymentResponse r) zero_response = Some r"
  by (cases r) (simp add: enc_PaymentResponse_def tab_PaymentResponse_def utf8_PaymentResponse_def zero_defs dec_steps dec_leaves
    dec_PaymentInfoResponse [unfolded zero_defs, simplified]
    dec_TransactionDetails [unfolded zero_defs] dec_error_enc)

subsection \<open>No authentication data is left\<close>

lemma has_members_append [simp]: "has_members (xs @ ys) = (has_members xs \<or> has_members ys)"
  by (induction xs) auto

lemma has_members_set:
  "has_members kvs \<longleftrightarrow> (\<exists>kv\<in>set kvs. isSensitiveAuthenticationKey (fst kv) \<or> has_sensitive (snd kv))"
  by (induction kvs) auto

lemma strip_clean [simp]:
  "\<not> has_sensitive (strip_sensitive j)" "\<not> has_list (strip_list js)"
  "\<not> has_members (strip_members kvs)"
  by (induction j and js and kvs rule: strip_sensitive_strip_list_strip_members.induct) auto

lemma last_members_subset: "set (last_members kvs) \<subseteq> set kvs"
  by (induction kvs) auto

lemma any_clean:
  "\<not> has_sensitive j \<Longrightarrow> \<not> has_sensitive (json_any j)"
  "\<not> has_list js \<Longrightarrow> \<not> has_list (any_list js)"
  "\<not> has_members kvs \<Longrightarrow> \<not> has_members (any_members kvs)"
proof (induction j and js and kvs rule: json_any_any_list_any_members.induct)
  case (1 kvs)
  then have "\<not> has_members (any_members kvs)" by simp
  then show ?case using last_members_subset [of "any_members kvs"]
    by (auto simp: has_members_set)
qed auto

lemma json_okm_set: "json_okm kvs \<longleftrightarrow> (\<forall>kv\<in>set kvs. json_ok (snd kv))"
  by (induction kvs) auto

lemma ok_any:
  "json_ok j \<Longrightarrow> json_ok (json_any j)" "json_oks js \<Longrightarrow> json_oks (any_list js)"
  "json_okm kvs \<Longrightarrow> json_okm (any_members kvs)"
proof (induction j and js and kvs rule: json_any_any_list_any_members.induct)
  case (1 kvs)
  then have "json_okm (any_members kvs)" by simp
  then show ?case using last_members_subset [of "any_members kvs"]
    by (auto simp: json_okm_set)
qed auto

lemma ok_strip:
  "json_ok j \<Longrightarrow> json_ok (strip_sensitive j)" "json_oks js \<Longrightarrow> json_oks (strip_list js)"
  "json_okm kvs \<Longrightarrow> json_okm (strip_members kvs)"
  by (induction j and js and kvs rule: strip_sensitive_strip_list_strip_members.induct) auto

lemma has_emit [simp]:
  "has_members (emit_str k s) = isSensitiveAuthenticationKey k"
  "has_members (omit_str k s) = (s \<noteq> [] \<and> isSensitiveAuthenticationKey k)"
  "has_members (omit_bool k b) = (b \<and> isSensitiveAuthenticationKey k)"
  by (simp_all add: emit_str_def omit_str_def omit_bool_def)

lemma has_sensitive_case_error:
  "has_sensitive (case x of None \<Rightarrow> JNull | Some e \<Rightarrow> f e) = (\<exists>e. x = Some e \<and> has_sensitive (f e))"
  by (cases x) auto

lemmas sensitive_eval = isSensitiveAuthenticationKey_def go_eval

lemma enc_clean:
  "\<not> has_sensitive (enc_AmountMoney a)" "\<not> has_sensitive (enc_PaymentItem it)"
  "\<not> has_sensitive (enc_DigitalRubleData d)" "\<not> has_sensitive (enc_PaymentMethodData pm)"
  "\<not> has_sensitive (enc_GatewayError e)" "\<not> has_sensitive (enc_TransactionDetails td)"
  by (simp_all add: enc_AmountMoney_def enc_PaymentItem_def enc_DigitalRubleData_def
      enc_PaymentMethodData_def enc_GatewayError_def enc_TransactionDetails_def sensitive_eval)

lemma enc_customer_clean:
  "Cust_CvvCode c = '''' \<Longrightarrow> \<not> has_sensitive (enc_CustomerData c)"
  by (simp add: enc_CustomerData_def sensitive_eval)

lemma has_list_items: "\<not> has_list (map enc_PaymentItem xs)"
  by (induction xs) (simp_all add: enc_clean)

lemma enc_response_clean:
  assumes "Cust_CvvCode (RInfo_CustomerData (Resp_PaymentInfo r)) = ''''"
  shows "\<not> has_sensitive (enc_PaymentResponse r)"
proof -
  have "\<not> has_sensitive (enc_PaymentInfoResponse (Resp_PaymentInfo r))"
    using enc_customer_clean [OF assms]
    by (simp add: enc_PaymentInfoResponse_def omit_items_def enc_clean has_list_items sensitive_eval)
  then show ?thesis
    by (simp add: enc_PaymentResponse_def enc_clean has_sensitive_case_error sensitive_eval)
qed

subsection \<open>Properties\<close>

text \<open>
  C19: A response whose texts are UTF-8, whose amounts are finite and whose times lie in the
  years 0 to 9999 is marshalled without an error, and unmarshalling the result gives the
  same response back, field by field.
\<close>

theorem marshal_unmarshal_response:
  assumes "utf8_PaymentResponse r" and "json_ok (enc_PaymentResponse r)"
  shows "\<exists>p. MarshalResponse r = Inr p \<and> UnmarshalResponse p = Some r"
  using assms dec_PaymentResponse
  by (simp add: MarshalResponse_def Marshal_def UnmarshalResponse_def)

theorem marshal_unmarshal_response_witness:
  "\<exists>p. MarshalResponse zero_response = Inr p \<and> UnmarshalResponse p = Some zero_response"
proof (rule marshal_unmarshal_response)
  show "utf8_PaymentResponse zero_response"
    by (simp add: zero_defs utf8_PaymentResponse_def utf8_PaymentInfoResponse_def
        utf8_AmountMoney_def utf8_PaymentMethodData_def utf8_CustomerData_def
        utf8_DigitalRubleData_def utf8_TransactionDetails_def)
  show "json_ok (enc_PaymentResponse zero_response)"
    by (simp add: zero_defs enc_PaymentResponse_def enc_PaymentInfoResponse_def
        enc_AmountMoney_def enc_PaymentMethodData_def enc_CustomerData_def
        enc_DigitalRubleData_def enc_TransactionDetails_def emit_str_def omit_str_def
        omit_bool_def omit_items_def year_ok_def zero_time_def Date_def days_from_civil_def Let_def)
qed

text \<open>
  A payload that unmarshals into a payment response is sanitised to a document in which
  no object, at any depth, has a member named like a card verification code (\<open>cvv_code\<close>,
  \<open>cvv\<close>, \<open>cvc\<close>, \<open>cid\<close>, ignoring case and surrounding white space).
\<close>

theorem SanitizePaymentPayloadJSON_clean:
  assumes "UnmarshalResponse (JDoc j) \<noteq> None" and "json_ok j"
  shows "\<exists>k. SanitizePaymentPayloadJSON (JDoc j) = JDoc k \<and> \<not> has_sensitive (json_any k)"
proof -
  have generic: "\<exists>k. sanitizeGenericPaymentJSON (JDoc j) = JDoc k \<and> \<not> has_sensitive (json_any k)"
    using assms(2)
    by (simp add: sanitizeGenericPaymentJSON_def Marshal_def ok_any ok_strip any_clean)
  from assms(1) obtain r where r: "UnmarshalResponse (JDoc j) = Some r" by auto
  have "\<not> has_sensitive (json_any (enc_PaymentResponse (Sanitized r)))"
    by (simp add: any_clean enc_response_clean)
  with generic r show ?thesis
    by (auto simp: SanitizePaymentPayloadJSON_def MarshalResponse_def Marshal_def)
qed

theorem SanitizePaymentPayloadJSON_clean_witness:
  "\<exists>k. SanitizePaymentPayloadJSON (JDoc (JObj [(''Cvc'', JStr ''123'')])) = JDoc k
     \<and> \<not> has_sensitive (json_any k)"
proof (rule SanitizePaymentPayloadJSON_clean)
  have "\<not> EqualFold n ''Cvc''" if "n \<in> fst ` set tab_PaymentResponse" for n
    using that by (auto simp: tab_PaymentResponse_def EqualFold_def runes_ascii byte_def)
  then have "lookup_field tab_PaymentResponse ''Cvc'' = None"
    by (auto simp: lookup_field_def find_None_iff tab_PaymentResponse_def)
  then show "UnmarshalResponse (JDoc (JObj [(''Cvc'', JStr ''123'')])) \<noteq> None"
    by (simp add: UnmarshalResponse_def dec_struct_def)
qed simp

text \<open>
  A payload that does not unmarshal into a payment response is returned as it is, even
  when it is a document that holds a card verification code: one member of the wrong type
  switches the sanitiser off.
\<close>

theorem SanitizePaymentPayloadJSON_unparsed:
  assumes "UnmarshalResponse p = None"
  shows "SanitizePaymentPayloadJSON p = p"
  using assms by (simp add: SanitizePaymentPayloadJSON_def)

theorem SanitizePaymentPayloadJSON_unparsed_witness:
  "SanitizePaymentPayloadJSON (JDoc (JObj [(''id'', JNum (Fin 5)), (''CVV_code'', JStr ''123'')]))
     = JDoc (JObj [(''id'', JNum (Fin 5)), (''CVV_code'', JStr ''123'')])"
  by (rule SanitizePaymentPayloadJSON_unparsed)
    (simp add: UnmarshalResponse_def dec_struct_def lookup_field_def tab_PaymentResponse_def dec_str_def)

end
