(* ===== verification/Storage.thy ===== *)
theory Storage
  imports Json
begin

section \<open>Transaction storage (\<open>internal/subsystems/storage/inmemory_store.go\<close>)\<close>

text \<open>
  The in-memory store behind the contracts \<open>TransactionStore\<close> and \<open>RefundStore\<close>. Its maps
  are HOL maps from the composed key \<open>merchant:id\<close>; each method holds the mutex for its whole
  effect, so it is one atomic step. A payload text is a \<open>jtext\<close> (\<open>JRaw ''''\<close> is the empty
  text). Iteration over the refund map happens in an unspecified order: \<open>iter\<close> lists the
  entries in the order of one iteration (\<open>iteration_of\<close>).

  \<open>store_ops\<close> is the interface \<open>contracts.TransactionStore\<close> as a record of functions, so that
  the orchestrator can be run on any store; the locale \<open>transaction_store\<close> states what a
  client may rely on, and is interpreted on the in-memory store at the end. The guarantees
  are given for \<open>plain\<close> merchants: for this store, identifiers without a colon.
\<close>

record storedTx =
  Tx_status :: gostring
  Tx_payloadJSON :: jtext
  Tx_idempotencyKey :: gostring
  Tx_createdAt :: gotime
  Tx_updatedAt :: gotime

record InMemoryTransactionStore =
  Mem_byIdempotency :: "gostring \<rightharpoonup> storedTx"
  Mem_byPaymentID :: "gostring \<rightharpoonup> storedTx"
  Mem_refunds :: "gostring \<rightharpoonup> Refund"

definition NewInMemoryTransactionStore :: InMemoryTransactionStore where
  "NewInMemoryTransactionStore =
     \<lparr>Mem_byIdempotency = Map.empty, Mem_byPaymentID = Map.empty, Mem_refunds = Map.empty\<rparr>"

definition store_key :: "gostring \<Rightarrow> gostring \<Rightarrow> gostring" where
  "store_key m k = m @ '':'' @ k"

text \<open>
  The payload that is stored: sanitised unless empty. \<open>json.Unmarshal(payload, &tmp)\<close> into an
  \<open>interface{}\<close> fails on a text that is no document.
\<close>

definition save_payload :: "jtext \<Rightarrow> jtext result" where
  "save_payload payloadJSON =
     (if payloadJSON \<noteq> JRaw '''' then
        (let payload = SanitizePaymentPayloadJSON payloadJSON in
         case payload of JRaw _ \<Rightarrow> Inl ''invalid character in JSON'' | JDoc _ \<Rightarrow> Inr payload)
      else Inr payloadJSON)"

definition new_tx :: "gostring \<Rightarrow> gostring \<Rightarrow> jtext \<Rightarrow> gotime \<Rightarrow> storedTx option \<Rightarrow> storedTx" where
  "new_tx idempotencyKey status payload updatedAt previous =
     (let tx = \<lparr>Tx_status = status, Tx_payloadJSON = payload, Tx_idempotencyKey = idempotencyKey,
            Tx_createdAt = updatedAt, Tx_updatedAt = updatedAt\<rparr>
      in case previous of
           Some existing \<Rightarrow>
             if \<not> IsZero (Tx_createdAt existing) then tx\<lparr>Tx_createdAt := Tx_createdAt existing\<rparr> else tx
         | None \<Rightarrow> tx)"

definition mem_Save :: "gostring \<Rightarrow> gostring \<Rightarrow> gostring \<Rightarrow> gostring \<Rightarrow> jtext \<Rightarrow> gotime \<Rightarrow>
    InMemoryTransactionStore \<Rightarrow> goerror option \<times> InMemoryTransactionStore" where
  "mem_Save merchantID paymentID idempotencyKey status payloadJSON updatedAt s =
     (if merchantID = '''' \<or> idempotencyKey = ''''
      then (Some ''merchantID and idempotencyKey are required'', s)
      else (case save_payload payloadJSON of
        Inl e \<Rightarrow> (Some e, s)
      | Inr payload \<Rightarrow>
          let key = store_key merchantID idempotencyKey;
              tx = new_tx idempotencyKey status payload updatedAt (Mem_byIdempotency s key);
              s = s\<lparr>Mem_byIdempotency := (Mem_byIdempotency s)(key \<mapsto> tx)\<rparr>;
              s = (if paymentID \<noteq> ''''
                   then s\<lparr>Mem_byPaymentID := (Mem_byPaymentID s)(store_key merchantID paymentID \<mapsto> tx)\<rparr>
                   else s)
          in (None, s)))"

definition mem_GetByIdempotencyKey :: "gostring \<Rightarrow> gostring \<Rightarrow> InMemoryTransactionStore \<Rightarrow>
    (gostring \<times> jtext) option result" where
  "mem_GetByIdempotencyKey merchantID idempotencyKey s =
     (if merchantID = '''' \<or> idempotencyKey = ''''
      then Inl ''merchantID and idempotencyKey are required''
      else (case Mem_byIdempotency s (store_key merchantID idempotencyKey) of
              None \<Rightarrow> Inr None
            | Some tx \<Rightarrow> Inr (Some (Tx_status tx, Tx_payloadJSON tx))))"

definition mem_GetByPaymentID :: "gostring \<Rightarrow> gostring \<Rightarrow> InMemoryTransactionStore \<Rightarrow>
    (gostring \<times> jtext) option result" where
  "mem_GetByPaymentID merchantID paymentID s =
     (if merchantID = '''' \<or> paymentID = ''''
      then Inl ''merchantID and paymentID are required''
      else (case Mem_byPaymentID s (store_key merchantID paymentID) of
              None \<Rightarrow> Inr None
            | Some tx \<Rightarrow> Inr (Some (Tx_status tx, Tx_payloadJSON tx))))"

subsection \<open>Refunds\<close>

definition mem_SaveRefund :: "Refund \<Rightarrow> InMemoryTransactionStore \<Rightarrow>
    goerror option \<times> InMemoryTransactionStore" where
  "mem_SaveRefund refund s =
     (if Refund_MerchantID refund = '''' \<or> Refund_ID refund = ''''
      then (Some ''merchantID and refundID are required'', s)
      else
        let refund = refund\<lparr>Refund_Status := NormalizeRefundStatus (Refund_Status refund)\<rparr> in
        (None, s\<lparr>Mem_refunds := (Mem_refunds s)
           (store_key (Refund_MerchantID refund) (Refund_ID refund) \<mapsto> refund)\<rparr>))"

definition mem_GetRefundByID :: "gostring \<Rightarrow> gostring \<Rightarrow> InMemoryTransactionStore \<Rightarrow>
    Refund option result" where
  "mem_GetRefundByID merchantID refundID s =
     (if merchantID = '''' \<or> refundID = '''' then Inl ''merchantID and refundID are required''
      else Inr (Mem_refunds s (store_key merchantID refundID)))"

definition iteration_of :: "(gostring \<times> Refund) list \<Rightarrow> InMemoryTransactionStore \<Rightarrow> bool" where
  "iteration_of iter s = (map_of iter = Mem_refunds s \<and> distinct (map fst iter))"

definition mem_GetRefundByIdempotencyKey :: "(gostring \<times> Refund) list \<Rightarrow> gostring \<Rightarrow> gostring \<Rightarrow>
    Refund option result" where
  "mem_GetRefundByIdempotencyKey iter merchantID idempotencyKey =
     (if merchantID = '''' \<or> idempotencyKey = ''''
      then Inl ''merchantID and idempotencyKey are required''
      else Inr (List.find (\<lambda>r. Refund_MerchantID r = merchantID
        \<and> Refund_IdempotencyKey r = idempotencyKey) (map snd iter)))"

definition mem_ListRefundsByPaymentID :: "(gostring \<times> Refund) list \<Rightarrow> gostring \<Rightarrow> gostring \<Rightarrow>
    Refund list result" where
  "mem_ListRefundsByPaymentID iter merchantID paymentID =
     (if merchantID = '''' then Inl ''merchantID is required''
      else Inr (filter (\<lambda>r. Refund_MerchantID r = merchantID
        \<and> (paymentID = '''' \<or> Refund_PaymentID r = paymentID)) (map snd iter)))"

subsection \<open>The interface\<close>

record 's store_ops =
  op_Save :: "gostring \<Rightarrow> gostring \<Rightarrow> gostring \<Rightarrow> gostring \<Rightarrow> jtext \<Rightarrow> gotime \<Rightarrow> 's \<Rightarrow>
    goerror option \<times> 's"
  op_GetByIdempotencyKey :: "gostring \<Rightarrow> gostring \<Rightarrow> 's \<Rightarrow> (gostring \<times> jtext) option result"
  op_GetByPaymentID :: "gostring \<Rightarrow> gostring \<Rightarrow> 's \<Rightarrow> (gostring \<times> jtext) option result"

definition mem_ops :: "InMemoryTransactionStore store_ops" where
  "mem_ops = \<lparr>op_Save = mem_Save, op_GetByIdempotencyKey = mem_GetByIdempotencyKey,
     op_GetByPaymentID = mem_GetByPaymentID\<rparr>"

locale transaction_store =
  fixes ops :: "'s store_ops"
    and plain :: "gostring \<Rightarrow> bool"
  assumes save_get:
      "op_Save ops m p k st pay t s = (None, s') \<Longrightarrow>
        op_GetByIdempotencyKey ops m k s'
          = Inr (Some (st, if pay = JRaw '''' then pay else SanitizePaymentPayloadJSON pay))"
    and save_get_payment:
      "op_Save ops m p k st pay t s = (None, s') \<Longrightarrow> p \<noteq> '''' \<Longrightarrow>
        op_GetByPaymentID ops m p s'
          = Inr (Some (st, if pay = JRaw '''' then pay else SanitizePaymentPayloadJSON pay))"
    and save_frame:
      "op_Save ops m p k st pay t s = (e, s') \<Longrightarrow> plain m \<Longrightarrow> plain m' \<Longrightarrow> (m', k') \<noteq> (m, k) \<Longrightarrow>
        op_GetByIdempotencyKey ops m' k' s' = op_GetByIdempotencyKey ops m' k' s"
    and save_frame_payment:
      "op_Save ops m p k st pay t s = (e, s') \<Longrightarrow> plain m \<Longrightarrow> plain m' \<Longrightarrow> (m', p') \<noteq> (m, p) \<Longrightarrow>
        op_GetByPaymentID ops m' p' s' = op_GetByPaymentID ops m' p' s"
begin

text \<open>Saves of other keys, in any number, leave a stored transaction alone.\<close>

primrec save_all :: "(gostring \<times> gostring \<times> gostring \<times> gostring \<times> jtext \<times> gotime) list \<Rightarrow> 's \<Rightarrow> 's" where
  "save_all [] s = s"
| "save_all (x # xs) s =
     (case x of (m, p, k, st, pay, t) \<Rightarrow> save_all xs (snd (op_Save ops m p k st pay t s)))"

lemma save_all_frame:
  assumes "plain m" "list_all (\<lambda>(m', p, k', st, pay, t). plain m' \<and> (m, k) \<noteq> (m', k')) xs"
  shows "op_GetByIdempotencyKey ops m k (save_all xs s) = op_GetByIdempotencyKey ops m k s"
  using assms(2)
proof (induction xs arbitrary: s)
  case (Cons x xs)
  obtain m' p k' st pay t where x: "x = (m', p, k', st, pay, t)" by (cases x)
  obtain e s' where s': "op_Save ops m' p k' st pay t s = (e, s')" by fastforce
  have "op_GetByIdempotencyKey ops m k (save_all xs s') = op_GetByIdempotencyKey ops m k s'"
    by (rule Cons.IH) (use Cons.prems in simp)
  also have "\<dots> = op_GetByIdempotencyKey ops m k s"
    using save_frame [OF s' _ assms(1)] Cons.prems x by simp
  finally show ?case by (simp add: x s')
qed simp

lemma save_get_all:
  assumes "op_Save ops m p k st pay t s = (None, s')" "plain m"
    "list_all (\<lambda>(m', p, k', st, pay, t). plain m' \<and> (m, k) \<noteq> (m', k')) xs"
  shows "op_GetByIdempotencyKey ops m k (save_all xs s')
    = Inr (Some (st, if pay = JRaw '''' then pay else SanitizePaymentPayloadJSON pay))"
  using save_all_frame [OF assms(2,3)] save_get [OF assms(1)] by simp

end

subsection \<open>The in-memory store keeps the contract\<close>

definition colon_free :: "gostring \<Rightarrow> bool" where
  "colon_free m = (CHR '':'' \<notin> set m)"

lemma store_key_inj:
  "colon_free m \<Longrightarrow> colon_free m' \<Longrightarrow> store_key m k = store_key m' k' \<longleftrightarrow> m = m' \<and> k = k'"
  unfolding store_key_def colon_free_def
  using append_sep_inj [of "CHR '':''" m m' k k'] by auto

lemma sanitized_doc: "\<exists>k. SanitizePaymentPayloadJSON (JDoc j) = JDoc k"
proof -
  have m: "Marshal d = Inr b \<Longrightarrow> \<exists>k. b = JDoc k" for d b
    by (auto simp: Marshal_def split: if_splits)
  have g: "\<exists>k. sanitizeGenericPaymentJSON (JDoc j) = JDoc k"
    by (cases "Marshal (strip_sensitive (json_any j))")
      (auto simp: sanitizeGenericPaymentJSON_def dest: m)
  show ?thesis
  proof (cases "UnmarshalResponse (JDoc j)")
    case None
    then show ?thesis by (simp add: SanitizePaymentPayloadJSON_def)
  next
    case (Some r)
    with g show ?thesis
      by (cases "MarshalResponse (Sanitized r)")
        (auto simp: SanitizePaymentPayloadJSON_def MarshalResponse_def dest: m)
  qed
qed

lemma save_payload_Inr: "save_payload p = Inr q \<Longrightarrow>
    q = (if p = JRaw '''' then p else SanitizePaymentPayloadJSON p)"
  by (auto simp: save_payload_def Let_def split: if_splits jtext.splits)

lemma save_payload_doc: "\<exists>k. save_payload (JDoc j) = Inr (JDoc k)"
  using sanitized_doc [of j] by (auto simp: save_payload_def)

lemma new_tx_simps [simp]:
  "Tx_status (new_tx k st pay t prev) = st" "Tx_payloadJSON (new_tx k st pay t prev) = pay"
  "Tx_idempotencyKey (new_tx k st pay t prev) = k" "Tx_updatedAt (new_tx k st pay t prev) = t"
  by (simp_all add: new_tx_def Let_def split: option.splits)

lemma mem_Save_None:
  assumes "mem_Save m p k st pay t s = (None, s')"
  obtains tx where "m \<noteq> ''''" "k \<noteq> ''''" "Tx_status tx = st"
    "Tx_payloadJSON tx = (if pay = JRaw '''' then pay else SanitizePaymentPayloadJSON pay)"
    "Mem_byIdempotency s' = (Mem_byIdempotency s)(store_key m k \<mapsto> tx)"
    "Mem_byPaymentID s' = (if p \<noteq> '''' then (Mem_byPaymentID s)(store_key m p \<mapsto> tx)
       else Mem_byPaymentID s)"
proof -
  from assms obtain q where q: "save_payload pay = Inr q" "m \<noteq> ''''" "k \<noteq> ''''"
    by (cases "save_payload pay") (auto simp: mem_Save_def split: if_splits)
  let ?tx = "new_tx k st q t (Mem_byIdempotency s (store_key m k))"
  show thesis
    by (rule that [of ?tx])
      (use assms q save_payload_Inr [OF q(1)] in \<open>auto simp: mem_Save_def Let_def split: if_splits\<close>)
qed

lemma mem_Save_error: "mem_Save m p k st pay t s = (Some e, s') \<Longrightarrow> s' = s"
  by (cases "save_payload pay") (auto simp: mem_Save_def Let_def split: if_splits)

lemma mem_save_get:
  "mem_Save m p k st pay t s = (None, s') \<Longrightarrow> mem_GetByIdempotencyKey m k s'
     = Inr (Some (st, if pay = JRaw '''' then pay else SanitizePaymentPayloadJSON pay))"
  by (erule mem_Save_None) (simp add: mem_GetByIdempotencyKey_def)

lemma mem_save_get_payment:
  "mem_Save m p k st pay t s = (None, s') \<Longrightarrow> p \<noteq> '''' \<Longrightarrow> mem_GetByPaymentID m p s'
     = Inr (Some (st, if pay = JRaw '''' then pay else SanitizePaymentPayloadJSON pay))"
  by (erule mem_Save_None) (simp add: mem_GetByPaymentID_def)

lemma mem_save_frame:
  assumes "mem_Save m p k st pay t s = (e, s')" "colon_free m" "colon_free m'"
  shows "(m', k') \<noteq> (m, k) \<Longrightarrow> mem_GetByIdempotencyKey m' k' s' = mem_GetByIdempotencyKey m' k' s"
    and "(m', p') \<noteq> (m, p) \<Longrightarrow> mem_GetByPaymentID m' p' s' = mem_GetByPaymentID m' p' s"
proof -
  note inj = store_key_inj [OF assms(3,2)]
  show "mem_GetByIdempotencyKey m' k' s' = mem_GetByIdempotencyKey m' k' s" if "(m', k') \<noteq> (m, k)"
  proof (cases e)
    case None
    from assms(1) [unfolded None] show ?thesis
      by (rule mem_Save_None) (use that inj in \<open>auto simp: mem_GetByIdempotencyKey_def\<close>)
  qed (use assms(1) mem_Save_error in blast)
  show "mem_GetByPaymentID m' p' s' = mem_GetByPaymentID m' p' s" if "(m', p') \<noteq> (m, p)"
  proof (cases e)
    case None
    from assms(1) [unfolded None] show ?thesis
      by (rule mem_Save_None) (use that inj in \<open>auto simp: mem_GetByPaymentID_def\<close>)
  qed (use assms(1) mem_Save_error in blast)
qed

lemma mem_ops_simps [simp]:
  "op_Save mem_ops = mem_Save" "op_GetByIdempotencyKey mem_ops = mem_GetByIdempotencyKey"
  "op_GetByPaymentID mem_ops = mem_GetByPaymentID"
  by (simp_all add: mem_ops_def)

interpretation mem: transaction_store mem_ops colon_free
  by unfold_locales
    (simp_all only: mem_ops_simps mem_save_get mem_save_get_payment mem_save_frame not_False_eq_True)

subsection \<open>Properties\<close>

definition save_step :: "InMemoryTransactionStore \<Rightarrow>
    gostring \<times> gostring \<times> gostring \<times> gostring \<times> jtext \<times> gotime \<Rightarrow> InMemoryTransactionStore" where
  "save_step s x = (case x of (m, p, k, st, pay, t) \<Rightarrow> snd (mem_Save m p k st pay t s))"

lemma save_all_foldl: "mem.save_all xs s = foldl save_step s xs"
  by (induction xs arbitrary: s) (auto simp: save_step_def)

text \<open>
  C24: Once a transaction is saved, its merchant finds it under the idempotency key, with the
  status and the sanitised payload of that save, after any further saves of other keys by
  merchants whose identifiers hold no colon, whether those saves succeed or not.
\<close>

theorem mem_store_lookup_after_saves:
  assumes "mem_Save m p k st pay t s = (None, s')" and "colon_free m"
    and "list_all (\<lambda>(m', p', k', st', pay', t'). colon_free m' \<and> (m, k) \<noteq> (m', k')) xs"
  shows "mem_GetByIdempotencyKey m k (foldl save_step s' xs)
    = Inr (Some (st, if pay = JRaw '''' then pay else SanitizePaymentPayloadJSON pay))"
  using mem.save_get_all [unfolded mem_ops_simps, OF assms] by (simp add: save_all_foldl)

theorem mem_store_lookup_after_saves_witness:
  "mem_GetByIdempotencyKey ''m'' ''k'' (foldl save_step
      (snd (mem_Save ''m'' ''p'' ''k'' StatusCaptured (JRaw '''') 7 NewInMemoryTransactionStore))
      [(''m2'', ''p'', ''k'', StatusFailed, JRaw '''', 8), (''m'', ''p2'', ''k2'', StatusFailed, JRaw ''x'', 9)])
    = Inr (Some (StatusCaptured, JRaw ''''))"
  using mem_store_lookup_after_saves [of "''m''" "''p''" "''k''" StatusCaptured "JRaw ''''" 7
    NewInMemoryTransactionStore
    "snd (mem_Save ''m'' ''p'' ''k'' StatusCaptured (JRaw '''') 7 NewInMemoryTransactionStore)"
    "[(''m2'', ''p'', ''k'', StatusFailed, JRaw '''', 8), (''m'', ''p2'', ''k2'', StatusFailed, JRaw ''x'', 9)]"]
  by (simp add: mem_Save_def save_payload_def colon_free_def Let_def)

text \<open>
  Keys are composed without escaping, so merchants whose identifiers hold colons share
  them: what the merchant \<open>m:x\<close> saves under the key \<open>k\<close>, the merchant \<open>m\<close> reads under the
  key \<open>x:k\<close>.
\<close>

theorem mem_store_key_collision:
  assumes "mem_Save (m @ '':'' @ x) p k st pay t s = (None, s')" and "m \<noteq> ''''"
  shows "mem_GetByIdempotencyKey m (x @ '':'' @ k) s'
    = Inr (Some (st, if pay = JRaw '''' then pay else SanitizePaymentPayloadJSON pay))"
  using assms(1)
proof (rule mem_Save_None)
  fix tx
  assume "Tx_status tx = st"
    "Tx_payloadJSON tx = (if pay = JRaw '''' then pay else SanitizePaymentPayloadJSON pay)"
    "Mem_byIdempotency s' = (Mem_byIdempotency s)(store_key (m @ '':'' @ x) k \<mapsto> tx)"
  moreover have "store_key (m @ '':'' @ x) k = store_key m (x @ '':'' @ k)"
    by (simp add: store_key_def)
  ultimately show ?thesis using assms(2) by (simp add: mem_GetByIdempotencyKey_def)
qed

theorem mem_store_key_collision_witness:
  "mem_GetByIdempotencyKey ''shop'' ''eu:key'' (snd (mem_Save ''shop:eu'' ''p'' ''key'' StatusCaptured
      (JRaw '''') 7 NewInMemoryTransactionStore)) = Inr (Some (StatusCaptured, JRaw ''''))"
  using mem_store_key_collision [of "''shop''" "''eu''" "''p''" "''key''" StatusCaptured "JRaw ''''" 7
    NewInMemoryTransactionStore
    "snd (mem_Save ''shop:eu'' ''p'' ''key'' StatusCaptured (JRaw '''') 7 NewInMemoryTransactionStore)"]
  by (simp add: mem_Save_def save_payload_def Let_def)

text \<open>
  Saving a transaction again keeps its first creation time and takes over everything
  else from the new save.
\<close>

theorem mem_Save_keeps_createdAt:
  assumes "mem_Save m p k st pay t s = (None, s')"
    and "Mem_byIdempotency s (store_key m k) = Some old" and "\<not> IsZero (Tx_createdAt old)"
  shows "\<exists>tx. Mem_byIdempotency s' (store_key m k) = Some tx \<and> Tx_createdAt tx = Tx_createdAt old
    \<and> Tx_status tx = st \<and> Tx_updatedAt tx = t \<and> Tx_idempotencyKey tx = k"
proof -
  from assms(1) obtain q where q: "save_payload pay = Inr q" "m \<noteq> ''''" "k \<noteq> ''''"
    by (cases "save_payload pay") (auto simp: mem_Save_def split: if_splits)
  then have "Mem_byIdempotency s' (store_key m k)
      = Some (new_tx k st q t (Mem_byIdempotency s (store_key m k)))"
    using assms(1) by (auto simp: mem_Save_def Let_def split: if_splits)
  with assms(2,3) show ?thesis by (simp add: new_tx_def)
qed

theorem mem_Save_keeps_createdAt_witness:
  "\<exists>tx. Mem_byIdempotency (snd (mem_Save ''m'' ''p'' ''k'' StatusCaptured (JRaw '''') 9
      (snd (mem_Save ''m'' ''p'' ''k'' StatusPending (JRaw '''') 7 NewInMemoryTransactionStore))))
      (store_key ''m'' ''k'') = Some tx \<and> Tx_createdAt tx = 7"
proof -
  let ?s = "snd (mem_Save ''m'' ''p'' ''k'' StatusPending (JRaw '''') 7 NewInMemoryTransactionStore)"
  have "mem_Save ''m'' ''p'' ''k'' StatusCaptured (JRaw '''') 9 ?s
      = (None, snd (mem_Save ''m'' ''p'' ''k'' StatusCaptured (JRaw '''') 9 ?s))"
    by (simp add: mem_Save_def save_payload_def Let_def)
  moreover obtain old where "Mem_byIdempotency ?s (store_key ''m'' ''k'') = Some old"
    "Tx_createdAt old = 7"
    by (simp add: mem_Save_def save_payload_def Let_def NewInMemoryTransactionStore_def new_tx_def)
  ultimately show ?thesis
    using mem_Save_keeps_createdAt by (fastforce simp: IsZero_def zero_time_def)
qed

text \<open>
  Refunds: a saved refund is read back by its identifier with a normalised status; and in
  whatever order the map is iterated, a search by idempotency key finds a refund exactly when
  the merchant has one with that key, and never one of another merchant.
\<close>

theorem mem_refund_search:
  assumes "mem_SaveRefund r s = (None, s')" and "iteration_of iter s'"
    and "Refund_IdempotencyKey r \<noteq> ''''"
  shows "mem_GetRefundByID (Refund_MerchantID r) (Refund_ID r) s'
      = Inr (Some (r\<lparr>Refund_Status := NormalizeRefundStatus (Refund_Status r)\<rparr>))
    \<and> (\<exists>x. mem_GetRefundByIdempotencyKey iter (Refund_MerchantID r) (Refund_IdempotencyKey r)
          = Inr (Some x) \<and> Refund_MerchantID x = Refund_MerchantID r
        \<and> Refund_IdempotencyKey x = Refund_IdempotencyKey r)"
proof -
  let ?r = "r\<lparr>Refund_Status := NormalizeRefundStatus (Refund_Status r)\<rparr>"
  let ?key = "store_key (Refund_MerchantID r) (Refund_ID r)"
  from assms(1) have ids: "Refund_MerchantID r \<noteq> ''''" "Refund_ID r \<noteq> ''''"
    and refunds: "Mem_refunds s' ?key = Some ?r"
    by (auto simp: mem_SaveRefund_def Let_def split: if_splits)
  then have "mem_GetRefundByID (Refund_MerchantID r) (Refund_ID r) s' = Inr (Some ?r)"
    by (simp add: mem_GetRefundByID_def)
  moreover have "(?key, ?r) \<in> set iter"
    using assms(2) refunds by (simp add: iteration_of_def map_of_Some_set)
  then have "?r \<in> set (map snd iter)" by force
  then have "List.find (\<lambda>x. Refund_MerchantID x = Refund_MerchantID r
      \<and> Refund_IdempotencyKey x = Refund_IdempotencyKey r) (map snd iter) \<noteq> None"
    unfolding find_None_iff using \<open>?r \<in> set (map snd iter)\<close>
    by (metis (no_types, lifting) Refund.select_convs(2,9) Refund.surjective Refund.update_convs(3))
  then obtain x where "List.find (\<lambda>x. Refund_MerchantID x = Refund_MerchantID r
      \<and> Refund_IdempotencyKey x = Refund_IdempotencyKey r) (map snd iter) = Some x" by auto
  ultimately show ?thesis using ids assms(3)
    by (auto simp: mem_GetRefundByIdempotencyKey_def dest: find_Some_set)
qed

definition sample_refund :: Refund where
  "sample_refund = \<lparr>Refund_ID = ''ref_1'', Refund_MerchantID = ''m'', Refund_Status = ''succeeded'',
     Refund_Amount = Fin 10, Refund_Currency = ''RUB'', Refund_EntityType = ''payment'',
     Refund_EntityID = ''p'', Refund_PaymentID = ''p'', Refund_IdempotencyKey = ''k'',
     Refund_Provider = '''', Refund_PaymentSystem = '''', Refund_ExternalRefundID = '''',
     Refund_ProviderStatus = '''', Refund_ProviderErrorCode = '''', Refund_ProviderErrorMsg = '''',
     Refund_RefundType = ''FULL'', Refund_Reason = '''', Refund_CreatedAt = 7, Refund_UpdatedAt = 7\<rparr>"

theorem mem_refund_search_witness:
  "mem_GetRefundByID ''m'' ''ref_1'' (snd (mem_SaveRefund sample_refund NewInMemoryTransactionStore))
    = Inr (Some (sample_refund\<lparr>Refund_Status := RefundStatusSuccess\<rparr>))"
proof -
  have "NormalizeRefundStatus ''succeeded'' = RefundStatusSuccess"
    by (simp add: NormalizeRefundStatus_def lit go_eval)
  then show ?thesis
    using mem_refund_search [of sample_refund NewInMemoryTransactionStore
      "snd (mem_SaveRefund sample_refund NewInMemoryTransactionStore)"
      "[(store_key ''m'' ''ref_1'', sample_refund\<lparr>Refund_Status := RefundStatusSuccess\<rparr>)]"]
    by (simp add: mem_SaveRefund_def sample_refund_def NewInMemoryTransactionStore_def
        iteration_of_def Let_def)
qed

end
