(* ===== verification/Routing.thy ===== *)
theory Routing
  imports Dto
begin

section \<open>Routing and the adapter factory\<close>

text \<open>
  \<open>orchestrator/simple/router.go\<close> and \<open>card_scheme.go\<close> choose a payment system and an adapter
  key for a request; \<open>subsystems/routing/postgres_routes.go\<close> is the optional table of routes;
  \<open>subsystems/adapter/factory.go\<close> finds the adapter registered under the key, going through
  environment variables (\<open>env\<close>, a function from names to values) for the legacy keys.

  The route store is a parameter: for a merchant and a method it returns a route, none, or an
  error. Of the Postgres one, what \<open>GetActiveRoute\<close> does before and after its query is here, the
  query result (\<open>row\<close>) being a parameter; the table and the query are in \<open>Providers\<close>.
\<close>

subsection \<open>Card schemes\<close>

definition cardSchemeUnknown :: gostring where [lit]: "cardSchemeUnknown = ''UNKNOWN''"
definition cardSchemeMir :: gostring where [lit]: "cardSchemeMir = ''MIR''"
definition cardSchemeVisa :: gostring where [lit]: "cardSchemeVisa = ''VISA''"
definition cardSchemeMastercard :: gostring where [lit]: "cardSchemeMastercard = ''MASTERCARD''"

definition router_onlyDigits :: "gostring \<Rightarrow> gostring" where
  "router_onlyDigits value = encode_runes (filter is_digit (runes value))"

text \<open>\<open>strconv.Atoi\<close> of a string of digits, where it does not fail.\<close>

definition Atoi_digits :: "gostring \<Rightarrow> nat" where
  "Atoi_digits s = foldl (\<lambda>n c. n * 10 + (byte c - 48)) 0 s"

definition detectCardScheme :: "gostring \<Rightarrow> gostring" where
  "detectCardScheme cardNumber =
     (let digits = router_onlyDigits cardNumber in
      if length digits < 4 then cardSchemeUnknown
      else
        let prefix4 = Atoi_digits (take 4 digits) in
        if 2200 \<le> prefix4 \<and> prefix4 \<le> 2204 then cardSchemeMir
        else if HasPrefix digits ''4'' then cardSchemeVisa
        else if length digits \<ge> 2 \<and> 51 \<le> Atoi_digits (take 2 digits) \<and> Atoi_digits (take 2 digits) \<le> 55
        then cardSchemeMastercard
        else if 2221 \<le> prefix4 \<and> prefix4 \<le> 2720 then cardSchemeMastercard
        else cardSchemeUnknown)"

definition providerForCardScheme :: "gostring \<Rightarrow> (gostring \<times> gostring) option" where
  "providerForCardScheme scheme =
     (if ToUpper (TrimSpace scheme) = cardSchemeMir then Some (''YOOKASSA'', ''yookassa'') else None)"

subsection \<open>The route table\<close>

definition normalizeProvider :: "gostring \<Rightarrow> gostring" where
  "normalizeProvider v = ToLower (TrimSpace v)"

definition normalizePaymentSystem :: "gostring \<Rightarrow> gostring \<Rightarrow> gostring" where
  "normalizePaymentSystem system provider =
     (let system = ToUpper (TrimSpace system) in
      if system \<noteq> '''' then system
      else let provider = normalizeProvider provider in
        if provider = '''' then '''' else ToUpper provider)"

text \<open>\<open>row m p\<close>: the first active row by priority and id, if any, or the error of the query.\<close>

definition GetActiveRoute :: "(gostring \<Rightarrow> gostring \<Rightarrow> PaymentRoute option result) \<Rightarrow>
    gostring \<Rightarrow> gostring \<Rightarrow> PaymentRoute option result" where
  "GetActiveRoute row merchantID paymentMethod =
     (let merchantID = TrimSpace merchantID in
      if merchantID = '''' \<or> paymentMethod = ''''
      then Inl ''merchant_id and payment_method are required''
      else (case row merchantID paymentMethod of
        Inl e \<Rightarrow> Inl e
      | Inr None \<Rightarrow> Inr None
      | Inr (Some route) \<Rightarrow>
          let route = route\<lparr>Route_Provider := normalizeProvider (Route_Provider route)\<rparr>
          in Inr (Some (route\<lparr>Route_PaymentSystem :=
            normalizePaymentSystem (Route_PaymentSystem route) (Route_Provider route)\<rparr>))))"

subsection \<open>The router\<close>

type_synonym route_store = "gostring \<Rightarrow> gostring \<Rightarrow> PaymentRoute option result"

definition default_route :: "gostring \<Rightarrow> (gostring \<times> gostring) result" where
  "default_route t =
     (if t = PaymentMethodSBP then Inr (''SBP'', ''sbp_adapter'')
      else if t = PaymentMethodCard then Inr (''CARD'', ''card_adapter'')
      else if t = PaymentMethodDigitalWallet then Inr (''DIGITAL_WALLET'', ''wallet_adapter'')
      else if t = PaymentMethodDigitalRuble then Inr (''DIGITAL_RUBLE'', ''digital_ruble'')
      else Inl (''unsupported payment method: '' @ t))"

text \<open>The payment system and the adapter key.\<close>

definition Route :: "route_store option \<Rightarrow> CreatePaymentRequest \<Rightarrow> (gostring \<times> gostring) result" where
  "Route routes r =
     (let t = Method_Type (Info_PaymentMethodData (Req_PaymentInfo r));
          byScheme = (if t = PaymentMethodCard then providerForCardScheme (detectCardScheme
            (Cust_CardNumber (Info_CustomerData (Req_PaymentInfo r)))) else None)
      in case byScheme of
        Some res \<Rightarrow> Inr res
      | None \<Rightarrow> (case routes of
          None \<Rightarrow> default_route t
        | Some get \<Rightarrow> (case get (Req_MerchantID r) t of
            Inl e \<Rightarrow> Inl (''failed to load payment route: '' @ e)
          | Inr (Some route) \<Rightarrow> Inr (Route_PaymentSystem route, ToLower (TrimSpace (Route_Provider route)))
          | Inr None \<Rightarrow> default_route t)))"

subsection \<open>The adapter factory\<close>

type_synonym 'a factory = "gostring \<rightharpoonup> 'a"

definition normalizeAdapterKey :: "gostring \<Rightarrow> gostring" where
  "normalizeAdapterKey v = ToLower (TrimSpace v)"

text \<open>\<open>Register\<close> ignores an empty key and a nil adapter (\<open>None\<close>).\<close>

definition Register :: "gostring \<Rightarrow> 'a option \<Rightarrow> 'a factory \<Rightarrow> 'a factory" where
  "Register key adapter f =
     (let key = normalizeAdapterKey key in
      case adapter of None \<Rightarrow> f | Some a \<Rightarrow> if key = '''' then f else f(key \<mapsto> a))"

definition Factory_Get :: "gostring \<Rightarrow> 'a factory \<Rightarrow> 'a option" where
  "Factory_Get key f = f (normalizeAdapterKey key)"

definition isLegacyAdapterKey :: "gostring \<Rightarrow> bool" where
  "isLegacyAdapterKey v = (normalizeAdapterKey v \<in>
     {''card_adapter'', ''sbp_adapter'', ''wallet_adapter'', ''digital_ruble_adapter''})"

definition providerFromEnv :: "(gostring \<Rightarrow> gostring) \<Rightarrow> gostring \<Rightarrow> gostring \<Rightarrow> gostring" where
  "providerFromEnv env adapterKey paymentSystem =
     (let key = normalizeAdapterKey adapterKey;
          envName = (if key = ''card_adapter'' then ''CARD_PAYMENT_PROVIDER''
            else if key = ''sbp_adapter'' then ''SBP_PAYMENT_PROVIDER''
            else if key = ''wallet_adapter'' then ''WALLET_PAYMENT_PROVIDER''
            else if key = ''digital_ruble_adapter'' then ''DIGITAL_RUBLE_PAYMENT_PROVIDER''
            else '''');
          v = (if envName \<noteq> '''' then normalizeAdapterKey (env envName) else '''')
      in if v \<noteq> '''' then v else normalizeAdapterKey (env ''PAYMENT_PROVIDER''))"

text \<open>The \<open>%q\<close> format: a Go string literal. Printable characters stand for themselves.\<close>

definition hex_digit :: "nat \<Rightarrow> char" where
  "hex_digit n = (if n < 10 then char_of (48 + n) else char_of (87 + n))"

definition quote_char :: "char \<Rightarrow> gostring" where
  "quote_char c = (let n = byte c in
     if n = 34 then [CHR 0x5C, c]
     else if n = 92 then [CHR 0x5C, c]
     else if n = 7 then [CHR 0x5C, CHR ''a'']
     else if n = 8 then [CHR 0x5C, CHR ''b'']
     else if n = 9 then [CHR 0x5C, CHR ''t'']
     else if n = 10 then [CHR 0x5C, CHR ''n'']
     else if n = 11 then [CHR 0x5C, CHR ''v'']
     else if n = 12 then [CHR 0x5C, CHR ''f'']
     else if n = 13 then [CHR 0x5C, CHR ''r'']
     else if n < 32 \<or> n = 127 then [CHR 0x5C, CHR ''x'', hex_digit (n div 16), hex_digit (n mod 16)]
     else [c])"

definition Quote :: "gostring \<Rightarrow> gostring" where
  "Quote s = [CHR 0x22] @ concat (map quote_char s) @ [CHR 0x22]"

definition Resolve :: "(gostring \<Rightarrow> gostring) \<Rightarrow> 'a factory \<Rightarrow> gostring \<Rightarrow> gostring \<Rightarrow>
    ('a \<times> gostring) result" where
  "Resolve env f adapterKey paymentSystem =
     (let key = normalizeAdapterKey adapterKey in
      if key \<noteq> '''' \<and> \<not> isLegacyAdapterKey key then
        (case Factory_Get key f of
           Some a \<Rightarrow> Inr (a, key)
         | None \<Rightarrow> Inl (''adapter provider '' @ Quote key @ '' is not registered or not configured''))
      else
        let providerKey = providerFromEnv env key paymentSystem in
        if providerKey = ''''
        then Inl (''payment provider is not configured for adapter key '' @ Quote adapterKey)
        else (case Factory_Get providerKey f of
           Some a \<Rightarrow> Inr (a, providerKey)
         | None \<Rightarrow> Inl (''adapter provider '' @ Quote providerKey
             @ '' is not registered or not configured'')))"

subsection \<open>The simulated adapter\<close>

text \<open>\<open>nanos\<close> is the clock reading of the call.\<close>

definition Simulated_Send :: "gostring \<Rightarrow> gotime \<Rightarrow> gostring \<Rightarrow> CreatePaymentRequest \<Rightarrow> AdapterResult result" where
  "Simulated_Send paymentSystem nanos token r =
     Inr (zero_result\<lparr>AR_ExternalTransactionID := ''ext_'' @ Itoa nanos,
       AR_PaymentSystem := paymentSystem, AR_Status := StatusCaptured, AR_ErrorMessage := ''''\<rparr>)"

definition Simulated_Refund :: "gostring \<Rightarrow> RefundRequest \<Rightarrow> RefundResult result" where
  "Simulated_Refund paymentSystem r =
     (let failed = (RfReq_Reason r = ''simulate_failed'' \<or> RfReq_PaymentID r = ''pay_refund_failed'') in
      Inr \<lparr>RfRes_ExternalRefundID = ''rfnd_'' @ TrimPrefix (RfReq_RefundID r) ''ref_'',
        RfRes_PaymentSystem = paymentSystem,
        RfRes_Status = (if failed then RefundStatusFail else RefundStatusSuccess),
        RfRes_ProviderStatus = (if failed then ''failed'' else ''succeeded''),
        RfRes_ErrorMessage = (if failed then ''simulated refund failure'' else '''')\<rparr>)"

subsection \<open>Facts\<close>

lemma router_onlyDigits_digitsOnly: "router_onlyDigits = digitsOnly"
  by (rule ext) (simp add: router_onlyDigits_def digitsOnly_def)

lemma Atoi_digits_four:
  "Atoi_digits [a, b, c, d] = (byte a - 48) * 1000 + (byte b - 48) * 100 + (byte c - 48) * 10 + (byte d - 48)"
  "Atoi_digits [a, b] = (byte a - 48) * 10 + (byte b - 48)"
  by (simp_all add: Atoi_digits_def)

lemma scheme_neq [simp]:
  "cardSchemeMir \<noteq> cardSchemeVisa" "cardSchemeMir \<noteq> cardSchemeMastercard"
  "cardSchemeMir \<noteq> cardSchemeUnknown" "cardSchemeVisa \<noteq> cardSchemeMir"
  "cardSchemeMastercard \<noteq> cardSchemeMir" "cardSchemeUnknown \<noteq> cardSchemeMir"
  by (simp_all add: lit)

lemma providerForCardScheme_Mir:
  "providerForCardScheme cardSchemeMir = Some (''YOOKASSA'', ''yookassa'')"
  "providerForCardScheme cardSchemeVisa = None" "providerForCardScheme cardSchemeMastercard = None"
  "providerForCardScheme cardSchemeUnknown = None"
  by (simp_all add: providerForCardScheme_def lit go_eval)

lemma detect_range: "detectCardScheme n
    \<in> {cardSchemeMir, cardSchemeVisa, cardSchemeMastercard, cardSchemeUnknown}"
  by (simp add: detectCardScheme_def Let_def)

lemma providerForCardScheme_detect:
  "providerForCardScheme (detectCardScheme n) =
     (if detectCardScheme n = cardSchemeMir then Some (''YOOKASSA'', ''yookassa'') else None)"
  using detect_range [of n] providerForCardScheme_Mir by (metis insertE singletonD)

lemma default_route_total:
  "t \<in> {PaymentMethodSBP, PaymentMethodCard, PaymentMethodDigitalWallet, PaymentMethodDigitalRuble} \<Longrightarrow>
     \<exists>x. default_route t = Inr x"
  by (auto simp: default_route_def)

lemma normalizeAdapterKey_ascii:
  "is_ascii v \<Longrightarrow> TrimSpace (ToLower (TrimSpace v)) = ToLower (TrimSpace v) \<Longrightarrow>
     normalizeAdapterKey (normalizeAdapterKey v) = normalizeAdapterKey v"
  using set_TrimSpace [of v]
  by (simp add: normalizeAdapterKey_def ToLower_idem_ascii is_ascii_def list_all_iff subset_iff)

lemma between_div:
  "(0 :: nat) < k \<Longrightarrow> a \<le> m div k \<and> m div k \<le> b \<longleftrightarrow> a * k \<le> m \<and> m \<le> b * k + (k - 1)"
proof -
  assume k: "0 < k"
  have "m div k \<le> b \<longleftrightarrow> m div k < Suc b" by auto
  also have "\<dots> \<longleftrightarrow> m < Suc b * k" using k by (rule div_less_iff_less_mult)
  also have "\<dots> \<longleftrightarrow> m \<le> b * k + (k - 1)" using k by auto
  finally show ?thesis using k by (simp add: less_eq_div_iff_mult_less_eq)
qed

lemma digit_nat: "is_digit (byte c) \<Longrightarrow> \<exists>i. byte c = 48 + i \<and> i \<le> 9"
  unfolding is_digit_def by (rule exI [of _ "byte c - 48"]) linarith

subsection \<open>Properties\<close>

definition zero_request :: "gostring \<Rightarrow> CreatePaymentRequest" where
  "zero_request t = \<lparr>Req_MerchantID = '''', Req_IdempotencyKey = '''', Req_PaymentID = '''',
     Req_CurrentStatus = '''', Req_PaymentInfo = \<lparr>Info_Amount = zero_amount,
       Info_PaymentMethodData = \<lparr>Method_Type = t\<rparr>, Info_CustomerData = zero_customer, Info_Items = [],
       Info_DigitalRubleData = \<lparr>DR_SmartContractID = '''', DR_RequireMarkedMoney = False\<rparr>,
       Info_CreatedAt = zero_time, Info_Description = ''''\<rparr>\<rparr>"

text \<open>
  The card scheme is a function of the first four digits n of the number: MIR for 2200 to
  2204, VISA for 4000 to 4999, MASTERCARD for 5100 to 5599 and 2221 to 2720, and UNKNOWN
  otherwise; the ranges do not overlap, so the order of the tests does not matter.
\<close>

theorem detectCardScheme_ranges:
  assumes "digitsOnly num = a # b # c # d # rest"
  shows "let n = Atoi_digits [a, b, c, d] in
    detectCardScheme num =
      (if 4000 \<le> n \<and> n \<le> 4999 then cardSchemeVisa
       else if 5100 \<le> n \<and> n \<le> 5599 then cardSchemeMastercard
       else if 2221 \<le> n \<and> n \<le> 2720 then cardSchemeMastercard
       else if 2200 \<le> n \<and> n \<le> 2204 then cardSchemeMir
       else cardSchemeUnknown)"
proof -
  have digits: "is_digit (byte a)" "is_digit (byte b)" "is_digit (byte c)" "is_digit (byte d)"
    using digitsOnly_digits [of _ num] by (simp_all add: assms)
  then obtain i j k l where v: "byte a = 48 + i" "i \<le> 9" "byte b = 48 + j" "j \<le> 9"
    "byte c = 48 + k" "k \<le> 9" "byte d = 48 + l" "l \<le> 9"
    by (metis digit_nat)
  have four: "HasPrefix (a # b # c # d # rest) ''4'' \<longleftrightarrow> i = 4"
    using v(1) byte_inj [of a "CHR ''4''"] by (auto simp: HasPrefix_def byte_def)
  have n: "Atoi_digits [a, b, c, d] = i * 1000 + j * 100 + k * 10 + l" "Atoi_digits [a, b] = i * 10 + j"
    by (simp_all add: Atoi_digits_four v)
  define m where "m = i * 1000 + j * 100 + k * 10 + l"
  have "(i * 1000 + (j * 100 + k * 10 + l)) div 1000 = i"
    "((i * 10 + j) * 100 + (k * 10 + l)) div 100 = i * 10 + j"
    using v(2,4,6,8) by simp_all
  then have div: "m div 1000 = i" "m div 100 = i * 10 + j"
    by (simp_all add: m_def add.assoc add_mult_distrib)
  note ranges = between_div [of 1000 4 m 4, unfolded div] between_div [of 100 51 m 55, unfolded div]
  have c1: "i = 4 \<longleftrightarrow> 4000 \<le> m \<and> m \<le> 4999" using ranges(1) by auto
  have c2: "51 \<le> i * 10 + j \<and> i * 10 + j \<le> 55 \<longleftrightarrow> 5100 \<le> m \<and> m \<le> 5599" using ranges(2) by simp
  have "detectCardScheme num =
      (if 2200 \<le> m \<and> m \<le> 2204 then cardSchemeMir
       else if i = 4 then cardSchemeVisa
       else if 51 \<le> i * 10 + j \<and> i * 10 + j \<le> 55 then cardSchemeMastercard
       else if 2221 \<le> m \<and> m \<le> 2720 then cardSchemeMastercard
       else cardSchemeUnknown)"
    by (simp only: detectCardScheme_def router_onlyDigits_digitsOnly assms four Let_def length_Cons
        take_Suc_Cons take_0 numeral_eq_Suc pred_numeral_simps arith_simps n [folded m_def])
       (simp add: n [folded m_def])
  then have "detectCardScheme num =
      (if 2200 \<le> m \<and> m \<le> 2204 then cardSchemeMir
       else if 4000 \<le> m \<and> m \<le> 4999 then cardSchemeVisa
       else if 5100 \<le> m \<and> m \<le> 5599 then cardSchemeMastercard
       else if 2221 \<le> m \<and> m \<le> 2720 then cardSchemeMastercard
       else cardSchemeUnknown)"
    unfolding c1 c2 .
  then show ?thesis unfolding n m_def [symmetric] Let_def
    by simp
qed

theorem detectCardScheme_ranges_witness:
  "detectCardScheme ''2204 0000 0000 0000'' = cardSchemeMir
   \<and> detectCardScheme ''2221 0000 0000 0009'' = cardSchemeMastercard"
  using detectCardScheme_ranges [of "''2204 0000 0000 0000''" "CHR ''2''" "CHR ''2''" "CHR ''0''" "CHR ''4''"]
    detectCardScheme_ranges [of "''2221 0000 0000 0009''" "CHR ''2''" "CHR ''2''" "CHR ''2''" "CHR ''1''"]
  by (simp add: digitsOnly_filter byte_def is_digit_def Atoi_digits_def)

text \<open>
  Routing. A MIR card goes to YooKassa whatever the route table says; any other payment
  goes to the merchant's active route when the table has one, and otherwise to the default
  of its method, which every known method has, so without a table routing a known method
  never fails.
\<close>

theorem Route_choice:
  assumes "Method_Type (Info_PaymentMethodData (Req_PaymentInfo r)) \<in>
    {PaymentMethodSBP, PaymentMethodCard, PaymentMethodDigitalWallet, PaymentMethodDigitalRuble}"
  defines "t \<equiv> Method_Type (Info_PaymentMethodData (Req_PaymentInfo r))"
    and "mir \<equiv> Method_Type (Info_PaymentMethodData (Req_PaymentInfo r)) = PaymentMethodCard
      \<and> detectCardScheme (Cust_CardNumber (Info_CustomerData (Req_PaymentInfo r))) = cardSchemeMir"
  shows "(mir \<longrightarrow> Route routes r = Inr (''YOOKASSA'', ''yookassa''))
    \<and> (\<not> mir \<longrightarrow> (\<forall>get route. routes = Some get \<longrightarrow> get (Req_MerchantID r) t = Inr (Some route)
        \<longrightarrow> Route routes r = Inr (Route_PaymentSystem route, ToLower (TrimSpace (Route_Provider route)))))
    \<and> (\<not> mir \<longrightarrow> (\<forall>get. routes = Some get \<longrightarrow> get (Req_MerchantID r) t = Inr None)
        \<longrightarrow> Route routes r = default_route t \<and> (\<exists>x. default_route t = Inr x))"
  using default_route_total [OF assms(1)] unfolding t_def mir_def
  by (auto simp: Route_def Let_def providerForCardScheme_detect providerForCardScheme_Mir
      split: option.splits)

theorem Route_choice_witness:
  "Route None (zero_request PaymentMethodSBP) = Inr (''SBP'', ''sbp_adapter'')"
  using Route_choice [of "zero_request PaymentMethodSBP" None]
  by (simp add: zero_request_def default_route_def)

text \<open>
  The factory never returns an adapter other than the one registered under the key it
  reports; an explicit key is never redirected by the environment, and a legacy key without
  a configured provider is an error.
\<close>

theorem Resolve_registered:
  "(Resolve env f key ps = Inr (a, provider) \<longrightarrow>
      Factory_Get provider f = Some a \<and> provider \<noteq> ''''
      \<and> (normalizeAdapterKey key \<noteq> '''' \<and> \<not> isLegacyAdapterKey (normalizeAdapterKey key)
          \<longrightarrow> provider = normalizeAdapterKey key))
   \<and> (isLegacyAdapterKey (normalizeAdapterKey key) \<and> (\<forall>name. normalizeAdapterKey (env name) = '''')
        \<longrightarrow> (\<exists>e. Resolve env f key ps = Inl e))"
proof -
  have "providerFromEnv env k ps = ''''" if "\<forall>name. normalizeAdapterKey (env name) = ''''" for k
    using that by (simp add: providerFromEnv_def Let_def)
  then show ?thesis
    by (auto simp: Resolve_def Let_def split: option.splits if_splits)
qed

theorem Resolve_registered_witness:
  "Resolve (\<lambda>_. '''') (Register ''YooKassa '' (Some (7 :: nat)) Map.empty) '' yookassa'' ''''
     = Inr (7, ''yookassa'')
   \<and> Factory_Get ''yookassa'' (Register ''YooKassa '' (Some (7 :: nat)) Map.empty) = Some 7"
proof -
  have r: "Resolve (\<lambda>_. '''') (Register ''YooKassa '' (Some (7 :: nat)) Map.empty) '' yookassa'' ''''
     = Inr (7, ''yookassa'')"
    by (simp add: Resolve_def Register_def Factory_Get_def isLegacyAdapterKey_def
        normalizeAdapterKey_def go_eval)
  with Resolve_registered [of "\<lambda>_. ''''" "Register ''YooKassa '' (Some (7 :: nat)) Map.empty"
      "'' yookassa''" "''''" 7 "''yookassa''"]
  show ?thesis by simp
qed

end
