(* ===== verification/Logging.thy ===== *)
theory Logging
  imports Dto
begin

section \<open>Masks for log records (\<open>internal/subsystems/logging/masking.go\<close>)\<close>

text \<open>
  The masks the orchestrator applies before it logs an event. \<open>MaskSensitive\<close>, the regular
  expressions run over free texts, is in \<open>Event_Log\<close>.
\<close>

definition log_digitsOnly :: "gostring \<Rightarrow> gostring" where
  "log_digitsOnly value = encode_runes (filter is_digit (runes value))"

definition log_MaskCardNumber :: "gostring \<Rightarrow> gostring" where
  "log_MaskCardNumber pan = (let pan = log_digitsOnly pan in
     if length pan < 10 then ''''
     else take 6 pan @ replicate (length pan - 10) CHR ''*'' @ drop (length pan - 4) pan)"

definition MaskPhone :: "gostring \<Rightarrow> gostring" where
  "MaskPhone phone = (let phone = TrimSpace phone in
     if length phone < 6 then ''''
     else take 5 phone @ replicate (length phone - 7) CHR ''*'' @ drop (length phone - 2) phone)"

definition MaskEmail :: "gostring \<Rightarrow> gostring" where
  "MaskEmail email = (let email = TrimSpace email in
     case Index email ''@'' of
       None \<Rightarrow> ''''
     | Some pos \<Rightarrow>
         if pos = 0 then ''''
         else let name = take pos email; domain = drop pos email in
           if length name = 1 then name @ ''***'' @ domain
           else take 1 name @ ''***'' @ domain)"

definition log_TokenPreview :: "gostring \<Rightarrow> gostring" where
  "log_TokenPreview token = (let token = TrimSpace token in
     if length token \<le> 8 then '''' else take 8 token @ ''...'')"

lemma log_MaskCardNumber_eq: "log_MaskCardNumber = MaskCardNumber"
  by (rule ext) (simp add: log_MaskCardNumber_def MaskCardNumber_def log_digitsOnly_def
      digitsOnly_def Let_def)

subsection \<open>Properties\<close>

text \<open>
  What the masks let through. Two e-mail addresses with the same first byte and the same
  part from the first @ on have the same mask; two telephone numbers of the same length with
  the same first five and last two bytes have the same mask; and the log preview of a token
  depends on its first eight bytes only.
\<close>

theorem log_masks_hide:
  "(Index (TrimSpace e) ''@'' = Some i \<and> Index (TrimSpace f) ''@'' = Some j \<and> 0 < i \<and> 0 < j
      \<and> take 1 (TrimSpace e) = take 1 (TrimSpace f) \<and> drop i (TrimSpace e) = drop j (TrimSpace f)
      \<longrightarrow> MaskEmail e = MaskEmail f)
   \<and> (length (TrimSpace p) = length (TrimSpace q) \<and> take 5 (TrimSpace p) = take 5 (TrimSpace q)
      \<and> drop (length (TrimSpace p) - 2) (TrimSpace p) = drop (length (TrimSpace q) - 2) (TrimSpace q)
      \<longrightarrow> MaskPhone p = MaskPhone q)
   \<and> (8 < length (TrimSpace t) \<and> 8 < length (TrimSpace u) \<and> take 8 (TrimSpace t) = take 8 (TrimSpace u)
      \<longrightarrow> log_TokenPreview t = log_TokenPreview u)"
proof -
  have mask: "MaskEmail x = take 1 (TrimSpace x) @ ''***'' @ drop k (TrimSpace x)"
    if "Index (TrimSpace x) ''@'' = Some k" "0 < k" for x k
  proof -
    let ?name = "take k (TrimSpace x)"
    have one: "take 1 ?name = take 1 (TrimSpace x)" using that by (simp add: min_def)
    then have "length ?name = 1 \<Longrightarrow> ?name = take 1 (TrimSpace x)" by (metis order_refl take_all)
    with one that show ?thesis by (simp add: MaskEmail_def Let_def)
  qed
  then show ?thesis
    by (auto simp: MaskPhone_def log_TokenPreview_def Let_def)
qed

theorem log_masks_hide_witness:
  "MaskEmail ''alice@example.com'' = MaskEmail ''adam@example.com''
   \<and> MaskPhone ''+79991234567'' = MaskPhone ''+79995555567''"
  using log_masks_hide [of "''alice@example.com''" 5 "''adam@example.com''" 4
    "''+79991234567''" "''+79995555567''" "''''" "''''"]
  by (simp add: go_eval)

end
