(* ===== verification/Orchestrator.thy ===== *)
theory Orchestrator
  imports Validator Antifraud Storage Routing Logging
begin

section \<open>The orchestrator (\<open>internal/orchestrator/simple\<close>)\<close>

text \<open>
  \<open>CreatePayment\<close> takes a request through idempotency, validation, antifraud, routing,
  tokenization and the adapter, and answers the merchant. One call runs from its first
  statement to its last here; concurrent calls interleave only at the mutexes of the
  subsystems and are not modelled.

  \<^item> \<open>env\<close> holds what the process is started with and what the outside answers: the clock and
    the state of the request context (both indexed by the number of readings so far), the
    validator library, the digest, the domain list, the OPA policy, the environment
    variables, the registered adapters (an adapter's reply may depend on the number of calls
    made before), the route store, the tokenizer and the merchant's notification endpoint;
  \<^item> \<open>world\<close> is the state of the process: the number of clock readings, the transaction store
    (of any type \<open>'s\<close>, used through \<open>store_ops\<close>), the state manager, the workflow sessions,
    the velocity store, and the traces of what was done to the outside: events logged, adapter
    calls, notifications, sleeps.

  An error that the source discards (\<open>_ = ...\<close>) is discarded here. A call returns the response
  and the error of the source, as a pair.
\<close>

type_synonym adapter = "nat \<Rightarrow> gostring \<Rightarrow> CreatePaymentRequest \<Rightarrow> AdapterResult result"

record workflowSession =
  WS_ID :: gostring
  WS_PaymentID :: gostring
  WS_MerchantID :: gostring
  WS_Status :: gostring
  WS_StartedAt :: gotime
  WS_FinishedAt :: "gotime option"

record env =
  env_clock :: "nat \<Rightarrow> gotime"
  env_ctx :: "nat \<Rightarrow> goerror option"
  env_playground :: playground
  env_sha256 :: "gostring \<Rightarrow> gostring"
  env_domains :: gostring
  env_opa :: opa_policy
  env_getenv :: "gostring \<Rightarrow> gostring"
  env_factory :: "adapter factory"
  env_routes :: "route_store option"
  env_tokenize :: "nat \<Rightarrow> CreatePaymentRequest \<Rightarrow> gostring result"
  env_notify :: "nat \<Rightarrow> PaymentResponse \<Rightarrow> goerror option"

text \<open>An adapter call: the provider, the token and the request it was given.\<close>

type_synonym adapter_call = "gostring \<times> gostring \<times> CreatePaymentRequest"

record 's world =
  w_tick :: nat
  w_store :: 's
  w_status :: "gostring \<rightharpoonup> gostring"
  w_sessions :: "gostring \<rightharpoonup> workflowSession"
  w_velocity :: velocityStore
  w_tokens :: nat
  w_log :: "PaymentEvent list"
  w_calls :: "adapter_call list"
  w_notes :: "PaymentResponse list"
  w_sleeps :: "int list"

subsection \<open>Clock, log, state manager, workflow\<close>

text \<open>\<open>nowUTC()\<close> is a reading \<open>now\<close> followed by a \<open>tick\<close>.\<close>

definition now :: "env \<Rightarrow> 's world \<Rightarrow> gotime" where
  "now e w = env_clock e (w_tick w)"

definition tick :: "'s world \<Rightarrow> 's world" where
  "tick w = w\<lparr>w_tick := Suc (w_tick w)\<rparr>"

definition formatOptionalTime :: "gotime \<Rightarrow> gostring" where
  "formatOptionalTime t = (if IsZero t then '''' else FormatRFC3339 t)"

definition logEvent :: "env \<Rightarrow> CreatePaymentRequest \<Rightarrow> gostring \<Rightarrow> gostring \<Rightarrow> gostring \<Rightarrow> gostring \<Rightarrow>
    gostring \<Rightarrow> (gostring \<times> gostring) list \<Rightarrow> 's world \<Rightarrow> 's world" where
  "logEvent e r eventType level service status message contextMap w =
     tick (w\<lparr>w_log := w_log w @ [\<lparr>Ev_Type = eventType, Ev_Level = level, Ev_Service = service,
       Ev_MerchantID = Req_MerchantID r, Ev_PaymentID = Req_PaymentID r,
       Ev_IdempotencyKey = Req_IdempotencyKey r, Ev_CorrelationID = Req_PaymentID r,
       Ev_CurrentStatus = status, Ev_Timestamp = now e w, Ev_Message = message,
       Ev_Details = message, Ev_Context = contextMap\<rparr>]\<rparr>)"

definition state_key :: "gostring \<Rightarrow> gostring \<Rightarrow> gostring" where
  "state_key merchantID paymentID = merchantID @ '':'' @ paymentID"

text \<open>\<open>GetStatus\<close> reads the zero value \<open>""\<close> for an unknown key.\<close>

definition GetStatus :: "gostring \<Rightarrow> gostring \<Rightarrow> 's world \<Rightarrow> gostring" where
  "GetStatus merchantID paymentID w =
     (case w_status w (state_key merchantID paymentID) of None \<Rightarrow> '''' | Some st \<Rightarrow> st)"

definition SetStatus :: "gostring \<Rightarrow> gostring \<Rightarrow> gostring \<Rightarrow> 's world \<Rightarrow> 's world" where
  "SetStatus merchantID paymentID status w =
     w\<lparr>w_status := (w_status w)(state_key merchantID paymentID \<mapsto> status)\<rparr>"

definition session_id :: "env \<Rightarrow> CreatePaymentRequest \<Rightarrow> 's world \<Rightarrow> gostring" where
  "session_id e r w = ''sess_'' @ Req_PaymentID r @ ''_'' @ Itoa (now e w)"

definition StartSession :: "env \<Rightarrow> CreatePaymentRequest \<Rightarrow> 's world \<Rightarrow> 's world" where
  "StartSession e r w =
     (let sessionID = session_id e r w; w = tick w in
      tick (w\<lparr>w_sessions := (w_sessions w)(sessionID \<mapsto>
        \<lparr>WS_ID = sessionID, WS_PaymentID = Req_PaymentID r, WS_MerchantID = Req_MerchantID r,
         WS_Status = StatusPending, WS_StartedAt = now e w, WS_FinishedAt = None\<rparr>)\<rparr>))"

definition CompleteSession :: "env \<Rightarrow> gostring \<Rightarrow> gostring \<Rightarrow> 's world \<Rightarrow> 's world" where
  "CompleteSession e sessionID finalStatus w =
     (let finishedAt = now e w; w = tick w in
      case w_sessions w sessionID of
        None \<Rightarrow> w
      | Some s \<Rightarrow> w\<lparr>w_sessions := (w_sessions w)(sessionID \<mapsto>
          s\<lparr>WS_Status := finalStatus, WS_FinishedAt := Some finishedAt\<rparr>)\<rparr>)"

subsection \<open>Retries (\<open>retry.go\<close>)\<close>

definition maxAttempts :: int where "maxAttempts = 3"

definition ShouldRetry :: "AdapterResult \<Rightarrow> int \<Rightarrow> bool" where
  "ShouldRetry adapterResult retryCount =
     (if retryCount \<ge> maxAttempts - 1 then False
      else AR_Status adapterResult \<notin> {StatusCaptured, StatusPending, StatusCaptureRequested,
        StatusDeclined, StatusCancelled})"

definition NextRetryCount :: "int \<Rightarrow> int" where
  "NextRetryCount current = current + 1"

definition RetryAfter :: "int \<Rightarrow> int" where
  "RetryAfter attempt = (let attempt = (if attempt \<le> 0 then 1 else attempt) in attempt * (100 * 1000000))"

subsection \<open>Responses\<close>

definition mustMarshalPaymentResponse :: "PaymentResponse \<Rightarrow> jtext" where
  "mustMarshalPaymentResponse resp =
     (case MarshalResponse (Sanitized resp) of Inl _ \<Rightarrow> JRaw '''' | Inr b \<Rightarrow> b)"

text \<open>The \<open>PaymentInfoResponse\<close> of a request; only \<open>HandleCallback\<close> copies the digital ruble data.\<close>

definition no_ruble_data :: DigitalRubleData where
  "no_ruble_data = \<lparr>DR_SmartContractID = '''', DR_RequireMarkedMoney = False\<rparr>"

definition response_info :: "CreatePaymentRequest \<Rightarrow> DigitalRubleData \<Rightarrow> gotime \<Rightarrow> PaymentInfoResponse" where
  "response_info r ruble updatedAt = (let p = Req_PaymentInfo r in
     \<lparr>RInfo_Amount = Info_Amount p, RInfo_PaymentMethodData = Info_PaymentMethodData p,
      RInfo_CustomerData = Customer_Sanitized (Info_CustomerData p), RInfo_Items = Info_Items p,
      RInfo_DigitalRubleData = ruble, RInfo_Description = Info_Description p,
      RInfo_CreatedAt = Info_CreatedAt p, RInfo_UpdatedAt = updatedAt\<rparr>)"

definition buildErrorResponse :: "CreatePaymentRequest \<Rightarrow> gostring \<Rightarrow> gostring \<Rightarrow> gostring \<Rightarrow> gotime \<Rightarrow>
    PaymentResponse" where
  "buildErrorResponse r status code msg updatedAt = Sanitized
     \<lparr>Resp_ID = Req_PaymentID r, Resp_MerchantID = Req_MerchantID r,
      Resp_IdempotencyKey = Req_IdempotencyKey r, Resp_CurrentStatus = status,
      Resp_PaymentInfo = response_info r no_ruble_data updatedAt,
      Resp_TransactionDetails = zero_details\<lparr>TD_RetryCount := 0\<rparr>,
      Resp_Error = Some (NewGatewayError code msg)\<rparr>"

text \<open>The status, the fraud check text and the error of \<open>HandleCallback\<close>.\<close>

definition callback_outcome :: "AdapterResult \<Rightarrow> gostring \<times> gostring \<times> GatewayError option" where
  "callback_outcome ar =
     (let status = (if AR_Status ar = '''' then StatusFailed else AR_Status ar) in
      if status \<in> {StatusCaptured, StatusPending, StatusCaptureRequested}
      then (status, ''PASSED'', None)
      else if status \<in> {StatusDeclined, StatusCancelled} then
        (let msg = (if AR_ErrorMessage ar = ''''
               then ''payment was declined by external payment provider'' else AR_ErrorMessage ar);
             code = (if AR_ErrorCode ar = '''' then ErrorPaymentDeclined else AR_ErrorCode ar)
         in (status, ''PASSED'', Some (NewGatewayError code msg)))
      else
        (let msg = (if AR_ErrorMessage ar = ''''
               then ''payment adapter returned failed status'' else AR_ErrorMessage ar);
             code = (if AR_ErrorCode ar = '''' then ErrorAdapterFailed else AR_ErrorCode ar)
         in (StatusFailed, ''FAILED'', Some (NewGatewayError code msg))))"

definition HandleCallback :: "AdapterResult \<Rightarrow> CreatePaymentRequest \<Rightarrow> gostring \<Rightarrow> gotime \<Rightarrow>
    PaymentResponse result" where
  "HandleCallback ar r token updatedAt =
     (case callback_outcome ar of (status, fraudCheck, errObj) \<Rightarrow> Inr
       \<lparr>Resp_ID = Req_PaymentID r, Resp_MerchantID = Req_MerchantID r,
        Resp_IdempotencyKey = Req_IdempotencyKey r, Resp_CurrentStatus = status,
        Resp_PaymentInfo = response_info r (Info_DigitalRubleData (Req_PaymentInfo r)) updatedAt,
        Resp_TransactionDetails = zero_details\<lparr>
          TD_ExternalTransactionID := AR_ExternalTransactionID ar,
          TD_PaymentSystem := AR_PaymentSystem ar, TD_ProviderStatus := AR_ProviderStatus ar,
          TD_PaymentURL := AR_PaymentURL ar, TD_QRID := AR_QRID ar, TD_QRPayload := AR_QRPayload ar,
          TD_QRImageDataURI := AR_QRImageDataURI ar,
          TD_QRExpiresAt := formatOptionalTime (AR_QRExpiresAt ar),
          TD_ParticipantBank := AR_ParticipantBank ar, TD_SchemaVersion := AR_SchemaVersion ar,
          TD_SettlementHint := AR_SettlementHint ar, TD_MoneyMark := AR_MoneyMark ar,
          TD_SmartContractID := AR_SmartContractID ar,
          TD_SmartContractResult := AR_SmartContractResult ar,
          TD_SmartContractReason := AR_SmartContractReason ar,
          TD_PlatformMessageID := AR_PlatformMessageID ar,
          TD_PlatformTransport := AR_PlatformTransport ar,
          TD_PlatformSignatureType := AR_PlatformSignatureType ar,
          TD_TokenPreview := TokenPreview token, TD_FraudCheckResult := fraudCheck,
          TD_RetryCount := 0\<rparr>,
        Resp_Error = errObj\<rparr>)"

definition Notify :: "env \<Rightarrow> PaymentResponse \<Rightarrow> 's world \<Rightarrow> goerror option" where
  "Notify e resp w = env_notify e (length (w_notes w)) resp"

definition notified :: "PaymentResponse \<Rightarrow> 's world \<Rightarrow> 's world" where
  "notified resp w = w\<lparr>w_notes := w_notes w @ [resp]\<rparr>"

text \<open>The notification of the merchant, whose failure is logged.\<close>

definition deliver :: "env \<Rightarrow> CreatePaymentRequest \<Rightarrow> gostring \<Rightarrow> (gostring \<times> gostring) list \<Rightarrow>
    PaymentResponse \<Rightarrow> 's world \<Rightarrow> 's world" where
  "deliver e req status contextMap resp w =
     (let notifyErr = Notify e resp w; w = notified resp w in
      case notifyErr of
        None \<Rightarrow> w
      | Some err \<Rightarrow> logEvent e req EventNotificationFailed LogLevelWarn ''notifications'' status
          ''Merchant notification failed'' (contextMap @ [(''error_message'', err)]) w)"

definition save_response :: "'s store_ops \<Rightarrow> env \<Rightarrow> CreatePaymentRequest \<Rightarrow> gostring \<Rightarrow>
    PaymentResponse \<Rightarrow> 's world \<Rightarrow> goerror option \<times> 's world" where
  "save_response ops e r status resp w =
     (case op_Save ops (Req_MerchantID r) (Req_PaymentID r) (Req_IdempotencyKey r) status
        (mustMarshalPaymentResponse resp) (now e w) (w_store w) of
      (err, s) \<Rightarrow> (err, (tick w)\<lparr>w_store := s\<rparr>))"

definition fail_response :: "CreatePaymentRequest \<Rightarrow> gostring \<Rightarrow> gostring \<Rightarrow> gostring \<Rightarrow> gostring \<Rightarrow>
    gotime \<Rightarrow> PaymentResponse" where
  "fail_response r status code msg service updatedAt =
     (let resp = buildErrorResponse r status code msg updatedAt;
          td = Resp_TransactionDetails resp
      in if code = ErrorAntifraudDeclined
         then resp\<lparr>Resp_TransactionDetails := td\<lparr>TD_FraudCheckResult := ''BLOCKED''\<rparr>\<rparr>
         else if service = ''antifraud''
         then resp\<lparr>Resp_TransactionDetails := td\<lparr>TD_FraudCheckResult := ''ERROR''\<rparr>\<rparr>
         else resp)"

definition failAndSave :: "'s store_ops \<Rightarrow> env \<Rightarrow> CreatePaymentRequest \<Rightarrow> gostring \<Rightarrow> gostring \<Rightarrow>
    gostring \<Rightarrow> gostring \<Rightarrow> 's world \<Rightarrow> (PaymentResponse \<times> goerror option) \<times> 's world" where
  "failAndSave ops e req status code msg service w =
     (let req = Request_WithoutSensitive req;
          w = SetStatus (Req_MerchantID req) (Req_PaymentID req) status w;
          resp = fail_response req status code msg service (now e w);
          w = tick w;
          w = logEvent e req EventPaymentFailed LogLevelError service status
            ''Payment processing failed'' [(''error_code'', code), (''error_message'', msg)] w;
          w = deliver e req status [(''error_code'', code)] resp w
      in case save_response ops e req status resp w of (saveErr, w) \<Rightarrow> ((resp, saveErr), w))"

subsection \<open>The cached response\<close>

definition replay :: "env \<Rightarrow> CreatePaymentRequest \<Rightarrow> gostring \<Rightarrow> jtext \<Rightarrow> 's world \<Rightarrow>
    (PaymentResponse \<times> goerror option) \<times> 's world" where
  "replay e safeReq status payload w =
     (let w = logEvent e safeReq EventPaymentResponseSent LogLevelInfo ''orchestrator'' status
            ''Cached payment response returned by idempotency key'' [(''idempotency_hit'', ''true'')] w
      in if payload = JRaw '''' then
           ((Sanitized \<lparr>Resp_ID = Req_PaymentID safeReq, Resp_MerchantID = Req_MerchantID safeReq,
               Resp_IdempotencyKey = Req_IdempotencyKey safeReq, Resp_CurrentStatus = status,
               Resp_PaymentInfo = response_info safeReq no_ruble_data (now e w),
               Resp_TransactionDetails = zero_details\<lparr>TD_RetryCount := 0\<rparr>, Resp_Error = None\<rparr>, None),
            tick w)
         else (case UnmarshalResponse payload of
           None \<Rightarrow> ((zero_response, Some ''failed to unmarshal cached response''), w)
         | Some cached \<Rightarrow> ((Sanitized cached, None), w)))"

subsection \<open>Calling the adapter\<close>

text \<open>One attempt: the status, the log, the call, and what is made of its outcome.\<close>

definition adapter_reply :: "adapter \<Rightarrow> gostring \<Rightarrow> gostring \<Rightarrow> CreatePaymentRequest \<Rightarrow> nat \<Rightarrow>
    AdapterResult" where
  "adapter_reply a ps tok r calls =
     (let res = (case a calls tok r of
            Inr res \<Rightarrow> res
          | Inl err \<Rightarrow> zero_result\<lparr>AR_ExternalTransactionID := '''', AR_PaymentSystem := ps,
              AR_Status := StatusFailed, AR_ErrorCode := ErrorProviderUnavailable,
              AR_ErrorMessage := err\<rparr>)
      in if AR_PaymentSystem res = '''' then res\<lparr>AR_PaymentSystem := ps\<rparr> else res)"

record call_site =
  CS_adapter :: adapter
  CS_provider :: gostring
  CS_adapterKey :: gostring
  CS_paymentSystem :: gostring
  CS_token :: gostring

definition before_call :: "env \<Rightarrow> call_site \<Rightarrow> CreatePaymentRequest \<Rightarrow> CreatePaymentRequest \<Rightarrow> int \<Rightarrow>
    's world \<Rightarrow> 's world" where
  "before_call e c req v retryCount w =
     logEvent e v EventAdapterCalled LogLevelInfo ''adapter'' StatusCaptureRequested
       ''Payment adapter call started''
       [(''payment_system'', CS_paymentSystem c), (''adapter_key'', CS_adapterKey c),
        (''provider'', CS_provider c), (''attempt'', Itoa retryCount)]
       (SetStatus (Req_MerchantID req) (Req_PaymentID req) StatusCaptureRequested w)"

definition after_call :: "env \<Rightarrow> call_site \<Rightarrow> CreatePaymentRequest \<Rightarrow> AdapterResult \<Rightarrow> 's world \<Rightarrow> 's world" where
  "after_call e c v res w =
     logEvent e v EventAdapterResultReceived LogLevelInfo ''adapter'' (AR_Status res)
       ''Payment adapter returned result''
       [(''payment_system'', CS_paymentSystem c),
        (''external_transaction_id'', AR_ExternalTransactionID res),
        (''adapter_status'', AR_Status res), (''provider_status'', AR_ProviderStatus res),
        (''payment_url'', AR_PaymentURL res), (''error_message'', AR_ErrorMessage res)]
       (w\<lparr>w_calls := w_calls w @ [(CS_provider c, CS_token c, v)]\<rparr>)"

text \<open>The \<open>for\<close> loop; \<open>ShouldRetry\<close> bounds it.\<close>

function send_loop :: "env \<Rightarrow> call_site \<Rightarrow> CreatePaymentRequest \<Rightarrow> CreatePaymentRequest \<Rightarrow> int \<Rightarrow>
    's world \<Rightarrow> (AdapterResult \<times> int) \<times> 's world" where
  "send_loop e c req v retryCount w =
     (let w = before_call e c req v retryCount w;
          res = adapter_reply (CS_adapter c) (CS_paymentSystem c) (CS_token c) v (length (w_calls w));
          w = after_call e c v res w
      in if AR_Status res = StatusCaptured \<or> \<not> ShouldRetry res retryCount
         then ((res, retryCount), w)
         else
           let retryCount = NextRetryCount retryCount
           in send_loop e c req v retryCount (w\<lparr>w_sleeps := w_sleeps w @ [RetryAfter retryCount]\<rparr>))"
  by pat_completeness auto
termination
  by (relation "measure (\<lambda>(_, _, _, _, n, _). nat (maxAttempts - n))")
    (auto simp: ShouldRetry_def NextRetryCount_def maxAttempts_def split: if_splits)

declare send_loop.simps [simp del]

subsection \<open>\<open>CreatePayment\<close>\<close>

text \<open>From the callback to the answer.\<close>

definition finish :: "'s store_ops \<Rightarrow> env \<Rightarrow> CreatePaymentRequest \<Rightarrow> CreatePaymentRequest \<Rightarrow> gostring \<Rightarrow>
    gostring \<Rightarrow> AdapterResult \<Rightarrow> int \<Rightarrow> 's world \<Rightarrow> (PaymentResponse \<times> goerror option) \<times> 's world" where
  "finish ops e req v sessionID tok res retryCount w =
     (let callback = HandleCallback res v tok (now e w);
          w = tick w;
          resp = (case callback of
            Inr r \<Rightarrow> r
          | Inl err \<Rightarrow> buildErrorResponse v StatusFailed ErrorCallback err (now e w));
          resp = Sanitized resp;
          resp = resp\<lparr>Resp_TransactionDetails :=
            (Resp_TransactionDetails resp)\<lparr>TD_RetryCount := retryCount\<rparr>\<rparr>;
          finalStatus = Resp_CurrentStatus resp;
          w = SetStatus (Req_MerchantID req) (Req_PaymentID req) finalStatus w;
          w = CompleteSession e sessionID finalStatus w;
          w = logEvent e v EventPaymentResponseSent LogLevelInfo ''orchestrator'' finalStatus
            ''Payment response sent to merchant'' [(''retry_count'', Itoa retryCount)] w;
          w = deliver e v finalStatus [] resp w
      in ((resp, None), snd (save_response ops e v finalStatus resp w)))"

text \<open>From the routing to the adapter.\<close>

definition route_and_send :: "'s store_ops \<Rightarrow> env \<Rightarrow> CreatePaymentRequest \<Rightarrow> CreatePaymentRequest \<Rightarrow>
    gostring \<Rightarrow> 's world \<Rightarrow> (PaymentResponse \<times> goerror option) \<times> 's world" where
  "route_and_send ops e req v sessionID w =
     (case Route (env_routes e) v of
        Inl err \<Rightarrow> failAndSave ops e v StatusFailed ErrorRouting err ''orchestrator'' w
      | Inr (paymentSystem, adapterKey) \<Rightarrow>
          (let answer = env_tokenize e (w_tokens w) v;
               w = w\<lparr>w_tokens := Suc (w_tokens w)\<rparr>
           in case answer of
             Inl err \<Rightarrow> failAndSave ops e v StatusFailed ErrorTokenization err ''tokenizer'' w
           | Inr tok \<Rightarrow>
               (let w = logEvent e v EventTokenized LogLevelInfo ''tokenizer'' StatusPending
                      ''Payment data tokenized'' [(''token_preview'', log_TokenPreview tok)] w
                in case Resolve (env_getenv e) (env_factory e) adapterKey paymentSystem of
                  Inl err \<Rightarrow> failAndSave ops e v StatusFailed ErrorAdapterFactory err ''adapter'' w
                | Inr (a, provider) \<Rightarrow>
                    (case send_loop e \<lparr>CS_adapter = a, CS_provider = provider,
                        CS_adapterKey = adapterKey, CS_paymentSystem = paymentSystem, CS_token = tok\<rparr>
                        req v 0 w of
                     ((res, retryCount), w) \<Rightarrow> finish ops e req v sessionID tok res retryCount w))))"

text \<open>The antifraud check and its verdict.\<close>

definition check_fraud :: "'s store_ops \<Rightarrow> env \<Rightarrow> CreatePaymentRequest \<Rightarrow> CreatePaymentRequest \<Rightarrow>
    gostring \<Rightarrow> 's world \<Rightarrow> (PaymentResponse \<times> goerror option) \<times> 's world" where
  "check_fraud ops e req v sessionID w =
     (case Check (env_sha256 e) (env_domains e) (env_opa e) (env_ctx e (w_tick w)) (now e w) v
        (w_velocity w) of
      (outcome, velocity) \<Rightarrow>
        (let w = (tick w)\<lparr>w_velocity := velocity\<rparr> in
         case outcome of
           Inl err \<Rightarrow> failAndSave ops e v StatusFailed ErrorAntifraud err ''antifraud'' w
         | Inr fraud \<Rightarrow>
             (let w = logEvent e v EventFraudChecked LogLevelInfo ''antifraud'' StatusPending
                    ''Antifraud check completed''
                    [(''fraud_result'', AF_Result fraud), (''fraud_reason'', AF_Reason fraud)] w
              in if AF_Result fraud = ''BLOCKED'' then
                   (let msg = (if AF_Reason fraud = '''' then ''payment blocked by antifraud''
                               else AF_Reason fraud)
                    in failAndSave ops e v StatusDeclined ErrorAntifraudDeclined msg ''antifraud'' w)
                 else route_and_send ops e req v sessionID w)))"

definition received_context :: "gostring \<Rightarrow> CreatePaymentRequest \<Rightarrow> (gostring \<times> gostring) list" where
  "received_context sessionID r = (let p = Req_PaymentInfo r; c = Info_CustomerData p in
     [(''session_id'', sessionID), (''amount'', FormatFloat2 (Amount_Value (Info_Amount p))),
      (''currency'', Amount_Currency (Info_Amount p)),
      (''payment_method'', Method_Type (Info_PaymentMethodData p)),
      (''phone_mask'', MaskPhone (Cust_Phone c)), (''email_mask'', MaskEmail (Cust_Email c)),
      (''card_mask'', log_MaskCardNumber (Cust_CardNumber c)),
      (''has_wallet_id'', FormatBool (Cust_DigitalWalletID c \<noteq> '''')),
      (''description_len'', Itoa (int (length (Info_Description p))))])"

text \<open>
  A new payment: its session and its first event, then validation. The validator normalises the
  items in place, so once it has looked at them the caller's copy, which a failed validation
  saves, has normalised items too.
\<close>

definition receive :: "env \<Rightarrow> CreatePaymentRequest \<Rightarrow> 's world \<Rightarrow> gostring \<times> 's world" where
  "receive e safeReq w =
     (let sessionID = session_id e safeReq w;
          w = StartSession e safeReq w;
          w = SetStatus (Req_MerchantID safeReq) (Req_PaymentID safeReq) StatusCreated w;
          w = logEvent e safeReq EventPaymentReceived LogLevelInfo ''orchestrator'' StatusCreated
            ''Payment request received by orchestrator'' (received_context sessionID safeReq) w
      in (sessionID, w))"

definition process :: "'s store_ops \<Rightarrow> env \<Rightarrow> CreatePaymentRequest \<Rightarrow> CreatePaymentRequest \<Rightarrow>
    's world \<Rightarrow> (PaymentResponse \<times> goerror option) \<times> 's world" where
  "process ops e req safeReq w =
     (case receive e safeReq w of (sessionID, w) \<Rightarrow>
        (let ctxErr = env_ctx e (w_tick w) in
         case Validate (env_playground e) ctxErr (now e w) req of
           (validated, Some err) \<Rightarrow>
             failAndSave ops e (if ctxErr = None then share_items safeReq else safeReq)
               StatusFailed ErrorValidation err ''validator'' (tick w)
         | (validated, None) \<Rightarrow>
             (let v = Request_WithoutSensitive validated;
                  w = tick w;
                  w = SetStatus (Req_MerchantID v) (Req_PaymentID v) StatusPending w;
                  w = logEvent e v EventPaymentValidated LogLevelInfo ''validator'' StatusPending
                    ''Payment request validated'' [] w
              in check_fraud ops e req v sessionID w)))"

definition CreatePayment :: "'s store_ops \<Rightarrow> env \<Rightarrow> CreatePaymentRequest \<Rightarrow> 's world \<Rightarrow>
    (PaymentResponse \<times> goerror option) \<times> 's world" where
  "CreatePayment ops e req w =
     (if Req_MerchantID req = '''' \<or> Req_IdempotencyKey req = '''' \<or> Req_PaymentID req = ''''
      then ((zero_response, Some (''merchant_id, idempotency_key '' @ koi8 ''I '' @ ''payment_id ''
             @ koi8 ''OBQZATELXNY'')), w)
      else
        let safeReq = Request_WithoutSensitive req in
        case op_GetByIdempotencyKey ops (Req_MerchantID req) (Req_IdempotencyKey req) (w_store w) of
          Inl err \<Rightarrow> ((zero_response, Some err), w)
        | Inr (Some (status, payload)) \<Rightarrow> replay e safeReq status payload w
        | Inr None \<Rightarrow> process ops e req safeReq w)"

end
