(* ===== verification/Payments.thy ===== *)
theory Payments
  imports Orchestrator
begin

section \<open>What \<open>CreatePayment\<close> guarantees\<close>

text \<open>
  Lemmas and properties of the orchestrator: how each step changes the world, the retry loop,
  the order of the logged events, the outcome of a new payment, idempotent replay and what
  does not depend on the card verification code.
\<close>

subsection \<open>What the steps change\<close>

lemma tick_simps [simp]:
  "w_store (tick w) = w_store w" "w_status (tick w) = w_status w"
  "w_sessions (tick w) = w_sessions w" "w_velocity (tick w) = w_velocity w"
  "w_tokens (tick w) = w_tokens w" "w_log (tick w) = w_log w" "w_calls (tick w) = w_calls w"
  "w_notes (tick w) = w_notes w" "w_sleeps (tick w) = w_sleeps w"
  by (simp_all add: tick_def)

lemma logEvent_simps [simp]:
  "w_store (logEvent e r ty l s st m c w) = w_store w"
  "w_status (logEvent e r ty l s st m c w) = w_status w"
  "w_sessions (logEvent e r ty l s st m c w) = w_sessions w"
  "w_velocity (logEvent e r ty l s st m c w) = w_velocity w"
  "w_tokens (logEvent e r ty l s st m c w) = w_tokens w"
  "w_calls (logEvent e r ty l s st m c w) = w_calls w"
  "w_notes (logEvent e r ty l s st m c w) = w_notes w"
  "w_sleeps (logEvent e r ty l s st m c w) = w_sleeps w"
  "map Ev_Type (w_log (logEvent e r ty l s st m c w)) = map Ev_Type (w_log w) @ [ty]"
  by (simp_all add: logEvent_def)

lemma SetStatus_simps [simp]:
  "w_store (SetStatus m p st w) = w_store w" "w_sessions (SetStatus m p st w) = w_sessions w"
  "w_velocity (SetStatus m p st w) = w_velocity w" "w_tokens (SetStatus m p st w) = w_tokens w"
  "w_log (SetStatus m p st w) = w_log w" "w_calls (SetStatus m p st w) = w_calls w"
  "w_notes (SetStatus m p st w) = w_notes w" "w_sleeps (SetStatus m p st w) = w_sleeps w"
  "GetStatus m p (SetStatus m p st w) = st"
  by (simp_all add: SetStatus_def GetStatus_def)

lemma StartSession_simps [simp]:
  "w_store (StartSession e r w) = w_store w" "w_status (StartSession e r w) = w_status w"
  "w_velocity (StartSession e r w) = w_velocity w" "w_tokens (StartSession e r w) = w_tokens w"
  "w_log (StartSession e r w) = w_log w" "w_calls (StartSession e r w) = w_calls w"
  "w_notes (StartSession e r w) = w_notes w" "w_sleeps (StartSession e r w) = w_sleeps w"
  by (simp_all add: StartSession_def Let_def)

lemma CompleteSession_simps [simp]:
  "w_store (CompleteSession e i st w) = w_store w" "w_status (CompleteSession e i st w) = w_status w"
  "w_velocity (CompleteSession e i st w) = w_velocity w"
  "w_tokens (CompleteSession e i st w) = w_tokens w" "w_log (CompleteSession e i st w) = w_log w"
  "w_calls (CompleteSession e i st w) = w_calls w" "w_notes (CompleteSession e i st w) = w_notes w"
  "w_sleeps (CompleteSession e i st w) = w_sleeps w"
  by (simp_all add: CompleteSession_def Let_def split: option.splits)

lemma notified_simps [simp]:
  "w_store (notified r w) = w_store w" "w_status (notified r w) = w_status w"
  "w_sessions (notified r w) = w_sessions w" "w_velocity (notified r w) = w_velocity w"
  "w_tokens (notified r w) = w_tokens w" "w_log (notified r w) = w_log w"
  "w_calls (notified r w) = w_calls w" "w_notes (notified r w) = w_notes w @ [r]"
  "w_sleeps (notified r w) = w_sleeps w"
  by (simp_all add: notified_def)

lemma before_call_simps [simp]:
  "w_store (before_call e c req v n w) = w_store w" "w_tokens (before_call e c req v n w) = w_tokens w"
  "w_calls (before_call e c req v n w) = w_calls w" "w_notes (before_call e c req v n w) = w_notes w"
  "w_sleeps (before_call e c req v n w) = w_sleeps w"
  "w_velocity (before_call e c req v n w) = w_velocity w"
  "map Ev_Type (w_log (before_call e c req v n w)) = map Ev_Type (w_log w) @ [EventAdapterCalled]"
  by (simp_all add: before_call_def)

lemma after_call_simps [simp]:
  "w_store (after_call e c v res w) = w_store w" "w_tokens (after_call e c v res w) = w_tokens w"
  "w_calls (after_call e c v res w) = w_calls w @ [(CS_provider c, CS_token c, v)]"
  "w_notes (after_call e c v res w) = w_notes w" "w_sleeps (after_call e c v res w) = w_sleeps w"
  "w_velocity (after_call e c v res w) = w_velocity w"
  "map Ev_Type (w_log (after_call e c v res w)) = map Ev_Type (w_log w) @ [EventAdapterResultReceived]"
  by (simp_all add: after_call_def)

lemma save_response_cases:
  obtains err s where
    "op_Save ops (Req_MerchantID r) (Req_PaymentID r) (Req_IdempotencyKey r) st
      (mustMarshalPaymentResponse resp) (now e w) (w_store w) = (err, s)"
    "save_response ops e r st resp w = (err, (tick w)\<lparr>w_store := s\<rparr>)"
  by (cases "op_Save ops (Req_MerchantID r) (Req_PaymentID r) (Req_IdempotencyKey r) st
      (mustMarshalPaymentResponse resp) (now e w) (w_store w)")
    (simp add: save_response_def)

lemma fst_save_response: "fst (save_response ops e r st resp w)
   = fst (op_Save ops (Req_MerchantID r) (Req_PaymentID r) (Req_IdempotencyKey r) st
      (mustMarshalPaymentResponse resp) (now e w) (w_store w))"
  and save_response_simps [simp]:
  "w_store (snd (save_response ops e r st resp w))
   = snd (op_Save ops (Req_MerchantID r) (Req_PaymentID r) (Req_IdempotencyKey r) st
      (mustMarshalPaymentResponse resp) (now e w) (w_store w))"
  "w_status (snd (save_response ops e r st resp w)) = w_status w"
  "w_log (snd (save_response ops e r st resp w)) = w_log w"
  "w_tokens (snd (save_response ops e r st resp w)) = w_tokens w"
  "w_calls (snd (save_response ops e r st resp w)) = w_calls w"
  "w_notes (snd (save_response ops e r st resp w)) = w_notes w"
  "w_velocity (snd (save_response ops e r st resp w)) = w_velocity w"
  "w_sleeps (snd (save_response ops e r st resp w)) = w_sleeps w"
  by (simp_all add: save_response_def split: prod.splits)

subsection \<open>The retry loop\<close>

definition settled :: "AdapterResult \<Rightarrow> bool" where
  "settled res = (AR_Status res \<in> {StatusCaptured, StatusPending, StatusCaptureRequested,
     StatusDeclined, StatusCancelled})"

text \<open>The reply to the attempt number \<open>i\<close> of a loop started in \<open>w\<close>.\<close>

definition attempt_reply :: "call_site \<Rightarrow> CreatePaymentRequest \<Rightarrow> 's world \<Rightarrow> nat \<Rightarrow> AdapterResult" where
  "attempt_reply c v w i =
     adapter_reply (CS_adapter c) (CS_paymentSystem c) (CS_token c) v (length (w_calls w) + i)"

definition attempts :: "call_site \<Rightarrow> CreatePaymentRequest \<Rightarrow> 's world \<Rightarrow> nat" where
  "attempts c v w = (if settled (attempt_reply c v w 0) then 0
     else if settled (attempt_reply c v w 1) then 1 else 2)"

lemma send_stop: "(AR_Status res = StatusCaptured \<or> \<not> ShouldRetry res n) = (settled res \<or> 2 \<le> n)"
  by (auto simp: ShouldRetry_def settled_def maxAttempts_def)

lemma send_loop_step:
  "send_loop e c req v n w =
     (let res = attempt_reply c v w 0;
          w' = after_call e c v res (before_call e c req v n w)
      in if settled res \<or> 2 \<le> n then ((res, n), w')
         else send_loop e c req v (n + 1) (w'\<lparr>w_sleeps := w_sleeps w @ [RetryAfter (n + 1)]\<rparr>))"
  by (subst send_loop.simps)
    (simp add: send_stop attempt_reply_def NextRetryCount_def Let_def)

lemma attempt_reply_calls:
  "w_calls w' = w_calls w @ [x] \<Longrightarrow> attempt_reply c v w' i = attempt_reply c v w (Suc i)"
  by (simp add: attempt_reply_def)

lemma send_loop_shape:
  assumes "send_loop e c req v 0 w = ((res, n), w')"
  shows "n = int (attempts c v w) \<and> res = attempt_reply c v w (attempts c v w)
    \<and> w_calls w' = w_calls w @ replicate (Suc (attempts c v w)) (CS_provider c, CS_token c, v)
    \<and> w_sleeps w' = w_sleeps w @ take (attempts c v w) [100000000, 200000000]
    \<and> map Ev_Type (w_log w') = map Ev_Type (w_log w)
        @ concat (replicate (Suc (attempts c v w)) [EventAdapterCalled, EventAdapterResultReceived])
    \<and> w_store w' = w_store w \<and> w_tokens w' = w_tokens w \<and> w_notes w' = w_notes w
    \<and> w_velocity w' = w_velocity w"
proof -
  let ?r = "attempt_reply c v w"
  define w1 where "w1 = (after_call e c v (?r 0) (before_call e c req v 0 w))
    \<lparr>w_sleeps := w_sleeps w @ [RetryAfter 1]\<rparr>"
  have r1: "attempt_reply c v w1 i = ?r (Suc i)" for i
    by (rule attempt_reply_calls) (simp add: w1_def)
  define w2 where "w2 = (after_call e c v (?r 1) (before_call e c req v 1 w1))
    \<lparr>w_sleeps := w_sleeps w1 @ [RetryAfter 2]\<rparr>"
  have r2: "attempt_reply c v w2 i = ?r (Suc (Suc i))" for i
    unfolding r1 [symmetric] by (rule attempt_reply_calls) (simp add: w2_def)
  have s0: "send_loop e c req v 0 w = (if settled (?r 0)
      then ((?r 0, 0), after_call e c v (?r 0) (before_call e c req v 0 w))
      else send_loop e c req v 1 w1)"
    by (subst send_loop_step) (simp add: w1_def Let_def)
  have s1: "send_loop e c req v 1 w1 = (if settled (?r 1)
      then ((?r 1, 1), after_call e c v (?r 1) (before_call e c req v 1 w1))
      else send_loop e c req v 2 w2)"
    by (subst send_loop_step) (simp add: w2_def r1 Let_def)
  have s2: "send_loop e c req v 2 w2 = ((?r 2, 2), after_call e c v (?r 2) (before_call e c req v 2 w2))"
    by (subst send_loop_step) (simp add: r2 numeral_2_eq_2 Let_def)
  note loop = assms [unfolded s0 s1 s2]
  have w: "w_calls w1 = w_calls w @ [(CS_provider c, CS_token c, v)]"
    "w_sleeps w1 = w_sleeps w @ [100000000]" "w_store w1 = w_store w" "w_tokens w1 = w_tokens w"
    "w_notes w1 = w_notes w" "w_velocity w1 = w_velocity w"
    "map Ev_Type (w_log w1) = map Ev_Type (w_log w) @ [EventAdapterCalled, EventAdapterResultReceived]"
    "w_calls w2 = w_calls w1 @ [(CS_provider c, CS_token c, v)]"
    "w_sleeps w2 = w_sleeps w1 @ [200000000]" "w_store w2 = w_store w1" "w_tokens w2 = w_tokens w1"
    "w_notes w2 = w_notes w1" "w_velocity w2 = w_velocity w1"
    "map Ev_Type (w_log w2) = map Ev_Type (w_log w1) @ [EventAdapterCalled, EventAdapterResultReceived]"
    by (simp_all add: w1_def w2_def RetryAfter_def)
  consider "settled (?r 0)" | "\<not> settled (?r 0)" "settled (?r 1)" | "\<not> settled (?r 0)" "\<not> settled (?r 1)"
    by blast
  then show ?thesis
    by cases (use loop in \<open>auto simp: attempts_def w numeral_2_eq_2\<close>)
qed

subsection \<open>The shape of a run\<close>

lemma receive_simps [simp]:
  "w_store (snd (receive e r w)) = w_store w" "w_tokens (snd (receive e r w)) = w_tokens w"
  "w_calls (snd (receive e r w)) = w_calls w" "w_notes (snd (receive e r w)) = w_notes w"
  "w_velocity (snd (receive e r w)) = w_velocity w"
  "map Ev_Type (w_log (snd (receive e r w))) = map Ev_Type (w_log w) @ [EventPaymentReceived]"
  by (simp_all add: receive_def Let_def)

text \<open>The events of a payment that reaches the adapter, in order, up to the first call.\<close>

definition admission :: "gostring list" where
  "admission = [EventPaymentReceived, EventPaymentValidated, EventFraudChecked, EventTokenized]"

text \<open>The request that the validator leaves to the later steps.\<close>

definition validation :: "env \<Rightarrow> CreatePaymentRequest \<Rightarrow> 's world \<Rightarrow> CreatePaymentRequest \<times> goerror option" where
  "validation e req w = (let w = snd (receive e (Request_WithoutSensitive req) w) in
     Validate (env_playground e) (env_ctx e (w_tick w)) (now e w) req)"

text \<open>\<open>w0\<close> is reached from \<open>w\<close> with the first \<open>k\<close> events of the admission, nothing sent or saved.\<close>

definition admitted :: "nat \<Rightarrow> 's world \<Rightarrow> 's world \<Rightarrow> bool" where
  "admitted k w w0 = (w_store w0 = w_store w \<and> w_calls w0 = w_calls w \<and> w_notes w0 = w_notes w
     \<and> map Ev_Type (w_log w0) = map Ev_Type (w_log w) @ take k admission)"

lemma Resolve_ran: "Resolve env f k ps = Inr (a, p) \<Longrightarrow> a \<in> ran f"
  by (auto simp: Resolve_def Factory_Get_def Let_def intro: ranI split: option.splits if_splits)

lemma route_and_send_cases:
  assumes "route_and_send ops e req v sid w = ((resp, err), w')"
  obtains (failed) st code msg svc k w0 where
      "failAndSave ops e v st code msg svc w0 = ((resp, err), w')" "st = StatusFailed"
      "code \<noteq> ErrorAntifraudDeclined"
      "k \<le> 1" "w_store w0 = w_store w" "w_calls w0 = w_calls w" "w_notes w0 = w_notes w"
      "map Ev_Type (w_log w0) = map Ev_Type (w_log w) @ take k [EventTokenized]"
  | (sent) c tok res n w0 w1 where
      "send_loop e c req v 0 w0 = ((res, n), w1)"
      "finish ops e req v sid tok res n w1 = ((resp, err), w')"
      "w_store w0 = w_store w" "w_calls w0 = w_calls w" "w_notes w0 = w_notes w"
      "map Ev_Type (w_log w0) = map Ev_Type (w_log w) @ [EventTokenized]"
      "CS_adapter c \<in> ran (env_factory e)"
proof -
  define wt where "wt = w\<lparr>w_tokens := Suc (w_tokens w)\<rparr>"
  have codes: "ErrorRouting \<noteq> ErrorAntifraudDeclined" "ErrorTokenization \<noteq> ErrorAntifraudDeclined"
    "ErrorAdapterFactory \<noteq> ErrorAntifraudDeclined" by (simp_all add: lit)
  show thesis
  proof (cases "Route (env_routes e) v")
    case (Inl er)
    with assms have "failAndSave ops e v StatusFailed ErrorRouting er ''orchestrator'' w = ((resp, err), w')"
      by (simp add: route_and_send_def)
    from failed [OF this, of 0] show thesis by (simp add: codes)
  next
    case (Inr route)
    obtain ps key where route: "route = (ps, key)" by fastforce
    show thesis
    proof (cases "env_tokenize e (w_tokens w) v")
      case (Inl er)
      with assms Inr route
      have "failAndSave ops e v StatusFailed ErrorTokenization er ''tokenizer'' wt = ((resp, err), w')"
        by (simp add: route_and_send_def wt_def)
      from failed [OF this, of 0] show thesis by (simp add: codes wt_def)
    next
      case (Inr tok)
      define w0 where "w0 = logEvent e v EventTokenized LogLevelInfo ''tokenizer'' StatusPending
        ''Payment data tokenized'' [(''token_preview'', log_TokenPreview tok)] wt"
      have w0: "w_store w0 = w_store w" "w_calls w0 = w_calls w" "w_notes w0 = w_notes w"
        "map Ev_Type (w_log w0) = map Ev_Type (w_log w) @ [EventTokenized]"
        by (simp_all add: w0_def wt_def)
      note tokenized = assms [unfolded route_and_send_def \<open>Route (env_routes e) v = Inr route\<close> route
        Inr Let_def wt_def [symmetric] sum.case prod.case, folded w0_def]
      show thesis
      proof (cases "Resolve (env_getenv e) (env_factory e) key ps")
        case (Inl er)
        with tokenized
        have "failAndSave ops e v StatusFailed ErrorAdapterFactory er ''adapter'' w0 = ((resp, err), w')"
          by simp
        from failed [OF this, of 1] w0 show thesis by (simp add: codes)
      next
        case (Inr found)
        then obtain c res n w1 where "send_loop e c req v 0 w0 = ((res, n), w1)"
          "finish ops e req v sid tok res n w1 = ((resp, err), w')" "CS_adapter c = fst found"
          using tokenized by (auto split: prod.splits)
        moreover have "fst found \<in> ran (env_factory e)"
          using Inr by (intro Resolve_ran [where p = "snd found"]) simp
        ultimately show thesis using sent w0 by simp
      qed
    qed
  qed
qed

lemma check_fraud_cases:
  assumes "check_fraud ops e req v sid w = ((resp, err), w')"
  obtains (failed) st code msg svc k w0 where
      "failAndSave ops e v st code msg svc w0 = ((resp, err), w')"
      "(st, code) = (StatusDeclined, ErrorAntifraudDeclined)
        \<or> st = StatusFailed \<and> code \<noteq> ErrorAntifraudDeclined"
      "k \<le> 2" "w_store w0 = w_store w" "w_calls w0 = w_calls w" "w_notes w0 = w_notes w"
      "map Ev_Type (w_log w0) = map Ev_Type (w_log w) @ take k [EventFraudChecked, EventTokenized]"
  | (sent) c tok res n w0 w1 where
      "send_loop e c req v 0 w0 = ((res, n), w1)"
      "finish ops e req v sid tok res n w1 = ((resp, err), w')"
      "w_store w0 = w_store w" "w_calls w0 = w_calls w" "w_notes w0 = w_notes w"
      "map Ev_Type (w_log w0) = map Ev_Type (w_log w) @ [EventFraudChecked, EventTokenized]"
      "\<exists>fraud. fst (Check (env_sha256 e) (env_domains e) (env_opa e) (env_ctx e (w_tick w)) (now e w) v
        (w_velocity w)) = Inr fraud \<and> AF_Result fraud \<noteq> ResultBlocked"
      "CS_adapter c \<in> ran (env_factory e)"
proof -
  obtain outcome vel where check: "Check (env_sha256 e) (env_domains e) (env_opa e)
      (env_ctx e (w_tick w)) (now e w) v (w_velocity w) = (outcome, vel)" by fastforce
  define wv where "wv = (tick w)\<lparr>w_velocity := vel\<rparr>"
  have wv: "w_store wv = w_store w" "w_calls wv = w_calls w" "w_notes wv = w_notes w"
    "w_log wv = w_log w" by (simp_all add: wv_def)
  note run = assms [unfolded check_fraud_def check prod.case Let_def, folded wv_def]
  show thesis
  proof (cases outcome)
    case (Inl er)
    with run have "failAndSave ops e v StatusFailed ErrorAntifraud er ''antifraud'' wv = ((resp, err), w')"
      by simp
    from failed [OF this _ _ wv(1-3), of 0] show thesis by (simp add: wv lit)
  next
    case (Inr fraud)
    define w0 where "w0 = logEvent e v EventFraudChecked LogLevelInfo ''antifraud'' StatusPending
      ''Antifraud check completed''
      [(''fraud_result'', AF_Result fraud), (''fraud_reason'', AF_Reason fraud)] wv"
    have w0: "w_store w0 = w_store w" "w_calls w0 = w_calls w" "w_notes w0 = w_notes w"
      "map Ev_Type (w_log w0) = map Ev_Type (w_log w) @ [EventFraudChecked]"
      by (simp_all add: w0_def wv)
    note checked = run [unfolded Inr sum.case, folded w0_def]
    show thesis
    proof (cases "AF_Result fraud = ''BLOCKED''")
      case True
      with checked obtain msg where
        "failAndSave ops e v StatusDeclined ErrorAntifraudDeclined msg ''antifraud'' w0 = ((resp, err), w')"
        by auto
      from failed [OF this _ _ w0(1-3), of 1] w0 show thesis by simp
    next
      case False
      with checked have "route_and_send ops e req v sid w0 = ((resp, err), w')" by simp
      then show thesis
      proof (cases rule: route_and_send_cases)
        case (failed st code msg svc k w2)
        show thesis
        proof (rule that(1) [OF failed(1)])
          show "map Ev_Type (w_log w2)
              = map Ev_Type (w_log w) @ take (Suc k) [EventFraudChecked, EventTokenized]"
            using failed w0 by simp
        qed (use failed w0 in auto)
      next
        case (sent c tok res n w2 w1)
        then show thesis using that(2) [OF sent(1,2)] w0 check Inr False by (simp add: lit)
      qed
    qed
  qed
qed

lemma process_cases:
  assumes "process ops e req (Request_WithoutSensitive req) w = ((resp, err), w')"
  obtains (failed) q st code msg svc k w0 where
      "failAndSave ops e q st code msg svc w0 = ((resp, err), w')"
      "(st, code) = (StatusDeclined, ErrorAntifraudDeclined)
        \<or> st = StatusFailed \<and> code \<noteq> ErrorAntifraudDeclined"
      "1 \<le> k" "k \<le> 4" "admitted k w w0"
      "snd (validation e req w) \<noteq> None \<and> Req_MerchantID q = Req_MerchantID req
          \<and> Req_PaymentID q = Req_PaymentID req \<and> Req_IdempotencyKey q = Req_IdempotencyKey req
        \<or> snd (validation e req w) = None
          \<and> q = Request_WithoutSensitive (fst (validation e req w))"
  | (sent) v sid c tok res n w0 w1 where
      "snd (validation e req w) = None" "v = Request_WithoutSensitive (fst (validation e req w))"
      "send_loop e c req v 0 w0 = ((res, n), w1)"
      "finish ops e req v sid tok res n w1 = ((resp, err), w')" "admitted 4 w w0"
      "\<exists>now ctx vel fraud. fst (Check (env_sha256 e) (env_domains e) (env_opa e) ctx now v vel)
        = Inr fraud \<and> AF_Result fraud \<noteq> ResultBlocked"
      "CS_adapter c \<in> ran (env_factory e)"
proof -
  obtain sid wr where recv: "receive e (Request_WithoutSensitive req) w = (sid, wr)" by fastforce
  have wr: "w_store wr = w_store w" "w_calls wr = w_calls w" "w_notes wr = w_notes w"
    "map Ev_Type (w_log wr) = map Ev_Type (w_log w) @ [EventPaymentReceived]"
    using receive_simps [of e "Request_WithoutSensitive req" w] by (simp_all add: recv)
  obtain vd ver where val: "Validate (env_playground e) (env_ctx e (w_tick wr)) (now e wr) req = (vd, ver)"
    by fastforce
  have validation: "validation e req w = (vd, ver)"
    by (simp add: validation_def recv val)
  show thesis
  proof (cases ver)
    case (Some er)
    let ?q = "if env_ctx e (w_tick wr) = None then share_items (Request_WithoutSensitive req)
      else Request_WithoutSensitive req"
    from Some assms have "failAndSave ops e ?q StatusFailed ErrorValidation er ''validator'' (tick wr)
        = ((resp, err), w')"
      by (simp add: process_def recv val)
    from failed [OF this, of 1] Some wr show thesis
      by (simp add: validation admitted_def admission_def share_items_def lit)
  next
    case None
    define v where "v = Request_WithoutSensitive vd"
    define wp where "wp = logEvent e v EventPaymentValidated LogLevelInfo ''validator'' StatusPending
      ''Payment request validated'' []
      (SetStatus (Req_MerchantID v) (Req_PaymentID v) StatusPending (tick wr))"
    have wp: "w_store wp = w_store w" "w_calls wp = w_calls w" "w_notes wp = w_notes w"
      "map Ev_Type (w_log wp) = map Ev_Type (w_log w) @ [EventPaymentReceived, EventPaymentValidated]"
      by (simp_all add: wp_def wr)
    from None assms have "check_fraud ops e req v sid wp = ((resp, err), w')"
      by (simp add: process_def recv val v_def wp_def Let_def)
    then show thesis
    proof (cases rule: check_fraud_cases)
      case (failed st code msg svc k w0)
      show thesis
        by (rule that(1) [OF failed(1,2), of "Suc (Suc k)"])
          (use failed wp None in \<open>simp_all add: admitted_def admission_def validation v_def\<close>)
    next
      case (sent c tok res n w0 w1)
      show thesis
        by (rule that(2) [OF _ _ sent(1,2)])
          (use sent wp None in \<open>simp_all add: admitted_def admission_def validation v_def, blast?\<close>)
    qed
  qed
qed

subsection \<open>The two ends\<close>

lemma Mask_stable [simp]:
  "MaskCardNumber (MaskCardNumber (MaskCardNumber pan)) = MaskCardNumber (MaskCardNumber pan)"
proof (cases "length (digitsOnly pan) < 10")
  case True
  then have "MaskCardNumber pan = ''''" by (simp add: MaskCardNumber_def)
  then show ?thesis by (simp add: MaskCardNumber_def)
next
  case False
  let ?t = "take 6 (digitsOnly pan) @ drop (length (digitsOnly pan) - 4) (digitsOnly pan)"
  have "digitsOnly (MaskCardNumber pan) = ?t" using False by (intro digitsOnly_Mask) simp
  moreover have "length ?t = 10" using False by simp
  moreover have "digitsOnly ?t = ?t" by simp
  ultimately have m: "MaskCardNumber (MaskCardNumber pan) = ?t" "MaskCardNumber ?t = ?t"
    unfolding MaskCardNumber_def [of "MaskCardNumber pan"] MaskCardNumber_def [of ?t]
    by (simp_all add: Let_def)
  then show ?thesis by simp
qed

lemma TokenPreview_Nil [simp]: "TokenPreview '''' = ''''"
  by (simp add: TokenPreview_def)

lemma Sanitized_stable:
  assumes "Cust_CardNumber (RInfo_CustomerData (Resp_PaymentInfo r)) = MaskCardNumber pan"
  shows "Sanitized (Sanitized r) = Sanitized r"
  using assms by (simp add: Sanitized_def Customer_Sanitized_def Customer_WithoutSensitive_def Let_def)

text \<open>What a run ends with: \<open>resp\<close> is sent and stored under the identifiers of \<open>q\<close>.\<close>

definition answered :: "'s store_ops \<Rightarrow> CreatePaymentRequest \<Rightarrow> PaymentResponse \<Rightarrow> goerror option \<Rightarrow>
    's world \<Rightarrow> 's world \<Rightarrow> bool" where
  "answered ops q resp saveErr w w' =
     (Resp_ID resp = Req_PaymentID q \<and> Resp_MerchantID resp = Req_MerchantID q
      \<and> Resp_IdempotencyKey resp = Req_IdempotencyKey q \<and> Sanitized resp = resp
      \<and> w_calls w' = w_calls w \<and> w_notes w' = w_notes w @ [resp]
      \<and> (\<exists>t. op_Save ops (Req_MerchantID q) (Req_PaymentID q) (Req_IdempotencyKey q)
           (Resp_CurrentStatus resp) (mustMarshalPaymentResponse resp) t (w_store w)
           = (saveErr, w_store w')))"

lemma fail_response_simps [simp]:
  "Resp_ID (fail_response q st code msg svc t) = Req_PaymentID q"
  "Resp_MerchantID (fail_response q st code msg svc t) = Req_MerchantID q"
  "Resp_IdempotencyKey (fail_response q st code msg svc t) = Req_IdempotencyKey q"
  "Resp_CurrentStatus (fail_response q st code msg svc t) = st"
  "Resp_Error (fail_response q st code msg svc t) = Some (NewGatewayError code msg)"
  "code = ErrorAntifraudDeclined \<Longrightarrow>
    TD_FraudCheckResult (Resp_TransactionDetails (fail_response q st code msg svc t)) = ''BLOCKED''"
  by (simp_all add: fail_response_def buildErrorResponse_def Let_def)

lemma Sanitized_fail_response [simp]:
  "Sanitized (fail_response q st code msg svc t) = fail_response q st code msg svc t"
proof -
  have b: "Sanitized (buildErrorResponse q st code msg t) = buildErrorResponse q st code msg t" for code
    unfolding buildErrorResponse_def
    by (rule Sanitized_stable)
      (simp add: response_info_def Customer_Sanitized_def Customer_WithoutSensitive_def Let_def)
  have "Sanitized (r\<lparr>Resp_TransactionDetails := (Resp_TransactionDetails r)\<lparr>TD_FraudCheckResult := x\<rparr>\<rparr>)
     = (Sanitized r)\<lparr>Resp_TransactionDetails :=
        (Resp_TransactionDetails (Sanitized r))\<lparr>TD_FraudCheckResult := x\<rparr>\<rparr>" for r x
    by (simp add: Sanitized_def Let_def)
  with b show ?thesis by (simp add: fail_response_def Let_def)
qed

lemma deliver_simps [simp]:
  "w_store (deliver e q st c r w) = w_store w" "w_status (deliver e q st c r w) = w_status w"
  "w_calls (deliver e q st c r w) = w_calls w" "w_notes (deliver e q st c r w) = w_notes w @ [r]"
  "w_tokens (deliver e q st c r w) = w_tokens w" "w_velocity (deliver e q st c r w) = w_velocity w"
  "map Ev_Type (w_log (deliver e q st c r w)) = map Ev_Type (w_log w)
     @ (if Notify e r w = None then [] else [EventNotificationFailed])"
  by (simp_all add: deliver_def Let_def split: option.splits)

lemma save_response_answered:
  assumes "save_response ops e q (Resp_CurrentStatus r) r w0 = (err, w')"
    and "w_store w0 = w_store w" "w_calls w0 = w_calls w" "w_notes w0 = w_notes w @ [r]"
    and "Resp_ID r = Req_PaymentID q" "Resp_MerchantID r = Req_MerchantID q"
    and "Resp_IdempotencyKey r = Req_IdempotencyKey q" "Sanitized r = r"
  shows "answered ops q r err w w'"
  using assms by (auto simp: answered_def save_response_def split: prod.splits)

lemma answered_WithoutSensitive [simp]:
  "answered ops (Request_WithoutSensitive q) = answered ops q"
  by (intro ext) (simp add: answered_def)

lemma failAndSave_end:
  assumes "failAndSave ops e q st code msg svc w = ((resp, err), w')"
  shows "answered ops q resp err w w' \<and> Resp_CurrentStatus resp = st
    \<and> Resp_Error resp = Some (NewGatewayError code msg)
    \<and> (code = ErrorAntifraudDeclined \<longrightarrow>
        TD_FraudCheckResult (Resp_TransactionDetails resp) = ''BLOCKED'')
    \<and> (\<exists>evs\<in>{[EventPaymentFailed], [EventPaymentFailed, EventNotificationFailed]}.
        map Ev_Type (w_log w') = map Ev_Type (w_log w) @ evs)"
proof -
  define q' where "q' = Request_WithoutSensitive q"
  define ws where "ws = SetStatus (Req_MerchantID q') (Req_PaymentID q') st w"
  define r where "r = fail_response q' st code msg svc (now e ws)"
  define wl where "wl = logEvent e q' EventPaymentFailed LogLevelError svc st
    ''Payment processing failed'' [(''error_code'', code), (''error_message'', msg)] (tick ws)"
  define wn where "wn = deliver e q' st [(''error_code'', code)] r wl"
  have "failAndSave ops e q st code msg svc w
      = (case save_response ops e q' st r wn of (saveErr, w) \<Rightarrow> ((r, saveErr), w))"
    by (simp only: failAndSave_def Let_def wn_def wl_def r_def ws_def q'_def)
  with assms have save: "save_response ops e q' st r wn = (err, w')" "resp = r"
    by (auto split: prod.splits)
  have r: "Resp_CurrentStatus r = st" "Resp_Error r = Some (NewGatewayError code msg)"
    "code = ErrorAntifraudDeclined \<longrightarrow> TD_FraudCheckResult (Resp_TransactionDetails r) = ''BLOCKED''"
    by (simp_all add: r_def)
  have "answered ops q' r err w w'"
    by (rule save_response_answered [of _ e _ _ wn])
      (use save r in \<open>simp_all add: wn_def wl_def ws_def, simp_all add: r_def\<close>)
  moreover have "w_log w' = w_log wn"
    using save_response_simps(3) [of ops e q' st r wn] by (simp only: save snd_conv)
  then have "map Ev_Type (w_log w') = map Ev_Type (w_log w)
      @ EventPaymentFailed # (if Notify e r wl = None then [] else [EventNotificationFailed])"
    by (simp add: wn_def) (simp add: wl_def ws_def)
  ultimately show ?thesis using save r by (simp add: q'_def)
qed

definition good_status :: "gostring \<Rightarrow> bool" where
  "good_status st = (st \<in> {StatusCaptured, StatusPending, StatusCaptureRequested})"

definition bad_status :: "gostring \<Rightarrow> bool" where
  "bad_status st = (st \<in> {StatusDeclined, StatusCancelled, StatusFailed})"

lemma good_not_bad: "good_status st \<Longrightarrow> \<not> bad_status st"
  by (auto simp: good_status_def bad_status_def lit)

lemma callback_outcome_status:
  assumes "callback_outcome ar = (st, fc, eo)"
  shows "good_status st \<and> eo = None \<or> bad_status st \<and> eo \<noteq> None"
proof -
  let ?s = "if AR_Status ar = '''' then StatusFailed else AR_Status ar"
  consider "good_status ?s" | "\<not> good_status ?s" "?s \<in> {StatusDeclined, StatusCancelled}"
    | "\<not> good_status ?s" "?s \<notin> {StatusDeclined, StatusCancelled}" by blast
  then show ?thesis
    by cases (use assms in \<open>simp_all add: callback_outcome_def good_status_def bad_status_def Let_def
      del: insert_iff split del: if_split, auto\<close>)
qed

lemma finish_end:
  assumes "finish ops e req v sid tok res n w = ((resp, err), w')"
  shows "(\<exists>se. answered ops v resp se w w') \<and> err = None
    \<and> (good_status (Resp_CurrentStatus resp) \<and> Resp_Error resp = None
       \<or> bad_status (Resp_CurrentStatus resp) \<and> Resp_Error resp \<noteq> None)
    \<and> TD_RetryCount (Resp_TransactionDetails resp) = n
    \<and> (\<exists>evs\<in>{[EventPaymentResponseSent], [EventPaymentResponseSent, EventNotificationFailed]}.
        map Ev_Type (w_log w') = map Ev_Type (w_log w) @ evs)"
proof -
  obtain st fc eo where out: "callback_outcome res = (st, fc, eo)" using prod_cases3 by blast
  obtain r0 where r0: "HandleCallback res v tok (now e w) = Inr r0" "Resp_ID r0 = Req_PaymentID v"
    "Resp_MerchantID r0 = Req_MerchantID v" "Resp_IdempotencyKey r0 = Req_IdempotencyKey v"
    "Resp_CurrentStatus r0 = st" "Resp_Error r0 = eo"
    "Cust_CardNumber (RInfo_CustomerData (Resp_PaymentInfo r0))
      = MaskCardNumber (Cust_CardNumber (Info_CustomerData (Req_PaymentInfo v)))"
    by (simp add: HandleCallback_def out response_info_def Customer_Sanitized_def
        Customer_WithoutSensitive_def Let_def)
  define r where "r = (Sanitized r0)\<lparr>Resp_TransactionDetails :=
    (Resp_TransactionDetails (Sanitized r0))\<lparr>TD_RetryCount := n\<rparr>\<rparr>"
  have "Sanitized (x\<lparr>Resp_TransactionDetails := (Resp_TransactionDetails x)\<lparr>TD_RetryCount := n\<rparr>\<rparr>)
     = (Sanitized x)\<lparr>Resp_TransactionDetails :=
        (Resp_TransactionDetails (Sanitized x))\<lparr>TD_RetryCount := n\<rparr>\<rparr>" for x
    by (simp add: Sanitized_def Let_def)
  then have r: "Sanitized r = r" "Resp_ID r = Req_PaymentID v" "Resp_MerchantID r = Req_MerchantID v"
    "Resp_IdempotencyKey r = Req_IdempotencyKey v" "Resp_CurrentStatus r = st" "Resp_Error r = eo"
    "TD_RetryCount (Resp_TransactionDetails r) = n"
    using Sanitized_stable [OF r0(7)] r0 by (simp_all add: r_def)
  define wc where "wc = CompleteSession e sid st (SetStatus (Req_MerchantID req) (Req_PaymentID req) st (tick w))"
  define wl where "wl = logEvent e v EventPaymentResponseSent LogLevelInfo ''orchestrator'' st
    ''Payment response sent to merchant'' [(''retry_count'', Itoa n)] wc"
  define wn where "wn = deliver e v st [] r wl"
  have "finish ops e req v sid tok res n w = ((r, None), snd (save_response ops e v st r wn))"
    by (simp only: finish_def Let_def wn_def wl_def wc_def r0(1) sum.case r_def [symmetric] r(5))
  then have fin: "w' = snd (save_response ops e v st r wn)" "resp = r" "err = None"
    using assms by auto
  have "answered ops v r (fst (save_response ops e v st r wn)) w w'"
    by (rule save_response_answered [of _ e _ _ wn])
      (use fin r in \<open>simp_all add: wn_def wl_def wc_def\<close>)
  moreover have "map Ev_Type (w_log w') = map Ev_Type (w_log w)
      @ EventPaymentResponseSent # (if Notify e r wl = None then [] else [EventNotificationFailed])"
    by (simp add: fin wn_def) (simp add: wl_def wc_def)
  ultimately show ?thesis using fin r callback_outcome_status [OF out] by auto
qed

lemma finish_status:
  assumes "finish ops e req v sid tok res n w = ((resp, err), w')"
  shows "Resp_CurrentStatus resp = fst (callback_outcome res)"
  using assms by (auto simp: finish_def HandleCallback_def Sanitized_def Let_def split: prod.splits)

subsection \<open>New payments\<close>

definition new_payment :: "'s store_ops \<Rightarrow> CreatePaymentRequest \<Rightarrow> 's world \<Rightarrow> bool" where
  "new_payment ops req w = (Req_MerchantID req \<noteq> '''' \<and> Req_IdempotencyKey req \<noteq> ''''
     \<and> Req_PaymentID req \<noteq> ''''
     \<and> op_GetByIdempotencyKey ops (Req_MerchantID req) (Req_IdempotencyKey req) (w_store w) = Inr None)"

lemma CreatePayment_new:
  "new_payment ops req w \<Longrightarrow>
    CreatePayment ops e req w = process ops e req (Request_WithoutSensitive req) w"
  by (simp add: new_payment_def CreatePayment_def Let_def)

lemma CreatePayment_replay:
  assumes "Req_MerchantID req \<noteq> ''''" "Req_IdempotencyKey req \<noteq> ''''" "Req_PaymentID req \<noteq> ''''"
    and "op_GetByIdempotencyKey ops (Req_MerchantID req) (Req_IdempotencyKey req) (w_store w)
      = Inr (Some (st, pay))"
  shows "CreatePayment ops e req w = replay e (Request_WithoutSensitive req) st pay w"
  using assms by (simp add: CreatePayment_def Let_def)

lemma validation_simps:
  "fst (validation e req w) = Request_WithoutSensitive (normalizeRequest req)
   \<or> fst (validation e req w) = Request_WithoutSensitive req"
  "snd (validation e req w) = None \<Longrightarrow>
    fst (validation e req w) = Request_WithoutSensitive (normalizeRequest req)"
  by (auto simp: validation_def Validate_def Let_def split: option.splits if_splits)

text \<open>The two ways a new payment ends, with what is known of either.\<close>

lemma new_payment_cases:
  assumes "new_payment ops req w" and "CreatePayment ops e req w = ((resp, err), w')"
  obtains (failed) q k evs where
      "answered ops q resp err w w'" "bad_status (Resp_CurrentStatus resp)" "Resp_Error resp \<noteq> None"
      "1 \<le> k" "k \<le> 4" "evs = take k admission @ [EventPaymentFailed]
        \<or> evs = take k admission @ [EventPaymentFailed, EventNotificationFailed]"
      "map Ev_Type (w_log w') = map Ev_Type (w_log w) @ evs"
      "snd (validation e req w) \<noteq> None \<and> Req_MerchantID q = Req_MerchantID req
          \<and> Req_PaymentID q = Req_PaymentID req \<and> Req_IdempotencyKey q = Req_IdempotencyKey req
        \<or> snd (validation e req w) = None \<and> q = Request_WithoutSensitive (normalizeRequest req)"
  | (sent) v ps tok n saveErr evs where
      "snd (validation e req w) = None" "v = Request_WithoutSensitive (normalizeRequest req)"
      "\<exists>w1. answered ops v resp saveErr w1 w' \<and> w_store w1 = w_store w \<and> w_notes w1 = w_notes w"
      "err = None"
      "good_status (Resp_CurrentStatus resp) \<and> Resp_Error resp = None
       \<or> bad_status (Resp_CurrentStatus resp) \<and> Resp_Error resp \<noteq> None"
      "n \<le> 2" "TD_RetryCount (Resp_TransactionDetails resp) = int n"
      "w_calls w' = w_calls w @ replicate (Suc n) (ps, tok, v)"
      "evs = [EventPaymentResponseSent] \<or> evs = [EventPaymentResponseSent, EventNotificationFailed]"
      "map Ev_Type (w_log w') = map Ev_Type (w_log w) @ admission
        @ concat (replicate (Suc n) [EventAdapterCalled, EventAdapterResultReceived]) @ evs"
      "\<exists>now ctx vel fraud. fst (Check (env_sha256 e) (env_domains e) (env_opa e) ctx now v vel)
        = Inr fraud \<and> AF_Result fraud \<noteq> ResultBlocked"
proof -
  have validated: "Request_WithoutSensitive (fst (validation e req w))
      = Request_WithoutSensitive (normalizeRequest req)" if "snd (validation e req w) = None"
    using validation_simps(2) [OF that] by simp
  from assms have "process ops e req (Request_WithoutSensitive req) w = ((resp, err), w')"
    by (simp add: CreatePayment_new)
  then show thesis
  proof (cases rule: process_cases)
    case (failed q st code msg svc k w0)
    note fin = failAndSave_end [OF failed(1)]
    then obtain evs where evs: "evs \<in> {[EventPaymentFailed], [EventPaymentFailed, EventNotificationFailed]}"
      "map Ev_Type (w_log w') = map Ev_Type (w_log w0) @ evs" by blast
    have "answered ops q resp err w w'" "bad_status (Resp_CurrentStatus resp)"
      using fin failed(2,5) by (auto simp: answered_def admitted_def bad_status_def)
    from that(1) [OF this _ failed(3,4), of "take k admission @ evs"] show thesis
      using fin evs failed(5,6) validated by (auto simp: admitted_def)
  next
    case (sent v sid c tok res n w0 w1)
    have v: "v = Request_WithoutSensitive (normalizeRequest req)" using sent(1,2) validated by simp
    note loop = send_loop_shape [OF sent(3)] and fin = finish_end [OF sent(4)]
    from fin obtain se evs where se: "answered ops v resp se w1 w'"
      and evs: "evs = [EventPaymentResponseSent] \<or> evs = [EventPaymentResponseSent, EventNotificationFailed]"
      "map Ev_Type (w_log w') = map Ev_Type (w_log w1) @ evs" by blast
    have "attempts c v w0 \<le> 2" by (simp add: attempts_def)
    note adm = sent(5) [unfolded admitted_def]
    show thesis
    proof (rule that(2) [where n = "attempts c v w0" and evs = evs and v = v and saveErr = se])
      show "\<exists>w1. answered ops v resp se w1 w' \<and> w_store w1 = w_store w \<and> w_notes w1 = w_notes w"
        using se loop adm by auto
      show "w_calls w' = w_calls w
          @ replicate (Suc (attempts c v w0)) (CS_provider c, CS_token c, v)"
        using se loop adm by (simp add: answered_def)
      show "map Ev_Type (w_log w') = map Ev_Type (w_log w) @ admission
          @ concat (replicate (Suc (attempts c v w0)) [EventAdapterCalled, EventAdapterResultReceived])
          @ evs"
        using evs(2) loop adm by (simp add: admission_def)
    qed (use fin loop evs(1) sent(1,6) v \<open>attempts c v w0 \<le> 2\<close> in auto)
  qed
qed

text \<open>A payment that ends \<open>CAPTURED\<close> does so because a registered adapter said so.\<close>

lemma captured_by_adapter:
  assumes "new_payment ops req w" and "CreatePayment ops e req w = ((resp, err), w')"
    and "Resp_CurrentStatus resp = StatusCaptured"
  obtains a n tok res where "a \<in> ran (env_factory e)" "AR_Status res = StatusCaptured"
    "a n tok (Request_WithoutSensitive (normalizeRequest req)) = Inr res"
proof -
  from assms have "process ops e req (Request_WithoutSensitive req) w = ((resp, err), w')"
    by (simp add: CreatePayment_new)
  then show thesis
  proof (cases rule: process_cases)
    case (failed q st code msg svc k w0)
    with failAndSave_end [OF failed(1)] assms(3) show thesis by auto
  next
    case (sent v sid c tok res n w0 w1)
    have v: "v = Request_WithoutSensitive (normalizeRequest req)"
      using sent(1,2) validation_simps(2) [OF sent(1)] by simp
    have res: "AR_Status res = StatusCaptured"
      using finish_status [OF sent(4)] assms(3) by (auto simp: callback_outcome_def Let_def split: if_splits)
    have reply: "res = attempt_reply c v w0 (attempts c v w0)" using send_loop_shape [OF sent(3)] by simp
    then obtain res' where "CS_adapter c (length (w_calls w0) + attempts c v w0) (CS_token c) v = Inr res'"
      "AR_Status res' = StatusCaptured"
      using res by (auto simp: attempt_reply_def adapter_reply_def Let_def split: sum.splits if_splits)
    with that [OF sent(7)] show thesis unfolding v by blast
  qed
qed

subsection \<open>A gateway to evaluate the model on\<close>

text \<open>The documented library, a fixed clock, no route table, and one simulated adapter.\<close>

definition sample_env :: env where
  "sample_env = \<lparr>env_clock = (\<lambda>_. Date 2026 5 1), env_ctx = (\<lambda>_. None),
     env_playground = documented_playground (\<lambda>_. True), env_sha256 = (\<lambda>x. x), env_domains = '''',
     env_opa = OpaNil, env_getenv = (\<lambda>_. ''''),
     env_factory = [''yookassa'' \<mapsto> \<lambda>n. Simulated_Send ''YooKassa'' (int n)],
     env_routes = None, env_tokenize = (\<lambda>_ _. Inr ''tok_0123456789''), env_notify = (\<lambda>_ _. None)\<rparr>"

definition sample_world :: "InMemoryTransactionStore world" where
  "sample_world = \<lparr>w_tick = 0, w_store = NewInMemoryTransactionStore, w_status = Map.empty,
     w_sessions = Map.empty, w_velocity = newVelocityStore, w_tokens = 0, w_log = [], w_calls = [],
     w_notes = [], w_sleeps = []\<rparr>"

lemma sample_new: "new_payment mem_ops sample_request sample_world"
  by (simp add: new_payment_def sample_request_def sample_world_def mem_GetByIdempotencyKey_def
      NewInMemoryTransactionStore_def)

lemma validation_sample: "validation sample_env sample_request w
    = (Request_WithoutSensitive sample_normalized, None)"
proof -
  have "fst (receive sample_env r w') = fst (receive sample_env r w')
    \<and> env_ctx sample_env n = None \<and> now sample_env w' = Date 2026 5 1" for r n and w' :: "'a world"
    by (simp add: sample_env_def now_def)
  moreover have "env_playground sample_env = documented_playground (\<lambda>_. True)"
    by (simp add: sample_env_def)
  moreover have "Validate (documented_playground (\<lambda>_. True)) None (Date 2026 5 1) sample_request
     = (Request_WithoutSensitive sample_normalized, None)"
    using sample_valid [of "\<lambda>_. True"] struct_errors_nil [OF documented_playground, of "\<lambda>_. True"
        "Date 2026 5 1" sample_normalized]
    by (simp add: Validate_def sample_normalized documented_playground_def Let_def)
  ultimately show ?thesis by (simp add: validation_def Let_def)
qed

subsection \<open>Properties\<close>

text \<open>
  C1: How a new payment ends. The response has one of the three statuses of an accepted payment
  and no error, or one of the three statuses of a refused one and an error; it is sent to the
  merchant exactly once, it is its own sanitised form (no CVV, no token, at most ten card
  digits), and the adapter was called at most three times, each time with the same token and
  the normalised request without CVV; the retry count of an adapter's answer is one less than
  the number of calls.
\<close>

theorem CreatePayment_outcome:
  assumes "new_payment ops req w" and "CreatePayment ops e req w = ((resp, err), w')"
  shows "(Resp_CurrentStatus resp \<in> {StatusCaptured, StatusPending, StatusCaptureRequested}
        \<and> Resp_Error resp = None
      \<or> Resp_CurrentStatus resp \<in> {StatusDeclined, StatusCancelled, StatusFailed}
        \<and> Resp_Error resp \<noteq> None)
    \<and> w_notes w' = w_notes w @ [resp] \<and> Sanitized resp = resp
    \<and> (\<exists>n ps tok. n \<le> 3 \<and> (n = 0 \<or> TD_RetryCount (Resp_TransactionDetails resp) = int n - 1)
        \<and> w_calls w' = w_calls w @ replicate n
            (ps, tok, Request_WithoutSensitive (normalizeRequest req)))"
  using assms
proof (cases rule: new_payment_cases)
  case (failed q k evs)
  then show ?thesis
    by (intro conjI exI [of _ 0]) (auto simp: answered_def bad_status_def)
next
  case (sent v ps tok n saveErr evs)
  then show ?thesis
    by (intro conjI exI [of _ "Suc n"] exI [of _ ps] exI [of _ tok])
      (auto simp: answered_def good_status_def bad_status_def)
qed

theorem CreatePayment_outcome_witness:
  "Sanitized (fst (fst (CreatePayment mem_ops sample_env sample_request sample_world)))
    = fst (fst (CreatePayment mem_ops sample_env sample_request sample_world))"
  using CreatePayment_outcome [OF sample_new, of sample_env] by (metis prod.collapse)

text \<open>The order in which events may follow each other in the log of one payment.\<close>

inductive event_next :: "gostring \<Rightarrow> gostring \<Rightarrow> bool" where
  validated: "event_next EventPaymentReceived EventPaymentValidated"
| checked: "event_next EventPaymentValidated EventFraudChecked"
| tokenized: "event_next EventFraudChecked EventTokenized"
| called: "event_next EventTokenized EventAdapterCalled"
| returned: "event_next EventAdapterCalled EventAdapterResultReceived"
| retried: "event_next EventAdapterResultReceived EventAdapterCalled"
| responded: "event_next EventAdapterResultReceived EventPaymentResponseSent"
| failed: "ev \<in> set admission \<Longrightarrow> event_next ev EventPaymentFailed"
| undelivered: "ev \<in> {EventPaymentFailed, EventPaymentResponseSent} \<Longrightarrow>
    event_next ev EventNotificationFailed"

lemma event_neq [simp]:
  "EventPaymentReceived \<noteq> EventAdapterCalled" "EventPaymentValidated \<noteq> EventAdapterCalled"
  "EventFraudChecked \<noteq> EventAdapterCalled" "EventTokenized \<noteq> EventAdapterCalled"
  "EventAdapterResultReceived \<noteq> EventAdapterCalled" "EventPaymentFailed \<noteq> EventAdapterCalled"
  "EventPaymentResponseSent \<noteq> EventAdapterCalled" "EventNotificationFailed \<noteq> EventAdapterCalled"
  by (simp_all add: lit)

lemma event_nexts_simps:
  "event_next EventPaymentReceived EventPaymentFailed" "event_next EventPaymentValidated EventPaymentFailed"
  "event_next EventFraudChecked EventPaymentFailed" "event_next EventTokenized EventPaymentFailed"
  "event_next EventPaymentFailed EventNotificationFailed"
  "event_next EventPaymentResponseSent EventNotificationFailed"
  by (auto intro: event_next.intros simp: admission_def)

lemma up_to_two: "(n :: nat) \<le> 2 \<Longrightarrow> n = 0 \<or> n = 1 \<or> n = 2" by auto

lemma up_to_four: "1 \<le> (n :: nat) \<Longrightarrow> n \<le> 4 \<Longrightarrow> n = 1 \<or> n = 2 \<or> n = 3 \<or> n = 4" by auto

text \<open>
  C4: The events a new payment adds to the log start with its receipt, follow each other only
  as \<open>event_next\<close> allows and end with the failure, the response or a failed notification; and
  every adapter call is one event. So no adapter is called before validation, the antifraud
  check and tokenization, in this order, and none after the response.
\<close>

theorem CreatePayment_event_order:
  assumes "new_payment ops req w" and "CreatePayment ops e req w = ((resp, err), w')"
  shows "\<exists>evs. map Ev_Type (w_log w') = map Ev_Type (w_log w) @ EventPaymentReceived # evs
    \<and> successively event_next (EventPaymentReceived # evs)
    \<and> last evs \<in> {EventPaymentFailed, EventPaymentResponseSent, EventNotificationFailed}
    \<and> length (w_calls w') = length (w_calls w) + count_list evs EventAdapterCalled"
  using assms
proof (cases rule: new_payment_cases)
  case (failed q k evs)
  have no_calls: "w_calls w' = w_calls w" using failed(1) by (simp add: answered_def)
  show ?thesis
    by (rule exI [of _ "tl evs"])
      (use up_to_four [OF failed(4,5)] failed(6,7) no_calls in
        \<open>auto simp: admission_def event_nexts_simps event_next.intros(1-7)\<close>)
next
  case (sent v ps tok n saveErr evs)
  show ?thesis
    by (rule exI [of _ "tl admission @ concat (replicate (Suc n)
        [EventAdapterCalled, EventAdapterResultReceived]) @ evs"])
      (use up_to_two [OF sent(6)] sent(8-10) in
        \<open>auto simp: admission_def event_nexts_simps event_next.intros(1-7) numeral_2_eq_2\<close>)
qed

theorem CreatePayment_event_order_witness:
  "\<exists>evs. map Ev_Type (w_log (snd (CreatePayment mem_ops sample_env sample_request sample_world)))
      = EventPaymentReceived # evs \<and> successively event_next (EventPaymentReceived # evs)"
proof -
  obtain resp err w' where run:
    "CreatePayment mem_ops sample_env sample_request sample_world = ((resp, err), w')"
    by (metis prod.collapse)
  have "w_log sample_world = []" by (simp add: sample_world_def)
  with CreatePayment_event_order [OF sample_new run] show ?thesis by (auto simp: run)
qed

text \<open>
  C5: A payment of 500000 or more is never sent to an adapter and never accepted, whatever the
  rest of the request, the antifraud history, the route table and the adapters.
\<close>

theorem CreatePayment_large_amount:
  assumes "new_payment ops req w" and "CreatePayment ops e req w = ((resp, err), w')"
    and "Fin 500000 \<le> Amount_Value (Info_Amount (Req_PaymentInfo req))"
  shows "w_calls w' = w_calls w
    \<and> Resp_CurrentStatus resp \<in> {StatusDeclined, StatusCancelled, StatusFailed}
    \<and> Resp_Error resp \<noteq> None"
  using assms(1,2)
proof (cases rule: new_payment_cases)
  case (failed q k evs)
  then show ?thesis by (auto simp: answered_def bad_status_def)
next
  case (sent v ps tok n saveErr evs)
  then obtain now ctx vel fraud where check:
    "fst (Check (env_sha256 e) (env_domains e) (env_opa e) ctx now v vel) = Inr fraud"
    "AF_Result fraud \<noteq> ResultBlocked" by blast
  then have fraud: "fst (Check (env_sha256 e) (env_domains e) (env_opa e) None now v vel) = Inr fraud"
    "AF_Result fraud \<noteq> ResultBlocked" by (cases ctx; simp add: Check_def)+
  have amount: "Amount_Value (Info_Amount (Req_PaymentInfo v))
      = Amount_Value (Info_Amount (Req_PaymentInfo req))"
    by (simp add: sent(2) normalizeRequest_def normalizeInfo_def)
  have "Fin 100000 \<le> Amount_Value (Info_Amount (Req_PaymentInfo req))"
    using assms(3) by (cases "Amount_Value (Info_Amount (Req_PaymentInfo req))") simp_all
  then show ?thesis
    using Check_large_amount [OF fraud(1)] fraud(2) assms(3) amount
    by (simp add: defaultReviewAmountLimit_def defaultBlockAmountLimit_def)
qed

definition large_sample :: CreatePaymentRequest where
  "large_sample = sample_request\<lparr>Req_PaymentInfo := (Req_PaymentInfo sample_request)
     \<lparr>Info_Amount := \<lparr>Amount_Value = Fin 500000, Amount_Currency = ''RUB''\<rparr>\<rparr>\<rparr>"

theorem CreatePayment_large_amount_witness:
  "w_calls (snd (CreatePayment mem_ops sample_env large_sample sample_world)) = []"
proof -
  have new: "new_payment mem_ops large_sample sample_world"
    using sample_new by (simp add: new_payment_def large_sample_def)
  obtain resp err w' where run:
    "CreatePayment mem_ops sample_env large_sample sample_world = ((resp, err), w')"
    by (metis prod.collapse)
  have "w_calls w' = w_calls sample_world"
    using CreatePayment_large_amount [OF new run] by (simp add: large_sample_def)
  moreover have "w_calls sample_world = []" by (simp add: sample_world_def)
  ultimately show ?thesis by (simp add: run)
qed

text \<open>
  C8: The retry loop always ends. It calls the adapter again only while the answer is none of
  the five settled statuses, at most twice, after waiting 100 and then 200 milliseconds; its
  result is the answer to the last call, and it changes neither the store nor what the
  merchant was sent.
\<close>

theorem send_loop_retries:
  fixes c :: call_site and v :: CreatePaymentRequest and w :: "'s world"
  defines "reply i \<equiv> adapter_reply (CS_adapter c) (CS_paymentSystem c) (CS_token c) v
    (length (w_calls w) + i)"
  shows "\<exists>n w'. send_loop e c req v 0 w = ((reply n, int n), w') \<and> n \<le> 2
    \<and> (n = 2 \<or> settled (reply n)) \<and> list_all (\<lambda>i. \<not> settled (reply i)) [0..<n]
    \<and> w_calls w' = w_calls w @ replicate (Suc n) (CS_provider c, CS_token c, v)
    \<and> w_sleeps w' = w_sleeps w @ take n [100000000, 200000000]
    \<and> w_store w' = w_store w \<and> w_notes w' = w_notes w"
proof -
  obtain res m w' where run: "send_loop e c req v 0 w = ((res, m), w')" by (metis prod.collapse)
  have reply: "attempt_reply c v w = reply" by (rule ext) (simp add: attempt_reply_def reply_def)
  show ?thesis
    using send_loop_shape [OF run]
    by (intro exI [of _ "attempts c v w"] exI [of _ w'])
      (auto simp: run reply attempts_def upt_conv_Cons numeral_2_eq_2)
qed

lemma send_loop_ids:
  assumes "Req_MerchantID a = Req_MerchantID b" "Req_PaymentID a = Req_PaymentID b"
  shows "send_loop e c a v n w = send_loop e c b v n w"
  using assms
proof (induction e c a v n w rule: send_loop.induct)
  case (1 e c a v n w)
  have same: "before_call e c a v n w = before_call e c b v n w"
    using 1 by (simp add: before_call_def)
  show ?case
    by (subst (1 2) send_loop.simps) (use 1 in \<open>simp add: same Let_def\<close>)
qed

lemma check_fraud_ids:
  assumes "Req_MerchantID a = Req_MerchantID b" "Req_PaymentID a = Req_PaymentID b"
  shows "check_fraud ops e a v sid w = check_fraud ops e b v sid w"
proof -
  have fin: "finish ops e a = finish ops e b"
    using assms by (intro ext) (simp only: finish_def)
  have loop: "send_loop e c a = send_loop e c b" for c
    by (intro ext send_loop_ids [OF assms])
  have "route_and_send ops e a = route_and_send ops e b"
    by (intro ext) (simp only: route_and_send_def loop fin)
  then show ?thesis by (simp only: check_fraud_def)
qed

text \<open>
  C6: What the process, the store, the adapter, the merchant and the log see does not depend on
  the card verification code: two requests that differ in it only and are both accepted, or
  both refused with the same message, are processed alike.
\<close>

theorem CreatePayment_cvv:
  assumes "Request_WithoutSensitive a = Request_WithoutSensitive b"
    and "snd (validation e a w) = snd (validation e b w)"
  shows "CreatePayment ops e a w = CreatePayment ops e b w"
proof -
  have ids: "Req_MerchantID a = Req_MerchantID b" "Req_PaymentID a = Req_PaymentID b"
    "Req_IdempotencyKey a = Req_IdempotencyKey b"
    using arg_cong [OF assms(1), of Req_MerchantID] arg_cong [OF assms(1), of Req_PaymentID]
      arg_cong [OF assms(1), of Req_IdempotencyKey] by simp_all
  have norm: "Request_WithoutSensitive (normalizeRequest r)
      = Request_WithoutSensitive (normalizeRequest (Request_WithoutSensitive r))" for r
    by (simp add: normalizeRequest_def normalizeInfo_def normalizeCustomer_def
        Request_WithoutSensitive_def Customer_WithoutSensitive_def)
  obtain sid wr where recv: "receive e (Request_WithoutSensitive b) w = (sid, wr)" by fastforce
  obtain va vb ra rb where val: "validation e a w = (va, ra)" "validation e b w = (vb, rb)"
    by (metis prod.collapse)
  have v: "rb = None \<Longrightarrow> Request_WithoutSensitive va = Request_WithoutSensitive vb"
    using validation_simps(2) [of e a w] validation_simps(2) [of e b w] val assms
      norm [of a] norm [of b] by simp
  have va: "Req_MerchantID (Request_WithoutSensitive x) = Req_MerchantID x
      \<and> Req_PaymentID (Request_WithoutSensitive x) = Req_PaymentID x" for x by simp
  then have "rb = None \<Longrightarrow> Req_MerchantID va = Req_MerchantID vb \<and> Req_PaymentID va = Req_PaymentID vb"
    using v by metis
  then have "process ops e a (Request_WithoutSensitive a) w = process ops e b (Request_WithoutSensitive b) w"
    using val assms(2) v check_fraud_ids [OF ids(1,2)]
    by (cases rb) (simp_all add: process_def validation_def assms(1) recv Let_def)
  then show ?thesis
    by (simp add: CreatePayment_def ids assms(1) Let_def split: sum.splits option.splits prod.splits)
qed

definition with_cvv :: "gostring \<Rightarrow> CreatePaymentRequest \<Rightarrow> CreatePaymentRequest" where
  "with_cvv cvv r = r\<lparr>Req_PaymentInfo := (Req_PaymentInfo r)\<lparr>Info_CustomerData :=
     (Info_CustomerData (Req_PaymentInfo r))\<lparr>Cust_CvvCode := cvv\<rparr>\<rparr>\<rparr>"

lemma valid_with_cvv:
  "valid_payment email t r \<Longrightarrow> cvvRegexp cvv \<Longrightarrow> cvv \<noteq> '''' \<Longrightarrow> valid_payment email t (with_cvv cvv r)"
  by (simp only: valid_payment_def with_cvv_def valid_customer_def method_fields_def Let_def
      CreatePaymentRequest.simps PaymentInfo.simps CustomerData.simps) simp

lemma validation_sample_cvv: "snd (validation sample_env (with_cvv ''321'' sample_request) w) = None"
proof -
  have t: "TrimSpace ''321'' = ''321''" by (simp add: go_eval)
  have "normalizeRequest (with_cvv ''321'' sample_request)
      = with_cvv (TrimSpace ''321'') (normalizeRequest sample_request)"
    by (simp add: with_cvv_def normalizeRequest_def normalizeInfo_def normalizeCustomer_def)
  then have norm: "normalizeRequest (with_cvv ''321'' sample_request) = with_cvv ''321'' sample_normalized"
    by (simp only: sample_normalized t)
  have "cvvRegexp ''321''" by (simp add: cvvRegexp_def matches_def byte_def is_digit_def)
  then have "valid_payment (\<lambda>_. True) (Date 2026 5 1) (with_cvv ''321'' sample_normalized)"
    using valid_with_cvv [OF sample_valid] by simp
  then show ?thesis
    using struct_errors_nil [OF documented_playground, of "\<lambda>_. True" "Date 2026 5 1"
        "with_cvv ''321'' sample_normalized"]
    by (simp add: validation_def Validate_def norm documented_playground_def Let_def sample_env_def now_def)
qed

theorem CreatePayment_cvv_witness:
  "CreatePayment mem_ops sample_env (with_cvv ''321'' sample_request) sample_world
    = CreatePayment mem_ops sample_env sample_request sample_world"
proof (rule CreatePayment_cvv)
  show "Request_WithoutSensitive (with_cvv ''321'' sample_request) = Request_WithoutSensitive sample_request"
    by (simp add: with_cvv_def Request_WithoutSensitive_def Customer_WithoutSensitive_def)
qed (simp add: validation_sample_cvv validation_sample)

subsection \<open>Idempotency\<close>

lemma marshalled:
  assumes "Sanitized r = r" "json_ok (enc_PaymentResponse r)"
  shows "mustMarshalPaymentResponse r = JDoc (enc_PaymentResponse r)"
  using assms by (simp add: mustMarshalPaymentResponse_def MarshalResponse_def Marshal_def)

lemma stored_payload:
  assumes "Sanitized r = r" "json_ok (enc_PaymentResponse r)" "utf8_PaymentResponse r" "Resp_ID r \<noteq> ''''"
  shows "SanitizePaymentPayloadJSON (JDoc (enc_PaymentResponse r)) = JDoc (enc_PaymentResponse r)"
    and "UnmarshalResponse (JDoc (enc_PaymentResponse r)) = Some r"
  using assms dec_PaymentResponse
  by (simp_all add: SanitizePaymentPayloadJSON_def UnmarshalResponse_def MarshalResponse_def Marshal_def)

lemma replay_stored:
  assumes "Sanitized r = r" "UnmarshalResponse (JDoc j) = Some r"
  shows "\<exists>w'. replay e safe st (JDoc j) w = ((r, None), w') \<and> w_store w' = w_store w
    \<and> w_calls w' = w_calls w \<and> w_notes w' = w_notes w \<and> w_tokens w' = w_tokens w
    \<and> w_status w' = w_status w \<and> w_velocity w' = w_velocity w \<and> w_sessions w' = w_sessions w"
  using assms by (simp add: replay_def Let_def)

text \<open>
  What a replay needs of a store: a saved response is found again under its key, in a form that
  still decodes to it. A store may re-order or re-format the document, and its lookups may fail.
\<close>

locale response_store =
  fixes ops :: "'s store_ops"
  assumes saved_response:
    "op_Save ops m p k st (JDoc (enc_PaymentResponse r)) t s = (None, s') \<Longrightarrow> Sanitized r = r \<Longrightarrow>
      json_ok (enc_PaymentResponse r) \<Longrightarrow> utf8_PaymentResponse r \<Longrightarrow> Resp_ID r \<noteq> '''' \<Longrightarrow>
      op_GetByIdempotencyKey ops m k s' = Inr x \<Longrightarrow>
      \<exists>j. x = Some (st, JDoc j) \<and> UnmarshalResponse (JDoc j) = Some r"
begin

text \<open>What is answered and saved without an error is what the next call with the key answers.\<close>

lemma answered_replay:
  assumes "answered ops q resp None w w'"
    and "utf8_PaymentResponse resp" "json_ok (enc_PaymentResponse resp)" "Req_PaymentID q \<noteq> ''''"
    and "Req_MerchantID r = Req_MerchantID q" "Req_IdempotencyKey r = Req_IdempotencyKey q"
    and "Req_MerchantID r \<noteq> ''''" "Req_IdempotencyKey r \<noteq> ''''" "Req_PaymentID r \<noteq> ''''"
    and "op_GetByIdempotencyKey ops (Req_MerchantID r) (Req_IdempotencyKey r) (w_store w2)
      = op_GetByIdempotencyKey ops (Req_MerchantID r) (Req_IdempotencyKey r) (w_store w')"
    and "op_GetByIdempotencyKey ops (Req_MerchantID r) (Req_IdempotencyKey r) (w_store w') = Inr x"
  shows "\<exists>w3. CreatePayment ops e r w2 = ((resp, None), w3) \<and> w_store w3 = w_store w2
    \<and> w_calls w3 = w_calls w2 \<and> w_notes w3 = w_notes w2 \<and> w_tokens w3 = w_tokens w2
    \<and> w_status w3 = w_status w2 \<and> w_velocity w3 = w_velocity w2 \<and> w_sessions w3 = w_sessions w2"
proof -
  let ?pay = "JDoc (enc_PaymentResponse resp)"
  from assms(1) have san: "Sanitized resp = resp" "Resp_ID resp \<noteq> ''''"
    using assms(4) by (simp_all add: answered_def)
  from assms(1) obtain t where save: "op_Save ops (Req_MerchantID q) (Req_PaymentID q)
      (Req_IdempotencyKey q) (Resp_CurrentStatus resp) ?pay t (w_store w) = (None, w_store w')"
    by (auto simp: answered_def marshalled [OF san(1) assms(3)])
  from saved_response [OF save san(1) assms(3,2) san(2)] assms(5,6,11) obtain j
    where j: "x = Some (Resp_CurrentStatus resp, JDoc j)" "UnmarshalResponse (JDoc j) = Some resp" by metis
  have "op_GetByIdempotencyKey ops (Req_MerchantID r) (Req_IdempotencyKey r) (w_store w2)
      = Inr (Some (Resp_CurrentStatus resp, JDoc j))"
    using assms(10,11) j(1) by simp
  from CreatePayment_replay [OF assms(7-9) this] replay_stored [OF san(1) j(2)]
  show ?thesis by simp
qed

end

context transaction_store
begin

lemma saved_response_found:
  assumes "op_Save ops m p k st (JDoc (enc_PaymentResponse r)) t s = (None, s')"
    and "Sanitized r = r" "json_ok (enc_PaymentResponse r)" "utf8_PaymentResponse r" "Resp_ID r \<noteq> ''''"
    and "op_GetByIdempotencyKey ops m k s' = Inr x"
  shows "\<exists>j. x = Some (st, JDoc j) \<and> UnmarshalResponse (JDoc j) = Some r"
  using save_get [OF assms(1)] assms(6) stored_payload [OF assms(2-5)] by simp

end

interpretation mem_responses: response_store mem_ops
  by unfold_locales (rule mem.saved_response_found)

sublocale transaction_store \<subseteq> response_store ops
  by unfold_locales (rule saved_response_found)

text \<open>
  C2: Idempotency. After a new payment whose identifiers are not padded, any further call with
  the merchant and the idempotency key, whatever its body, whatever happened in between to
  other keys, answers the same response and does nothing else but log it: no adapter call, no
  token, no notification, no change of the store, the statuses or the antifraud history. The
  response must be one that can be encoded (UTF-8 texts, finite amounts, years 0 to 9999).
\<close>

theorem CreatePayment_idempotent:
  assumes "new_payment mem_ops req w" and "CreatePayment mem_ops e req w = ((resp, err), w')"
    and "TrimSpace (Req_MerchantID req) = Req_MerchantID req"
    and "TrimSpace (Req_IdempotencyKey req) = Req_IdempotencyKey req"
    and "TrimSpace (Req_PaymentID req) = Req_PaymentID req"
    and "utf8_PaymentResponse resp" and "json_ok (enc_PaymentResponse resp)"
    and "Req_MerchantID again = Req_MerchantID req" "Req_IdempotencyKey again = Req_IdempotencyKey req"
    and "Req_PaymentID again \<noteq> ''''"
    and "mem_GetByIdempotencyKey (Req_MerchantID req) (Req_IdempotencyKey req) (w_store w2)
      = mem_GetByIdempotencyKey (Req_MerchantID req) (Req_IdempotencyKey req) (w_store w')"
  shows "\<exists>w3. CreatePayment mem_ops e2 again w2 = ((resp, None), w3) \<and> w_store w3 = w_store w2
    \<and> w_calls w3 = w_calls w2 \<and> w_notes w3 = w_notes w2 \<and> w_tokens w3 = w_tokens w2
    \<and> w_status w3 = w_status w2 \<and> w_velocity w3 = w_velocity w2 \<and> w_sessions w3 = w_sessions w2"
proof -
  note ids = assms(1) [unfolded new_payment_def]
  have saved: "\<exists>q w1. answered mem_ops q resp None w1 w' \<and> Req_MerchantID q = Req_MerchantID req
      \<and> Req_IdempotencyKey q = Req_IdempotencyKey req \<and> Req_PaymentID q = Req_PaymentID req"
  proof -
    from assms(1,2) obtain q se w1 where q: "answered mem_ops q resp se w1 w'"
      "Req_MerchantID q = Req_MerchantID req" "Req_IdempotencyKey q = Req_IdempotencyKey req"
      "Req_PaymentID q = Req_PaymentID req"
      by (cases rule: new_payment_cases)
        (auto simp: normalizeRequest_def assms(3-5))
    then have "mustMarshalPaymentResponse resp = JDoc (enc_PaymentResponse resp)"
      using marshalled assms(7) by (auto simp: answered_def)
    moreover obtain j where "save_payload (JDoc (enc_PaymentResponse resp)) = Inr (JDoc j)"
      using save_payload_doc by blast
    ultimately have "se = None"
      using q ids by (auto simp: answered_def mem_Save_def Let_def)
    with q show ?thesis by blast
  qed
  then obtain q w1 where q: "answered mem_ops q resp None w1 w'" "Req_MerchantID q = Req_MerchantID req"
    "Req_IdempotencyKey q = Req_IdempotencyKey req" "Req_PaymentID q = Req_PaymentID req" by blast
  have "\<exists>x. mem_GetByIdempotencyKey (Req_MerchantID again) (Req_IdempotencyKey again) (w_store w') = Inr x"
    using ids assms(8,9) by (auto simp: mem_GetByIdempotencyKey_def split: option.split)
  with q show ?thesis
    using mem_responses.answered_replay [where r = again and e = e2 and ?w2.0 = w2, unfolded mem_ops_simps]
      assms(6-11) ids by auto
qed

text \<open>A run that ends at the validation, to evaluate: the context is cancelled.\<close>

definition cancelled_env :: env where
  "cancelled_env = sample_env\<lparr>env_ctx := \<lambda>_. Some ''context canceled''\<rparr>"

definition bare_request :: CreatePaymentRequest where
  "bare_request = (zero_request '''')\<lparr>Req_MerchantID := ''m'', Req_IdempotencyKey := ''k'',
     Req_PaymentID := ''p''\<rparr>"

definition bare_response :: PaymentResponse where
  "bare_response = zero_response\<lparr>Resp_ID := ''p'', Resp_MerchantID := ''m'', Resp_IdempotencyKey := ''k'',
     Resp_CurrentStatus := StatusFailed,
     Resp_PaymentInfo := (Resp_PaymentInfo zero_response)\<lparr>RInfo_UpdatedAt := Date 2026 5 1\<rparr>,
     Resp_Error := Some \<lparr>Err_Code = ErrorValidation, Err_Message = ''context canceled''\<rparr>\<rparr>"

lemma bare_new: "new_payment mem_ops bare_request sample_world"
  by (simp add: new_payment_def bare_request_def sample_world_def mem_GetByIdempotencyKey_def
      NewInMemoryTransactionStore_def)

lemma bare_validation: "validation cancelled_env bare_request w
    = (Request_WithoutSensitive bare_request, Some ''context canceled'')"
  by (simp add: validation_def Validate_def cancelled_env_def Let_def)

lemma bare_run_any:
  fixes w :: "'s world"
  assumes "new_payment ops bare_request w"
  shows "\<exists>err w'. CreatePayment ops cancelled_env bare_request w = ((bare_response, err), w')"
proof -
  have safe: "Request_WithoutSensitive bare_request = bare_request"
    by (simp add: bare_request_def zero_request_def zero_customer_def Request_WithoutSensitive_def
        Customer_WithoutSensitive_def)
  have err: "NewGatewayError ErrorValidation ''context canceled''
      = \<lparr>Err_Code = ErrorValidation, Err_Message = ''context canceled''\<rparr>"
    by (simp add: NewGatewayError_def lit go_eval)
  have "fail_response bare_request StatusFailed ErrorValidation ''context canceled'' ''validator'' (Date 2026 5 1)
      = bare_response"
    by (simp add: fail_response_def buildErrorResponse_def bare_response_def bare_request_def err
        response_info_def zero_request_def Sanitized_def Customer_Sanitized_def no_ruble_data_def
        Customer_WithoutSensitive_def zero_defs Let_def MaskCardNumber_def, simp add: lit)
  moreover have clock: "now cancelled_env w = Date 2026 5 1" "env_ctx cancelled_env n = Some ''context canceled''"
    for w :: "'s world" and n
    by (simp_all add: cancelled_env_def sample_env_def now_def)
  ultimately show ?thesis
    unfolding CreatePayment_new [OF assms]
    by (simp add: process_def safe Validate_def clock failAndSave_def Let_def split: prod.splits)
qed

lemma bare_run: "\<exists>err w'. CreatePayment mem_ops cancelled_env bare_request sample_world = ((bare_response, err), w')"
  by (rule bare_run_any [OF bare_new])

lemma bare_encodes: "utf8_PaymentResponse bare_response" "json_ok (enc_PaymentResponse bare_response)"
proof -
  show "utf8_PaymentResponse bare_response"
    by (simp add: bare_response_def zero_defs utf8_PaymentResponse_def utf8_PaymentInfoResponse_def
        utf8_AmountMoney_def utf8_PaymentMethodData_def utf8_CustomerData_def utf8_GatewayError_def
        utf8_DigitalRubleData_def utf8_TransactionDetails_def lit is_ascii_def byte_def)
  show "json_ok (enc_PaymentResponse bare_response)"
    by (simp add: bare_response_def zero_defs enc_PaymentResponse_def enc_PaymentInfoResponse_def
        enc_AmountMoney_def enc_PaymentMethodData_def enc_CustomerData_def enc_GatewayError_def
        enc_DigitalRubleData_def enc_TransactionDetails_def emit_str_def omit_str_def
        omit_bool_def omit_items_def year_ok_def zero_time_def Date_def days_from_civil_def Let_def)
qed

theorem CreatePayment_idempotent_witness:
  "\<exists>w3. CreatePayment mem_ops sample_env bare_request
      (snd (CreatePayment mem_ops cancelled_env bare_request sample_world)) = ((bare_response, None), w3)"
proof -
  obtain err w' where run:
    "CreatePayment mem_ops cancelled_env bare_request sample_world = ((bare_response, err), w')"
    using bare_run by blast
  have ids: "Req_MerchantID bare_request = ''m''" "Req_IdempotencyKey bare_request = ''k''"
    "Req_PaymentID bare_request = ''p''" by (simp_all add: bare_request_def)
  have trim: "TrimSpace ''m'' = ''m''" "TrimSpace ''k'' = ''k''" "TrimSpace ''p'' = ''p''"
    by (simp_all add: go_eval)
  show ?thesis
    using CreatePayment_idempotent [OF bare_new run _ _ _ bare_encodes, of bare_request w' sample_env]
    by (auto simp: run ids trim)
qed

text \<open>
  A padded key is never replayed. The key is looked up as it came, but the payment is saved
  under the trimmed identifiers of the validated request; so after an accepted request whose
  merchant or idempotency key has white space around it, the very same request is a new payment
  once more, and the adapter is called for it again.
\<close>

theorem CreatePayment_padded_key:
  assumes "new_payment mem_ops req w" and "snd (validation e req w) = None"
    and "TrimSpace (Req_MerchantID req) \<noteq> Req_MerchantID req
      \<or> TrimSpace (Req_IdempotencyKey req) \<noteq> Req_IdempotencyKey req"
    and "colon_free (Req_MerchantID req)" "colon_free (TrimSpace (Req_MerchantID req))"
  shows "new_payment mem_ops req (snd (CreatePayment mem_ops e req w))
    \<and> CreatePayment mem_ops e req (snd (CreatePayment mem_ops e req w))
      = process mem_ops e req (Request_WithoutSensitive req) (snd (CreatePayment mem_ops e req w))"
proof -
  obtain resp err w' where run: "CreatePayment mem_ops e req w = ((resp, err), w')"
    by (metis prod.collapse)
  let ?q = "Request_WithoutSensitive (normalizeRequest req)"
  have "\<exists>w1 se. answered mem_ops ?q resp se w1 w' \<and> w_store w1 = w_store w"
    using assms(1) run
  proof (cases rule: new_payment_cases)
    case (failed q k evs)
    then show ?thesis using assms(2) by auto
  next
    case (sent v ps tok n se evs)
    then show ?thesis by auto
  qed
  then obtain pay st t se where save: "mem_Save (TrimSpace (Req_MerchantID req))
      (TrimSpace (Req_PaymentID req)) (TrimSpace (Req_IdempotencyKey req)) st pay t (w_store w)
      = (se, w_store w')"
    by (auto simp: answered_def normalizeRequest_def)
  have "mem_GetByIdempotencyKey (Req_MerchantID req) (Req_IdempotencyKey req) (w_store w')
      = mem_GetByIdempotencyKey (Req_MerchantID req) (Req_IdempotencyKey req) (w_store w)"
    by (rule mem_save_frame(1) [OF save assms(5,4)]) (use assms(3) in auto)
  then have "new_payment mem_ops req w'"
    using assms(1) by (simp add: new_payment_def)
  then show ?thesis by (simp add: run CreatePayment_new)
qed

theorem CreatePayment_padded_key_witness:
  "new_payment mem_ops sample_request
    (snd (CreatePayment mem_ops sample_env sample_request sample_world))"
proof -
  have trim: "TrimSpace ''merchant_1 '' = ''merchant_1''" by (simp add: go_eval)
  have merchant: "Req_MerchantID sample_request = ''merchant_1 ''" by (simp add: sample_request_def)
  show ?thesis
    using CreatePayment_padded_key [OF sample_new, of sample_env]
    by (simp add: validation_sample merchant trim colon_free_def)
qed

text \<open>
  C9: What a failing store is worth. If the store refuses every save, a payment that was sent to
  an adapter is answered without an error although nothing of it is stored, so the next call
  with the same key is a new payment; the error is reported only for a payment that was never
  sent.
\<close>

theorem CreatePayment_save_error:
  assumes "new_payment ops req w" and "CreatePayment ops e req w = ((resp, err), w')"
    and "\<And>m p k st pay t. op_Save ops m p k st pay t (w_store w) = (Some saveErr, w_store w)"
  shows "new_payment ops req w' \<and> w_store w' = w_store w
    \<and> err = (if w_calls w' = w_calls w then Some saveErr else None)"
proof -
  from assms(1,2) have "w_store w' = w_store w \<and> err = (if w_calls w' = w_calls w then Some saveErr else None)"
    by (cases rule: new_payment_cases) (auto simp: answered_def assms(3))
  then show ?thesis using assms(1) by (simp add: new_payment_def)
qed

definition full_disk :: "InMemoryTransactionStore store_ops" where
  "full_disk = mem_ops\<lparr>op_Save := \<lambda>_ _ _ _ _ _ s. (Some ''disk full'', s)\<rparr>"

theorem CreatePayment_save_error_witness:
  "w_store (snd (CreatePayment full_disk sample_env sample_request sample_world)) = w_store sample_world"
proof -
  obtain resp err w' where run:
    "CreatePayment full_disk sample_env sample_request sample_world = ((resp, err), w')"
    by (metis prod.collapse)
  have "new_payment full_disk sample_request sample_world"
    using sample_new by (simp add: new_payment_def full_disk_def)
  moreover have "op_Save full_disk m p k st pay t s = (Some ''disk full'', s)" for m p k st pay t s
    by (simp add: full_disk_def)
  ultimately show ?thesis
    using CreatePayment_save_error [OF _ run, of "''disk full''"] by (simp add: run)
qed

end
