(* ===== verification/Http.thy ===== *)
theory Http
  imports Json
begin

section \<open>HTTP requests and replies\<close>

text \<open>
  What the handlers use of \<open>net/http\<close>. A request has its method, path, \<open>URL.RequestURI()\<close>, header and
  query lookups (\<open>Header.Get\<close> and \<open>Query().Get\<close>, \<open>""\<close> for a missing name), the outcome of
  \<open>ParseForm\<close> and its body. \<open>Hr_TLS\<close> is \<open>r.TLS != nil\<close>, and \<open>Hr_Scheme\<close> is \<open>r.URL.Scheme\<close>: empty when the target is a path,
  but the client's own text when the request line has a whole URL. The body is given as its bytes together with the document they parse
  to as a whole (what \<open>json.Unmarshal\<close> reads) and the first value in them (what a \<open>Decoder\<close>
  reads), if there is one: the syntax of JSON texts is not modelled (see \<open>Json\<close>). Reading may
  fail; a failed read and a missing body are bodies of their own.

  A reply is a status and a body, the text of a document as its tree. \<open>json.NewEncoder(w)\<close>
  writes nothing when the value cannot be encoded, after the status is already sent.
\<close>

datatype http_body = Body_nil | Body_data gostring "json option" "json option" | Body_error goerror

record http_request =
  Hr_Method :: gostring
  Hr_Path :: gostring
  Hr_URI :: gostring
  Hr_Header :: "gostring \<Rightarrow> gostring"
  Hr_Query :: "gostring \<Rightarrow> gostring"
  Hr_Form :: "(gostring \<Rightarrow> gostring) result"
  Hr_Body :: http_body
  Hr_RemoteAddr :: gostring
  Hr_TLS :: bool
  Hr_Scheme :: gostring

type_synonym http_reply = "int \<times> jtext"

definition reply_json :: "int \<Rightarrow> json \<Rightarrow> http_reply" where
  "reply_json status j = (status, case Marshal j of Inr t \<Rightarrow> t | Inl _ \<Rightarrow> JRaw '''')"

definition reply_text :: "int \<Rightarrow> gostring \<Rightarrow> http_reply" where
  "reply_text status s = (status, JRaw s)"

text \<open>The error body \<open>{"code": ..., "message": ...}\<close>.\<close>

definition enc_code_message :: "gostring \<Rightarrow> gostring \<Rightarrow> json" where
  "enc_code_message code msg = JObj (emit_str ''code'' code @ emit_str ''message'' msg)"

text \<open>\<open>io.ReadAll(r.Body)\<close> and \<open>json.NewDecoder(r.Body).Decode\<close> into a struct.\<close>

definition readAndRestoreBody :: "http_request \<Rightarrow> gostring result" where
  "readAndRestoreBody r = (case Hr_Body r of
     Body_nil \<Rightarrow> Inr '''' | Body_data b _ _ \<Rightarrow> Inr b | Body_error e \<Rightarrow> Inl e)"

definition body_json :: "http_request \<Rightarrow> json option" where
  "body_json r = (case Hr_Body r of Body_data _ whole _ \<Rightarrow> whole | _ \<Rightarrow> None)"

definition body_first :: "http_request \<Rightarrow> json option" where
  "body_first r = (case Hr_Body r of Body_data _ _ first \<Rightarrow> first | _ \<Rightarrow> None)"

definition decode_body :: "'r jfields \<Rightarrow> 'r \<Rightarrow> http_request \<Rightarrow> 'r option" where
  "decode_body T zero r = (case body_first r of None \<Rightarrow> None | Some j \<Rightarrow> dec_struct T j zero)"

text \<open>\<open>strconv.ParseInt(s, 10, 64)\<close>.\<close>

definition digits_value :: "gostring \<Rightarrow> int" where
  "digits_value s = foldl (\<lambda>n c. 10 * n + (int (byte c) - 48)) 0 s"

definition ParseInt64 :: "gostring \<Rightarrow> int option" where
  "ParseInt64 s =
     (let neg = HasPrefix s ''-''; d = (if neg \<or> HasPrefix s ''+'' then drop 1 s else s);
          v = (if neg then - digits_value d else digits_value d)
      in if d = '''' \<or> \<not> list_all (\<lambda>c. is_digit (byte c)) d \<or> v < - (2 ^ 63) \<or> 2 ^ 63 \<le> v
         then None else Some v)"

text \<open>\<open>time.Parse\<close> by layout; \<open>None\<close> for an error.\<close>

type_synonym time_parser = "gostring \<Rightarrow> gostring \<Rightarrow> gotime option"

definition RFC3339 :: gostring where "RFC3339 = ''2006-01-02T15:04:05Z07:00''"

text \<open>\<open>firstNonEmpty\<close>, which several handlers define alike.\<close>

fun firstNonEmpty :: "gostring list \<Rightarrow> gostring" where
  "firstNonEmpty [] = ''''"
| "firstNonEmpty (v # vs) = (if TrimSpace v \<noteq> '''' then TrimSpace v else firstNonEmpty vs)"

lemma reply_json_status [simp]: "fst (reply_json st j) = st"
  by (simp add: reply_json_def)

lemma firstNonEmpty_trimmed: "firstNonEmpty vs = '''' \<longleftrightarrow> list_all (\<lambda>v. TrimSpace v = '''') vs"
  by (induction vs) auto

end
