(* ===== verification/Merchant_Auth.thy ===== *)
theory Merchant_Auth
  imports Http
begin

section \<open>Merchant authentication and authorization (\<open>internal/subsystems/merchantauth\<close>)\<close>

text \<open>
  \<open>auth.go\<close> checks the four headers, the API key, the timestamp and the signature of a request
  and puts the merchant into the request context; \<open>authorization.go\<close> decides who may read
  and write a merchant's data; \<open>static_store.go\<close> and \<open>postgres_store.go\<close> provide the
  merchants. SHA-256 and HMAC-SHA-256 (hex encoded) are parameters. A context holds the
  merchant that \<open>WithMerchant\<close> put there, or none.

  The contract of a merchant provider is the locale \<open>merchant_provider\<close>, interpreted on both
  stores: a lookup returns the merchant that was asked for.
\<close>

definition HeaderMerchantID :: gostring where [lit]: "HeaderMerchantID = ''X-Merchant-ID''"
definition HeaderAPIKey :: gostring where [lit]: "HeaderAPIKey = ''X-API-Key''"
definition HeaderTimestamp :: gostring where [lit]: "HeaderTimestamp = ''X-Timestamp''"
definition HeaderSignature :: gostring where [lit]: "HeaderSignature = ''X-Signature''"

definition RoleMerchant :: gostring where [lit]: "RoleMerchant = ''merchant''"
definition RoleAdmin :: gostring where [lit]: "RoleAdmin = ''admin''"
definition RoleAuditor :: gostring where [lit]: "RoleAuditor = ''auditor''"

record Merchant =
  Merchant_ID :: gostring
  Merchant_Name :: gostring
  Merchant_APIKeyHash :: gostring
  Merchant_SecretKey :: gostring
  Merchant_Role :: gostring
  Merchant_Active :: bool

definition NormalizeRole :: "gostring \<Rightarrow> gostring" where
  "NormalizeRole role = (let r = ToLower (TrimSpace role) in
     if r \<in> {RoleMerchant, RoleAdmin, RoleAuditor} then r else '''')"

text \<open>The context value; \<open>WithMerchant\<close> stores it and \<open>MerchantFromContext\<close> reads it.\<close>

type_synonym auth_context = "Merchant option"

definition WithMerchant :: "Merchant \<Rightarrow> auth_context" where
  "WithMerchant m = Some (m\<lparr>Merchant_Role := NormalizeRole (Merchant_Role m)\<rparr>)"

definition MerchantFromContext :: "auth_context \<Rightarrow> Merchant option" where
  "MerchantFromContext ctx = (case ctx of
     None \<Rightarrow> None
   | Some m \<Rightarrow>
       (let m = m\<lparr>Merchant_Role := NormalizeRole (Merchant_Role m)\<rparr>
        in if Merchant_Role m = '''' then None else Some m))"

subsection \<open>Authentication\<close>

text \<open>The digests: \<open>au_sha256\<close> and \<open>au_hmac secret message\<close>, both hex encoded, and the clock.\<close>

record auth_env =
  au_sha256 :: "gostring \<Rightarrow> gostring"
  au_hmac :: "gostring \<Rightarrow> gostring \<Rightarrow> gostring"
  au_now :: gotime

definition timestampWindow :: int where "timestampWindow = 5 * Minute"

definition validateTimestamp :: "gotime \<Rightarrow> gostring \<Rightarrow> goerror option" where
  "validateTimestamp now timestamp = (case ParseInt64 timestamp of
     None \<Rightarrow> Some ''invalid timestamp''
   | Some unix \<Rightarrow>
       (let t = unix * Second in
        if t < now - timestampWindow \<or> now + timestampWindow < t
        then Some ''timestamp is outside the allowed window'' else None))"

definition canonical :: "(gostring \<Rightarrow> gostring) \<Rightarrow> gostring \<Rightarrow> gostring \<Rightarrow> gostring \<Rightarrow> gostring \<Rightarrow> gostring" where
  "canonical sha256 timestamp meth requestURI body =
     Join [timestamp, ToUpper meth, requestURI, sha256 body] ''.''"

definition BuildSignature :: "auth_env \<Rightarrow> gostring \<Rightarrow> gostring \<Rightarrow> gostring \<Rightarrow> gostring \<Rightarrow> gostring \<Rightarrow> gostring" where
  "BuildSignature a secret timestamp meth requestURI body =
     au_hmac a secret (canonical (au_sha256 a) timestamp meth requestURI body)"

text \<open>
  The body's \<open>merchant_id\<close>: a struct with this one field. The body has its bytes and the
  document they parse to.
\<close>

definition checkBodyMerchantID :: "gostring \<Rightarrow> json option \<Rightarrow> gostring \<Rightarrow> goerror option" where
  "checkBodyMerchantID body doc headerMerchantID =
     (if TrimSpace body = '''' then Some ''empty request body''
      else (case doc of
        None \<Rightarrow> Some ''invalid json body''
      | Some j \<Rightarrow> (case dec_struct [(''merchant_id'', dec_str (\<lambda>f s. f s))] j '''' of
          None \<Rightarrow> Some ''invalid json body''
        | Some mid \<Rightarrow>
            if TrimSpace mid = '''' then Some ''merchant_id is required in request body''
            else if mid \<noteq> headerMerchantID
            then Some ''merchant_id in body does not match X-Merchant-ID''
            else None)))"

type_synonym merchant_lookup = "gostring \<Rightarrow> Merchant option result"

definition AuthenticateMerchant :: "auth_env \<Rightarrow> merchant_lookup option \<Rightarrow> http_request \<Rightarrow> Merchant result" where
  "AuthenticateMerchant a provider r = (case provider of
     None \<Rightarrow> Inl ''merchant authentication is not configured''
   | Some lookup \<Rightarrow>
      (let merchantID = TrimSpace (Hr_Header r HeaderMerchantID);
           apiKey = TrimSpace (Hr_Header r HeaderAPIKey);
           timestamp = TrimSpace (Hr_Header r HeaderTimestamp);
           signature = TrimSpace (Hr_Header r HeaderSignature)
       in if merchantID = '''' \<or> apiKey = '''' \<or> timestamp = '''' \<or> signature = ''''
          then Inl ''missing merchant authentication headers''
          else (case lookup merchantID of
            Inl err \<Rightarrow> Inl (''merchant lookup failed: '' @ err)
          | Inr None \<Rightarrow> Inl ''merchant is not found or disabled''
          | Inr (Some merchant) \<Rightarrow>
              if \<not> Merchant_Active merchant then Inl ''merchant is not found or disabled''
              else
                let merchant = merchant\<lparr>Merchant_Role := NormalizeRole (Merchant_Role merchant)\<rparr> in
                if Merchant_Role merchant = '''' then Inl ''merchant role is not allowed''
                else if au_sha256 a apiKey \<noteq> Merchant_APIKeyHash merchant then Inl ''invalid api key''
                else (case validateTimestamp (au_now a) timestamp of
                  Some err \<Rightarrow> Inl err
                | None \<Rightarrow> (case readAndRestoreBody r of
                    Inl err \<Rightarrow> Inl (''request body read failed: '' @ err)
                  | Inr body \<Rightarrow>
                      (case (if Hr_Method r = ''POST'' \<and> Hr_Path r = ''/payments''
                             then checkBodyMerchantID body (body_json r) merchantID else None) of
                        Some err \<Rightarrow> Inl err
                      | None \<Rightarrow>
                          if signature \<noteq> BuildSignature a (Merchant_SecretKey merchant) timestamp
                            (Hr_Method r) (Hr_URI r) body
                          then Inl ''invalid request signature''
                          else Inr merchant))))))"

text \<open>\<open>Middleware\<close>: a handler takes the context, the request and its own state.\<close>

type_synonym 's handler = "auth_context \<Rightarrow> http_request \<Rightarrow> 's \<Rightarrow> http_reply \<times> 's"

definition writeAuthError :: "goerror \<Rightarrow> http_reply" where
  "writeAuthError err = reply_json 401 (enc_code_message ErrorAuthentication err)"

definition Middleware :: "auth_env \<Rightarrow> merchant_lookup option \<Rightarrow> 's handler \<Rightarrow> http_request \<Rightarrow> 's \<Rightarrow>
    http_reply \<times> 's" where
  "Middleware a provider nxt r s = (case AuthenticateMerchant a provider r of
     Inl err \<Rightarrow> (writeAuthError err, s)
   | Inr merchant \<Rightarrow> nxt (WithMerchant merchant) r s)"

subsection \<open>Authorization\<close>

definition CanReadMerchantData :: "Merchant \<Rightarrow> gostring \<Rightarrow> bool" where
  "CanReadMerchantData merchant target =
     (let target = TrimSpace target; role = NormalizeRole (Merchant_Role merchant) in
      if target = '''' then False
      else if role \<in> {RoleAdmin, RoleAuditor} then True
      else if role = RoleMerchant then Merchant_ID merchant = target
      else False)"

definition CanWriteMerchantData :: "Merchant \<Rightarrow> gostring \<Rightarrow> bool" where
  "CanWriteMerchantData merchant target =
     (let target = TrimSpace target; role = NormalizeRole (Merchant_Role merchant) in
      if target = '''' then False
      else if role = RoleAdmin then True
      else if role = RoleMerchant then Merchant_ID merchant = target
      else False)"

definition LogAuthorizationFailed :: "Merchant \<Rightarrow> gostring \<Rightarrow> gostring \<Rightarrow> gostring \<Rightarrow> gotime \<Rightarrow> PaymentEvent" where
  "LogAuthorizationFailed merchant target endpoint reason now =
     (let role = NormalizeRole (Merchant_Role merchant);
          role = (if role = '''' then ''unknown'' else role)
      in \<lparr>Ev_Type = EventAuthorizationFailed, Ev_Level = LogLevelWarn, Ev_Service = ''api_gateway'',
          Ev_MerchantID = Merchant_ID merchant, Ev_PaymentID = '''', Ev_IdempotencyKey = '''',
          Ev_CorrelationID = Merchant_ID merchant, Ev_CurrentStatus = '''', Ev_Timestamp = now,
          Ev_Message = ''Authorization failed'', Ev_Details = reason,
          Ev_Context = [(''role'', role), (''target_merchant_id'', TrimSpace target),
            (''endpoint'', endpoint), (''authorization_failure'', reason)]\<rparr>)"

subsection \<open>The merchant stores\<close>

definition getenv_or :: "(gostring \<Rightarrow> gostring) \<Rightarrow> gostring \<Rightarrow> gostring \<Rightarrow> gostring" where
  "getenv_or env key fallback = (if env key \<noteq> '''' then env key else fallback)"

definition default_merchant_name :: gostring where
  "default_merchant_name = koi8 ''dEMONSTRACIONNYJ INTERNET-MAGAZIN''"

definition NewStaticMerchantStoreFromEnv :: "(gostring \<Rightarrow> gostring) \<Rightarrow> (gostring \<Rightarrow> gostring) \<Rightarrow> Merchant" where
  "NewStaticMerchantStoreFromEnv sha256 env =
     \<lparr>Merchant_ID = getenv_or env ''MERCHANT_ID'' ''merchant_12345'',
      Merchant_Name = getenv_or env ''MERCHANT_NAME'' default_merchant_name,
      Merchant_APIKeyHash = sha256 (getenv_or env ''MERCHANT_API_KEY'' ''demo_api_key''),
      Merchant_SecretKey = getenv_or env ''MERCHANT_SECRET_KEY'' ''demo_secret_key'',
      Merchant_Role = getenv_or env ''MERCHANT_ROLE'' RoleMerchant, Merchant_Active = True\<rparr>"

definition static_GetByID :: "Merchant option \<Rightarrow> merchant_lookup" where
  "static_GetByID s merchantID = (case s of
     None \<Rightarrow> Inr None
   | Some m \<Rightarrow> if merchantID \<noteq> Merchant_ID m then Inr None else Inr (Some m))"

text \<open>
  The table \<open>merchants\<close> is the list of its rows, \<open>merchant_id\<close> being unique; the secret key of a
  row is protected. \<open>Inl\<close> is a failing query. \<open>reveal\<close> and \<open>protect\<close> are the secret protector's.
\<close>

type_synonym merchant_table = "Merchant list"

definition pg_GetByID :: "(gostring \<Rightarrow> gostring result) \<Rightarrow> merchant_table result \<Rightarrow> merchant_lookup" where
  "pg_GetByID reveal db merchantID = (case db of
     Inl err \<Rightarrow> Inl err
   | Inr rows \<Rightarrow> (case List.find (\<lambda>row. Merchant_ID row = merchantID) rows of
       None \<Rightarrow> Inr None
     | Some row \<Rightarrow> (case reveal (Merchant_SecretKey row) of
         Inl err \<Rightarrow> Inl (''merchant secret reveal failed: '' @ err)
       | Inr secretKey \<Rightarrow> Inr (Some (row\<lparr>Merchant_SecretKey := secretKey\<rparr>)))))"

text \<open>\<open>INSERT ... ON CONFLICT (merchant_id) DO UPDATE\<close>.\<close>

definition upsert_merchant :: "Merchant \<Rightarrow> merchant_table \<Rightarrow> merchant_table" where
  "upsert_merchant m rows =
     (if Merchant_ID m \<in> set (map Merchant_ID rows)
      then map (\<lambda>row. if Merchant_ID row = Merchant_ID m then m else row) rows
      else rows @ [m])"

text \<open>An unset variable is \<open>""\<close>; both count as not given.\<close>

definition seedDefaultMerchant :: "(gostring \<Rightarrow> gostring) \<Rightarrow> (gostring \<Rightarrow> gostring result) \<Rightarrow>
    (gostring \<Rightarrow> gostring) \<Rightarrow> merchant_table \<Rightarrow> goerror option \<times> merchant_table" where
  "seedDefaultMerchant sha256 protect env rows =
     (let merchantID = TrimSpace (env ''MERCHANT_ID''); apiKey = TrimSpace (env ''MERCHANT_API_KEY'');
          secretKey = TrimSpace (env ''MERCHANT_SECRET_KEY'')
      in if merchantID = '''' \<and> apiKey = '''' \<and> secretKey = '''' then (None, rows)
         else if merchantID = '''' \<or> apiKey = '''' \<or> secretKey = ''''
         then (Some ''MERCHANT_ID, MERCHANT_API_KEY and MERCHANT_SECRET_KEY must be set together'', rows)
         else
           let merchantName = getenv_or env ''MERCHANT_NAME'' default_merchant_name;
               role = NormalizeRole (getenv_or env ''MERCHANT_ROLE'' RoleMerchant)
           in if role = '''' then (Some ''MERCHANT_ROLE must be one of: merchant, admin, auditor'', rows)
              else (case protect secretKey of
                Inl err \<Rightarrow> (Some (''merchant secret protection failed: '' @ err), rows)
              | Inr stored \<Rightarrow> (None, upsert_merchant
                  \<lparr>Merchant_ID = merchantID, Merchant_Name = merchantName,
                   Merchant_APIKeyHash = sha256 apiKey, Merchant_SecretKey = stored,
                   Merchant_Role = role, Merchant_Active = True\<rparr> rows)))"

subsection \<open>Facts\<close>

lemma role_neq [simp]: "RoleMerchant \<noteq> ''''" "RoleAdmin \<noteq> ''''" "RoleAuditor \<noteq> ''''"
  "RoleMerchant \<noteq> RoleAdmin" "RoleMerchant \<noteq> RoleAuditor" "RoleAdmin \<noteq> RoleAuditor"
  by (simp_all add: lit)

lemmas role_neq_sym [simp] = role_neq [symmetric]

lemma NormalizeRole_idem [simp]: "NormalizeRole (NormalizeRole r) = NormalizeRole r"
proof -
  have "NormalizeRole r \<in> {RoleMerchant, RoleAdmin, RoleAuditor, ''''}"
    by (auto simp: NormalizeRole_def Let_def)
  moreover have "NormalizeRole RoleMerchant = RoleMerchant" "NormalizeRole RoleAdmin = RoleAdmin"
    "NormalizeRole RoleAuditor = RoleAuditor" "NormalizeRole '''' = ''''"
    by (simp_all add: NormalizeRole_def lit go_eval)
  ultimately show ?thesis by auto
qed

lemma MerchantFromContext_WithMerchant:
  "MerchantFromContext (WithMerchant m)
    = (if NormalizeRole (Merchant_Role m) = '''' then None
       else Some (m\<lparr>Merchant_Role := NormalizeRole (Merchant_Role m)\<rparr>))"
  by (simp add: MerchantFromContext_def WithMerchant_def Let_def)

lemma NormalizeRole_range: "NormalizeRole r \<in> {RoleMerchant, RoleAdmin, RoleAuditor, ''''}"
  by (auto simp: NormalizeRole_def Let_def)

lemma context_role:
  assumes "MerchantFromContext ctx = Some m"
  shows "NormalizeRole (Merchant_Role m) = Merchant_Role m"
    and "Merchant_Role m \<in> {RoleMerchant, RoleAdmin, RoleAuditor}"
proof -
  from assms obtain x where x: "Merchant_Role m = NormalizeRole x" "Merchant_Role m \<noteq> ''''"
    by (auto simp: MerchantFromContext_def Let_def split: option.splits if_splits)
  then show "NormalizeRole (Merchant_Role m) = Merchant_Role m" by simp
  show "Merchant_Role m \<in> {RoleMerchant, RoleAdmin, RoleAuditor}"
    using x NormalizeRole_range [of x] by auto
qed

lemma write_implies_read: "CanWriteMerchantData m t \<Longrightarrow> CanReadMerchantData m t"
  by (auto simp: CanWriteMerchantData_def CanReadMerchantData_def Let_def split: if_splits)

lemma can_read_own:
  "CanReadMerchantData m t \<Longrightarrow> NormalizeRole (Merchant_Role m) = RoleMerchant \<Longrightarrow>
    Merchant_ID m = TrimSpace t"
  by (auto simp: CanReadMerchantData_def Let_def lit split: if_splits)

lemma can_write_own:
  "CanWriteMerchantData m t \<Longrightarrow> NormalizeRole (Merchant_Role m) \<noteq> RoleAdmin \<Longrightarrow>
    NormalizeRole (Merchant_Role m) = RoleMerchant \<and> Merchant_ID m = TrimSpace t"
  by (auto simp: CanWriteMerchantData_def Let_def split: if_splits)

lemma ParseInt64_no_dot:
  assumes "ParseInt64 s = Some n"
  shows "CHR ''.'' \<notin> set s"
proof
  assume dot: "CHR ''.'' \<in> set s"
  let ?d = "if HasPrefix s ''-'' \<or> HasPrefix s ''+'' then drop 1 s else s"
  have "list_all (\<lambda>c. is_digit (byte c)) ?d"
    using assms by (simp add: ParseInt64_def Let_def split: if_splits)
  moreover have "CHR ''.'' \<in> set ?d"
    using dot by (cases s) (auto simp: HasPrefix_def)
  ultimately show False by (auto simp: list_all_iff is_digit_def byte_def)
qed

lemma last_sep_inj:
  assumes "xs @ c # ys = us @ c # vs" "c \<notin> set ys" "c \<notin> set vs"
  shows "xs = us \<and> ys = vs"
proof -
  have "rev ys @ c # rev xs = rev vs @ c # rev us"
    using arg_cong [OF assms(1), of rev] by simp
  with append_sep_inj [of c "rev ys" "rev vs" "rev xs" "rev us"] assms(2,3) show ?thesis by simp
qed

locale merchant_provider =
  fixes lookup :: merchant_lookup
  assumes found_id: "lookup i = Inr (Some m) \<Longrightarrow> Merchant_ID m = i"
begin

lemma authenticated_id:
  assumes "AuthenticateMerchant a (Some lookup) r = Inr m"
  shows "Merchant_ID m = TrimSpace (Hr_Header r HeaderMerchantID)"
proof -
  from assms obtain m0 where "lookup (TrimSpace (Hr_Header r HeaderMerchantID)) = Inr (Some m0)"
    "m = m0\<lparr>Merchant_Role := NormalizeRole (Merchant_Role m0)\<rparr>"
    by (auto simp: AuthenticateMerchant_def Let_def split: if_splits sum.splits option.splits)
  with found_id show ?thesis by simp
qed

text \<open>What the handler behind the middleware is given.\<close>

lemma middleware_context:
  assumes "\<And>ctx s. P s \<Longrightarrow> ctx \<noteq> None \<Longrightarrow>
      Merchant_ID (the ctx) = TrimSpace (Hr_Header r HeaderMerchantID) \<Longrightarrow> Q (nxt ctx r s)"
    and "P s" and "\<And>err. Q (writeAuthError err, s)"
  shows "Q (Middleware a (Some lookup) nxt r s)"
proof (cases "AuthenticateMerchant a (Some lookup) r")
  case (Inr m)
  with authenticated_id have "Merchant_ID m = TrimSpace (Hr_Header r HeaderMerchantID)" .
  with assms(1) [OF assms(2), of "WithMerchant m"] Inr show ?thesis
    by (simp add: Middleware_def WithMerchant_def)
qed (simp add: Middleware_def assms(3))

end

interpretation static_provider: merchant_provider "static_GetByID s"
  by unfold_locales (auto simp: static_GetByID_def split: option.splits if_splits)

interpretation pg_provider: merchant_provider "pg_GetByID reveal db"
  by unfold_locales
    (auto simp: pg_GetByID_def split: sum.splits option.splits dest: find_Some_set)

lemma upsert_merchant_ids:
  "distinct (map Merchant_ID rows) \<Longrightarrow> distinct (map Merchant_ID (upsert_merchant m rows))"
  "set (map Merchant_ID (upsert_merchant m rows)) = insert (Merchant_ID m) (set (map Merchant_ID rows))"
proof -
  have same: "map Merchant_ID (map (\<lambda>row. if Merchant_ID row = Merchant_ID m then m else row) rows)
      = map Merchant_ID rows" by (induction rows) auto
  show "distinct (map Merchant_ID rows) \<Longrightarrow> distinct (map Merchant_ID (upsert_merchant m rows))"
    using same unfolding upsert_merchant_def by (simp del: map_map split: if_split)
  show "set (map Merchant_ID (upsert_merchant m rows)) = insert (Merchant_ID m) (set (map Merchant_ID rows))"
    using same unfolding upsert_merchant_def by (auto simp del: map_map split: if_split)
qed

lemma sum_case_accept:
  "(case b of Inl err \<Rightarrow> Inl (f err) | Inr body \<Rightarrow>
      (case if q then c body else None of Some err \<Rightarrow> Inl err | None \<Rightarrow>
         if d body then Inl g else Inr x)) = Inr m
    \<longleftrightarrow> (\<exists>body. b = Inr body \<and> (if q then c body = None else True) \<and> \<not> d body \<and> m = x)"
  by (cases b) (auto split: option.splits)

lemma AuthenticateMerchant_accepts:
  assumes hdrs: "mid = TrimSpace (Hr_Header r HeaderMerchantID)" "key = TrimSpace (Hr_Header r HeaderAPIKey)"
    "ts = TrimSpace (Hr_Header r HeaderTimestamp)" "sg = TrimSpace (Hr_Header r HeaderSignature)"
  shows "AuthenticateMerchant a (Some lookup) r = Inr m \<longleftrightarrow>
    (\<exists>m0 unix body. lookup mid = Inr (Some m0) \<and> Merchant_Active m0
      \<and> m = m0\<lparr>Merchant_Role := NormalizeRole (Merchant_Role m0)\<rparr>
      \<and> Merchant_Role m \<in> {RoleMerchant, RoleAdmin, RoleAuditor}
      \<and> mid \<noteq> [] \<and> key \<noteq> [] \<and> ts \<noteq> [] \<and> sg \<noteq> []
      \<and> au_sha256 a key = Merchant_APIKeyHash m0
      \<and> ParseInt64 ts = Some unix \<and> \<bar>unix * Second - au_now a\<bar> \<le> 5 * Minute
      \<and> readAndRestoreBody r = Inr body
      \<and> (if Hr_Method r = ''POST'' \<and> Hr_Path r = ''/payments''
         then checkBodyMerchantID body (body_json r) mid = None else True)
      \<and> sg = BuildSignature a (Merchant_SecretKey m0) ts (Hr_Method r) (Hr_URI r) body)"
    (is "_ = ?accepted")
proof -
  have role: "NormalizeRole x \<in> {RoleMerchant, RoleAdmin, RoleAuditor} \<longleftrightarrow> NormalizeRole x \<noteq> []" for x
    by (auto simp: NormalizeRole_def Let_def lit)
  have time: "validateTimestamp (au_now a) ts = None \<longleftrightarrow>
      (\<exists>unix. ParseInt64 ts = Some unix \<and> \<bar>unix * Second - au_now a\<bar> \<le> 5 * Minute)"
    by (auto simp: validateTimestamp_def timestampWindow_def Let_def split: option.splits)
  note auth = AuthenticateMerchant_def [of a "Some lookup" r, folded hdrs, unfolded Let_def option.case]
  show ?thesis
  proof (cases "\<exists>m0. lookup mid = Inr (Some m0) \<and> Merchant_Active m0 \<and> mid \<noteq> [] \<and> key \<noteq> []
      \<and> ts \<noteq> [] \<and> sg \<noteq> [] \<and> NormalizeRole (Merchant_Role m0) \<noteq> []
      \<and> au_sha256 a key = Merchant_APIKeyHash m0")
    case False
    then have "AuthenticateMerchant a (Some lookup) r \<noteq> Inr m"
      by (auto simp: auth split: sum.splits option.splits)
    moreover have "\<not> ?accepted" using False role by (auto simp del: insert_iff)
    ultimately show ?thesis by blast
  next
    case True
    then obtain m0 where ok: "lookup mid = Inr (Some m0)" "Merchant_Active m0" "mid \<noteq> []" "key \<noteq> []"
      "ts \<noteq> []" "sg \<noteq> []" "NormalizeRole (Merchant_Role m0) \<noteq> []"
      "au_sha256 a key = Merchant_APIKeyHash m0" by blast
    have known: "AuthenticateMerchant a (Some lookup) r = Inr m \<longleftrightarrow>
        validateTimestamp (au_now a) ts = None \<and> (\<exists>body. readAndRestoreBody r = Inr body
        \<and> (if Hr_Method r = ''POST'' \<and> Hr_Path r = ''/payments''
           then checkBodyMerchantID body (body_json r) mid = None else True)
        \<and> sg = BuildSignature a (Merchant_SecretKey m0) ts (Hr_Method r) (Hr_URI r) body
        \<and> m = m0\<lparr>Merchant_Role := NormalizeRole (Merchant_Role m0)\<rparr>)"
      by (simp add: auth ok sum_case_accept split: option.splits)
    have r: "Merchant_Role (m0\<lparr>Merchant_Role := NormalizeRole (Merchant_Role m0)\<rparr>)
      \<in> {RoleMerchant, RoleAdmin, RoleAuditor}" using role ok(7) by simp
    show ?thesis
    proof
      assume "AuthenticateMerchant a (Some lookup) r = Inr m"
      then obtain unix body where "ParseInt64 ts = Some unix" "\<bar>unix * Second - au_now a\<bar> \<le> 5 * Minute"
        "readAndRestoreBody r = Inr body" "if Hr_Method r = ''POST'' \<and> Hr_Path r = ''/payments''
           then checkBodyMerchantID body (body_json r) mid = None else True"
        "sg = BuildSignature a (Merchant_SecretKey m0) ts (Hr_Method r) (Hr_URI r) body"
        "m = m0\<lparr>Merchant_Role := NormalizeRole (Merchant_Role m0)\<rparr>"
        unfolding known time by blast
      with ok r show ?accepted by metis
    next
      assume ?accepted
      then obtain m1 unix body where acc: "lookup mid = Inr (Some m1)"
        "m = m1\<lparr>Merchant_Role := NormalizeRole (Merchant_Role m1)\<rparr>"
        "ParseInt64 ts = Some unix" "\<bar>unix * Second - au_now a\<bar> \<le> 5 * Minute"
        "readAndRestoreBody r = Inr body" "if Hr_Method r = ''POST'' \<and> Hr_Path r = ''/payments''
           then checkBodyMerchantID body (body_json r) mid = None else True"
        "sg = BuildSignature a (Merchant_SecretKey m1) ts (Hr_Method r) (Hr_URI r) body"
        by blast
      from acc(1) ok(1) have "m1 = m0" by simp
      with acc show "AuthenticateMerchant a (Some lookup) r = Inr m"
        unfolding known time by metis
    qed
  qed
qed

subsection \<open>Properties\<close>

text \<open>
  C10: Authentication accepts exactly the requests that carry the four headers, name an active
  merchant with a known role, hold its API key, are at most five minutes away from the clock,
  name the same merchant in the body when they create a payment, and are signed with its
  secret over timestamp, method, request URI and body; and the merchant it returns is the one
  looked up, with its role normalised.
\<close>

theorem AuthenticateMerchant_iff:
  fixes r :: http_request
  defines "hdr h \<equiv> TrimSpace (Hr_Header r h)"
  shows "AuthenticateMerchant a (Some lookup) r = Inr m \<longleftrightarrow>
    (\<exists>m0 unix body. lookup (hdr HeaderMerchantID) = Inr (Some m0) \<and> Merchant_Active m0
      \<and> m = m0\<lparr>Merchant_Role := NormalizeRole (Merchant_Role m0)\<rparr>
      \<and> Merchant_Role m \<in> {RoleMerchant, RoleAdmin, RoleAuditor}
      \<and> hdr HeaderMerchantID \<noteq> [] \<and> hdr HeaderAPIKey \<noteq> []
      \<and> hdr HeaderTimestamp \<noteq> [] \<and> hdr HeaderSignature \<noteq> []
      \<and> au_sha256 a (hdr HeaderAPIKey) = Merchant_APIKeyHash m0
      \<and> ParseInt64 (hdr HeaderTimestamp) = Some unix
      \<and> \<bar>unix * Second - au_now a\<bar> \<le> 5 * Minute
      \<and> readAndRestoreBody r = Inr body
      \<and> (if Hr_Method r = ''POST'' \<and> Hr_Path r = ''/payments''
         then checkBodyMerchantID body (body_json r) (hdr HeaderMerchantID) = None else True)
      \<and> hdr HeaderSignature = BuildSignature a (Merchant_SecretKey m0) (hdr HeaderTimestamp)
          (Hr_Method r) (Hr_URI r) body)"
  unfolding hdr_def by (rule AuthenticateMerchant_accepts) (rule refl)+

definition sample_auth :: auth_env where
  "sample_auth = \<lparr>au_sha256 = (\<lambda>x. ''h'' @ x), au_hmac = (\<lambda>k x. k @ x), au_now = 60 * Second\<rparr>"

definition sample_merchant :: Merchant where
  "sample_merchant = \<lparr>Merchant_ID = ''m'', Merchant_Name = ''shop'', Merchant_APIKeyHash = ''hkey'',
     Merchant_SecretKey = ''s'', Merchant_Role = RoleMerchant, Merchant_Active = True\<rparr>"

definition sample_http :: http_request where
  "sample_http = \<lparr>Hr_Method = ''GET'', Hr_Path = ''/refunds/search'', Hr_URI = ''/refunds/search'',
     Hr_Header = (\<lambda>h. if h = HeaderMerchantID then ''m'' else if h = HeaderAPIKey then ''key''
       else if h = HeaderTimestamp then ''90'' else if h = HeaderSignature then ''s90.GET./refunds/search.h''
       else ''''),
     Hr_Query = (\<lambda>q. if q = ''merchant_id'' then ''m'' else ''''), Hr_Form = Inr (\<lambda>_. ''''),
     Hr_Body = Body_nil, Hr_RemoteAddr = ''127.0.0.1:5000'', Hr_TLS = False, Hr_Scheme = ''''\<rparr>"

theorem AuthenticateMerchant_iff_witness:
  "AuthenticateMerchant sample_auth (Some (static_GetByID (Some sample_merchant))) sample_http
    = Inr sample_merchant"
proof -
  have trims: "TrimSpace ''m'' = ''m''" "TrimSpace ''key'' = ''key''" "TrimSpace ''90'' = ''90''"
    "TrimSpace ''s90.GET./refunds/search.h'' = ''s90.GET./refunds/search.h''" by (simp_all add: go_eval)
  have up: "ToUpper ''GET'' = ''GET''" by (simp add: go_eval)
  have role: "NormalizeRole RoleMerchant = RoleMerchant" by (simp add: NormalizeRole_def lit go_eval)
  have "ParseInt64 ''90'' = Some 90"
    by (simp add: ParseInt64_def digits_value_def HasPrefix_def byte_def is_digit_def)
  then show ?thesis
    using AuthenticateMerchant_iff [of sample_auth "static_GetByID (Some sample_merchant)" sample_http
        sample_merchant]
    by (simp add: sample_http_def sample_merchant_def sample_auth_def static_GetByID_def trims up role
        HeaderMerchantID_def HeaderAPIKey_def HeaderTimestamp_def HeaderSignature_def
        readAndRestoreBody_def BuildSignature_def canonical_def)
qed

text \<open>
  C11: The signed text determines what is signed: two requests with equal canonical texts have
  equal timestamps, methods up to capitalisation, request URIs and body digests, provided the
  timestamps are numbers and neither methods nor digests hold a dot. So a signature cannot be
  carried over to a request that differs in one of them, short of a collision of the digests.
\<close>

theorem canonical_injective:
  assumes "canonical sha ts m uri body = canonical sha ts' m' uri' body'"
    and "ParseInt64 ts = Some n" "ParseInt64 ts' = Some n'"
    and "CHR ''.'' \<notin> set (ToUpper m)" "CHR ''.'' \<notin> set (ToUpper m')"
    and "CHR ''.'' \<notin> set (sha body)" "CHR ''.'' \<notin> set (sha body')"
  shows "ts = ts' \<and> ToUpper m = ToUpper m' \<and> uri = uri' \<and> sha body = sha body'"
proof -
  have "ts @ CHR ''.'' # ToUpper m @ CHR ''.'' # uri @ CHR ''.'' # sha body
      = ts' @ CHR ''.'' # ToUpper m' @ CHR ''.'' # uri' @ CHR ''.'' # sha body'"
    using assms(1) by (simp add: canonical_def)
  from append_sep_inj [OF ParseInt64_no_dot [OF assms(2)] ParseInt64_no_dot [OF assms(3)] this]
  have ts: "ts = ts'" and rest: "ToUpper m @ CHR ''.'' # uri @ CHR ''.'' # sha body
      = ToUpper m' @ CHR ''.'' # uri' @ CHR ''.'' # sha body'" by auto
  from append_sep_inj [OF assms(4,5) rest]
  have m: "ToUpper m = ToUpper m'" and tail: "uri @ CHR ''.'' # sha body = uri' @ CHR ''.'' # sha body'"
    by auto
  from last_sep_inj [OF tail assms(6,7)] ts m show ?thesis by simp
qed

theorem canonical_injective_witness:
  "''/payments'' = ''/payments'' \<and> canonical (\<lambda>b. b) ''90'' ''get'' ''/payments'' ''ab''
     = canonical (\<lambda>b. b) ''90'' ''GET'' ''/payments'' ''ab''"
proof -
  have up: "ToUpper ''get'' = ''GET''" "ToUpper ''GET'' = ''GET''" by (simp_all add: go_eval)
  have same: "canonical (\<lambda>b. b) ''90'' ''get'' ''/payments'' ''ab''
     = canonical (\<lambda>b. b) ''90'' ''GET'' ''/payments'' ''ab''" by (simp add: canonical_def up)
  have "ParseInt64 ''90'' = Some 90"
    by (simp add: ParseInt64_def digits_value_def HasPrefix_def byte_def is_digit_def)
  with canonical_injective [OF same] same show ?thesis by (simp add: up)
qed

end
