(* ===== verification/Payments_Api.thy ===== *)
theory Payments_Api
  imports Payments Merchant_Auth
begin

section \<open>The payment endpoints (\<open>internal/httpapi/payments\<close>)\<close>

text \<open>
  \<open>POST /payments\<close> decodes the request, checks that the authenticated merchant may write the
  data of the named merchant and runs the orchestrator; \<open>GET /payments/{id}\<close> reads a stored
  response. Both run inside a server of go-kit, which is not part of the repository: it decodes,
  runs the endpoint and encodes, and hands an error of the decoder or of the endpoint to its
  error encoder, the parameter \<open>fail\<close>.

  The state of the handlers is the world of the orchestrator. A request that reaches them is
  decoded from the first JSON value of its body.
\<close>

subsection \<open>The JSON form of a request\<close>

definition zero_info :: PaymentInfo where
  "zero_info = \<lparr>Info_Amount = zero_amount, Info_PaymentMethodData = \<lparr>Method_Type = ''''\<rparr>,
     Info_CustomerData = zero_customer, Info_Items = [],
     Info_DigitalRubleData = \<lparr>DR_SmartContractID = '''', DR_RequireMarkedMoney = False\<rparr>,
     Info_CreatedAt = zero_time, Info_Description = ''''\<rparr>"

definition tab_PaymentInfo :: "PaymentInfo jfields" where
  "tab_PaymentInfo =
    [(''amount'', dec_sub Info_Amount Info_Amount_update tab_AmountMoney),
     (''payment_method_data'', dec_sub Info_PaymentMethodData Info_PaymentMethodData_update tab_PaymentMethodData),
     (''customer_data'', dec_sub Info_CustomerData Info_CustomerData_update tab_CustomerData),
     (''items'', dec_items Info_Items_update),
     (''digital_ruble_data'', dec_sub Info_DigitalRubleData Info_DigitalRubleData_update tab_DigitalRubleData),
     (''created_at'', dec_time Info_CreatedAt_update),
     (''description'', dec_str Info_Description_update)]"

definition zero_create_request :: CreatePaymentRequest where
  "zero_create_request = \<lparr>Req_MerchantID = '''', Req_IdempotencyKey = '''', Req_PaymentID = '''',
     Req_CurrentStatus = '''', Req_PaymentInfo = zero_info\<rparr>"

definition tab_CreatePaymentRequest :: "CreatePaymentRequest jfields" where
  "tab_CreatePaymentRequest =
    [(''merchant_id'', dec_str Req_MerchantID_update),
     (''idempotency_key'', dec_str Req_IdempotencyKey_update),
     (''payment_id'', dec_str Req_PaymentID_update),
     (''current_status'', dec_str Req_CurrentStatus_update),
     (''payment_info'', dec_sub Req_PaymentInfo Req_PaymentInfo_update tab_PaymentInfo)]"

subsection \<open>\<open>POST /payments\<close>\<close>

text \<open>The outcome of the endpoint: an \<open>errorResponse\<close> (code and message) or a response.\<close>

datatype endpoint_outcome = Failure gostring gostring | Answer PaymentResponse

definition createPaymentEndpoint :: "'s store_ops \<Rightarrow> env \<Rightarrow> auth_context \<Rightarrow> CreatePaymentRequest \<Rightarrow>
    's world \<Rightarrow> (endpoint_outcome \<times> goerror option) \<times> 's world" where
  "createPaymentEndpoint ops e ctx req w = (case MerchantFromContext ctx of
     None \<Rightarrow> ((Failure ErrorAuthContextMissing ''authenticated merchant context is required'', None), w)
   | Some authMerchant \<Rightarrow>
       if \<not> CanWriteMerchantData authMerchant (Req_MerchantID req)
       then ((Failure ErrorForbidden ''payment creation is not allowed for this role or merchant'', None),
             tick (w\<lparr>w_log := w_log w @ [LogAuthorizationFailed authMerchant (Req_MerchantID req)
               ''POST /payments'' ''payment creation is not allowed for this role or merchant'' (now e w)]\<rparr>))
       else (case CreatePayment ops e req w of
         ((resp, Some err), w') \<Rightarrow> ((Failure ErrorNotImplemented err, Some err), w')
       | ((resp, None), w') \<Rightarrow> ((Answer resp, None), w')))"

definition decodeCreatePaymentRequest :: "http_request \<Rightarrow> CreatePaymentRequest result" where
  "decodeCreatePaymentRequest r =
     (case decode_body tab_CreatePaymentRequest zero_create_request r of
        None \<Rightarrow> Inl ''invalid json'' | Some req \<Rightarrow> Inr req)"

text \<open>A response that cannot be encoded is an error of the encoder, with no status sent yet.\<close>

definition encodeCreatePaymentResponse :: "(goerror \<Rightarrow> http_reply) \<Rightarrow> endpoint_outcome \<Rightarrow> http_reply" where
  "encodeCreatePaymentResponse fail out = (case out of
     Failure code msg \<Rightarrow>
       reply_json (if code = ErrorBadRequest then 400 else if code = ErrorAuthContextMissing then 401
         else if code = ErrorForbidden then 403 else 200) (enc_code_message code msg)
   | Answer resp \<Rightarrow> (case MarshalResponse resp of Inl err \<Rightarrow> fail err | Inr b \<Rightarrow> (200, b)))"

text \<open>go-kit's server around the endpoint.\<close>

definition NewCreatePaymentHandler :: "'s store_ops \<Rightarrow> env \<Rightarrow> (goerror \<Rightarrow> http_reply) \<Rightarrow>
    's world handler" where
  "NewCreatePaymentHandler ops e fail ctx r w =
     (if Hr_Method r \<noteq> ''POST''
      then (reply_json 405 (enc_code_message ErrorMethodNotAllowed ''use POST''), w)
      else (case decodeCreatePaymentRequest r of
        Inl err \<Rightarrow> (fail err, w)
      | Inr req \<Rightarrow> (case createPaymentEndpoint ops e ctx req w of
          ((out, Some err), w') \<Rightarrow> (fail err, w')
        | ((out, None), w') \<Rightarrow> (encodeCreatePaymentResponse fail out, w'))))"

subsection \<open>\<open>GET /payments/{payment_id}\<close>\<close>

record getPaymentStatusRequest =
  Gps_MerchantID :: gostring
  Gps_PaymentID :: gostring

definition getPaymentStatusEndpoint :: "'s store_ops \<Rightarrow> env \<Rightarrow> auth_context \<Rightarrow> getPaymentStatusRequest \<Rightarrow>
    's world \<Rightarrow> endpoint_outcome \<times> 's world" where
  "getPaymentStatusEndpoint ops e ctx req w =
     (if Gps_MerchantID req = '''' then (Failure ErrorBadRequest ''merchant_id is required'', w)
      else if Gps_PaymentID req = '''' then (Failure ErrorBadRequest ''payment_id is required'', w)
      else (case MerchantFromContext ctx of
        None \<Rightarrow> (Failure ErrorAuthContextMissing ''authenticated merchant context is required'', w)
      | Some authMerchant \<Rightarrow>
          if \<not> CanReadMerchantData authMerchant (Gps_MerchantID req)
          then (Failure ErrorForbidden ''payment status access is not allowed for this role or merchant'',
                tick (w\<lparr>w_log := w_log w @ [LogAuthorizationFailed authMerchant (Gps_MerchantID req)
                  ''GET /payments/{payment_id}''
                  ''payment status access is not allowed for this role or merchant'' (now e w)]\<rparr>))
          else (case op_GetByPaymentID ops (Gps_MerchantID req) (Gps_PaymentID req) (w_store w) of
            Inl err \<Rightarrow> (Failure ErrorStorage err, w)
          | Inr None \<Rightarrow> (Failure ErrorPaymentNotFound ''payment not found'', w)
          | Inr (Some (_, payloadJSON)) \<Rightarrow> (case UnmarshalResponse payloadJSON of
              None \<Rightarrow> (Failure ErrorInvalidStoredResponse ''json: cannot unmarshal'', w)
            | Some resp \<Rightarrow> (Answer (Sanitized resp), w)))))"

definition decodeGetPaymentStatusRequest :: "http_request \<Rightarrow> getPaymentStatusRequest" where
  "decodeGetPaymentStatusRequest r =
     \<lparr>Gps_MerchantID = Hr_Query r ''merchant_id'',
      Gps_PaymentID = TrimByte (TrimPrefix (Hr_Path r) ''/payments/'') CHR ''/''\<rparr>"

definition encodeGetPaymentStatusResponse :: "(goerror \<Rightarrow> http_reply) \<Rightarrow> endpoint_outcome \<Rightarrow> http_reply" where
  "encodeGetPaymentStatusResponse fail out = (case out of
     Failure code msg \<Rightarrow>
       reply_json (if code = ErrorBadRequest then 400 else if code = ErrorAuthContextMissing then 401
         else if code = ErrorForbidden then 403 else if code = ErrorPaymentNotFound then 404 else 500)
         (enc_code_message code msg)
   | Answer resp \<Rightarrow> (case MarshalResponse resp of Inl err \<Rightarrow> fail err | Inr b \<Rightarrow> (200, b)))"

definition NewGetPaymentStatusHandler :: "'s store_ops \<Rightarrow> env \<Rightarrow> (goerror \<Rightarrow> http_reply) \<Rightarrow>
    's world handler" where
  "NewGetPaymentStatusHandler ops e fail ctx r w =
     (if Hr_Method r \<noteq> ''GET''
      then (reply_json 405 (enc_code_message ErrorMethodNotAllowed ''use GET''), w)
      else (case getPaymentStatusEndpoint ops e ctx (decodeGetPaymentStatusRequest r) w of
        (out, w') \<Rightarrow> (encodeGetPaymentStatusResponse fail out, w')))"

subsection \<open>The merchant of a decoded request\<close>

lemma lookup_merchant_only:
  "lookup_field [(''merchant_id'', d)] k = (if EqualFold ''merchant_id'' k then Some d else None)"
  by (auto simp: lookup_field_def EqualFold_def)

lemma other_names: "n \<in> {''idempotency_key'', ''payment_id'', ''current_status'', ''payment_info''} \<Longrightarrow>
    \<not> EqualFold ''merchant_id'' n \<and> n \<noteq> ''merchant_id''"
  by (auto simp: EqualFold_def runes_ascii is_ascii_def byte_def)

lemma lookup_request_merchant:
  assumes "EqualFold ''merchant_id'' k"
  shows "lookup_field tab_CreatePaymentRequest k = Some (dec_str Req_MerchantID_update)"
proof (cases "k = ''merchant_id''")
  case True
  then show ?thesis by (simp add: lookup_field_def tab_CreatePaymentRequest_def)
next
  case False
  have "k \<notin> {''idempotency_key'', ''payment_id'', ''current_status'', ''payment_info''}"
    using other_names assms by blast
  with False have "map_of tab_CreatePaymentRequest k = None"
    by (simp add: tab_CreatePaymentRequest_def)
  then show ?thesis using assms by (simp add: lookup_field_def tab_CreatePaymentRequest_def)
qed

lemma lookup_request_other:
  assumes "\<not> EqualFold ''merchant_id'' k" "lookup_field tab_CreatePaymentRequest k = Some d" "d v r = Some r'"
  shows "Req_MerchantID r' = Req_MerchantID r"
proof -
  have "k \<noteq> ''merchant_id''" using assms(1) by (auto simp: EqualFold_def)
  with assms(1,2) have "d \<in> {dec_str Req_IdempotencyKey_update, dec_str Req_PaymentID_update,
      dec_str Req_CurrentStatus_update, dec_sub Req_PaymentInfo Req_PaymentInfo_update tab_PaymentInfo}"
    by (auto simp: lookup_field_def tab_CreatePaymentRequest_def split: if_splits option.splits)
  with assms(3) show ?thesis
    by (auto simp: dec_str_def dec_sub_def split: json.splits option.splits)
qed

lemma decoded_merchant:
  "dec_fields tab_CreatePaymentRequest kvs r = Some r' \<Longrightarrow>
    dec_fields [(''merchant_id'', dec_str (\<lambda>f s. f s))] kvs (Req_MerchantID r) = Some (Req_MerchantID r')"
proof (induction kvs arbitrary: r)
  case (Cons kv kvs)
  obtain k v where kv: "kv = (k, v)" by (cases kv)
  show ?case
  proof (cases "EqualFold ''merchant_id'' k")
    case True
    from Cons.prems obtain r1 where r1: "dec_str Req_MerchantID_update v r = Some r1"
      "dec_fields tab_CreatePaymentRequest kvs r1 = Some r'"
      by (auto simp: kv lookup_request_merchant [OF True] split: option.splits)
    have "dec_str (\<lambda>f s. f s) v (Req_MerchantID r) = Some (Req_MerchantID r1)"
      using r1(1) by (auto simp: dec_str_def split: json.splits)
    with Cons.IH [OF r1(2)] True show ?thesis by (simp add: kv lookup_merchant_only)
  next
    case False
    show ?thesis
    proof (cases "lookup_field tab_CreatePaymentRequest k")
      case None
      with Cons False show ?thesis by (simp add: kv lookup_merchant_only)
    next
      case (Some d)
      with Cons.prems obtain r1 where "d v r = Some r1" "dec_fields tab_CreatePaymentRequest kvs r1 = Some r'"
        by (auto simp: kv split: option.splits)
      with Cons.IH [of r1] lookup_request_other [OF False Some] False show ?thesis
        by (simp add: kv lookup_merchant_only)
    qed
  qed
qed simp

lemma decoded_merchant_struct:
  "dec_struct tab_CreatePaymentRequest j zero_create_request = Some req \<Longrightarrow>
    dec_struct [(''merchant_id'', dec_str (\<lambda>f s. f s))] j '''' = Some (Req_MerchantID req)"
  using decoded_merchant [of _ zero_create_request req]
  by (cases j) (auto simp: dec_struct_def zero_create_request_def)

subsection \<open>Behind the middleware\<close>

lemma create_handler_cases:
  assumes "NewCreatePaymentHandler ops e fail ctx r w = (reply, w')"
  shows "w' = w \<or> (\<exists>m req. MerchantFromContext ctx = Some m \<and> decodeCreatePaymentRequest r = Inr req
    \<and> (if CanWriteMerchantData m (Req_MerchantID req) then w' = snd (CreatePayment ops e req w)
       else w_store w' = w_store w \<and> w_calls w' = w_calls w))"
proof (cases "Hr_Method r = ''POST''")
  case True
  show ?thesis
  proof (cases "decodeCreatePaymentRequest r")
    case (Inr req)
    obtain out err w1 where ep: "createPaymentEndpoint ops e ctx req w = ((out, err), w1)"
      by (metis prod.collapse)
    have w1: "w' = w1" using assms True Inr ep
      by (cases err) (simp_all add: NewCreatePaymentHandler_def)
    show ?thesis
    proof (cases "MerchantFromContext ctx")
      case None
      with ep w1 show ?thesis by (simp add: createPaymentEndpoint_def)
    next
      case (Some m)
      obtain resp er w2 where cp: "CreatePayment ops e req w = ((resp, er), w2)" by (metis prod.collapse)
      show ?thesis
      proof (cases "CanWriteMerchantData m (Req_MerchantID req)")
        case True
        then have "w1 = w2" using ep Some cp
          by (cases er) (simp_all add: createPaymentEndpoint_def)
        then show ?thesis using Some Inr w1 cp True by auto
      next
        case False
        then have "w_store w1 = w_store w \<and> w_calls w1 = w_calls w" using ep Some
          by (auto simp: createPaymentEndpoint_def)
        then show ?thesis using Some Inr w1 False by auto
      qed
    qed
  qed (use assms True in \<open>simp add: NewCreatePaymentHandler_def\<close>)
qed (use assms in \<open>simp add: NewCreatePaymentHandler_def\<close>)

text \<open>A text that is a document as a whole has this document as its first value.\<close>

definition whole_is_first :: "http_request \<Rightarrow> bool" where
  "whole_is_first r = (body_json r = None \<or> body_first r = body_json r)"

context merchant_provider
begin

lemma authenticated_body:
  assumes "AuthenticateMerchant a (Some lookup) r = Inr m" "Hr_Method r = ''POST''" "Hr_Path r = ''/payments''"
    and "whole_is_first r" "decodeCreatePaymentRequest r = Inr req"
  shows "Req_MerchantID req = Merchant_ID m"
proof -
  from assms(1-3) obtain body where check:
    "checkBodyMerchantID body (body_json r) (TrimSpace (Hr_Header r HeaderMerchantID)) = None"
    by (auto simp: AuthenticateMerchant_accepts [OF refl refl refl refl])
  then obtain k mid where k: "body_json r = Some k"
    "dec_struct [(''merchant_id'', dec_str (\<lambda>f s. f s))] k '''' = Some mid"
    "mid = TrimSpace (Hr_Header r HeaderMerchantID)"
    by (auto simp: checkBodyMerchantID_def split: if_splits option.splits)
  with assms(4,5) have "dec_struct tab_CreatePaymentRequest k zero_create_request = Some req"
    by (simp add: decodeCreatePaymentRequest_def decode_body_def whole_is_first_def split: option.splits)
  from decoded_merchant_struct [OF this] k authenticated_id [OF assms(1)] show ?thesis by simp
qed

text \<open>What the handler does with the request of an authenticated merchant.\<close>

lemma authenticated_create:
  assumes auth: "AuthenticateMerchant a (Some lookup) r = Inr m"
    and run: "NewCreatePaymentHandler ops e fail (WithMerchant m) r w = (reply, w')"
    and "Hr_Path r = ''/payments''" "whole_is_first r"
  shows "w_store w' = w_store w \<and> w_calls w' = w_calls w
    \<or> (Hr_Method r = ''POST'' \<and> Merchant_Role m \<in> {RoleMerchant, RoleAdmin}
        \<and> (\<exists>req. decodeCreatePaymentRequest r = Inr req
          \<and> Req_MerchantID req = Merchant_ID m \<and> w' = snd (CreatePayment ops e req w)))"
proof (cases "Hr_Method r = ''POST''")
  case True
  note meth = this
  from auth obtain m0 where m0: "m = m0\<lparr>Merchant_Role := NormalizeRole (Merchant_Role m0)\<rparr>"
    "Merchant_Role m \<in> {RoleMerchant, RoleAdmin, RoleAuditor}"
    unfolding AuthenticateMerchant_accepts [OF refl refl refl refl] by blast
  then have role: "Merchant_Role m \<in> {RoleMerchant, RoleAdmin, RoleAuditor}"
    "NormalizeRole (Merchant_Role m) = Merchant_Role m" by simp_all
  have ctx: "MerchantFromContext (WithMerchant m) = Some m"
    using role by (auto simp: MerchantFromContext_WithMerchant)
  from create_handler_cases [OF run] show ?thesis
  proof
    assume "\<exists>n req. MerchantFromContext (WithMerchant m) = Some n \<and> decodeCreatePaymentRequest r = Inr req
      \<and> (if CanWriteMerchantData n (Req_MerchantID req) then w' = snd (CreatePayment ops e req w)
         else w_store w' = w_store w \<and> w_calls w' = w_calls w)"
    then obtain req where req: "decodeCreatePaymentRequest r = Inr req"
      "if CanWriteMerchantData m (Req_MerchantID req) then w' = snd (CreatePayment ops e req w)
         else w_store w' = w_store w \<and> w_calls w' = w_calls w" using ctx by auto
    show ?thesis
    proof (cases "CanWriteMerchantData m (Req_MerchantID req)")
      case True
      then have "Merchant_Role m \<in> {RoleMerchant, RoleAdmin}"
        using role by (auto simp: CanWriteMerchantData_def Let_def split: if_splits)
      with authenticated_body [OF auth meth assms(3,4) req(1)] req True meth show ?thesis by auto
    qed (use req in simp)
  qed simp
qed (use run in \<open>simp add: NewCreatePaymentHandler_def\<close>)

lemma authenticated_writer:
  assumes "AuthenticateMerchant a (Some lookup) r = Inr m"
  shows "MerchantFromContext (WithMerchant m) = Some m"
    and "Merchant_ID m \<noteq> ''''" "TrimSpace (Merchant_ID m) = Merchant_ID m"
    and "CanWriteMerchantData m (Merchant_ID m) \<longleftrightarrow> Merchant_Role m \<in> {RoleMerchant, RoleAdmin}"
    and "CanReadMerchantData m t \<longleftrightarrow> TrimSpace t \<noteq> ''''
      \<and> (Merchant_Role m \<in> {RoleAdmin, RoleAuditor} \<or> Merchant_ID m = TrimSpace t)"
proof -
  from assms obtain m0 where m0: "m = m0\<lparr>Merchant_Role := NormalizeRole (Merchant_Role m0)\<rparr>"
    "Merchant_Role m \<in> {RoleMerchant, RoleAdmin, RoleAuditor}" "TrimSpace (Hr_Header r HeaderMerchantID) \<noteq> []"
    unfolding AuthenticateMerchant_accepts [OF refl refl refl refl] by blast
  then have role: "NormalizeRole (Merchant_Role m) = Merchant_Role m" by simp
  with m0(2) show "MerchantFromContext (WithMerchant m) = Some m"
    by (auto simp: MerchantFromContext_WithMerchant)
  show mid: "Merchant_ID m \<noteq> ''''" "TrimSpace (Merchant_ID m) = Merchant_ID m"
    using m0(3) by (simp_all add: authenticated_id [OF assms])
  show "CanWriteMerchantData m (Merchant_ID m) \<longleftrightarrow> Merchant_Role m \<in> {RoleMerchant, RoleAdmin}"
    using mid by (auto simp: CanWriteMerchantData_def role Let_def)
  show "CanReadMerchantData m t \<longleftrightarrow> TrimSpace t \<noteq> ''''
      \<and> (Merchant_Role m \<in> {RoleAdmin, RoleAuditor} \<or> Merchant_ID m = TrimSpace t)"
    using m0(2) by (auto simp: CanReadMerchantData_def role Let_def lit)
qed

text \<open>The payment endpoint behind the middleware, in every case.\<close>

lemma created_payment:
  assumes "Middleware a (Some lookup) (NewCreatePaymentHandler ops e fail) r w = (reply, w')"
    and "Hr_Path r = ''/payments''" "whole_is_first r"
  shows "case AuthenticateMerchant a (Some lookup) r of
      Inl err \<Rightarrow> reply = writeAuthError err \<and> w' = w
    | Inr m \<Rightarrow> (case decodeCreatePaymentRequest r of
        Inl _ \<Rightarrow> w' = w
      | Inr req \<Rightarrow> if Hr_Method r \<noteq> ''POST'' then w' = w
          else Req_MerchantID req = Merchant_ID m
            \<and> (if Merchant_Role m \<in> {RoleMerchant, RoleAdmin} then w' = snd (CreatePayment ops e req w)
               else fst reply = 403 \<and> w_store w' = w_store w \<and> w_calls w' = w_calls w \<and> w_notes w' = w_notes w))"
proof (cases "AuthenticateMerchant a (Some lookup) r")
  case (Inl err)
  with assms(1) show ?thesis by (simp add: Middleware_def)
next
  case (Inr m)
  note auth = this and mfacts = authenticated_writer [OF Inr]
  from assms(1) auth have run: "NewCreatePaymentHandler ops e fail (WithMerchant m) r w = (reply, w')"
    by (simp add: Middleware_def)
  show ?thesis
  proof (cases "decodeCreatePaymentRequest r")
    case (Inl err)
    with run auth show ?thesis by (auto simp: NewCreatePaymentHandler_def split: if_splits)
  next
    case (Inr req)
    show ?thesis
    proof (cases "Hr_Method r = ''POST''")
      case True
      have own: "Req_MerchantID req = Merchant_ID m"
        by (rule authenticated_body [OF auth True assms(2,3) Inr])
      show ?thesis
      proof (cases "Merchant_Role m \<in> {RoleMerchant, RoleAdmin}")
        case True
        obtain resp er w2 where cp: "CreatePayment ops e req w = ((resp, er), w2)" by (metis prod.collapse)
        with run \<open>Hr_Method r = ''POST''\<close> Inr mfacts own True have "w' = w2"
          by (cases er) (auto simp: NewCreatePaymentHandler_def createPaymentEndpoint_def)
        with cp auth Inr own True \<open>Hr_Method r = ''POST''\<close> show ?thesis by simp
      next
        case False
        then have "\<not> CanWriteMerchantData m (Req_MerchantID req)" using mfacts(4) own by simp
        with run \<open>Hr_Method r = ''POST''\<close> Inr mfacts(1)
        have "fst reply = 403 \<and> w_store w' = w_store w \<and> w_calls w' = w_calls w \<and> w_notes w' = w_notes w"
          by (auto simp: NewCreatePaymentHandler_def createPaymentEndpoint_def encodeCreatePaymentResponse_def
              reply_json_def lit)
        with auth Inr own False \<open>Hr_Method r = ''POST''\<close> show ?thesis by simp
      qed
    qed (use run auth Inr in \<open>simp add: NewCreatePaymentHandler_def\<close>)
  qed
qed

text \<open>The status endpoint behind the middleware.\<close>

lemma read_payment:
  assumes "Middleware a (Some lookup) (NewGetPaymentStatusHandler ops e fail) r w = (reply, w')"
    and "\<And>err. fst (fail err) \<noteq> 200"
  shows "w_store w' = w_store w \<and> w_calls w' = w_calls w \<and> w_notes w' = w_notes w
    \<and> (fst reply = 200 \<longrightarrow> (\<exists>m st payload resp b. AuthenticateMerchant a (Some lookup) r = Inr m
        \<and> (Merchant_Role m \<in> {RoleAdmin, RoleAuditor} \<or> Merchant_ID m = TrimSpace (Hr_Query r ''merchant_id''))
        \<and> op_GetByPaymentID ops (Hr_Query r ''merchant_id'')
            (TrimByte (TrimPrefix (Hr_Path r) ''/payments/'') CHR ''/'') (w_store w) = Inr (Some (st, payload))
        \<and> UnmarshalResponse payload = Some resp \<and> MarshalResponse (Sanitized resp) = Inr b \<and> reply = (200, b)))"
proof (cases "AuthenticateMerchant a (Some lookup) r")
  case (Inl err)
  with assms(1) show ?thesis by (auto simp: Middleware_def writeAuthError_def reply_json_def)
next
  case (Inr m)
  note mfacts = authenticated_writer [OF Inr]
  let ?q = "decodeGetPaymentStatusRequest r"
  have q: "Gps_MerchantID ?q = Hr_Query r ''merchant_id''"
    "Gps_PaymentID ?q = TrimByte (TrimPrefix (Hr_Path r) ''/payments/'') CHR ''/''"
    by (simp_all add: decodeGetPaymentStatusRequest_def)
  obtain out w1 where ep: "getPaymentStatusEndpoint ops e (WithMerchant m) ?q w = (out, w1)" by fastforce
  from assms(1) Inr have run: "NewGetPaymentStatusHandler ops e fail (WithMerchant m) r w = (reply, w')"
    by (simp add: Middleware_def)
  have same: "w_store w1 = w_store w \<and> w_calls w1 = w_calls w \<and> w_notes w1 = w_notes w"
    using ep by (auto simp: getPaymentStatusEndpoint_def split: if_splits option.splits sum.splits)
  have out: "(\<exists>code msg. out = Failure code msg) \<or> (\<exists>st payload resp. out = Answer (Sanitized resp)
      \<and> CanReadMerchantData m (Gps_MerchantID ?q)
      \<and> op_GetByPaymentID ops (Gps_MerchantID ?q) (Gps_PaymentID ?q) (w_store w) = Inr (Some (st, payload))
      \<and> UnmarshalResponse payload = Some resp)"
    using ep mfacts(1) by (auto simp: getPaymentStatusEndpoint_def split: if_splits option.splits sum.splits)
  show ?thesis
  proof (cases "Hr_Method r = ''GET''")
    case True
    with run ep have reply: "reply = encodeGetPaymentStatusResponse fail out" "w' = w1"
      by (simp_all add: NewGetPaymentStatusHandler_def)
    from out show ?thesis
    proof (elim disjE exE conjE)
      fix code msg assume "out = Failure code msg"
      then have "fst reply \<noteq> 200" by (simp add: reply encodeGetPaymentStatusResponse_def reply_json_def)
      with same reply show ?thesis by simp
    next
      fix st payload resp
      assume o: "out = Answer (Sanitized resp)" "CanReadMerchantData m (Gps_MerchantID ?q)"
        "op_GetByPaymentID ops (Gps_MerchantID ?q) (Gps_PaymentID ?q) (w_store w) = Inr (Some (st, payload))"
        "UnmarshalResponse payload = Some resp"
      show ?thesis
      proof (cases "MarshalResponse (Sanitized resp)")
        case (Inl err)
        with o(1) assms(2) same reply show ?thesis by (simp add: encodeGetPaymentStatusResponse_def)
      next
        case b: (Inr b)
        with o(1) have "reply = (200, b)" by (simp add: reply encodeGetPaymentStatusResponse_def)
        with o mfacts(5) Inr b q same reply(2) show ?thesis by auto
      qed
    qed
  next
    case False
    with run show ?thesis by (auto simp: NewGetPaymentStatusHandler_def reply_json_def)
  qed
qed

end

subsection \<open>Properties\<close>

text \<open>
  C12: Who creates and who reads. \<open>POST /payments\<close> does nothing without an authenticated merchant,
  and for one it is exactly one run of the orchestrator on the decoded body, which names the very
  merchant that the headers name and the signature belongs to, for administrators too; a role
  without write access is answered 403, with no effect but an event in the log.
  \<open>GET /payments/{id}\<close> changes no store, and it answers 200 only to an administrator, an auditor or
  the merchant that the query names, with the sanitised form of what the store returns for that
  merchant and payment.
\<close>

theorem payments_only_own:
  assumes "Middleware a (Some (pg_GetByID reveal db)) (NewCreatePaymentHandler ops e fail) r w = (reply, w')"
    and "Hr_Path r = ''/payments''" and "whole_is_first r"
    and "Middleware a (Some (pg_GetByID reveal db)) (NewGetPaymentStatusHandler ops e fail) q v = (answer, v')"
    and "\<And>err. fst (fail err) \<noteq> 200"
  shows "(case AuthenticateMerchant a (Some (pg_GetByID reveal db)) r of
      Inl err \<Rightarrow> reply = writeAuthError err \<and> w' = w
    | Inr m \<Rightarrow> (case decodeCreatePaymentRequest r of
        Inl _ \<Rightarrow> w' = w
      | Inr req \<Rightarrow> if Hr_Method r \<noteq> ''POST'' then w' = w
          else Req_MerchantID req = Merchant_ID m
            \<and> (if Merchant_Role m \<in> {RoleMerchant, RoleAdmin} then w' = snd (CreatePayment ops e req w)
               else fst reply = 403 \<and> w_store w' = w_store w \<and> w_calls w' = w_calls w \<and> w_notes w' = w_notes w)))
    \<and> w_store v' = w_store v \<and> w_calls v' = w_calls v \<and> w_notes v' = w_notes v
    \<and> (fst answer = 200 \<longrightarrow> (\<exists>m st payload resp b. AuthenticateMerchant a (Some (pg_GetByID reveal db)) q = Inr m
        \<and> (Merchant_Role m \<in> {RoleAdmin, RoleAuditor} \<or> Merchant_ID m = TrimSpace (Hr_Query q ''merchant_id''))
        \<and> op_GetByPaymentID ops (Hr_Query q ''merchant_id'')
            (TrimByte (TrimPrefix (Hr_Path q) ''/payments/'') CHR ''/'') (w_store v) = Inr (Some (st, payload))
        \<and> UnmarshalResponse payload = Some resp \<and> MarshalResponse (Sanitized resp) = Inr b \<and> answer = (200, b)))"
  using pg_provider.created_payment [OF assms(1-3)] pg_provider.read_payment [OF assms(4,5)] by (rule conjI)

definition unsigned_http :: http_request where
  "unsigned_http = sample_http\<lparr>Hr_Method := ''POST'', Hr_Path := ''/payments''\<rparr>"

text \<open>The shop orders a payment, with its signature, and then reads one.\<close>

definition order_document :: json where
  "order_document = JObj [(''merchant_id'', JStr ''m'')]"

definition signed_order :: http_request where
  "signed_order = unsigned_http\<lparr>Hr_URI := ''/payments'', Hr_Body := Body_data ''b'' (Some order_document) (Some order_document),
     Hr_Header := \<lambda>h. if h = HeaderMerchantID then ''m'' else if h = HeaderAPIKey then ''key''
       else if h = HeaderTimestamp then ''90'' else if h = HeaderSignature then ''s90.POST./payments.hb'' else ''''\<rparr>"

definition signed_status :: http_request where
  "signed_status = sample_http\<lparr>Hr_Path := ''/payments/p'', Hr_URI := ''/payments/p'',
     Hr_Header := \<lambda>h. if h = HeaderMerchantID then ''m'' else if h = HeaderAPIKey then ''key''
       else if h = HeaderTimestamp then ''90'' else if h = HeaderSignature then ''s90.GET./payments/p.h'' else ''''\<rparr>"

lemma sample_trims: "TrimSpace ''m'' = ''m''" "TrimSpace ''key'' = ''key''" "TrimSpace ''90'' = ''90''"
  "TrimSpace ''b'' = ''b''" "TrimSpace ''s90.POST./payments.hb'' = ''s90.POST./payments.hb''"
  "TrimSpace ''s90.GET./payments/p.h'' = ''s90.GET./payments/p.h''" "ToUpper ''POST'' = ''POST''" "ToUpper ''GET'' = ''GET''"
  by (simp_all add: go_eval)

lemma sample_signed:
  "AuthenticateMerchant sample_auth (Some (pg_GetByID Inr (Inr [sample_merchant]))) signed_order = Inr sample_merchant"
  "AuthenticateMerchant sample_auth (Some (pg_GetByID Inr (Inr [sample_merchant]))) signed_status = Inr sample_merchant"
proof -
  have role: "NormalizeRole RoleMerchant = RoleMerchant" by (simp add: NormalizeRole_def lit go_eval)
  have time: "ParseInt64 ''90'' = Some 90"
    by (simp add: ParseInt64_def digits_value_def HasPrefix_def byte_def is_digit_def)
  have found: "pg_GetByID Inr (Inr [sample_merchant]) ''m'' = Inr (Some sample_merchant)"
    by (simp add: pg_GetByID_def sample_merchant_def)
  have doc: "dec_struct [(''merchant_id'', dec_str (\<lambda>f s. f s))] order_document '''' = Some ''m''"
    by (simp add: order_document_def dec_struct_def lookup_field_def dec_str_def)
  note defs = AuthenticateMerchant_accepts [OF refl refl refl refl] sample_trims role time found doc
    sample_http_def sample_auth_def unsigned_http_def HeaderMerchantID_def HeaderAPIKey_def HeaderTimestamp_def
    HeaderSignature_def readAndRestoreBody_def BuildSignature_def canonical_def checkBodyMerchantID_def body_json_def
  show "AuthenticateMerchant sample_auth (Some (pg_GetByID Inr (Inr [sample_merchant]))) signed_order = Inr sample_merchant"
    by (simp add: signed_order_def defs) (simp add: sample_merchant_def role)
  show "AuthenticateMerchant sample_auth (Some (pg_GetByID Inr (Inr [sample_merchant]))) signed_status = Inr sample_merchant"
    by (simp add: signed_status_def defs) (simp add: sample_merchant_def role)
qed

theorem payments_only_own_witness:
  defines "ops \<equiv> mem_ops\<lparr>op_GetByPaymentID := \<lambda>m p s. Inr (Some (StatusCaptured, JDoc (JObj [])))\<rparr>"
    and "provider \<equiv> Some (pg_GetByID Inr (Inr [sample_merchant]))"
  shows "snd (Middleware sample_auth provider (NewCreatePaymentHandler ops sample_env writeAuthError) signed_order sample_world)
      = snd (CreatePayment ops sample_env (zero_create_request\<lparr>Req_MerchantID := ''m''\<rparr>) sample_world)
    \<and> fst (fst (Middleware sample_auth provider (NewGetPaymentStatusHandler ops sample_env writeAuthError) signed_status
        sample_world)) = 200"
proof -
  obtain reply w' answer v' where run:
    "Middleware sample_auth provider (NewCreatePaymentHandler ops sample_env writeAuthError) signed_order sample_world = (reply, w')"
    "Middleware sample_auth provider (NewGetPaymentStatusHandler ops sample_env writeAuthError) signed_status sample_world
      = (answer, v')" by fastforce
  have http: "Hr_Path signed_order = ''/payments''" "whole_is_first signed_order" "Hr_Method signed_order = ''POST''"
    by (simp_all add: signed_order_def unsigned_http_def sample_http_def whole_is_first_def body_json_def body_first_def)
  have dec: "decodeCreatePaymentRequest signed_order = Inr (zero_create_request\<lparr>Req_MerchantID := ''m''\<rparr>)"
    by (simp add: decodeCreatePaymentRequest_def decode_body_def body_first_def signed_order_def order_document_def
        dec_struct_def lookup_field_def tab_CreatePaymentRequest_def dec_str_def)
  have "MerchantFromContext (WithMerchant sample_merchant) = Some sample_merchant"
    by (rule pg_provider.authenticated_writer(1) [OF sample_signed(1)])
  moreover have "CanReadMerchantData sample_merchant ''m''"
    using pg_provider.authenticated_writer(5) [OF sample_signed(1), of "''m''"]
    by (simp add: sample_trims sample_merchant_def)
  moreover have "decodeGetPaymentStatusRequest signed_status = \<lparr>Gps_MerchantID = ''m'', Gps_PaymentID = ''p''\<rparr>"
    by (simp add: decodeGetPaymentStatusRequest_def signed_status_def sample_http_def) code_simp
  moreover have "UnmarshalResponse (JDoc (JObj [])) = Some zero_response"
    by (simp add: UnmarshalResponse_def dec_struct_def)
  moreover have "\<exists>b. MarshalResponse (Sanitized zero_response) = Inr b"
  proof -
    have "Sanitized zero_response = zero_response"
      by (simp add: Sanitized_def Customer_Sanitized_def Customer_WithoutSensitive_def zero_response_def zero_customer_def
          zero_details_def MaskCardNumber_def digitsOnly_filter TokenPreview_def Let_def)
    moreover have "json_ok (enc_PaymentResponse zero_response)" by code_simp
    ultimately show ?thesis by (simp add: MarshalResponse_def Marshal_def)
  qed
  moreover have "Hr_Method signed_status = ''GET''" by (simp add: signed_status_def sample_http_def)
  ultimately have "fst answer = 200" using run(2) sample_signed(2)
    by (auto simp: provider_def ops_def Middleware_def NewGetPaymentStatusHandler_def getPaymentStatusEndpoint_def
        encodeGetPaymentStatusResponse_def)
  moreover have "w' = snd (CreatePayment ops sample_env (zero_create_request\<lparr>Req_MerchantID := ''m''\<rparr>) sample_world)"
    using payments_only_own [OF run(1) [unfolded provider_def] http(1,2) run(2) [unfolded provider_def]]
      sample_signed(1) dec http(3)
    by (simp add: writeAuthError_def reply_json_def sample_merchant_def)
  ultimately show ?thesis by (simp add: run)
qed

end
