(* ===== verification/Refunds.thy ===== *)
theory Refunds
  imports Merchant_Auth Storage Routing
begin

section \<open>The refund API (\<open>internal/httpapi/refunds/handler.go\<close>)\<close>

text \<open>
  The four endpoints of \<open>ServeHTTP\<close>: full and partial refunds, the status of a refund and the
  search by payment. The transaction and the refund store are used through records of their
  operations over one state \<open>'s\<close> (\<open>NewRefundHandler\<close> is given both); the refund adapter of a
  provider, the random refund identifier, the number parser and the clock are parameters. An
  adapter of the factory may lack the refund operation (the type assertion of the source).

  \<open>refund_world\<close> holds the store, the number of clock readings and of identifiers drawn, the
  events logged and the requests sent to adapters.
\<close>

record 's refund_ops =
  op_SaveRefund :: "Refund \<Rightarrow> 's \<Rightarrow> goerror option \<times> 's"
  op_GetRefundByID :: "gostring \<Rightarrow> gostring \<Rightarrow> 's \<Rightarrow> Refund option result"
  op_GetRefundByIdempotencyKey :: "gostring \<Rightarrow> gostring \<Rightarrow> 's \<Rightarrow> Refund option result"
  op_ListRefundsByPaymentID :: "gostring \<Rightarrow> gostring \<Rightarrow> 's \<Rightarrow> Refund list result"

text \<open>A refund adapter: its reply may depend on the number of calls made before.\<close>

type_synonym refund_adapter = "nat \<Rightarrow> RefundRequest \<Rightarrow> RefundResult result"

record 's refund_env =
  rf_transactions :: "'s store_ops option"
  rf_refunds :: "'s refund_ops option"
  rf_factory :: "refund_adapter option factory"
  rf_getenv :: "gostring \<Rightarrow> gostring"
  rf_clock :: "nat \<Rightarrow> gotime"
  rf_id :: "nat \<Rightarrow> gostring"
  rf_ParseFloat :: "gostring \<Rightarrow> f64 option"

record 's refund_world =
  rw_store :: 's
  rw_tick :: nat
  rw_log :: "PaymentEvent list"
  rw_calls :: "(gostring \<times> RefundRequest) list"

subsection \<open>Replies\<close>

record RefundAPIResponse =
  RA_Data :: "Refund option"
  RA_Success :: bool
  RA_Error :: "GatewayError option"

definition enc_Refund :: "Refund \<Rightarrow> json" where
  "enc_Refund r = JObj (
     emit_str ''id'' (Refund_ID r) @ omit_str ''merchant_id'' (Refund_MerchantID r) @
     emit_str ''status'' (Refund_Status r) @ [(''amount'', JNum (Refund_Amount r))] @
     emit_str ''currency'' (Refund_Currency r) @ emit_str ''entity_type'' (Refund_EntityType r) @
     emit_str ''entity_id'' (Refund_EntityID r) @ emit_str ''payment_id'' (Refund_PaymentID r) @
     omit_str ''idempotency_key'' (Refund_IdempotencyKey r) @ omit_str ''provider'' (Refund_Provider r) @
     omit_str ''payment_system'' (Refund_PaymentSystem r) @
     omit_str ''external_refund_id'' (Refund_ExternalRefundID r) @
     omit_str ''provider_status'' (Refund_ProviderStatus r) @
     omit_str ''provider_error_code'' (Refund_ProviderErrorCode r) @
     omit_str ''provider_error_message'' (Refund_ProviderErrorMsg r) @
     emit_str ''refund_type'' (Refund_RefundType r) @ omit_str ''reason'' (Refund_Reason r) @
     [(''created_at'', JTime (Refund_CreatedAt r)), (''updated_at'', JTime (Refund_UpdatedAt r))])"

definition enc_error :: "GatewayError option \<Rightarrow> (gostring \<times> json) list" where
  "enc_error e = (case e of None \<Rightarrow> [] | Some x \<Rightarrow> [(''error'', enc_GatewayError x)])"

definition enc_RefundAPIResponse :: "RefundAPIResponse \<Rightarrow> json" where
  "enc_RefundAPIResponse r = JObj (
     (case RA_Data r of None \<Rightarrow> [] | Some d \<Rightarrow> [(''data'', enc_Refund d)]) @
     [(''success'', JBool (RA_Success r))] @ enc_error (RA_Error r))"

text \<open>\<open>RefundSearchResponse\<close>; a nil slice is \<open>null\<close>.\<close>

record RefundSearchResponse =
  RS_Data :: "Refund list option"
  RS_Success :: bool
  RS_Error :: "GatewayError option"

definition enc_RefundSearchResponse :: "RefundSearchResponse \<Rightarrow> json" where
  "enc_RefundSearchResponse r = JObj (
     [(''data'', case RS_Data r of None \<Rightarrow> JNull | Some ds \<Rightarrow> JArr (map enc_Refund ds))] @
     [(''success'', JBool (RS_Success r))] @ enc_error (RS_Error r))"

definition writeRefundError :: "int \<Rightarrow> gostring \<Rightarrow> gostring \<Rightarrow> http_reply" where
  "writeRefundError status code message = reply_json status (enc_RefundAPIResponse
     \<lparr>RA_Data = None, RA_Success = False, RA_Error = Some (NewGatewayError code message)\<rparr>)"

definition refund_reply :: "int \<Rightarrow> Refund \<Rightarrow> http_reply" where
  "refund_reply status r = reply_json status (enc_RefundAPIResponse
     \<lparr>RA_Data = Some r, RA_Success = Refund_Status r \<noteq> RefundStatusFail, RA_Error = None\<rparr>)"

definition search_error :: "int \<Rightarrow> gostring \<Rightarrow> gostring \<Rightarrow> http_reply" where
  "search_error status code message = reply_json status (enc_RefundSearchResponse
     \<lparr>RS_Data = None, RS_Success = False, RS_Error = Some (NewGatewayError code message)\<rparr>)"

subsection \<open>Reading a request\<close>

definition dec_amount :: "json \<Rightarrow> CreateRefundRequest \<Rightarrow> CreateRefundRequest option" where
  "dec_amount j r = (case j of
     JNull \<Rightarrow> Some (r\<lparr>RReq_Amount := None\<rparr>)
   | _ \<Rightarrow> (case dec_struct tab_AmountMoney j
         (case RReq_Amount r of None \<Rightarrow> zero_amount | Some a \<Rightarrow> a) of
       None \<Rightarrow> None | Some a \<Rightarrow> Some (r\<lparr>RReq_Amount := Some a\<rparr>)))"

definition tab_CreateRefundRequest :: "CreateRefundRequest jfields" where
  "tab_CreateRefundRequest =
    [(''merchant_id'', dec_str RReq_MerchantID_update), (''payment_id'', dec_str RReq_PaymentID_update),
     (''idempotency_key'', dec_str RReq_IdempotencyKey_update), (''amount'', dec_amount),
     (''reason'', dec_str RReq_Reason_update)]"

definition zero_refund_request :: CreateRefundRequest where
  "zero_refund_request = \<lparr>RReq_MerchantID = '''', RReq_PaymentID = '''', RReq_IdempotencyKey = '''',
     RReq_Amount = None, RReq_Reason = ''''\<rparr>"

definition decodeCreateRefundRequest :: "(gostring \<Rightarrow> f64 option) \<Rightarrow> http_request \<Rightarrow>
    CreateRefundRequest result" where
  "decodeCreateRefundRequest parseFloat r =
     (let contentType = ToLower (Hr_Header r ''Content-Type'') in
      if Contains contentType ''application/x-www-form-urlencoded''
        \<or> Contains contentType ''multipart/form-data'' then
        (case Hr_Form r of
           Inl err \<Rightarrow> Inl err
         | Inr form \<Rightarrow>
             (let req = zero_refund_request\<lparr>RReq_MerchantID := form ''merchant_id'',
                    RReq_PaymentID := form ''payment_id'',
                    RReq_IdempotencyKey := form ''idempotency_key'', RReq_Reason := form ''reason''\<rparr>;
                  raw = TrimSpace (form ''amount'')
              in if raw \<noteq> '''' then
                   (case parseFloat raw of
                      None \<Rightarrow> Inl ''amount must be a number''
                    | Some amount \<Rightarrow> Inr (req\<lparr>RReq_Amount := Some \<lparr>Amount_Value = amount,
                        Amount_Currency = firstNonEmpty [form ''currency'', ''RUB'']\<rparr>\<rparr>))
                 else Inr req))
      else (case decode_body tab_CreateRefundRequest zero_refund_request r of
              None \<Rightarrow> Inl ''invalid json'' | Some req \<Rightarrow> Inr req))"

definition validateCreateRefundRequest :: "CreateRefundRequest \<Rightarrow> bool \<Rightarrow> goerror option" where
  "validateCreateRefundRequest req full =
     (if RReq_MerchantID req = '''' then Some ''merchant_id is required''
      else if RReq_PaymentID req = '''' then Some ''payment_id is required''
      else if RReq_IdempotencyKey req = '''' then Some ''idempotency_key is required''
      else if \<not> full then
        (case RReq_Amount req of
           None \<Rightarrow> Some ''amount is required for partial refund''
         | Some a \<Rightarrow> if Amount_Value a \<le> Fin 0 then Some ''amount.value must be greater than zero'' else None)
      else None)"

definition providerKey :: "gostring \<Rightarrow> gostring" where
  "providerKey paymentSystem =
     (let s = ToUpper (TrimSpace paymentSystem) in
      if s = ''YOOKASSA'' then ''yookassa''
      else if s = ''PAYANYWAY'' then ''payanyway''
      else if s = ''SIMULATED'' then ''simulated''
      else if s = ''DIGITAL_RUBLE'' then ''digital_ruble''
      else ToLower (TrimSpace paymentSystem))"

subsection \<open>The log\<close>

definition refund_event :: "Refund \<Rightarrow> gostring \<Rightarrow> gostring \<Rightarrow> gostring \<Rightarrow> gotime \<Rightarrow> PaymentEvent" where
  "refund_event refund eventType level message now =
     \<lparr>Ev_Type = eventType, Ev_Level = level, Ev_Service = ''refunds'',
      Ev_MerchantID = Refund_MerchantID refund, Ev_PaymentID = Refund_PaymentID refund,
      Ev_IdempotencyKey = Refund_IdempotencyKey refund, Ev_CorrelationID = Refund_ID refund,
      Ev_CurrentStatus = Refund_Status refund, Ev_Timestamp = now, Ev_Message = message,
      Ev_Details = message,
      Ev_Context = [(''refund_id'', Refund_ID refund), (''refund_type'', Refund_RefundType refund),
        (''provider'', Refund_Provider refund), (''payment_system'', Refund_PaymentSystem refund),
        (''external_refund_id'', Refund_ExternalRefundID refund),
        (''provider_status'', Refund_ProviderStatus refund),
        (''amount'', FormatFloat2 (Refund_Amount refund)), (''currency'', Refund_Currency refund),
        (''error_message'', Refund_ProviderErrorMsg refund)]\<rparr>"

definition rf_tick :: "'s refund_world \<Rightarrow> 's refund_world" where
  "rf_tick w = w\<lparr>rw_tick := Suc (rw_tick w)\<rparr>"

definition rf_now :: "'s refund_env \<Rightarrow> 's refund_world \<Rightarrow> gotime" where
  "rf_now e w = rf_clock e (rw_tick w)"

definition refund_log :: "'s refund_env \<Rightarrow> Refund \<Rightarrow> gostring \<Rightarrow> gostring \<Rightarrow> gostring \<Rightarrow>
    's refund_world \<Rightarrow> 's refund_world" where
  "refund_log e refund eventType level message w =
     rf_tick (w\<lparr>rw_log := rw_log w @ [refund_event refund eventType level message (rf_now e w)]\<rparr>)"

definition deny_log :: "'s refund_env \<Rightarrow> Merchant \<Rightarrow> gostring \<Rightarrow> gostring \<Rightarrow> gostring \<Rightarrow>
    's refund_world \<Rightarrow> 's refund_world" where
  "deny_log e merchant target endpoint reason w =
     rf_tick (w\<lparr>rw_log := rw_log w @ [LogAuthorizationFailed merchant target endpoint reason (rf_now e w)]\<rparr>)"

subsection \<open>Creating a refund\<close>

text \<open>The refund that is recorded before the adapter is called, and what its result makes of it.\<close>

definition new_refund :: "CreateRefundRequest \<Rightarrow> PaymentResponse \<Rightarrow> AmountMoney \<Rightarrow> bool \<Rightarrow> gostring \<Rightarrow>
    gostring \<Rightarrow> gotime \<Rightarrow> Refund" where
  "new_refund req payment amount full selectedProvider refundID now =
     \<lparr>Refund_ID = refundID, Refund_MerchantID = RReq_MerchantID req,
      Refund_Status = RefundStatusProcess, Refund_Amount = Amount_Value amount,
      Refund_Currency = Amount_Currency amount, Refund_EntityType = ''payment'',
      Refund_EntityID = RReq_PaymentID req, Refund_PaymentID = RReq_PaymentID req,
      Refund_IdempotencyKey = RReq_IdempotencyKey req, Refund_Provider = selectedProvider,
      Refund_PaymentSystem = TD_PaymentSystem (Resp_TransactionDetails payment),
      Refund_ExternalRefundID = '''', Refund_ProviderStatus = '''', Refund_ProviderErrorCode = '''',
      Refund_ProviderErrorMsg = '''', Refund_RefundType = (if full then ''full'' else ''partial''),
      Refund_Reason = RReq_Reason req, Refund_CreatedAt = now, Refund_UpdatedAt = now\<rparr>"

definition refund_after :: "Refund \<Rightarrow> RefundResult \<Rightarrow> gotime \<Rightarrow> Refund" where
  "refund_after refund result now =
     (let status = NormalizeRefundStatus (RfRes_Status result) in
      refund\<lparr>Refund_Status := status,
        Refund_PaymentSystem := firstNonEmpty [RfRes_PaymentSystem result, Refund_PaymentSystem refund],
        Refund_ExternalRefundID := RfRes_ExternalRefundID result,
        Refund_ProviderStatus := RfRes_ProviderStatus result,
        Refund_ProviderErrorMsg := RfRes_ErrorMessage result, Refund_UpdatedAt := now,
        Refund_ProviderErrorCode := (if status = RefundStatusFail then ErrorRefundFailed
          else Refund_ProviderErrorCode refund)\<rparr>)"

definition refund_amount :: "CreateRefundRequest \<Rightarrow> PaymentResponse \<Rightarrow> bool \<Rightarrow> AmountMoney" where
  "refund_amount req payment full =
     (let paid = RInfo_Amount (Resp_PaymentInfo payment);
          amount = (if full then paid else case RReq_Amount req of Some a \<Rightarrow> a | None \<Rightarrow> paid)
      in if Amount_Currency amount = '''' then amount\<lparr>Amount_Currency := Amount_Currency paid\<rparr> else amount)"

definition adapter_request :: "CreateRefundRequest \<Rightarrow> PaymentResponse \<Rightarrow> AmountMoney \<Rightarrow> bool \<Rightarrow>
    gostring \<Rightarrow> RefundRequest" where
  "adapter_request req payment amount full refundID =
     \<lparr>RfReq_RefundID = refundID, RfReq_MerchantID = RReq_MerchantID req,
      RfReq_PaymentID = RReq_PaymentID req, RfReq_IdempotencyKey = RReq_IdempotencyKey req,
      RfReq_ExternalPaymentID = TD_ExternalTransactionID (Resp_TransactionDetails payment),
      RfReq_Amount = amount, RfReq_Reason = RReq_Reason req, RfReq_Full = full, RfReq_Payment = payment\<rparr>"

text \<open>From the stored payment to the reply.\<close>

definition send_refund :: "'s refund_env \<Rightarrow> 's refund_ops \<Rightarrow> CreateRefundRequest \<Rightarrow> PaymentResponse \<Rightarrow>
    bool \<Rightarrow> refund_adapter \<Rightarrow> gostring \<Rightarrow> 's refund_world \<Rightarrow> http_reply \<times> 's refund_world" where
  "send_refund e ops req payment full a selectedProvider w =
     (let amount = refund_amount req payment full;
          now = rf_now e w; w = rf_tick w;
          refundID = rf_id e (length (rw_calls w));
          refund = new_refund req payment amount full selectedProvider refundID now;
          w = w\<lparr>rw_store := snd (op_SaveRefund ops refund (rw_store w))\<rparr>;
          w = refund_log e refund EventRefundRequested LogLevelInfo ''Refund request received'' w;
          w = refund_log e refund EventRefundAdapterCalled LogLevelInfo ''Refund adapter call started'' w;
          rr = adapter_request req payment amount full refundID;
          result = (case a (length (rw_calls w)) rr of
            Inr result \<Rightarrow> result
          | Inl err \<Rightarrow> \<lparr>RfRes_ExternalRefundID = '''',
              RfRes_PaymentSystem = TD_PaymentSystem (Resp_TransactionDetails payment),
              RfRes_Status = RefundStatusFail, RfRes_ProviderStatus = ''error'',
              RfRes_ErrorMessage = err\<rparr>);
          w = w\<lparr>rw_calls := rw_calls w @ [(selectedProvider, rr)]\<rparr>;
          refund = refund_after refund result (rf_now e w); w = rf_tick w
      in case op_SaveRefund ops refund (rw_store w) of
           (Some err, s) \<Rightarrow> (writeRefundError 500 ErrorRefundStorage err, w\<lparr>rw_store := s\<rparr>)
         | (None, s) \<Rightarrow>
             (let w = w\<lparr>rw_store := s\<rparr>;
                  bad = (Refund_Status refund = RefundStatusFail);
                  w = refund_log e refund (if bad then EventRefundFailed else EventRefundAdapterResult)
                    (if bad then LogLevelWarn else LogLevelInfo) ''Refund adapter returned result'' w;
                  w = refund_log e refund EventRefundResponseSent LogLevelInfo
                    ''Refund response sent to merchant'' w
              in (refund_reply (if bad then 502 else 200) refund, w)))"

definition refund_payment :: "'s refund_env \<Rightarrow> 's store_ops \<Rightarrow> 's refund_ops \<Rightarrow> CreateRefundRequest \<Rightarrow>
    bool \<Rightarrow> 's refund_world \<Rightarrow> http_reply \<times> 's refund_world" where
  "refund_payment e tops ops req full w =
     (case op_GetByPaymentID tops (RReq_MerchantID req) (RReq_PaymentID req) (rw_store w) of
        Inl err \<Rightarrow> (writeRefundError 500 ErrorPaymentStorage err, w)
      | Inr None \<Rightarrow> (writeRefundError 404 ErrorPaymentNotFound ''payment not found'', w)
      | Inr (Some (_, payloadJSON)) \<Rightarrow>
          (case UnmarshalResponse payloadJSON of
             None \<Rightarrow> (writeRefundError 500 ErrorInvalidStoredPayment ''json: cannot unmarshal'', w)
           | Some payment \<Rightarrow>
               if Resp_CurrentStatus payment \<noteq> StatusCaptured
               then (writeRefundError 400 ErrorPaymentNotCaptured
                 ''refund is allowed only for CAPTURED payments'', w)
               else
                 let paymentSystem = TD_PaymentSystem (Resp_TransactionDetails payment);
                     provider = providerKey paymentSystem
                 in case Resolve (rf_getenv e) (rf_factory e) provider paymentSystem of
                      Inl err \<Rightarrow> (writeRefundError 502 ErrorAdapterFactory err, w)
                    | Inr (None, selectedProvider) \<Rightarrow>
                        (writeRefundError 501 ErrorRefundNotSupported
                          (''provider '' @ Quote selectedProvider @ '' does not support refunds''), w)
                    | Inr (Some a, selectedProvider) \<Rightarrow>
                        send_refund e ops req payment full a selectedProvider w))"

definition trim_refund_request :: "CreateRefundRequest \<Rightarrow> CreateRefundRequest" where
  "trim_refund_request req = req\<lparr>RReq_MerchantID := TrimSpace (RReq_MerchantID req),
     RReq_PaymentID := TrimSpace (RReq_PaymentID req),
     RReq_IdempotencyKey := TrimSpace (RReq_IdempotencyKey req),
     RReq_Reason := TrimSpace (RReq_Reason req)\<rparr>"

definition create_refund :: "'s refund_env \<Rightarrow> bool \<Rightarrow> auth_context \<Rightarrow> http_request \<Rightarrow> 's refund_world \<Rightarrow>
    http_reply \<times> 's refund_world" where
  "create_refund e full ctx r w = (case (rf_transactions e, rf_refunds e) of
     (Some tops, Some ops) \<Rightarrow>
       (case decodeCreateRefundRequest (rf_ParseFloat e) r of
          Inl err \<Rightarrow> (writeRefundError 400 ErrorBadRequest err, w)
        | Inr req \<Rightarrow>
            (let req = trim_refund_request req
             in case validateCreateRefundRequest req full of
                  Some err \<Rightarrow> (writeRefundError 400 ErrorValidation err, w)
                | None \<Rightarrow> (case MerchantFromContext ctx of
                    None \<Rightarrow> (writeRefundError 401 ErrorAuthContextMissing
                      ''authenticated merchant context is required'', w)
                  | Some authMerchant \<Rightarrow>
                      if \<not> CanWriteMerchantData authMerchant (RReq_MerchantID req)
                      then (writeRefundError 403 ErrorForbidden
                              ''refund creation is not allowed for this role or merchant'',
                            deny_log e authMerchant (RReq_MerchantID req) (Hr_Method r @ '' '' @ Hr_Path r)
                              ''refund creation is not allowed for this role or merchant'' w)
                      else (case op_GetRefundByIdempotencyKey ops (RReq_MerchantID req)
                          (RReq_IdempotencyKey req) (rw_store w) of
                        Inl err \<Rightarrow> (writeRefundError 500 ErrorRefundStorage err, w)
                      | Inr (Some cached) \<Rightarrow> (refund_reply 200 cached, w)
                      | Inr None \<Rightarrow> refund_payment e tops ops req full w))))
   | _ \<Rightarrow> (writeRefundError 500 ErrorRefundStoreUnavailable ''refund store is not configured'', w))"

subsection \<open>Reading refunds\<close>

text \<open>Without a refund store the first use of it dereferences nil: a panic, here \<open>None\<close>.\<close>

definition refund_status :: "'s refund_env \<Rightarrow> auth_context \<Rightarrow> http_request \<Rightarrow> 's refund_world \<Rightarrow>
    (http_reply \<times> 's refund_world) option" where
  "refund_status e ctx r w =
     (let merchantID = TrimSpace (Hr_Query r ''merchant_id'');
          refundID = TrimSpace (firstNonEmpty [Hr_Query r ''id'', Hr_Query r ''refund_id''])
      in if merchantID = '''' \<or> refundID = ''''
         then Some (writeRefundError 400 ErrorBadRequest ''merchant_id and id are required'', w)
         else (case MerchantFromContext ctx of
           None \<Rightarrow> Some (writeRefundError 401 ErrorAuthContextMissing
             ''authenticated merchant context is required'', w)
         | Some authMerchant \<Rightarrow>
             if \<not> CanReadMerchantData authMerchant merchantID
             then Some (writeRefundError 403 ErrorForbidden
                     ''refund status access is not allowed for this role or merchant'',
                   deny_log e authMerchant merchantID ''GET /refunds/status''
                     ''refund status access is not allowed for this role or merchant'' w)
             else map_option (\<lambda>ops. (case op_GetRefundByID ops merchantID refundID (rw_store w) of
               Inl err \<Rightarrow> (writeRefundError 500 ErrorRefundStorage err, w)
             | Inr None \<Rightarrow> (writeRefundError 404 ErrorRefundNotFound ''refund not found'', w)
             | Inr (Some refund) \<Rightarrow> (refund_reply 200 refund, w))) (rf_refunds e)))"

definition refund_search :: "'s refund_env \<Rightarrow> auth_context \<Rightarrow> http_request \<Rightarrow> 's refund_world \<Rightarrow>
    (http_reply \<times> 's refund_world) option" where
  "refund_search e ctx r w =
     (let merchantID = TrimSpace (Hr_Query r ''merchant_id'');
          paymentID = TrimSpace (Hr_Query r ''payment_id'')
      in if merchantID = '''' then Some (search_error 400 ErrorBadRequest ''merchant_id is required'', w)
         else (case MerchantFromContext ctx of
           None \<Rightarrow> Some (search_error 401 ErrorAuthContextMissing
             ''authenticated merchant context is required'', w)
         | Some authMerchant \<Rightarrow>
             if \<not> CanReadMerchantData authMerchant merchantID
             then Some (search_error 403 ErrorForbidden
                     ''refund search access is not allowed for this role or merchant'',
                   deny_log e authMerchant merchantID ''GET /refunds/search''
                     ''refund search access is not allowed for this role or merchant'' w)
             else map_option (\<lambda>ops. (case op_ListRefundsByPaymentID ops merchantID paymentID (rw_store w) of
               Inl err \<Rightarrow> (search_error 500 ErrorRefundStorage err, w)
             | Inr refunds \<Rightarrow> (reply_json 200 (enc_RefundSearchResponse
                 \<lparr>RS_Data = Some refunds, RS_Success = True, RS_Error = None\<rparr>), w))) (rf_refunds e)))"

text \<open>\<open>ServeHTTP\<close>.\<close>

definition refunds_ServeHTTP :: "'s refund_env \<Rightarrow> auth_context \<Rightarrow> http_request \<Rightarrow> 's refund_world \<Rightarrow>
    (http_reply \<times> 's refund_world) option" where
  "refunds_ServeHTTP e ctx r w =
     (if Hr_Method r = ''POST'' \<and> Hr_Path r = ''/refunds/full/create'' then Some (create_refund e True ctx r w)
      else if Hr_Method r = ''POST'' \<and> Hr_Path r = ''/refunds/partial/create''
      then Some (create_refund e False ctx r w)
      else if Hr_Method r = ''GET'' \<and> Hr_Path r = ''/refunds/status''
      then refund_status e ctx r w
      else if Hr_Method r = ''GET'' \<and> Hr_Path r = ''/refunds/search''
      then refund_search e ctx r w
      else Some (writeRefundError 404 ErrorNotFound ''refund endpoint not found'', w))"

subsection \<open>Facts\<close>

lemma rf_simps [simp]:
  "rw_store (rf_tick w) = rw_store w" "rw_log (rf_tick w) = rw_log w" "rw_calls (rf_tick w) = rw_calls w"
  "rw_store (refund_log e r t l m w) = rw_store w" "rw_calls (refund_log e r t l m w) = rw_calls w"
  "map Ev_Type (rw_log (refund_log e r t l m w)) = map Ev_Type (rw_log w) @ [t]"
  "rw_store (deny_log e mt tg ep rs w) = rw_store w" "rw_calls (deny_log e mt tg ep rs w) = rw_calls w"
  by (simp_all add: rf_tick_def refund_log_def deny_log_def refund_event_def)

lemma send_refund_calls:
  "rw_calls (snd (send_refund e ops req payment full a provider w)) = rw_calls w
    @ [(provider, adapter_request req payment (refund_amount req payment full) full
        (rf_id e (length (rw_calls w))))]"
  by (simp add: send_refund_def Let_def split: prod.splits option.splits)

text \<open>The refund of a run and what the second save leaves.\<close>

lemma send_refund_saved:
  assumes "send_refund e ops req payment full a provider w = (reply, w')" and "fst reply \<noteq> 500"
  obtains refund s where "op_SaveRefund ops refund s = (None, rw_store w')"
    "reply = refund_reply (if Refund_Status refund = RefundStatusFail then 502 else 200) refund"
    "Refund_MerchantID refund = RReq_MerchantID req" "Refund_PaymentID refund = RReq_PaymentID req"
    "Refund_IdempotencyKey refund = RReq_IdempotencyKey req"
    "Refund_Amount refund = Amount_Value (refund_amount req payment full)"
    "Refund_Status refund \<in> {RefundStatusProcess, RefundStatusSuccess, RefundStatusFail}"
proof -
  let ?id = "rf_id e (length (rw_calls w))"
  let ?amt = "refund_amount req payment full"
  define r0 where "r0 = new_refund req payment ?amt full provider ?id (rf_now e w)"
  have stat: "NormalizeRefundStatus s \<in> {RefundStatusProcess, RefundStatusSuccess, RefundStatusFail}" for s
    by (simp add: NormalizeRefundStatus_def Let_def)
  from assms obtain result now s where run:
    "op_SaveRefund ops (refund_after r0 result now) s = (None, rw_store w')"
    "reply = refund_reply (if Refund_Status (refund_after r0 result now) = RefundStatusFail then 502 else 200)
      (refund_after r0 result now)"
    by (auto simp: send_refund_def Let_def r0_def writeRefundError_def split: prod.splits option.splits if_splits)
  show thesis
    by (rule that [OF run]) (use stat in \<open>simp_all add: r0_def refund_after_def new_refund_def Let_def\<close>)
qed

text \<open>What a call of an adapter needs, and that there is one at most.\<close>

lemma create_refund_needs:
  assumes "create_refund e full ctx r w = (reply, w')" and "rw_calls w' \<noteq> rw_calls w"
  obtains tops ops m req st payload payment provider where "rf_transactions e = Some tops" "rf_refunds e = Some ops"
    "MerchantFromContext ctx = Some m" "CanWriteMerchantData m (RReq_MerchantID req)"
    "op_GetRefundByIdempotencyKey ops (RReq_MerchantID req) (RReq_IdempotencyKey req) (rw_store w) = Inr None"
    "op_GetByPaymentID tops (RReq_MerchantID req) (RReq_PaymentID req) (rw_store w) = Inr (Some (st, payload))"
    "UnmarshalResponse payload = Some payment" "Resp_CurrentStatus payment = StatusCaptured"
    "rw_calls w' = rw_calls w @ [(provider, adapter_request req payment
        (refund_amount req payment full) full (rf_id e (length (rw_calls w))))]"
proof -
  from assms obtain tops ops req m where req: "rf_transactions e = Some tops" "rf_refunds e = Some ops"
    "MerchantFromContext ctx = Some m" "CanWriteMerchantData m (RReq_MerchantID req)"
    "op_GetRefundByIdempotencyKey ops (RReq_MerchantID req) (RReq_IdempotencyKey req) (rw_store w) = Inr None"
    "refund_payment e tops ops req full w = (reply, w')"
    by (auto simp: create_refund_def Let_def split: option.splits sum.splits if_splits)
  from req(6) assms(2) obtain st payload payment a provider where pay:
    "op_GetByPaymentID tops (RReq_MerchantID req) (RReq_PaymentID req) (rw_store w) = Inr (Some (st, payload))"
    "UnmarshalResponse payload = Some payment" "Resp_CurrentStatus payment = StatusCaptured"
    "send_refund e ops req payment full a provider w = (reply, w')"
    by (auto simp: refund_payment_def Let_def split: option.splits sum.splits prod.splits if_splits)
  have "rw_calls w' = rw_calls w @ [(provider, adapter_request req payment
        (refund_amount req payment full) full (rf_id e (length (rw_calls w))))]"
    using send_refund_calls [of e ops req payment full a provider w] pay(4) by simp
  then show thesis by (rule that [OF req(1-5) pay(1-3)])
qed

subsection \<open>Properties\<close>

text \<open>
  C13: What a refund needs. If a request to create a refund reaches an adapter, then it was made
  by a merchant that may write the data of the named merchant, the idempotency key was not used
  before, a payment of that merchant is stored under the named identifier and is CAPTURED; the
  adapter is called once, for that payment, and a full refund is for exactly the paid amount.
\<close>

theorem create_refund_calls:
  assumes "create_refund e full ctx r w = (reply, w')" and "rw_calls w' \<noteq> rw_calls w"
  shows "\<exists>tops ops m req st payload payment provider. rf_transactions e = Some tops \<and> rf_refunds e = Some ops
    \<and> MerchantFromContext ctx = Some m \<and> CanWriteMerchantData m (RReq_MerchantID req)
    \<and> op_GetRefundByIdempotencyKey ops (RReq_MerchantID req) (RReq_IdempotencyKey req) (rw_store w) = Inr None
    \<and> op_GetByPaymentID tops (RReq_MerchantID req) (RReq_PaymentID req) (rw_store w) = Inr (Some (st, payload))
    \<and> UnmarshalResponse payload = Some payment \<and> Resp_CurrentStatus payment = StatusCaptured
    \<and> rw_calls w' = rw_calls w @ [(provider, adapter_request req payment
        (refund_amount req payment full) full (rf_id e (length (rw_calls w))))]
    \<and> (if full then Amount_Value (refund_amount req payment full)
          = Amount_Value (RInfo_Amount (Resp_PaymentInfo payment)) else True)"
proof -
  have full: "Amount_Value (refund_amount req payment True)
      = Amount_Value (RInfo_Amount (Resp_PaymentInfo payment))" for req payment
    by (simp add: refund_amount_def Let_def)
  show ?thesis
    by (rule create_refund_needs [OF assms]) (intro exI conjI, assumption+, use full in \<open>cases full; simp\<close>)
qed

text \<open>The operations of the in-memory store; \<open>iter\<close> lists the refunds of a state in some order.\<close>

definition mem_refund_ops :: "(InMemoryTransactionStore \<Rightarrow> (gostring \<times> Refund) list) \<Rightarrow>
    InMemoryTransactionStore refund_ops" where
  "mem_refund_ops iter = \<lparr>op_SaveRefund = mem_SaveRefund, op_GetRefundByID = mem_GetRefundByID,
     op_GetRefundByIdempotencyKey = (\<lambda>m k s. mem_GetRefundByIdempotencyKey (iter s) m k),
     op_ListRefundsByPaymentID = (\<lambda>m p s. mem_ListRefundsByPaymentID (iter s) m p)\<rparr>"

definition sample_payment :: PaymentResponse where
  "sample_payment = zero_response\<lparr>Resp_ID := ''p'', Resp_CurrentStatus := StatusCaptured,
     Resp_PaymentInfo := (Resp_PaymentInfo zero_response)\<lparr>RInfo_Amount :=
       \<lparr>Amount_Value = Fin 10, Amount_Currency = ''RUB''\<rparr>\<rparr>,
     Resp_TransactionDetails := zero_details\<lparr>TD_PaymentSystem := ''simulated''\<rparr>\<rparr>"

definition paid_store :: InMemoryTransactionStore where
  "paid_store = NewInMemoryTransactionStore\<lparr>Mem_byPaymentID :=
     [store_key ''m'' ''p'' \<mapsto> \<lparr>Tx_status = StatusCaptured,
       Tx_payloadJSON = JDoc (enc_PaymentResponse sample_payment), Tx_idempotencyKey = ''k'',
       Tx_createdAt = 7, Tx_updatedAt = 7\<rparr>]\<rparr>"

definition sample_refund_env :: "InMemoryTransactionStore refund_env" where
  "sample_refund_env = \<lparr>rf_transactions = Some mem_ops, rf_refunds = Some (mem_refund_ops (\<lambda>_. [])),
     rf_factory = [''simulated'' \<mapsto> Some (\<lambda>n rr. Inr \<lparr>RfRes_ExternalRefundID = ''x'',
       RfRes_PaymentSystem = '''', RfRes_Status = RefundStatusSuccess, RfRes_ProviderStatus = '''',
       RfRes_ErrorMessage = ''''\<rparr>)],
     rf_getenv = (\<lambda>_. ''''), rf_clock = (\<lambda>_. 7), rf_id = (\<lambda>_. ''ref_1''), rf_ParseFloat = (\<lambda>_. Some NaN)\<rparr>"

definition sample_refund_world :: "InMemoryTransactionStore refund_world" where
  "sample_refund_world = \<lparr>rw_store = paid_store, rw_tick = 0, rw_log = [], rw_calls = []\<rparr>"

definition refund_form :: http_request where
  "refund_form = sample_http\<lparr>Hr_Method := ''POST'', Hr_Path := ''/refunds/partial/create'',
     Hr_Header := \<lambda>h. if h = ''Content-Type'' then ''application/x-www-form-urlencoded'' else '''',
     Hr_Form := Inr (\<lambda>f. if f = ''merchant_id'' then ''m'' else if f = ''payment_id'' then ''p''
       else if f = ''idempotency_key'' then ''k'' else if f = ''amount'' then ''NaN'' else '''')\<rparr>"

definition form_request :: CreateRefundRequest where
  "form_request = \<lparr>RReq_MerchantID = ''m'', RReq_PaymentID = ''p'', RReq_IdempotencyKey = ''k'',
     RReq_Amount = Some \<lparr>Amount_Value = NaN, Amount_Currency = ''RUB''\<rparr>, RReq_Reason = ''''\<rparr>"

lemma sample_payment_decodes:
  "UnmarshalResponse (JDoc (enc_PaymentResponse sample_payment)) = Some sample_payment"
proof -
  have "utf8_PaymentResponse sample_payment"
    by (simp add: sample_payment_def zero_defs utf8_PaymentResponse_def utf8_PaymentInfoResponse_def
        utf8_AmountMoney_def utf8_PaymentMethodData_def utf8_CustomerData_def
        utf8_DigitalRubleData_def utf8_TransactionDetails_def lit is_ascii_def byte_def)
  then show ?thesis by (simp add: UnmarshalResponse_def dec_PaymentResponse)
qed

lemma form_request: "decodeCreateRefundRequest (\<lambda>_. Some NaN) refund_form = Inr form_request"
proof -
  have "Contains (ToLower ''application/x-www-form-urlencoded'') ''application/x-www-form-urlencoded''"
    by (simp add: go_eval Contains_def HasPrefix_def)
  moreover have "TrimSpace ''NaN'' = ''NaN''" "firstNonEmpty ['''', ''RUB''] = ''RUB''"
    by (simp_all add: go_eval)
  ultimately show ?thesis
    by (simp add: decodeCreateRefundRequest_def refund_form_def form_request_def zero_refund_request_def)
qed

lemma form_request_trimmed: "trim_refund_request form_request = form_request"
  by (simp add: trim_refund_request_def form_request_def go_eval)

lemma partial_refund_sent:
  assumes "rf_transactions e = Some tops" "rf_refunds e = Some ops"
    and "decodeCreateRefundRequest (rf_ParseFloat e) r = Inr req0" "trim_refund_request req0 = req"
    and "RReq_MerchantID req \<noteq> ''''" "RReq_PaymentID req \<noteq> ''''" "RReq_IdempotencyKey req \<noteq> ''''"
    and "RReq_Amount req = Some amount" "\<not> Amount_Value amount \<le> Fin 0"
    and "MerchantFromContext ctx = Some m" "CanWriteMerchantData m (RReq_MerchantID req)"
    and "op_GetRefundByIdempotencyKey ops (RReq_MerchantID req) (RReq_IdempotencyKey req) (rw_store w) = Inr None"
    and "op_GetByPaymentID tops (RReq_MerchantID req) (RReq_PaymentID req) (rw_store w) = Inr (Some (st, payload))"
    and "UnmarshalResponse payload = Some payment" "Resp_CurrentStatus payment = StatusCaptured"
    and "Resolve (rf_getenv e) (rf_factory e) (providerKey (TD_PaymentSystem (Resp_TransactionDetails payment)))
      (TD_PaymentSystem (Resp_TransactionDetails payment)) = Inr (Some a, provider)"
  shows "\<exists>rr. rw_calls (snd (create_refund e False ctx r w)) = rw_calls w @ [(provider, rr)]
    \<and> Amount_Value (RfReq_Amount rr) = Amount_Value amount \<and> RfReq_PaymentID rr = RReq_PaymentID req"
proof -
  have valid: "validateCreateRefundRequest req False = None"
    using assms(5-9) by (simp add: validateCreateRefundRequest_def)
  have "create_refund e False ctx r w = send_refund e ops req payment False a provider w"
    using assms valid by (simp add: create_refund_def refund_payment_def Let_def)
  moreover have "Amount_Value (RfReq_Amount (adapter_request req payment (refund_amount req payment False)
      False rid)) = Amount_Value amount" for rid
    using assms(8) by (simp add: adapter_request_def refund_amount_def Let_def)
  moreover have "RfReq_PaymentID (adapter_request req payment amt False rid) = RReq_PaymentID req" for amt rid
    by (simp add: adapter_request_def)
  ultimately show ?thesis by (simp add: send_refund_calls)
qed

text \<open>
  C17: Nothing bounds a partial refund. Whatever was refunded before and whatever the payment was
  worth, an authorised request with a fresh key for a CAPTURED payment is sent to the adapter
  with exactly the amount it asks for, as long as that is not at most zero; the amount \<open>NaN\<close>,
  which the form parser accepts, passes this test too.
\<close>

theorem partial_refund_unbounded:
  assumes "rf_transactions e = Some tops" "rf_refunds e = Some ops"
    and "decodeCreateRefundRequest (rf_ParseFloat e) r = Inr req0" "trim_refund_request req0 = req"
    and "RReq_MerchantID req \<noteq> ''''" "RReq_PaymentID req \<noteq> ''''" "RReq_IdempotencyKey req \<noteq> ''''"
    and "RReq_Amount req = Some amount" "\<not> Amount_Value amount \<le> Fin 0"
    and "MerchantFromContext ctx = Some m" "CanWriteMerchantData m (RReq_MerchantID req)"
    and "op_GetRefundByIdempotencyKey ops (RReq_MerchantID req) (RReq_IdempotencyKey req) (rw_store w) = Inr None"
    and "op_GetByPaymentID tops (RReq_MerchantID req) (RReq_PaymentID req) (rw_store w) = Inr (Some (st, payload))"
    and "UnmarshalResponse payload = Some payment" "Resp_CurrentStatus payment = StatusCaptured"
    and "Resolve (rf_getenv e) (rf_factory e) (providerKey (TD_PaymentSystem (Resp_TransactionDetails payment)))
      (TD_PaymentSystem (Resp_TransactionDetails payment)) = Inr (Some a, provider)"
  shows "\<exists>rr. rw_calls (snd (create_refund e False ctx r w)) = rw_calls w @ [(provider, rr)]
    \<and> Amount_Value (RfReq_Amount rr) = Amount_Value amount \<and> RfReq_PaymentID rr = RReq_PaymentID req"
  by (rule partial_refund_sent [OF assms])

lemma sample_refund_resolves:
  "\<exists>a. Resolve (rf_getenv sample_refund_env) (rf_factory sample_refund_env)
      (providerKey (TD_PaymentSystem (Resp_TransactionDetails sample_payment)))
      (TD_PaymentSystem (Resp_TransactionDetails sample_payment)) = Inr (Some a, ''simulated'')"
proof -
  have "TrimSpace ''simulated'' = ''simulated''" "ToUpper ''simulated'' = ''SIMULATED''"
    "ToLower ''simulated'' = ''simulated''" by (simp_all add: go_eval)
  then show ?thesis
    by (simp add: Resolve_def providerKey_def normalizeAdapterKey_def isLegacyAdapterKey_def
        Factory_Get_def sample_refund_env_def sample_payment_def Let_def)
qed

lemma sample_refund_auth:
  "MerchantFromContext (Some sample_merchant) = Some sample_merchant"
  "CanWriteMerchantData sample_merchant ''m''"
  by (simp_all add: MerchantFromContext_def CanWriteMerchantData_def sample_merchant_def
      NormalizeRole_def lit go_eval)

lemma sample_refund_store:
  "mem_GetRefundByIdempotencyKey [] ''m'' ''k'' = Inr None"
  "mem_GetByPaymentID ''m'' ''p'' paid_store
    = Inr (Some (StatusCaptured, JDoc (enc_PaymentResponse sample_payment)))"
  by (simp_all add: mem_GetRefundByIdempotencyKey_def mem_GetByPaymentID_def paid_store_def)

lemma sample_refund_fields:
  "rf_transactions sample_refund_env = Some mem_ops"
  "rf_refunds sample_refund_env = Some (mem_refund_ops (\<lambda>_. []))"
  "rf_ParseFloat sample_refund_env = (\<lambda>_. Some NaN)"
  "op_GetRefundByIdempotencyKey (mem_refund_ops (\<lambda>_. [])) x y s = mem_GetRefundByIdempotencyKey [] x y"
  "RReq_MerchantID form_request = ''m''" "RReq_PaymentID form_request = ''p''"
  "RReq_IdempotencyKey form_request = ''k''"
  "RReq_Amount form_request = Some \<lparr>Amount_Value = NaN, Amount_Currency = ''RUB''\<rparr>"
  "rw_store sample_refund_world = paid_store" "rw_calls sample_refund_world = []"
  "Resp_CurrentStatus sample_payment = StatusCaptured"
  by (simp_all add: sample_refund_env_def mem_refund_ops_def form_request_def sample_refund_world_def
      sample_payment_def)

theorem partial_refund_unbounded_witness:
  "\<exists>rr. rw_calls (snd (create_refund sample_refund_env False (Some sample_merchant) refund_form
      sample_refund_world)) = [(''simulated'', rr)] \<and> Amount_Value (RfReq_Amount rr) = NaN"
proof -
  from sample_refund_resolves obtain a where resolve:
    "Resolve (rf_getenv sample_refund_env) (rf_factory sample_refund_env)
      (providerKey (TD_PaymentSystem (Resp_TransactionDetails sample_payment)))
      (TD_PaymentSystem (Resp_TransactionDetails sample_payment)) = Inr (Some a, ''simulated'')" ..
  show ?thesis
    using partial_refund_unbounded [OF _ _ _ form_request_trimmed _ _ _ _ _ sample_refund_auth(1) _ _ _
        sample_payment_decodes _ resolve, of mem_ops "mem_refund_ops (\<lambda>_. [])" refund_form
        "\<lparr>Amount_Value = NaN, Amount_Currency = ''RUB''\<rparr>" sample_refund_world StatusCaptured]
    by (auto simp: sample_refund_fields sample_refund_store sample_refund_auth form_request)
qed

lemma sample_refund_sent:
  "rw_calls (snd (create_refund sample_refund_env False (Some sample_merchant) refund_form
      sample_refund_world)) \<noteq> rw_calls sample_refund_world"
proof -
  from sample_refund_resolves obtain a where resolve:
    "Resolve (rf_getenv sample_refund_env) (rf_factory sample_refund_env)
      (providerKey (TD_PaymentSystem (Resp_TransactionDetails sample_payment)))
      (TD_PaymentSystem (Resp_TransactionDetails sample_payment)) = Inr (Some a, ''simulated'')" ..
  show ?thesis
    using partial_refund_sent [OF _ _ _ form_request_trimmed _ _ _ _ _ sample_refund_auth(1) _ _ _
        sample_payment_decodes _ resolve, of mem_ops "mem_refund_ops (\<lambda>_. [])" refund_form
        "\<lparr>Amount_Value = NaN, Amount_Currency = ''RUB''\<rparr>" sample_refund_world StatusCaptured]
    by (auto simp: sample_refund_fields sample_refund_store sample_refund_auth form_request)
qed

theorem create_refund_calls_witness:
  "\<exists>req :: CreateRefundRequest. CanWriteMerchantData sample_merchant (RReq_MerchantID req)
    \<and> (\<exists>call. rw_calls (snd (create_refund sample_refund_env False (Some sample_merchant) refund_form
        sample_refund_world)) = [call])"
proof -
  obtain reply w' where run: "create_refund sample_refund_env False (Some sample_merchant) refund_form
      sample_refund_world = (reply, w')" by fastforce
  have "rw_calls w' \<noteq> rw_calls sample_refund_world" using sample_refund_sent by (simp add: run)
  from create_refund_calls [OF run this] obtain m call and req :: CreateRefundRequest where
    "MerchantFromContext (Some sample_merchant) = Some m" "CanWriteMerchantData m (RReq_MerchantID req)"
    "rw_calls w' = rw_calls sample_refund_world @ [call]" by (elim exE conjE) (erule (2) that)
  then show ?thesis by (auto simp: run sample_refund_auth(1) sample_refund_fields)
qed

end
