(* ===== verification/Network.thy ===== *)
theory Network
  imports Merchant_Auth Routing "HOL-Library.Word"
begin

section \<open>Network and transport security (\<open>internal/httpapi/security\<close>)\<close>

text \<open>
  \<open>network.go\<close> filters requests by source address, \<open>transport.go\<close> enforces HTTPS. An address is
  a 128 bit word as in package \<open>net\<close>, an IPv4 address being its mapped form \<open>::ffff:a.b.c.d\<close>;
  \<open>ParseIP\<close>, \<open>ParseCIDR\<close>, \<open>SplitHostPort\<close> and \<open>IPNet.Contains\<close> of that package are modelled
  here. \<open>None\<close> is a nil address. A request has its headers, its remote address, whether it
  came over TLS and the scheme of its target. What \<open>url.Parse\<close> makes of an outbound URL is a
  parameter.
\<close>

unbundle bit_operations_syntax

type_synonym ip = "128 word"

subsection \<open>Package \<open>net\<close>\<close>

definition v4_prefix :: ip where "v4_prefix = push_bit 32 0xFFFF"

text \<open>\<open>To4\<close> is not nil.\<close>

definition is_v4 :: "ip \<Rightarrow> bool" where
  "is_v4 a = (drop_bit 32 a = 0xFFFF)"

text \<open>A network has an address, the length of its mask (32 or 128) and the number of its ones.\<close>

record ip_net =
  Net_IP :: ip
  Net_Bits :: nat
  Net_Ones :: nat

text \<open>The mask within the 128 bits; of a mask for IPv6 with an IPv4 address the last 32 bits count.\<close>

definition net_mask :: "ip_net \<Rightarrow> ip" where
  "net_mask n = (let host = (if Net_Bits n = 32 then 32 - Net_Ones n else 128 - Net_Ones n);
       host = (if is_v4 (Net_IP n) then min host 32 else host)
     in NOT (mask host))"

definition net_Contains :: "ip_net \<Rightarrow> ip \<Rightarrow> bool" where
  "net_Contains n a = (is_v4 (Net_IP n) = is_v4 a \<and> Net_IP n AND net_mask n = a AND net_mask n)"

definition dec_value :: "gostring \<Rightarrow> nat" where
  "dec_value s = foldl (\<lambda>n c. 10 * n + (byte c - 48)) 0 s"

definition hex_digit :: "char \<Rightarrow> nat option" where
  "hex_digit c = (let b = byte c in
     if 48 \<le> b \<and> b \<le> 57 then Some (b - 48)
     else if 97 \<le> b \<and> b \<le> 102 then Some (b - 87)
     else if 65 \<le> b \<and> b \<le> 70 then Some (b - 55) else None)"

definition hextet :: "gostring \<Rightarrow> nat option" where
  "hextet s = (if s = '''' \<or> 4 < length s \<or> list_ex (\<lambda>c. hex_digit c = None) s then None
     else Some (foldl (\<lambda>n c. 16 * n + the (hex_digit c)) 0 s))"

definition octet :: "gostring \<Rightarrow> nat option" where
  "octet s = (if s = '''' \<or> 3 < length s \<or> \<not> list_all (\<lambda>c. is_digit (byte c)) s
       \<or> 1 < length s \<and> hd s = CHR ''0'' \<or> 255 < dec_value s then None
     else Some (dec_value s))"

definition ParseIPv4 :: "gostring \<Rightarrow> nat option" where
  "ParseIPv4 s = (case map octet (Split CHR ''.'' s) of
     [Some a, Some b, Some c, Some d] \<Rightarrow> Some (((a * 256 + b) * 256 + c) * 256 + d)
   | _ \<Rightarrow> None)"

text \<open>The 16 bit groups of a text; the last one may be an IPv4 address.\<close>

fun ip6_groups :: "gostring list \<Rightarrow> nat list option" where
  "ip6_groups [] = Some []"
| "ip6_groups [g] = (if Contains g ''.''
     then map_option (\<lambda>v. [v div 65536, v mod 65536]) (ParseIPv4 g)
     else map_option (\<lambda>v. [v]) (hextet g))"
| "ip6_groups (g # gs) = (case (hextet g, ip6_groups gs) of
     (Some v, Some vs) \<Rightarrow> Some (v # vs) | _ \<Rightarrow> None)"

definition ip6_side :: "gostring \<Rightarrow> nat list option" where
  "ip6_side s = (if s = '''' then Some [] else ip6_groups (Split CHR '':'' s))"

definition ParseIPv6 :: "gostring \<Rightarrow> nat list option" where
  "ParseIPv6 s = (case Index s ''::'' of
     None \<Rightarrow> (case ip6_groups (Split CHR '':'' s) of
       Some vs \<Rightarrow> if length vs = 8 then Some vs else None | None \<Rightarrow> None)
   | Some i \<Rightarrow> (case (ip6_side (take i s), ip6_side (drop (i + 2) s)) of
       (Some l, Some r) \<Rightarrow> if length l + length r \<le> 7 \<and> \<not> Contains (take i s) ''.''
         then Some (l @ replicate (8 - length l - length r) 0 @ r) else None
     | _ \<Rightarrow> None))"

definition ip6_word :: "nat list \<Rightarrow> ip" where
  "ip6_word vs = foldl (\<lambda>a v. push_bit 16 a OR of_nat v) 0 vs"

text \<open>The family is decided by the first dot or colon; a zone (after a percent sign) is refused.\<close>

definition ParseIP :: "gostring \<Rightarrow> ip option" where
  "ParseIP s = (case List.find (\<lambda>c. c \<in> {CHR ''.'', CHR '':'', CHR ''%''}) s of
     Some c \<Rightarrow> if c = CHR ''.'' then map_option (\<lambda>v. v4_prefix OR of_nat v) (ParseIPv4 s)
       else if c = CHR '':'' then map_option ip6_word (ParseIPv6 s) else None
   | None \<Rightarrow> None)"

text \<open>The address as written, and the network of its prefix.\<close>

definition ParseCIDR :: "gostring \<Rightarrow> (ip \<times> ip_net) option" where
  "ParseCIDR s = (case IndexByte s CHR ''/'' of
     None \<Rightarrow> None
   | Some i \<Rightarrow>
       (let addr = take i s; m = drop (Suc i) s; v4 = \<not> Contains addr '':''; bits = (if v4 then 32 else 128)
        in case ParseIP addr of
          None \<Rightarrow> None
        | Some a \<Rightarrow>
            if m = '''' \<or> \<not> list_all (\<lambda>c. is_digit (byte c)) m \<or> bits < dec_value m then None
            else Some (a, \<lparr>Net_IP = a AND NOT (mask (bits - dec_value m)), Net_Bits = bits,
              Net_Ones = dec_value m\<rparr>)))"

text \<open>The host of \<open>SplitHostPort\<close>, \<open>None\<close> for an error.\<close>

definition SplitHostPort :: "gostring \<Rightarrow> gostring option" where
  "SplitHostPort s = (case LastIndexByte s CHR '':'' of
     None \<Rightarrow> None
   | Some i \<Rightarrow>
       if HasPrefix s ''['' then
         (case IndexByte s CHR '']'' of
            None \<Rightarrow> None
          | Some j \<Rightarrow> if Suc j \<noteq> i \<or> Contains (drop 1 s) ''['' \<or> Contains (drop (Suc j) s) '']'' then None
              else Some (take (j - 1) (drop 1 s)))
       else if Contains (take i s) '':'' \<or> Contains s ''['' \<or> Contains s '']'' then None
       else Some (take i s))"

subsection \<open>Addresses in requests\<close>

definition firstHeaderValue :: "gostring \<Rightarrow> gostring" where
  "firstHeaderValue v = (case Index v '','' of Some i \<Rightarrow> TrimSpace (take i v) | None \<Rightarrow> TrimSpace v)"

definition parseIPLiteral :: "gostring \<Rightarrow> ip option" where
  "parseIPLiteral value =
     (let v = TrimSpace (TrimByte value CHR 0x22);
          v = TrimSuffix (TrimPrefix v ''['') '']''
      in if v = '''' then None
         else let v = (case SplitHostPort v of Some host \<Rightarrow> host | None \<Rightarrow> v);
                  v = TrimSuffix (TrimPrefix v ''['') '']''
              in ParseIP v)"

definition RemoteIP :: "gostring \<Rightarrow> ip option" where
  "RemoteIP remoteAddr = (let a = TrimSpace remoteAddr in
     if a = '''' then None
     else (case SplitHostPort a of Some host \<Rightarrow> parseIPLiteral host | None \<Rightarrow> parseIPLiteral a))"

definition firstForwardedFor :: "gostring \<Rightarrow> ip option" where
  "firstForwardedFor value = parseIPLiteral (firstHeaderValue value)"

text \<open>The two loops return at the first \<open>for=\<close>.\<close>

definition forwardedHeaderFor :: "gostring \<Rightarrow> ip option" where
  "forwardedHeaderFor value =
     (case List.find (\<lambda>p. HasPrefix (ToLower p) ''for='')
        (map TrimSpace (concat (map (Split CHR '';'') (Split CHR '','' value)))) of
        None \<Rightarrow> None
      | Some p \<Rightarrow> parseIPLiteral (TrimSpace (drop 4 p)))"

definition IPAllowed :: "ip option \<Rightarrow> ip_net list \<Rightarrow> bool" where
  "IPAllowed a allowed =
     (if allowed = [] then True
      else (case a of None \<Rightarrow> False | Some x \<Rightarrow> list_ex (\<lambda>n. net_Contains n x) allowed))"

subsection \<open>The configuration\<close>

record NetworkConfig =
  NC_TrustedProxyCIDRs :: "ip_net list"
  NC_MerchantAllowedCIDRs :: "ip_net list"
  NC_AdminAllowedCIDRs :: "ip_net list"
  NC_WebhookAllowedCIDRs :: "ip_net list"

definition parseCIDROrIP :: "gostring \<Rightarrow> ip_net result" where
  "parseCIDROrIP value =
     (if Contains value ''/'' then
        (case ParseCIDR value of
           None \<Rightarrow> Inl (''invalid CIDR '' @ Quote value)
         | Some (a, ipNet) \<Rightarrow> Inr (ipNet\<lparr>Net_IP := a\<rparr>))
      else (case parseIPLiteral value of
          None \<Rightarrow> Inl (''invalid IP address '' @ Quote value)
        | Some a \<Rightarrow> if is_v4 a then Inr \<lparr>Net_IP = a, Net_Bits = 32, Net_Ones = 32\<rparr>
            else Inr \<lparr>Net_IP = a, Net_Bits = 128, Net_Ones = 128\<rparr>))"

text \<open>\<open>FieldsFunc\<close> with the separators of the list.\<close>

definition cidr_separator :: "char \<Rightarrow> bool" where
  "cidr_separator c = (byte c \<in> {44, 59, 10, 13, 9, 32})"

fun fields_loop :: "gostring \<Rightarrow> gostring \<Rightarrow> gostring list" where
  "fields_loop cur [] = (if cur = '''' then [] else [cur])"
| "fields_loop cur (c # s) = (if cidr_separator c
     then (if cur = '''' then fields_loop '''' s else cur # fields_loop '''' s)
     else fields_loop (cur @ [c]) s)"

fun parse_parts :: "gostring list \<Rightarrow> ip_net list result" where
  "parse_parts [] = Inr []"
| "parse_parts (p # ps) = (let p = TrimSpace p in
     if p = '''' then parse_parts ps
     else (case parseCIDROrIP p of
       Inl err \<Rightarrow> Inl err
     | Inr n \<Rightarrow> (case parse_parts ps of Inl err \<Rightarrow> Inl err | Inr ns \<Rightarrow> Inr (n # ns))))"

definition ParseCIDRList :: "gostring \<Rightarrow> ip_net list result" where
  "ParseCIDRList raw = (let raw = TrimSpace raw in
     if raw = '''' then Inr [] else parse_parts (fields_loop '''' raw))"

definition named_list :: "(gostring \<Rightarrow> gostring) \<Rightarrow> gostring \<Rightarrow> ip_net list result" where
  "named_list env name = (case ParseCIDRList (env name) of
     Inl err \<Rightarrow> Inl (name @ '': '' @ err) | Inr ns \<Rightarrow> Inr ns)"

definition NetworkConfigFromEnv :: "(gostring \<Rightarrow> gostring) \<Rightarrow> NetworkConfig result" where
  "NetworkConfigFromEnv env =
     (case named_list env ''TRUSTED_PROXY_CIDRS'' of Inl err \<Rightarrow> Inl err | Inr trusted \<Rightarrow>
     (case named_list env ''MERCHANT_ALLOWED_CIDRS'' of Inl err \<Rightarrow> Inl err | Inr merchant \<Rightarrow>
     (case named_list env ''ADMIN_ALLOWED_CIDRS'' of Inl err \<Rightarrow> Inl err | Inr admin \<Rightarrow>
     (case named_list env ''WEBHOOK_ALLOWED_CIDRS'' of Inl err \<Rightarrow> Inl err | Inr webhook \<Rightarrow>
       Inr \<lparr>NC_TrustedProxyCIDRs = trusted, NC_MerchantAllowedCIDRs = merchant,
         NC_AdminAllowedCIDRs = admin, NC_WebhookAllowedCIDRs = webhook\<rparr>))))"

definition ClientIP :: "NetworkConfig \<Rightarrow> http_request \<Rightarrow> ip option \<times> gostring" where
  "ClientIP cfg r =
     (let remoteIP = RemoteIP (Hr_RemoteAddr r) in
      if IPAllowed remoteIP (NC_TrustedProxyCIDRs cfg) \<and> NC_TrustedProxyCIDRs cfg \<noteq> [] then
        (case firstForwardedFor (Hr_Header r ''X-Forwarded-For'') of
           Some a \<Rightarrow> (Some a, ''x_forwarded_for'')
         | None \<Rightarrow> (case parseIPLiteral (firstHeaderValue (Hr_Header r ''X-Real-IP'')) of
             Some a \<Rightarrow> (Some a, ''x_real_ip'')
           | None \<Rightarrow> (case forwardedHeaderFor (Hr_Header r ''Forwarded'') of
               Some a \<Rightarrow> (Some a, ''forwarded'')
             | None \<Rightarrow> (remoteIP, ''remote_addr''))))
      else (remoteIP, ''remote_addr''))"

subsection \<open>The address filters\<close>

definition writeNetworkAccessDenied :: "gostring \<Rightarrow> http_reply" where
  "writeNetworkAccessDenied message = reply_json 403 (enc_code_message ErrorNetworkAccessDenied message)"

text \<open>The text of an address (\<open>IP.String\<close>) is a parameter; it only appears in the log.\<close>

definition logNetworkAccessDenied :: "(ip \<Rightarrow> gostring) \<Rightarrow> NetworkConfig \<Rightarrow> http_request \<Rightarrow> gostring \<Rightarrow>
    gostring \<Rightarrow> gostring \<Rightarrow> gostring \<Rightarrow> gotime \<Rightarrow> PaymentEvent" where
  "logNetworkAccessDenied show cfg r merchantID role policyName reason now =
     (case ClientIP cfg r of (clientIP, source) \<Rightarrow>
        (let clientIPValue = (case clientIP of None \<Rightarrow> '''' | Some a \<Rightarrow> show a) in
         \<lparr>Ev_Type = EventNetworkAccessDenied, Ev_Level = LogLevelWarn, Ev_Service = ''api_gateway'',
          Ev_MerchantID = merchantID, Ev_PaymentID = '''', Ev_IdempotencyKey = '''',
          Ev_CorrelationID = (if merchantID = '''' then clientIPValue else merchantID),
          Ev_CurrentStatus = '''', Ev_Timestamp = now, Ev_Message = ''Network access denied'',
          Ev_Details = reason,
          Ev_Context = [(''role'', role), (''endpoint'', Hr_Method r @ '' '' @ Hr_Path r),
            (''policy'', policyName), (''client_ip'', clientIPValue), (''client_ip_source'', source),
            (''remote_addr'', Hr_RemoteAddr r), (''x_forwarded_for'', Hr_Header r ''X-Forwarded-For''),
            (''x_real_ip'', Hr_Header r ''X-Real-IP''), (''reason'', reason)]\<rparr>))"

text \<open>\<open>audit\<close> is the logger: it takes an event into the state of the handlers.\<close>

definition AuthenticatedNetworkMiddleware :: "(ip \<Rightarrow> gostring) \<Rightarrow> NetworkConfig \<Rightarrow> gotime \<Rightarrow>
    (PaymentEvent \<Rightarrow> 's \<Rightarrow> 's) \<Rightarrow> 's handler \<Rightarrow> 's handler" where
  "AuthenticatedNetworkMiddleware show cfg now audit nxt ctx r s = (case MerchantFromContext ctx of
     None \<Rightarrow> (writeNetworkAccessDenied ''merchant context is missing'',
       audit (logNetworkAccessDenied show cfg r '''' '''' ''AUTHENTICATED_ENDPOINT''
         ''merchant context is missing'' now) s)
   | Some merchant \<Rightarrow>
       (let role = NormalizeRole (Merchant_Role merchant); adm = role \<in> {RoleAdmin, RoleAuditor};
            allowedCIDRs = (if adm then NC_AdminAllowedCIDRs cfg else NC_MerchantAllowedCIDRs cfg);
            policyName = (if adm then ''ADMIN_ALLOWED_CIDRS'' else ''MERCHANT_ALLOWED_CIDRS'')
        in if \<not> IPAllowed (fst (ClientIP cfg r)) allowedCIDRs
           then (writeNetworkAccessDenied ''request source IP is not allowed'',
             audit (logNetworkAccessDenied show cfg r (Merchant_ID merchant) role policyName
               ''request source IP is not allowed'' now) s)
           else nxt ctx r s))"

definition WebhookNetworkMiddleware :: "(ip \<Rightarrow> gostring) \<Rightarrow> NetworkConfig \<Rightarrow> gotime \<Rightarrow>
    (PaymentEvent \<Rightarrow> 's \<Rightarrow> 's) \<Rightarrow> 's handler \<Rightarrow> 's handler" where
  "WebhookNetworkMiddleware show cfg now audit nxt ctx r s =
     (if \<not> IPAllowed (fst (ClientIP cfg r)) (NC_WebhookAllowedCIDRs cfg)
      then (writeNetworkAccessDenied ''webhook source IP is not allowed'',
        audit (logNetworkAccessDenied show cfg r '''' '''' ''WEBHOOK_ALLOWED_CIDRS''
          ''webhook source IP is not allowed'' now) s)
      else nxt ctx r s)"

subsection \<open>Transport\<close>

record TransportConfig =
  TC_RequireHTTPS :: bool
  TC_TrustProxyHeaders :: bool
  TC_TrustedProxyCIDRs :: "ip_net list"

definition BoolEnv :: "(gostring \<Rightarrow> gostring) \<Rightarrow> gostring \<Rightarrow> bool" where
  "BoolEnv env key = (ToLower (TrimSpace (env key)) \<in> {''1'', ''true'', ''yes'', ''y'', ''on''})"

definition IsProductionEnv :: "gostring \<Rightarrow> bool" where
  "IsProductionEnv value = (ToLower (TrimSpace value) \<in> {''prod'', ''production''})"

definition TransportConfigFromEnv :: "(gostring \<Rightarrow> gostring) \<Rightarrow> TransportConfig" where
  "TransportConfigFromEnv env =
     \<lparr>TC_RequireHTTPS = BoolEnv env ''REQUIRE_HTTPS'' \<or> IsProductionEnv (env ''APP_ENV''),
      TC_TrustProxyHeaders = BoolEnv env ''TRUST_PROXY_HEADERS'', TC_TrustedProxyCIDRs = []\<rparr>"

definition forwardedHeaderHasHTTPS :: "gostring \<Rightarrow> bool" where
  "forwardedHeaderHasHTTPS value =
     (case List.find (\<lambda>p. HasPrefix (ToLower p) ''proto='') (map TrimSpace (Split CHR '';'' value)) of
        None \<Rightarrow> False
      | Some p \<Rightarrow> EqualFold (TrimByte (TrimSpace (drop 6 p)) CHR 0x22) ''https'')"

definition IsSecureRequestWithTrustedProxies :: "http_request \<Rightarrow> bool \<Rightarrow> ip_net list \<Rightarrow> bool" where
  "IsSecureRequestWithTrustedProxies r trustProxyHeaders trusted =
     (if Hr_TLS r \<or> EqualFold (Hr_Scheme r) ''https'' then True
      else if \<not> trustProxyHeaders then False
      else if trusted \<noteq> [] \<and> \<not> IPAllowed (RemoteIP (Hr_RemoteAddr r)) trusted then False
      else if EqualFold (firstHeaderValue (Hr_Header r ''X-Forwarded-Proto'')) ''https'' then True
      else forwardedHeaderHasHTTPS (Hr_Header r ''Forwarded''))"

definition SetSecurityHeaders :: "http_request \<Rightarrow> TransportConfig \<Rightarrow> (gostring \<times> gostring) list" where
  "SetSecurityHeaders r cfg =
     [(''X-Content-Type-Options'', ''nosniff''), (''X-Frame-Options'', ''DENY''),
      (''Referrer-Policy'', ''no-referrer''), (''Cache-Control'', ''no-store'')] @
     (if IsSecureRequestWithTrustedProxies r (TC_TrustProxyHeaders cfg) (TC_TrustedProxyCIDRs cfg)
      then [(''Strict-Transport-Security'', ''max-age=31536000; includeSubDomains'')] else [])"

text \<open>The reply comes with the headers set above.\<close>

definition transport_Middleware :: "TransportConfig \<Rightarrow> (http_request \<Rightarrow> 's \<Rightarrow> http_reply \<times> 's) \<Rightarrow>
    http_request \<Rightarrow> 's \<Rightarrow> ((gostring \<times> gostring) list \<times> http_reply) \<times> 's" where
  "transport_Middleware cfg nxt r s =
     (if TC_RequireHTTPS cfg
         \<and> \<not> IsSecureRequestWithTrustedProxies r (TC_TrustProxyHeaders cfg) (TC_TrustedProxyCIDRs cfg)
      then ((SetSecurityHeaders r cfg, reply_json 426 (enc_code_message ErrorHTTPSRequired
              ''HTTPS is required for payment gateway requests'')), s)
      else (case nxt r s of (reply, s') \<Rightarrow> ((SetSecurityHeaders r cfg, reply), s')))"

definition ValidateHTTPSURL :: "(gostring \<Rightarrow> (gostring \<times> gostring) result) \<Rightarrow> gostring \<Rightarrow> gostring \<Rightarrow>
    bool \<Rightarrow> goerror option" where
  "ValidateHTTPSURL urlParse name rawValue required = (let raw = TrimSpace rawValue in
     if raw = '''' then (if required then Some (name @ '' is required'') else None)
     else (case urlParse raw of
       Inl err \<Rightarrow> Some (name @ '' is invalid: '' @ err)
     | Inr (scheme, host) \<Rightarrow>
         if \<not> EqualFold scheme ''https''
         then Some (name @ '' must use https:// when HTTPS enforcement is enabled'')
         else if host = '''' then Some (name @ '' must include host'') else None))"

text \<open>\<open>values\<close> in the order of the iteration over the map.\<close>

definition ValidateOutboundURLs :: "(gostring \<Rightarrow> (gostring \<times> gostring) result) \<Rightarrow> bool \<Rightarrow>
    (gostring \<times> gostring) list \<Rightarrow> goerror option" where
  "ValidateOutboundURLs urlParse requireHTTPS vals =
     (if \<not> requireHTTPS then None
      else case List.find (\<lambda>e. e \<noteq> None) (map (\<lambda>(n, v). ValidateHTTPSURL urlParse n v False) vals) of
        Some (Some err) \<Rightarrow> Some err | _ \<Rightarrow> None)"

definition ValidateTLSConfig :: "gostring \<Rightarrow> gostring \<Rightarrow> goerror option" where
  "ValidateTLSConfig certFile keyFile =
     (let c = TrimSpace certFile; k = TrimSpace keyFile in
      if c = '''' \<and> k = '''' then None
      else if c = '''' \<or> k = '''' then Some ''TLS_CERT_FILE and TLS_KEY_FILE must be set together''
      else None)"

subsection \<open>Facts\<close>

lemma mask_eq_iff: "(a :: ip) AND NOT (mask k) = b AND NOT (mask k) \<longleftrightarrow> drop_bit k a = drop_bit k b"
proof
  assume e: "a AND NOT (mask k) = b AND NOT (mask k)"
  show "drop_bit k a = drop_bit k b"
  proof (rule bit_eqI)
    fix i
    from e have "bit (a AND NOT (mask k)) (k + i) = bit (b AND NOT (mask k)) (k + i)" by simp
    then show "bit (drop_bit k a) i = bit (drop_bit k b) i"
      by (auto simp: bit_simps dest: bit_imp_le_length)
  qed
next
  assume e: "drop_bit k a = drop_bit k b"
  show "a AND NOT (mask k) = b AND NOT (mask k)"
  proof (rule bit_eqI)
    fix i
    have "bit (drop_bit k a) (i - k) = bit (drop_bit k b) (i - k)" using e by simp
    then show "bit (a AND NOT (mask k)) i = bit (b AND NOT (mask k)) i"
      by (cases "i < k") (auto simp: bit_simps)
  qed
qed

lemma net_Contains_drop:
  "net_Contains n a \<longleftrightarrow> is_v4 (Net_IP n) = is_v4 a \<and>
    (let host = (if Net_Bits n = 32 then 32 - Net_Ones n else 128 - Net_Ones n);
         host = (if is_v4 (Net_IP n) then min host 32 else host)
     in drop_bit host (Net_IP n) = drop_bit host a)"
  unfolding net_Contains_def net_mask_def Let_def mask_eq_iff ..

definition untrusted :: "NetworkConfig \<Rightarrow> http_request \<Rightarrow> bool" where
  "untrusted cfg r = (case RemoteIP (Hr_RemoteAddr r) of None \<Rightarrow> True
     | Some a \<Rightarrow> \<not> list_ex (\<lambda>n. net_Contains n a) (NC_TrustedProxyCIDRs cfg))"

lemma ClientIP_untrusted:
  "untrusted cfg r \<Longrightarrow> ClientIP cfg r = (RemoteIP (Hr_RemoteAddr r), ''remote_addr'')"
  by (auto simp: ClientIP_def untrusted_def IPAllowed_def Let_def split: option.splits)

text \<open>
  The address of a network is kept as it is written, not cut to its prefix. An IPv4 address in its
  IPv6 form with a prefix below 96, such as \<open>::ffff:10.0.0.0/64\<close>, is then a network of IPv4 with
  no bits left to compare: it admits every IPv4 address.
\<close>

lemma mapped_network_admits_all:
  assumes "is_v4 (Net_IP n)" "Net_Bits n = 128" "Net_Ones n \<le> 96"
  shows "net_Contains n a \<longleftrightarrow> is_v4 a"
proof -
  have "drop_bit 32 (Net_IP n) = drop_bit 32 a" if "is_v4 a"
    using assms(1) that by (simp add: is_v4_def)
  with assms show ?thesis by (auto simp: net_Contains_drop)
qed

text \<open>A target that is a whole \<open>https\<close> URL passes for a secure channel, whatever carried it.\<close>

lemma absolute_target_secure:
  "EqualFold (Hr_Scheme r) ''https'' \<Longrightarrow> IsSecureRequestWithTrustedProxies r trust nets"
  by (simp add: IsSecureRequestWithTrustedProxies_def)

subsection \<open>Properties\<close>

text \<open>
  C25: An address filter cannot be talked past. If the peer is not one of the trusted proxies,
  then, whatever headers the request carries, the handler behind the filter runs only if the
  list for the role of the merchant is empty or the peer's own address lies in one of its
  networks, that is, agrees with it on the bits of the prefix; otherwise the reply is 403 and
  the only effect is an event in the log.
\<close>

theorem network_filter:
  assumes "MerchantFromContext ctx = Some m" and "untrusted cfg r"
    and "nets = (if Merchant_Role m = RoleMerchant then NC_MerchantAllowedCIDRs cfg
      else NC_AdminAllowedCIDRs cfg)"
  shows "(if nets = [] \<or> (\<exists>a n. RemoteIP (Hr_RemoteAddr r) = Some a \<and> n \<in> set nets
            \<and> is_v4 (Net_IP n) = is_v4 a
            \<and> (let host = (if Net_Bits n = 32 then 32 - Net_Ones n else 128 - Net_Ones n);
                   host = (if is_v4 (Net_IP n) then min host 32 else host)
               in drop_bit host (Net_IP n) = drop_bit host a))
     then AuthenticatedNetworkMiddleware show cfg now audit nxt ctx r s = nxt ctx r s
     else \<exists>ev. AuthenticatedNetworkMiddleware show cfg now audit nxt ctx r s
        = (writeNetworkAccessDenied ''request source IP is not allowed'', audit ev s)
        \<and> Ev_MerchantID ev = Merchant_ID m)"
proof -
  have role: "NormalizeRole (Merchant_Role m) = Merchant_Role m"
    "Merchant_Role m \<in> {RoleMerchant, RoleAdmin, RoleAuditor}"
    using context_role [OF assms(1)] by auto
  have nets: "nets = (if NormalizeRole (Merchant_Role m) \<in> {RoleAdmin, RoleAuditor}
      then NC_AdminAllowedCIDRs cfg else NC_MerchantAllowedCIDRs cfg)"
    using role assms(3) by auto
  have allowed: "IPAllowed (RemoteIP (Hr_RemoteAddr r)) nets \<longleftrightarrow> nets = []
      \<or> (\<exists>a n. RemoteIP (Hr_RemoteAddr r) = Some a \<and> n \<in> set nets \<and> net_Contains n a)"
    by (auto simp: IPAllowed_def list_ex_iff split: option.splits)
  let ?ok = "IPAllowed (RemoteIP (Hr_RemoteAddr r)) nets"
  have run: "AuthenticatedNetworkMiddleware show cfg now audit nxt ctx r s = (if ?ok then nxt ctx r s
      else (writeNetworkAccessDenied ''request source IP is not allowed'',
        audit (logNetworkAccessDenied show cfg r (Merchant_ID m) (NormalizeRole (Merchant_Role m))
          (if NormalizeRole (Merchant_Role m) \<in> {RoleAdmin, RoleAuditor} then ''ADMIN_ALLOWED_CIDRS''
           else ''MERCHANT_ALLOWED_CIDRS'') ''request source IP is not allowed'' now) s))"
    unfolding AuthenticatedNetworkMiddleware_def assms(1) ClientIP_untrusted [OF assms(2)] nets
    by (simp del: insert_iff add: Let_def)
  have event: "Ev_MerchantID (logNetworkAccessDenied show cfg r mid role policy reason now) = mid"
    for mid role policy reason
    by (simp add: logNetworkAccessDenied_def Let_def split: prod.splits)
  have cond: "(nets = [] \<or> (\<exists>a n. RemoteIP (Hr_RemoteAddr r) = Some a \<and> n \<in> set nets
      \<and> is_v4 (Net_IP n) = is_v4 a
      \<and> (let host = (if Net_Bits n = 32 then 32 - Net_Ones n else 128 - Net_Ones n);
             host = (if is_v4 (Net_IP n) then min host 32 else host)
         in drop_bit host (Net_IP n) = drop_bit host a))) \<longleftrightarrow> ?ok"
    unfolding allowed net_Contains_drop ..
  obtain ev where "\<not> ?ok \<Longrightarrow> AuthenticatedNetworkMiddleware show cfg now audit nxt ctx r s
      = (writeNetworkAccessDenied ''request source IP is not allowed'', audit ev s)"
    and "Ev_MerchantID ev = Merchant_ID m"
    using run event by (metis (no_types, lifting))
  with run show ?thesis
    unfolding cond by auto
qed

definition office_config :: NetworkConfig where
  "office_config = \<lparr>NC_TrustedProxyCIDRs = [], NC_MerchantAllowedCIDRs =
       [\<lparr>Net_IP = 0xFFFF0A000000, Net_Bits = 32, Net_Ones = 8\<rparr>],
     NC_AdminAllowedCIDRs = [], NC_WebhookAllowedCIDRs = []\<rparr>"

lemma local_peer: "RemoteIP ''127.0.0.1:5000'' = Some 0xFFFF7F000001"
proof -
  have split: "SplitHostPort ''127.0.0.1:5000'' = Some ''127.0.0.1''" "SplitHostPort ''127.0.0.1'' = None"
    by code_simp+
  have trim: "TrimSpace ''127.0.0.1:5000'' = ''127.0.0.1:5000''" "TrimSpace ''127.0.0.1'' = ''127.0.0.1''"
    "TrimByte ''127.0.0.1'' CHR 0x22 = ''127.0.0.1''"
    "TrimPrefix ''127.0.0.1'' ''['' = ''127.0.0.1''" "TrimSuffix ''127.0.0.1'' '']'' = ''127.0.0.1''"
    by code_simp+
  have parts: "Split CHR ''.'' ''127.0.0.1'' = [''127'', ''0'', ''0'', ''1'']"
    by code_simp
  have "ParseIPv4 ''127.0.0.1'' = Some 2130706433"
    unfolding ParseIPv4_def parts by (simp add: octet_def dec_value_def is_digit_def byte_def)
  then show ?thesis
    by (simp add: RemoteIP_def parseIPLiteral_def ParseIP_def split trim v4_prefix_def)
qed

lemma context_sample_merchant:
  "MerchantFromContext (WithMerchant sample_merchant) = Some sample_merchant"
proof -
  have "NormalizeRole RoleMerchant = RoleMerchant" by (simp add: NormalizeRole_def lit go_eval)
  moreover have "TrimSpace ''m'' = ''m''" by (simp add: go_eval)
  ultimately show ?thesis by (simp add: MerchantFromContext_WithMerchant sample_merchant_def)
qed

theorem network_filter_witness:
  "\<exists>ev. AuthenticatedNetworkMiddleware (\<lambda>_. '''') office_config 0 (#) (\<lambda>_ _ evs. (reply_json 200 JNull, evs))
      (WithMerchant sample_merchant) sample_http []
    = (writeNetworkAccessDenied ''request source IP is not allowed'', [ev]) \<and> Ev_MerchantID ev = ''m''"
  using network_filter [OF context_sample_merchant _ refl, of office_config sample_http "\<lambda>_. ''''" 0 "(#)"
      "\<lambda>_ _ evs. (reply_json 200 JNull, evs)" "[] :: PaymentEvent list"]
  by (simp add: untrusted_def office_config_def sample_http_def local_peer Let_def is_v4_def
      sample_merchant_def)

end
