(* ===== verification/Xml.thy ===== *)
theory Xml
  imports Http
begin

section \<open>XML documents (\<open>encoding/xml\<close> as the gateway uses it)\<close>

text \<open>
  An XML text is no document (\<open>XRaw err\<close>, with the error of the decoder) or the tree of its first element (\<open>XDoc\<close>): name,
  attributes, the character data directly inside, child elements in order. Layout, comments,
  entities and the order of text and children are not kept.

  \<^item> \<open>xml_leaf\<close> and \<open>xml_omit\<close> are what \<open>xml.Marshal\<close> writes for a string field, without and
    with \<open>omitempty\<close>; characters that XML cannot hold become U+FFFD (\<open>EscapeText\<close>);
  \<^item> \<open>xdec_struct tab\<close> is \<open>xml.Unmarshal\<close> into a struct of string and struct fields: child by
    child, names compared exactly, unknown children skipped, the last duplicate winning.
\<close>

datatype xml = Elem gostring "(gostring \<times> gostring) list" gostring "xml list"

datatype xtext = XRaw gostring | XDoc xml

definition xml_rune :: "nat \<Rightarrow> bool" where
  "xml_rune r = (r \<in> {9, 10, 13} \<or> 32 \<le> r \<and> r \<le> 0xD7FF \<or> 0xE000 \<le> r \<and> r \<le> 0xFFFD
     \<or> 0x10000 \<le> r \<and> r \<le> 0x10FFFF)"

definition xml_clean :: "gostring \<Rightarrow> gostring" where
  "xml_clean s = encode_runes (map (\<lambda>r. if xml_rune r then r else 0xFFFD) (runes s))"

definition xml_leaf :: "gostring \<Rightarrow> gostring \<Rightarrow> xml" where
  "xml_leaf k s = Elem k [] (xml_clean s) []"

definition xml_omit :: "gostring \<Rightarrow> gostring \<Rightarrow> xml list" where
  "xml_omit k s = (if s = '''' then [] else [xml_leaf k s])"

type_synonym 'r xfields = "(gostring \<times> (xml \<Rightarrow> 'r \<Rightarrow> 'r)) list"

fun xml_name :: "xml \<Rightarrow> gostring" where
  "xml_name (Elem k _ _ _) = k"

fun xdec_struct :: "'r xfields \<Rightarrow> xml \<Rightarrow> 'r \<Rightarrow> 'r" where
  "xdec_struct T (Elem _ _ _ cs) r = fold (\<lambda>c r. case map_of T (xml_name c) of
     None \<Rightarrow> r | Some d \<Rightarrow> d c r) cs r"

fun xdec_str :: "((gostring \<Rightarrow> gostring) \<Rightarrow> 'r \<Rightarrow> 'r) \<Rightarrow> xml \<Rightarrow> 'r \<Rightarrow> 'r" where
  "xdec_str upd (Elem _ _ t _) r = upd (\<lambda>_. t) r"

definition xdec_sub :: "('r \<Rightarrow> 's) \<Rightarrow> (('s \<Rightarrow> 's) \<Rightarrow> 'r \<Rightarrow> 'r) \<Rightarrow> 's xfields \<Rightarrow> xml \<Rightarrow> 'r \<Rightarrow> 'r" where
  "xdec_sub get upd T c r = upd (\<lambda>_. xdec_struct T c (get r)) r"

subsection \<open>Facts\<close>

text \<open>Text that XML takes as it is: ASCII without control characters.\<close>

definition printable :: "gostring \<Rightarrow> bool" where
  "printable s = list_all (\<lambda>c. 32 \<le> byte c \<and> byte c < 127) s"

lemma printable_simps [simp]:
  "printable []" "printable (c # s) = (32 \<le> byte c \<and> byte c < 127 \<and> printable s)"
  "printable (s @ t) = (printable s \<and> printable t)"
  by (simp_all add: printable_def conj_assoc)

lemma printable_ascii: "printable s \<Longrightarrow> is_ascii s"
  by (induction s) auto

lemma xml_clean_printable [simp]: "printable s \<Longrightarrow> xml_clean s = s"
proof -
  assume p: "printable s"
  then have e: "map (\<lambda>r. if xml_rune r then r else 0xFFFD) (map byte s) = map byte s"
    by (induction s) (auto simp: xml_rune_def)
  show ?thesis
    unfolding xml_clean_def runes_ascii [OF printable_ascii [OF p]] e
    by (rule encode_runes_ascii [OF printable_ascii [OF p]])
qed

lemma printable_TrimSpace: "printable s \<Longrightarrow> printable (TrimSpace s)"
  using set_TrimSpace [of s] by (auto simp: printable_def list_all_iff)

lemma ToUpper_ascii_map: "is_ascii s \<Longrightarrow> ToUpper s = map (\<lambda>c. char_of (rune_upper (byte c))) s"
  by (simp add: ToUpper_def)

lemma ToLower_ascii_map: "is_ascii s \<Longrightarrow> ToLower s = map (\<lambda>c. char_of (rune_lower (byte c))) s"
  by (simp add: ToLower_def)

lemma printable_case:
  assumes "printable s"
  shows "printable (ToUpper s)" "printable (ToLower s)"
proof -
  have u: "32 \<le> byte (char_of (rune_upper (byte c))) \<and> byte (char_of (rune_upper (byte c))) < 127"
    if "32 \<le> byte c" "byte c < 127" for c
  proof -
    have "32 \<le> rune_upper (byte c) \<and> rune_upper (byte c) < 127" using that by (auto simp: rune_upper_def)
    then show ?thesis by simp
  qed
  have l: "32 \<le> byte (char_of (rune_lower (byte c))) \<and> byte (char_of (rune_lower (byte c))) < 127"
    if "32 \<le> byte c" "byte c < 127" for c
  proof -
    have "32 \<le> rune_lower (byte c) \<and> rune_lower (byte c) < 127" using that by (auto simp: rune_lower_def)
    then show ?thesis by simp
  qed
  show "printable (ToUpper s)" "printable (ToLower s)"
    using assms unfolding ToUpper_ascii_map [OF printable_ascii [OF assms]]
      ToLower_ascii_map [OF printable_ascii [OF assms]]
    by (simp_all add: printable_def list_all_iff u l)
qed

lemma space_width_printable:
  assumes "printable s"
  shows "space_width s = 0 \<longleftrightarrow> s = [] \<or> hd s \<noteq> CHR '' ''"
    and "rspace_width s = 0 \<longleftrightarrow> s = [] \<or> hd s \<noteq> CHR '' ''"
proof -
  have sp: "byte c = 32 \<longleftrightarrow> c = CHR '' ''" for c
    using byte_inj [of c "CHR '' ''"] by (simp add: byte_def)
  show "space_width s = 0 \<longleftrightarrow> s = [] \<or> hd s \<noteq> CHR '' ''"
    "rspace_width s = 0 \<longleftrightarrow> s = [] \<or> hd s \<noteq> CHR '' ''"
    using assms sp by (cases s; auto simp: space_width_def rspace_width_def ascii_space_def)+
qed

lemma TrimSpace_printable_iff:
  assumes "printable s"
  shows "TrimSpace s = s \<longleftrightarrow> s = [] \<or> hd s \<noteq> CHR '' '' \<and> last s \<noteq> CHR '' ''"
proof -
  have r: "printable (rev s)" using assms by (simp add: printable_def)
  have "TrimSpace s = s \<longleftrightarrow> space_width s = 0 \<and> rspace_width (rev s) = 0"
    using TrimSpace_ends [of s] TrimSpace_id [of s] by auto
  then show ?thesis
    unfolding space_width_printable(1) [OF assms] space_width_printable(2) [OF r]
    by (auto simp: hd_rev)
qed

lemma char_space_iff: "c = CHR '' '' \<longleftrightarrow> byte c = 32"
  using byte_inj [of c "CHR '' ''"] by (simp add: byte_def)

lemma rune_case_space:
  assumes "32 \<le> byte c" "byte c < 127"
  shows "char_of (rune_upper (byte c)) = CHR '' '' \<longleftrightarrow> c = CHR '' ''"
proof -
  have "rune_upper (byte c) < 256 \<and> (rune_upper (byte c) = 32 \<longleftrightarrow> byte c = 32)"
    using assms by (auto simp: rune_upper_def)
  then show ?thesis unfolding char_space_iff by simp
qed

lemma TrimSpace_ToUpper:
  assumes "printable s" and "TrimSpace s = s"
  shows "TrimSpace (ToUpper s) = ToUpper s"
proof -
  have r: "32 \<le> byte c \<and> byte c < 127" if "c \<in> set s" for c
    using assms(1) that by (auto simp: printable_def list_all_iff)
  show ?thesis
    using assms(2) unfolding TrimSpace_printable_iff [OF assms(1)]
      TrimSpace_printable_iff [OF printable_case(1) [OF assms(1)]]
    by (cases "s = []") (auto simp: ToUpper_ascii_map [OF printable_ascii [OF assms(1)]] hd_map last_map
        rune_case_space [OF conjunct1 [OF r] conjunct2 [OF r]])
qed

end
