(* ===== verification/Digital_Ruble.thy ===== *)
theory Digital_Ruble
  imports Xml
begin

section \<open>The digital ruble platform (\<open>internal/subsystems/digitalruble\<close>)\<close>

text \<open>
  \<open>marked_money.go\<close> decides whether a wallet holds enough money of the mark a purchase needs,
  \<open>soap.go\<close> carries the question and the answer as signed XML. HMAC-SHA256 (\<open>hmac\<close>, key and
  text to the hexadecimal digest) and \<open>strconv.ParseFloat\<close> (\<open>parse\<close>) are parameters, the clock
  reading of \<open>NewMessageID\<close> is the argument \<open>now\<close>. \<open>xml.MarshalIndent\<close> does not fail on these
  structs; \<open>XMLName\<close> only matters for the name of the root element.
\<close>

type_synonym float_parser = "gostring \<Rightarrow> f64 \<times> goerror option"
type_synonym hmac = "gostring \<Rightarrow> gostring \<Rightarrow> gostring"

subsection \<open>Marked money\<close>

definition DefaultSmartContractID :: gostring where [lit]: "DefaultSmartContractID = ''SC_MARKED_MONEY_V1''"
definition PlatformTransportSOAP :: gostring where [lit]: "PlatformTransportSOAP = ''SOAP/XML sandbox''"
definition SignatureTypeHMAC :: gostring where [lit]: "SignatureTypeHMAC = ''HMAC-SHA256-EMULATION''"

definition markGeneral :: gostring where [lit]: "markGeneral = ''GENERAL''"
definition markEducation :: gostring where [lit]: "markEducation = ''EDUCATION''"
definition markHealthcare :: gostring where [lit]: "markHealthcare = ''HEALTHCARE''"
definition markFood :: gostring where [lit]: "markFood = ''SOCIAL_FOOD''"
definition markTransport :: gostring where [lit]: "markTransport = ''TRANSPORT''"
definition markBudget :: gostring where [lit]: "markBudget = ''BUDGET_TARGETED''"

record PaymentCheck =
  Chk_MessageID :: gostring
  Chk_MerchantID :: gostring
  Chk_PaymentID :: gostring
  Chk_WalletID :: gostring
  Chk_Amount :: f64
  Chk_Currency :: gostring
  Chk_Category :: gostring
  Chk_MoneyMark :: gostring
  Chk_SmartContractID :: gostring

record CheckResult =
  Res_Allowed :: bool
  Res_Result :: gostring
  Res_Reason :: gostring
  Res_MoneyMark :: gostring
  Res_SmartContractID :: gostring
  Res_WalletID :: gostring
  Res_AvailableAmount :: f64
  Res_RequiredAmount :: f64
  Res_MessageID :: gostring

definition NewMessageID :: "gotime \<Rightarrow> gostring" where
  "NewMessageID now = ''drmsg_'' @ Itoa now"

definition NormalizeCategory :: "gostring \<Rightarrow> gostring" where
  "NormalizeCategory category =
     ReplaceAll (ReplaceAll (ToLower (TrimSpace category)) CHR '' '' ''_'') CHR ''-'' ''_''"

definition PrimaryCategory :: "PaymentItem list \<Rightarrow> gostring" where
  "PrimaryCategory items =
     (case List.find (\<lambda>c. c \<noteq> '''') (map (NormalizeCategory \<circ> Item_Category) items) of
        Some category \<Rightarrow> category | None \<Rightarrow> ''general'')"

definition PrimaryCategoryFromValue :: "gostring \<Rightarrow> gostring" where
  "PrimaryCategoryFromValue category =
     (let category = NormalizeCategory category in if category = '''' then ''general'' else category)"

definition RequiredMoneyMark :: "gostring \<Rightarrow> gostring" where
  "RequiredMoneyMark category = (let c = NormalizeCategory category in
     if c \<in> {''education'', ''edu'', ''books'', ''school'', ''university''} then markEducation
     else if c \<in> {''medicine'', ''medical'', ''health'', ''healthcare'', ''pharmacy''} then markHealthcare
     else if c \<in> {''food'', ''groceries'', ''social_food''} then markFood
     else if c \<in> {''transport'', ''taxi'', ''bus'', ''metro''} then markTransport
     else if c \<in> {''subsidy'', ''budget'', ''government'', ''state''} then markBudget
     else markGeneral)"

definition SmartContractID :: "gostring \<Rightarrow> gostring" where
  "SmartContractID v = (let v = TrimSpace v in if v = '''' then DefaultSmartContractID else v)"

definition PaymentCheckFromCreateRequest :: "CreatePaymentRequest \<Rightarrow> gostring \<Rightarrow> gostring \<Rightarrow> gotime \<Rightarrow>
    PaymentCheck" where
  "PaymentCheckFromCreateRequest req walletID messageID now =
     (let messageID = (if messageID = '''' then NewMessageID now else messageID);
          info = Req_PaymentInfo req; category = PrimaryCategory (Info_Items info) in
      \<lparr>Chk_MessageID = messageID, Chk_MerchantID = Req_MerchantID req, Chk_PaymentID = Req_PaymentID req,
       Chk_WalletID = TrimSpace walletID, Chk_Amount = Amount_Value (Info_Amount info),
       Chk_Currency = Amount_Currency (Info_Amount info), Chk_Category = category,
       Chk_MoneyMark = RequiredMoneyMark category,
       Chk_SmartContractID = SmartContractID (DR_SmartContractID (Info_DigitalRubleData info))\<rparr>)"

definition PaymentCheckFromResponse :: "PaymentResponse \<Rightarrow> gostring \<Rightarrow> gostring \<Rightarrow> gotime \<Rightarrow>
    PaymentCheck" where
  "PaymentCheckFromResponse resp walletID messageID now =
     (let messageID = (if messageID = '''' then NewMessageID now else messageID);
          info = Resp_PaymentInfo resp; td = Resp_TransactionDetails resp;
          category = PrimaryCategory (RInfo_Items info);
          mark = TrimSpace (TD_MoneyMark td);
          mark = (if mark = '''' then RequiredMoneyMark category else mark);
          contractID = TrimSpace (TD_SmartContractID td);
          contractID = (if contractID = ''''
            then SmartContractID (DR_SmartContractID (RInfo_DigitalRubleData info)) else contractID) in
      \<lparr>Chk_MessageID = messageID, Chk_MerchantID = Resp_MerchantID resp, Chk_PaymentID = Resp_ID resp,
       Chk_WalletID = TrimSpace walletID, Chk_Amount = Amount_Value (RInfo_Amount info),
       Chk_Currency = Amount_Currency (RInfo_Amount info), Chk_Category = category,
       Chk_MoneyMark = mark, Chk_SmartContractID = contractID\<rparr>)"

definition wallet_balances :: "(gostring \<times> (gostring \<times> f64) list) list" where
  "wallet_balances =
     [(''dr_wallet_123'', [(markGeneral, Fin 100000), (markEducation, Fin 10000),
         (markHealthcare, Fin 5000), (markFood, Fin 3000), (markTransport, Fin 2000),
         (markBudget, Fin 1000)]),
      (''dr_wallet_no_mark'', [(markGeneral, Fin 100000)]),
      (''dr_wallet_insufficient_marked'', [(markGeneral, Fin 100000), (markEducation, Fin 100)]),
      (''dr_wallet_healthcare'', [(markGeneral, Fin 10000), (markHealthcare, Fin 20000)])]"

definition walletMarkedBalance :: "gostring \<Rightarrow> gostring \<Rightarrow> f64" where
  "walletMarkedBalance walletID mark =
     (let walletID = ToLower (TrimSpace walletID); mark = ToUpper (TrimSpace mark);
          walletID = (if walletID = '''' then ''dr_wallet_123'' else walletID);
          wallet = (case map_of wallet_balances walletID of
            Some b \<Rightarrow> b | None \<Rightarrow> [(markGeneral, Fin 100000)])
      in case map_of wallet mark of Some v \<Rightarrow> v | None \<Rightarrow> Fin 0)"

definition displayWallet :: "gostring \<Rightarrow> gostring" where
  "displayWallet walletID =
     (let walletID = TrimSpace walletID in if walletID = '''' then ''default_wallet'' else walletID)"

definition CheckMarkedMoney :: "PaymentCheck \<Rightarrow> gotime \<Rightarrow> CheckResult" where
  "CheckMarkedMoney check now =
     (let category = PrimaryCategoryFromValue (Chk_Category check);
          mark = (if Chk_MoneyMark check = '''' then RequiredMoneyMark category else Chk_MoneyMark check);
          contractID = SmartContractID (Chk_SmartContractID check);
          walletID = TrimSpace (Chk_WalletID check);
          messageID = (if Chk_MessageID check = '''' then NewMessageID now else Chk_MessageID check);
          available = walletMarkedBalance walletID mark;
          allowed = (Chk_Amount check \<le> available);
          held = ''wallet '' @ displayWallet walletID @ '' has '' @ FormatFloat2 available
            @ '' digital rubles marked as '' @ mark
      in \<lparr>Res_Allowed = allowed,
          Res_Result = (if allowed then ''PASSED'' else ''DECLINED''),
          Res_Reason = (if allowed then held @ '' for category '' @ category
            else held @ '', required '' @ FormatFloat2 (Chk_Amount check) @ '' for category '' @ category),
          Res_MoneyMark = mark, Res_SmartContractID = contractID, Res_WalletID = walletID,
          Res_AvailableAmount = available, Res_RequiredAmount = Chk_Amount check,
          Res_MessageID = messageID\<rparr>)"

subsection \<open>SOAP messages\<close>

definition soapNamespace :: gostring where [lit]: "soapNamespace = ''http://schemas.xmlsoap.org/soap/envelope/''"

record SOAPSignatureContainer =
  Sig_Type :: gostring
  Sig_Value :: gostring

record SOAPPaymentObject =
  Obj_PaymentID :: gostring
  Obj_MerchantID :: gostring
  Obj_WalletID :: gostring
  Obj_Amount :: gostring
  Obj_Currency :: gostring
  Obj_Category :: gostring
  Obj_RequiredMark :: gostring
  Obj_SmartContractID :: gostring
  Obj_ResultCode :: gostring
  Obj_Result :: gostring
  Obj_Reason :: gostring

record SOAPBusinessEnvelope =
  Biz_MessageID :: gostring
  Biz_MessageType :: gostring
  Biz_Sender :: gostring
  Biz_Receiver :: gostring
  Biz_SigContainer :: SOAPSignatureContainer
  Biz_Object :: SOAPPaymentObject

record SOAPBody =
  Soap_BusinessEnvelope :: SOAPBusinessEnvelope

record SOAPEnvelope =
  Soap_XMLNS :: gostring
  Soap_Body :: SOAPBody

definition zero_object :: SOAPPaymentObject where
  "zero_object = \<lparr>Obj_PaymentID = '''', Obj_MerchantID = '''', Obj_WalletID = '''', Obj_Amount = '''',
     Obj_Currency = '''', Obj_Category = '''', Obj_RequiredMark = '''', Obj_SmartContractID = '''',
     Obj_ResultCode = '''', Obj_Result = '''', Obj_Reason = ''''\<rparr>"

definition zero_envelope :: SOAPEnvelope where
  "zero_envelope = \<lparr>Soap_XMLNS = '''', Soap_Body = \<lparr>Soap_BusinessEnvelope =
     \<lparr>Biz_MessageID = '''', Biz_MessageType = '''', Biz_Sender = '''', Biz_Receiver = '''',
      Biz_SigContainer = \<lparr>Sig_Type = '''', Sig_Value = ''''\<rparr>, Biz_Object = zero_object\<rparr>\<rparr>\<rparr>"

text \<open>\<open>xml.Marshal\<close>.\<close>

definition xenc_SOAPSignatureContainer :: "SOAPSignatureContainer \<Rightarrow> xml" where
  "xenc_SOAPSignatureContainer g = Elem ''SigContainer'' [] ''''
     [xml_leaf ''SignatureType'' (Sig_Type g), xml_leaf ''SignatureValue'' (Sig_Value g)]"

definition xenc_SOAPPaymentObject :: "SOAPPaymentObject \<Rightarrow> xml" where
  "xenc_SOAPPaymentObject b = Elem ''Object'' [] ''''
     (xml_omit ''PaymentID'' (Obj_PaymentID b) @ xml_omit ''MerchantID'' (Obj_MerchantID b) @
      xml_omit ''WalletID'' (Obj_WalletID b) @ xml_omit ''Amount'' (Obj_Amount b) @
      xml_omit ''Currency'' (Obj_Currency b) @ xml_omit ''Category'' (Obj_Category b) @
      xml_omit ''RequiredMoneyMark'' (Obj_RequiredMark b) @
      xml_omit ''SmartContractID'' (Obj_SmartContractID b) @
      xml_omit ''ResultCode'' (Obj_ResultCode b) @ xml_omit ''Result'' (Obj_Result b) @
      xml_omit ''Reason'' (Obj_Reason b))"

definition xenc_SOAPBusinessEnvelope :: "SOAPBusinessEnvelope \<Rightarrow> xml" where
  "xenc_SOAPBusinessEnvelope z = Elem ''BusinessEnvelope'' [] ''''
     [xml_leaf ''MessageID'' (Biz_MessageID z), xml_leaf ''MessageType'' (Biz_MessageType z),
      xml_leaf ''Sender'' (Biz_Sender z), xml_leaf ''Receiver'' (Biz_Receiver z),
      xenc_SOAPSignatureContainer (Biz_SigContainer z), xenc_SOAPPaymentObject (Biz_Object z)]"

definition xenc_SOAPEnvelope :: "SOAPEnvelope \<Rightarrow> xml" where
  "xenc_SOAPEnvelope v = Elem ''Envelope''
     (if Soap_XMLNS v = '''' then [] else [(''xmlns'', xml_clean (Soap_XMLNS v))]) ''''
     [Elem ''Body'' [] '''' [xenc_SOAPBusinessEnvelope (Soap_BusinessEnvelope (Soap_Body v))]]"

text \<open>\<open>xml.Unmarshal\<close>.\<close>

definition xtab_SOAPSignatureContainer :: "SOAPSignatureContainer xfields" where
  "xtab_SOAPSignatureContainer =
     [(''SignatureType'', xdec_str Sig_Type_update), (''SignatureValue'', xdec_str Sig_Value_update)]"

definition xtab_SOAPPaymentObject :: "SOAPPaymentObject xfields" where
  "xtab_SOAPPaymentObject =
     [(''PaymentID'', xdec_str Obj_PaymentID_update), (''MerchantID'', xdec_str Obj_MerchantID_update),
      (''WalletID'', xdec_str Obj_WalletID_update), (''Amount'', xdec_str Obj_Amount_update),
      (''Currency'', xdec_str Obj_Currency_update), (''Category'', xdec_str Obj_Category_update),
      (''RequiredMoneyMark'', xdec_str Obj_RequiredMark_update),
      (''SmartContractID'', xdec_str Obj_SmartContractID_update),
      (''ResultCode'', xdec_str Obj_ResultCode_update), (''Result'', xdec_str Obj_Result_update),
      (''Reason'', xdec_str Obj_Reason_update)]"

definition xtab_SOAPBusinessEnvelope :: "SOAPBusinessEnvelope xfields" where
  "xtab_SOAPBusinessEnvelope =
     [(''MessageID'', xdec_str Biz_MessageID_update), (''MessageType'', xdec_str Biz_MessageType_update),
      (''Sender'', xdec_str Biz_Sender_update), (''Receiver'', xdec_str Biz_Receiver_update),
      (''SigContainer'', xdec_sub Biz_SigContainer Biz_SigContainer_update xtab_SOAPSignatureContainer),
      (''Object'', xdec_sub Biz_Object Biz_Object_update xtab_SOAPPaymentObject)]"

definition xtab_SOAPEnvelope :: "SOAPEnvelope xfields" where
  "xtab_SOAPEnvelope = [(''Body'', xdec_sub Soap_Body Soap_Body_update
     [(''BusinessEnvelope'', xdec_sub Soap_BusinessEnvelope Soap_BusinessEnvelope_update
        xtab_SOAPBusinessEnvelope)])]"

definition UnmarshalEnvelope :: "xtext \<Rightarrow> SOAPEnvelope result" where
  "UnmarshalEnvelope body = (case body of
     XRaw err \<Rightarrow> Inl err
   | XDoc (Elem k attrs t cs) \<Rightarrow>
       if k \<noteq> ''Envelope'' then Inl (''expected element type <Envelope> but have <'' @ k @ ''>'')
       else Inr (xdec_struct xtab_SOAPEnvelope (Elem k attrs t cs)
         (zero_envelope\<lparr>Soap_XMLNS := (case map_of (rev attrs) ''xmlns'' of Some v \<Rightarrow> v | None \<Rightarrow> '''')\<rparr>)))"

definition normalizePaymentCheck :: "PaymentCheck \<Rightarrow> gotime \<Rightarrow> PaymentCheck" where
  "normalizePaymentCheck check now =
     (let messageID = (if Chk_MessageID check = '''' then NewMessageID now else Chk_MessageID check);
          currency = ToUpper (TrimSpace (Chk_Currency check));
          category = PrimaryCategoryFromValue (Chk_Category check);
          mark = ToUpper (TrimSpace (Chk_MoneyMark check)) in
      \<lparr>Chk_MessageID = messageID, Chk_MerchantID = TrimSpace (Chk_MerchantID check),
       Chk_PaymentID = TrimSpace (Chk_PaymentID check), Chk_WalletID = TrimSpace (Chk_WalletID check),
       Chk_Amount = Chk_Amount check, Chk_Currency = (if currency = '''' then ''RUB'' else currency),
       Chk_Category = category,
       Chk_MoneyMark = (if mark = '''' then RequiredMoneyMark category else mark),
       Chk_SmartContractID = SmartContractID (Chk_SmartContractID check)\<rparr>)"

definition hmacHex :: "hmac \<Rightarrow> gostring \<Rightarrow> gostring" where
  "hmacHex hmac v = hmac ''digital-ruble-soap-sandbox-secret'' v"

definition SignPaymentCheck :: "hmac \<Rightarrow> PaymentCheck \<Rightarrow> gotime \<Rightarrow> gostring" where
  "SignPaymentCheck hmac check now = (let check = normalizePaymentCheck check now in
     hmacHex hmac (Join [Chk_MessageID check, Chk_PaymentID check, Chk_MerchantID check,
       Chk_WalletID check, FormatFloat2 (Chk_Amount check), Chk_Currency check, Chk_Category check,
       Chk_MoneyMark check, Chk_SmartContractID check] ''|''))"

definition SignSOAPResponse :: "hmac \<Rightarrow> gostring \<Rightarrow> gostring \<Rightarrow> gostring \<Rightarrow> gostring" where
  "SignSOAPResponse hmac messageID resultCode result = hmacHex hmac (Join [messageID, resultCode, result] ''|'')"

definition BuildPaymentCheckSOAP :: "hmac \<Rightarrow> PaymentCheck \<Rightarrow> gotime \<Rightarrow> xtext result" where
  "BuildPaymentCheckSOAP hmac check now = (let check = normalizePaymentCheck check now in
     Inr (XDoc (xenc_SOAPEnvelope \<lparr>Soap_XMLNS = soapNamespace, Soap_Body = \<lparr>Soap_BusinessEnvelope =
       \<lparr>Biz_MessageID = Chk_MessageID check, Biz_MessageType = ''C2BPaymentCheck'',
        Biz_Sender = ''PAYMENT_GATEWAY'', Biz_Receiver = ''DIGITAL_RUBLE_PLATFORM_EMULATOR'',
        Biz_SigContainer = \<lparr>Sig_Type = SignatureTypeHMAC, Sig_Value = SignPaymentCheck hmac check now\<rparr>,
        Biz_Object = zero_object\<lparr>Obj_PaymentID := Chk_PaymentID check,
          Obj_MerchantID := Chk_MerchantID check, Obj_WalletID := Chk_WalletID check,
          Obj_Amount := FormatFloat2 (Chk_Amount check), Obj_Currency := Chk_Currency check,
          Obj_Category := Chk_Category check, Obj_RequiredMark := Chk_MoneyMark check,
          Obj_SmartContractID := Chk_SmartContractID check\<rparr>\<rparr>\<rparr>\<rparr>)))"

definition BuildPaymentCheckSOAPResponse :: "hmac \<Rightarrow> PaymentCheck \<Rightarrow> CheckResult \<Rightarrow> xtext result" where
  "BuildPaymentCheckSOAPResponse hmac check res =
     (let resultCode = (if Res_Allowed res then ''200'' else ''409'') in
     Inr (XDoc (xenc_SOAPEnvelope \<lparr>Soap_XMLNS = soapNamespace, Soap_Body = \<lparr>Soap_BusinessEnvelope =
       \<lparr>Biz_MessageID = Chk_MessageID check @ ''_response'', Biz_MessageType = ''C2BPaymentCheckResponse'',
        Biz_Sender = ''DIGITAL_RUBLE_PLATFORM_EMULATOR'', Biz_Receiver = ''PAYMENT_GATEWAY'',
        Biz_SigContainer = \<lparr>Sig_Type = SignatureTypeHMAC,
          Sig_Value = SignSOAPResponse hmac (Chk_MessageID check) resultCode (Res_Result res)\<rparr>,
        Biz_Object = \<lparr>Obj_PaymentID = Chk_PaymentID check, Obj_MerchantID = Chk_MerchantID check,
          Obj_WalletID = Chk_WalletID check, Obj_Amount = FormatFloat2 (Chk_Amount check),
          Obj_Currency = Chk_Currency check, Obj_Category = Chk_Category check,
          Obj_RequiredMark = Res_MoneyMark res, Obj_SmartContractID = Res_SmartContractID res,
          Obj_ResultCode = resultCode, Obj_Result = Res_Result res, Obj_Reason = Res_Reason res\<rparr>\<rparr>\<rparr>\<rparr>)))"

definition paymentCheckFromSOAPEnvelope :: "float_parser \<Rightarrow> SOAPEnvelope \<Rightarrow> gotime \<Rightarrow> PaymentCheck result" where
  "paymentCheckFromSOAPEnvelope parse v now =
     (let business = Soap_BusinessEnvelope (Soap_Body v); object = Biz_Object business in
      case parse (TrimSpace (Obj_Amount object)) of
        (_, Some err) \<Rightarrow> Inl (''invalid SOAP payment amount: '' @ err)
      | (amount, None) \<Rightarrow>
          (let check =
            \<lparr>Chk_MessageID = TrimSpace (Biz_MessageID business),
             Chk_MerchantID = TrimSpace (Obj_MerchantID object),
             Chk_PaymentID = TrimSpace (Obj_PaymentID object),
             Chk_WalletID = TrimSpace (Obj_WalletID object), Chk_Amount = amount,
             Chk_Currency = ToUpper (TrimSpace (Obj_Currency object)),
             Chk_Category = PrimaryCategoryFromValue (Obj_Category object),
             Chk_MoneyMark = ToUpper (TrimSpace (Obj_RequiredMark object)),
             Chk_SmartContractID = SmartContractID (Obj_SmartContractID object)\<rparr>
           in if Chk_MessageID check = '''' \<or> Chk_PaymentID check = '''' \<or> Chk_MerchantID check = ''''
              then Inl ''SOAP message_id, merchant_id and payment_id are required''
              else Inr (normalizePaymentCheck check now)))"

definition ProcessPaymentCheckSOAP :: "hmac \<Rightarrow> float_parser \<Rightarrow> xtext \<Rightarrow> gotime \<Rightarrow>
    (CheckResult \<times> xtext) result" where
  "ProcessPaymentCheckSOAP hmac parse body now = (case UnmarshalEnvelope body of
     Inl err \<Rightarrow> Inl err
   | Inr v \<Rightarrow> (case paymentCheckFromSOAPEnvelope parse v now of
       Inl err \<Rightarrow> Inl err
     | Inr check \<Rightarrow> (let res = CheckMarkedMoney check now in
         case BuildPaymentCheckSOAPResponse hmac check res of
           Inl err \<Rightarrow> Inl err | Inr response \<Rightarrow> Inr (res, response))))"

subsection \<open>What the decoder makes of an encoded message\<close>

definition clean_object :: "SOAPPaymentObject \<Rightarrow> SOAPPaymentObject" where
  "clean_object b = \<lparr>Obj_PaymentID = xml_clean (Obj_PaymentID b), Obj_MerchantID = xml_clean (Obj_MerchantID b),
     Obj_WalletID = xml_clean (Obj_WalletID b), Obj_Amount = xml_clean (Obj_Amount b),
     Obj_Currency = xml_clean (Obj_Currency b), Obj_Category = xml_clean (Obj_Category b),
     Obj_RequiredMark = xml_clean (Obj_RequiredMark b), Obj_SmartContractID = xml_clean (Obj_SmartContractID b),
     Obj_ResultCode = xml_clean (Obj_ResultCode b), Obj_Result = xml_clean (Obj_Result b),
     Obj_Reason = xml_clean (Obj_Reason b)\<rparr>"

lemma xml_clean_Nil [simp]: "xml_clean [] = []"
  by (simp add: xml_clean_def)

lemma fold_omit:
  assumes "map_of T k = Some (xdec_str upd)" and "upd (\<lambda>_. []) r = r"
  shows "fold (\<lambda>c r. case map_of T (xml_name c) of None \<Rightarrow> r | Some d \<Rightarrow> d c r) (xml_omit k s) r
    = upd (\<lambda>_. xml_clean s) r"
  using assms by (simp add: xml_omit_def xml_leaf_def)

lemma decode_object:
  "xdec_struct xtab_SOAPPaymentObject (xenc_SOAPPaymentObject b) zero_object = clean_object b"
proof -
  have look: "map_of xtab_SOAPPaymentObject ''PaymentID'' = Some (xdec_str Obj_PaymentID_update)"
    "map_of xtab_SOAPPaymentObject ''MerchantID'' = Some (xdec_str Obj_MerchantID_update)"
    "map_of xtab_SOAPPaymentObject ''WalletID'' = Some (xdec_str Obj_WalletID_update)"
    "map_of xtab_SOAPPaymentObject ''Amount'' = Some (xdec_str Obj_Amount_update)"
    "map_of xtab_SOAPPaymentObject ''Currency'' = Some (xdec_str Obj_Currency_update)"
    "map_of xtab_SOAPPaymentObject ''Category'' = Some (xdec_str Obj_Category_update)"
    "map_of xtab_SOAPPaymentObject ''RequiredMoneyMark'' = Some (xdec_str Obj_RequiredMark_update)"
    "map_of xtab_SOAPPaymentObject ''SmartContractID'' = Some (xdec_str Obj_SmartContractID_update)"
    "map_of xtab_SOAPPaymentObject ''ResultCode'' = Some (xdec_str Obj_ResultCode_update)"
    "map_of xtab_SOAPPaymentObject ''Result'' = Some (xdec_str Obj_Result_update)"
    "map_of xtab_SOAPPaymentObject ''Reason'' = Some (xdec_str Obj_Reason_update)"
    by (simp_all add: xtab_SOAPPaymentObject_def)
  show ?thesis
    unfolding xenc_SOAPPaymentObject_def xdec_struct.simps fold_append comp_apply zero_object_def
    by (simp add: look [THEN fold_omit] clean_object_def)
qed

lemma decode_envelope:
  "UnmarshalEnvelope (XDoc (xenc_SOAPEnvelope \<lparr>Soap_XMLNS = ns, Soap_Body = \<lparr>Soap_BusinessEnvelope = z\<rparr>\<rparr>)) =
     Inr \<lparr>Soap_XMLNS = xml_clean ns, Soap_Body = \<lparr>Soap_BusinessEnvelope =
       \<lparr>Biz_MessageID = xml_clean (Biz_MessageID z), Biz_MessageType = xml_clean (Biz_MessageType z),
        Biz_Sender = xml_clean (Biz_Sender z), Biz_Receiver = xml_clean (Biz_Receiver z),
        Biz_SigContainer = \<lparr>Sig_Type = xml_clean (Sig_Type (Biz_SigContainer z)),
          Sig_Value = xml_clean (Sig_Value (Biz_SigContainer z))\<rparr>,
        Biz_Object = clean_object (Biz_Object z)\<rparr>\<rparr>\<rparr>"
proof -
  have obj: "xml_name (xenc_SOAPPaymentObject b) = ''Object''" for b
    by (simp add: xenc_SOAPPaymentObject_def)
  show ?thesis
    by (simp add: UnmarshalEnvelope_def xenc_SOAPEnvelope_def xtab_SOAPEnvelope_def xdec_sub_def
        xtab_SOAPBusinessEnvelope_def xenc_SOAPBusinessEnvelope_def xenc_SOAPSignatureContainer_def
        xtab_SOAPSignatureContainer_def zero_envelope_def xml_leaf_def obj decode_object)
qed

subsection \<open>Normal forms\<close>

lemma NormalizeCategory_no_space: "printable c \<Longrightarrow> CHR '' '' \<notin> set (NormalizeCategory c)"
  by (auto simp: NormalizeCategory_def ReplaceAll_def split: if_splits)

lemma printable_NormalizeCategory: "printable c \<Longrightarrow> printable (NormalizeCategory c)"
proof -
  assume p: "printable c"
  then have "printable (ToLower (TrimSpace c))" by (intro printable_case printable_TrimSpace)
  then show ?thesis
    by (induction "ToLower (TrimSpace c)" rule: list.induct)
      (auto simp: NormalizeCategory_def ReplaceAll_def printable_def list_all_iff byte_def split: if_splits)
qed

lemma NormalizeCategory_idem:
  assumes "printable c"
  shows "NormalizeCategory (NormalizeCategory c) = NormalizeCategory c"
proof -
  let ?n = "NormalizeCategory c"
  have lower: "char_of (rune_lower (byte x)) = x" if "x \<in> set (ToLower (TrimSpace c))" for x
  proof -
    have "is_ascii (TrimSpace c)" by (rule printable_ascii [OF printable_TrimSpace [OF assms]])
    then have "ToLower (ToLower (TrimSpace c)) = ToLower (TrimSpace c)" "is_ascii (ToLower (TrimSpace c))"
      by (simp_all add: ToLower_idem_ascii is_ascii_ToLower)
    then have "map (\<lambda>c. char_of (rune_lower (byte c))) (ToLower (TrimSpace c)) = map (\<lambda>c. c) (ToLower (TrimSpace c))"
      by (simp add: ToLower_ascii_map)
    with that show ?thesis unfolding map_eq_conv by blast
  qed
  have chars: "char_of (rune_lower (byte x)) = x \<and> x \<noteq> CHR '' '' \<and> x \<noteq> CHR ''-''" if "x \<in> set ?n" for x
  proof -
    have "x = CHR ''_'' \<or> (x \<in> set (ToLower (TrimSpace c)) \<and> x \<noteq> CHR '' '' \<and> x \<noteq> CHR ''-'')"
      using that by (auto simp: NormalizeCategory_def ReplaceAll_def split: if_splits)
    moreover have "char_of (rune_lower (byte CHR ''_'')) = CHR ''_''" by code_simp
    ultimately show ?thesis using lower by auto
  qed
  have p: "printable ?n" by (rule printable_NormalizeCategory [OF assms])
  have "TrimSpace ?n = ?n"
    unfolding TrimSpace_printable_iff [OF p] using chars by (metis hd_in_set last_in_set)
  moreover have "ToLower ?n = ?n"
    unfolding ToLower_ascii_map [OF printable_ascii [OF p]] using chars by (intro map_idI) blast
  moreover have "ReplaceAll (ReplaceAll ?n CHR '' '' ''_'') CHR ''-'' ''_'' = ?n"
  proof -
    have r: "ReplaceAll s x t = s" if "x \<notin> set s" for s x t
      using that by (induction s) (auto simp: ReplaceAll_def)
    have "CHR '' '' \<notin> set ?n" "CHR ''-'' \<notin> set ?n" using chars by blast+
    then show ?thesis by (simp add: r)
  qed
  ultimately show ?thesis by (simp only: NormalizeCategory_def [of ?n])
qed

lemma category_general: "NormalizeCategory ''general'' = ''general''"
  by (simp add: NormalizeCategory_def go_eval)

lemma PrimaryCategoryFromValue_idem:
  "printable c \<Longrightarrow> PrimaryCategoryFromValue (PrimaryCategoryFromValue c) = PrimaryCategoryFromValue c"
  by (simp add: PrimaryCategoryFromValue_def Let_def NormalizeCategory_idem category_general)

lemma printable_PrimaryCategory: "printable c \<Longrightarrow> printable (PrimaryCategoryFromValue c)"
  by (simp add: PrimaryCategoryFromValue_def Let_def printable_NormalizeCategory byte_def)

definition upper_trimmed :: "gostring \<Rightarrow> bool" where
  "upper_trimmed s = (printable s \<and> ToUpper (TrimSpace s) = s)"

lemma ToUpper_idem: "printable s \<Longrightarrow> ToUpper (ToUpper s) = ToUpper s"
proof -
  assume p: "printable s"
  have "rune_upper (byte (char_of (rune_upper (byte c)))) = rune_upper (byte c)" if "byte c < 127" for c
  proof -
    have "rune_upper (byte c) < 256" "rune_upper (rune_upper (byte c)) = rune_upper (byte c)"
      using that by (auto simp: rune_upper_def)
    then show ?thesis by simp
  qed
  then show ?thesis
    using p unfolding ToUpper_ascii_map [OF printable_ascii [OF p]]
      ToUpper_ascii_map [OF printable_ascii [OF printable_case(1) [OF p]], unfolded ToUpper_ascii_map [OF printable_ascii [OF p]]]
    by (auto simp: printable_def list_all_iff)
qed

lemma upper_trimmed_ToUpper: "printable s \<Longrightarrow> upper_trimmed (ToUpper (TrimSpace s))"
  using TrimSpace_ToUpper [OF printable_TrimSpace TrimSpace_idem, of s]
  by (simp add: upper_trimmed_def printable_case printable_TrimSpace ToUpper_idem)

lemma upper_name_trimmed: "upper_name s \<Longrightarrow> upper_trimmed s"
proof -
  assume u: "upper_name s"
  have "list_all (\<lambda>c. 32 \<le> byte c \<and> byte c < 127) ''ABCDEFGHIJKLMNOPQRSTUVWXYZ_0123456789''"
    by code_simp
  with u have "printable s" unfolding upper_name_def printable_def list_all_iff by blast
  with upper_name_norm [OF u] show ?thesis by (simp add: upper_trimmed_def)
qed

lemma upper_trimmed_marks: "upper_trimmed (RequiredMoneyMark c)" "upper_trimmed ''RUB''"
proof -
  have "upper_name (RequiredMoneyMark c)" by (simp add: RequiredMoneyMark_def Let_def lit upper_name_def)
  then show "upper_trimmed (RequiredMoneyMark c)" by (rule upper_name_trimmed)
  show "upper_trimmed ''RUB''" by (rule upper_name_trimmed) (simp add: upper_name_def)
qed

lemma SmartContractID_idem: "SmartContractID (SmartContractID v) = SmartContractID v"
proof -
  have "TrimSpace DefaultSmartContractID = DefaultSmartContractID" "DefaultSmartContractID \<noteq> ''''"
    by (simp_all add: lit go_eval)
  then show ?thesis by (simp add: SmartContractID_def Let_def)
qed

lemma printable_SmartContractID: "printable v \<Longrightarrow> printable (SmartContractID v)"
  by (simp add: SmartContractID_def Let_def printable_TrimSpace lit byte_def)

text \<open>The amount as text.\<close>

lemma digits_chars: "c \<in> set (nat_digits n) \<Longrightarrow> is_digit (byte c)"
proof (induction n rule: nat_digits.induct)
  case (1 n)
  then show ?case
    by (cases "n < 10") (auto simp: nat_digits.simps [of n] is_digit_def simp del: nat_digits.simps)
qed

lemma FormatFloat2_chars:
  "c \<in> set (FormatFloat2 x) \<Longrightarrow> is_digit (byte c) \<or> c \<in> set ''-+.InfNa''"
  using digits_chars
  by (cases x) (auto simp: Let_def two_digits_def is_digit_def byte_def split: if_splits)

lemma FormatFloat2_text: "printable (FormatFloat2 x)" "TrimSpace (FormatFloat2 x) = FormatFloat2 x"
proof -
  have c: "32 < byte c \<and> byte c < 127" if "c \<in> set (FormatFloat2 x)" for c
    using FormatFloat2_chars [OF that] by (auto simp: is_digit_def byte_def)
  then show "printable (FormatFloat2 x)" by (auto simp: printable_def list_all_iff less_imp_le)
  show "TrimSpace (FormatFloat2 x) = FormatFloat2 x"
    by (rule TrimSpace_no_space) (use c in \<open>force simp: ascii_space_def\<close>)
qed

lemma normalizePaymentCheck_idem:
  assumes "printable (Chk_Currency c)" "printable (Chk_Category c)" "printable (Chk_MoneyMark c)"
    and "Chk_MessageID c \<noteq> ''''"
  shows "normalizePaymentCheck (normalizePaymentCheck c now) now' = normalizePaymentCheck c now"
proof -
  have mark: "upper_trimmed (Chk_MoneyMark (normalizePaymentCheck c now))"
    "Chk_MoneyMark (normalizePaymentCheck c now) \<noteq> ''''"
    using upper_trimmed_ToUpper [OF assms(3)] upper_trimmed_marks(1)
    by (auto simp: normalizePaymentCheck_def Let_def RequiredMoneyMark_def lit)
  have currency: "upper_trimmed (Chk_Currency (normalizePaymentCheck c now))"
    "Chk_Currency (normalizePaymentCheck c now) \<noteq> ''''"
    using upper_trimmed_ToUpper [OF assms(1)] upper_trimmed_marks(2)
    by (auto simp: normalizePaymentCheck_def Let_def)
  have rest: "Chk_MessageID (normalizePaymentCheck c now) = Chk_MessageID c"
    "Chk_MerchantID (normalizePaymentCheck c now) = TrimSpace (Chk_MerchantID c)"
    "Chk_PaymentID (normalizePaymentCheck c now) = TrimSpace (Chk_PaymentID c)"
    "Chk_WalletID (normalizePaymentCheck c now) = TrimSpace (Chk_WalletID c)"
    "Chk_Category (normalizePaymentCheck c now) = PrimaryCategoryFromValue (Chk_Category c)"
    "Chk_SmartContractID (normalizePaymentCheck c now) = SmartContractID (Chk_SmartContractID c)"
    using assms(4) by (simp_all add: normalizePaymentCheck_def Let_def)
  show ?thesis
    using mark currency assms(4)
    by (subst normalizePaymentCheck_def [of "normalizePaymentCheck c now"])
      (simp add: Let_def rest upper_trimmed_def SmartContractID_idem
        PrimaryCategoryFromValue_idem [OF assms(2)])
qed

text \<open>A check whose texts XML can carry and that names its message, merchant and payment.\<close>

definition plain_check :: "PaymentCheck \<Rightarrow> bool" where
  "plain_check c = (list_all printable [Chk_MessageID c, Chk_MerchantID c, Chk_PaymentID c,
       Chk_WalletID c, Chk_Currency c, Chk_Category c, Chk_MoneyMark c, Chk_SmartContractID c]
     \<and> TrimSpace (Chk_MessageID c) = Chk_MessageID c \<and> Chk_MessageID c \<noteq> ''''
     \<and> TrimSpace (Chk_MerchantID c) \<noteq> '''' \<and> TrimSpace (Chk_PaymentID c) \<noteq> '''')"

lemma plain_check_normal:
  assumes "plain_check c"
  shows "plain_check (normalizePaymentCheck c now)"
proof -
  have "printable (Chk_Currency (normalizePaymentCheck c now))"
    "printable (Chk_MoneyMark (normalizePaymentCheck c now))"
    using assms upper_trimmed_ToUpper upper_trimmed_marks
    by (auto simp: plain_check_def normalizePaymentCheck_def Let_def upper_trimmed_def)
  with assms show ?thesis
    by (auto simp: plain_check_def normalizePaymentCheck_def Let_def printable_TrimSpace
        printable_PrimaryCategory printable_SmartContractID)
qed

lemma decoded_check:
  assumes "plain_check n" "normalizePaymentCheck n now' = n" and "parse (FormatFloat2 (Chk_Amount n)) = (a, None)"
  shows "paymentCheckFromSOAPEnvelope parse
      \<lparr>Soap_XMLNS = ns, Soap_Body = \<lparr>Soap_BusinessEnvelope =
        \<lparr>Biz_MessageID = xml_clean (Chk_MessageID n), Biz_MessageType = t, Biz_Sender = s, Biz_Receiver = r,
         Biz_SigContainer = g, Biz_Object = clean_object (zero_object\<lparr>Obj_PaymentID := Chk_PaymentID n,
          Obj_MerchantID := Chk_MerchantID n, Obj_WalletID := Chk_WalletID n,
          Obj_Amount := FormatFloat2 (Chk_Amount n), Obj_Currency := Chk_Currency n,
          Obj_Category := Chk_Category n, Obj_RequiredMark := Chk_MoneyMark n,
          Obj_SmartContractID := Chk_SmartContractID n\<rparr>)\<rparr>\<rparr>\<rparr> now'
    = Inr (n\<lparr>Chk_Amount := a\<rparr>)"
proof -
  let ?c = "\<lparr>Chk_MessageID = TrimSpace (Chk_MessageID n), Chk_MerchantID = TrimSpace (Chk_MerchantID n),
    Chk_PaymentID = TrimSpace (Chk_PaymentID n), Chk_WalletID = TrimSpace (Chk_WalletID n), Chk_Amount = a,
    Chk_Currency = ToUpper (TrimSpace (Chk_Currency n)),
    Chk_Category = PrimaryCategoryFromValue (Chk_Category n),
    Chk_MoneyMark = ToUpper (TrimSpace (Chk_MoneyMark n)),
    Chk_SmartContractID = SmartContractID (Chk_SmartContractID n)\<rparr>"
  have p: "printable (Chk_MessageID n)" "printable (Chk_MerchantID n)" "printable (Chk_PaymentID n)"
    "printable (Chk_WalletID n)" "printable (Chk_Currency n)" "printable (Chk_Category n)"
    "printable (Chk_MoneyMark n)" "printable (Chk_SmartContractID n)" "Chk_MessageID n \<noteq> ''''"
    "TrimSpace (Chk_MessageID n) = Chk_MessageID n"
    "TrimSpace (Chk_MerchantID n) \<noteq> ''''" "TrimSpace (Chk_PaymentID n) \<noteq> ''''"
    using assms(1) by (simp_all add: plain_check_def)
  have "normalizePaymentCheck ?c now' = (normalizePaymentCheck n now')\<lparr>Chk_Amount := a\<rparr>"
    using p TrimSpace_ToUpper [OF printable_TrimSpace TrimSpace_idem]
    by (simp add: normalizePaymentCheck_def Let_def PrimaryCategoryFromValue_idem SmartContractID_idem
        ToUpper_idem printable_TrimSpace)
  then show ?thesis
    using p unfolding assms(2)
    by (simp add: paymentCheckFromSOAPEnvelope_def clean_object_def zero_object_def Let_def
        FormatFloat2_text assms(3))
qed

lemma check_of_envelope:
  assumes "Biz_MessageID (Soap_BusinessEnvelope (Soap_Body v)) = Biz_MessageID (Soap_BusinessEnvelope (Soap_Body v'))"
    and "Biz_Object (Soap_BusinessEnvelope (Soap_Body v)) = Biz_Object (Soap_BusinessEnvelope (Soap_Body v'))"
  shows "paymentCheckFromSOAPEnvelope parse v now = paymentCheckFromSOAPEnvelope parse v' now"
  unfolding paymentCheckFromSOAPEnvelope_def Let_def assms ..

lemma soap_check_processed:
  assumes "plain_check c" and "parse (FormatFloat2 (Chk_Amount c)) = (a, None)"
    and "n = (normalizePaymentCheck c now)\<lparr>Chk_Amount := a\<rparr>"
  shows "\<exists>body reply. BuildPaymentCheckSOAP hmac c now = Inr body
    \<and> BuildPaymentCheckSOAPResponse hmac n (CheckMarkedMoney n now') = Inr reply
    \<and> ProcessPaymentCheckSOAP hmac parse body now' = Inr (CheckMarkedMoney n now', reply)"
proof -
  let ?n = "normalizePaymentCheck c now"
  have plain: "plain_check ?n" by (rule plain_check_normal [OF assms(1)])
  have normal: "normalizePaymentCheck ?n now' = ?n"
    using assms(1) by (intro normalizePaymentCheck_idem) (simp_all add: plain_check_def)
  have amount: "parse (FormatFloat2 (Chk_Amount ?n)) = (a, None)"
    using assms(2) by (simp add: normalizePaymentCheck_def Let_def)
  obtain reply where reply: "BuildPaymentCheckSOAPResponse hmac n (CheckMarkedMoney n now') = Inr reply"
    by (simp add: BuildPaymentCheckSOAPResponse_def Let_def)
  obtain body where body: "BuildPaymentCheckSOAP hmac c now = Inr body"
    by (simp add: BuildPaymentCheckSOAP_def Let_def)
  have "ProcessPaymentCheckSOAP hmac parse body now' = Inr (CheckMarkedMoney n now', reply)"
    using body reply decoded_check [where n = ?n and parse = parse and a = a and now' = now',
      OF plain normal amount]
    unfolding BuildPaymentCheckSOAP_def Let_def assms(3) [symmetric]
    by (auto simp: ProcessPaymentCheckSOAP_def decode_envelope)
  with body reply show ?thesis by blast
qed

subsection \<open>Properties\<close>

text \<open>
  C26: A check that the gateway encodes as a SOAP message comes back from the platform as the
  same check. For a check whose texts are printable and that names its message, merchant and
  payment, processing the message that was built for it succeeds and gives exactly the verdict
  on the normalised check, for the amount that the two decimals of the text denote; the reply
  is the one built for that check and verdict.
\<close>

theorem soap_check_roundtrip:
  assumes "plain_check c" and "parse (FormatFloat2 (Chk_Amount c)) = (a, None)"
    and "n = (normalizePaymentCheck c now)\<lparr>Chk_Amount := a\<rparr>"
  shows "\<exists>body reply. BuildPaymentCheckSOAP hmac c now = Inr body
    \<and> BuildPaymentCheckSOAPResponse hmac n (CheckMarkedMoney n now') = Inr reply
    \<and> ProcessPaymentCheckSOAP hmac parse body now' = Inr (CheckMarkedMoney n now', reply)"
  by (rule soap_check_processed [where c = c and parse = parse and a = a and n = n and now = now]) (fact assms)+

definition book_check :: PaymentCheck where
  "book_check = \<lparr>Chk_MessageID = ''drmsg_1'', Chk_MerchantID = ''m'', Chk_PaymentID = ''p'',
     Chk_WalletID = ''dr_wallet_123'', Chk_Amount = Fin 10000, Chk_Currency = ''RUB'',
     Chk_Category = ''books'', Chk_MoneyMark = ''EDUCATION'', Chk_SmartContractID = ''SC''\<rparr>"

theorem soap_check_roundtrip_witness:
  "\<exists>body reply. BuildPaymentCheckSOAP (@) book_check 0 = Inr body
    \<and> BuildPaymentCheckSOAPResponse (@) ((normalizePaymentCheck book_check 0)\<lparr>Chk_Amount := Fin 10000\<rparr>)
        (CheckMarkedMoney ((normalizePaymentCheck book_check 0)\<lparr>Chk_Amount := Fin 10000\<rparr>) 5) = Inr reply
    \<and> ProcessPaymentCheckSOAP (@) (\<lambda>_. (Fin 10000, None)) body 5
      = Inr (CheckMarkedMoney ((normalizePaymentCheck book_check 0)\<lparr>Chk_Amount := Fin 10000\<rparr>) 5, reply)"
  by (rule soap_check_roundtrip [OF _ _ refl])
    (simp_all add: plain_check_def book_check_def byte_def go_eval)

text \<open>
  Nobody checks the signature of an incoming check. Whatever the signature container of a
  message says, and whoever it names as sender and receiver, the platform answers the same,
  digest of its own included: a message need not come from the gateway, nor state the mark
  that its category requires.
\<close>

theorem soap_signature_unchecked:
  "ProcessPaymentCheckSOAP hmac parse (XDoc (xenc_SOAPEnvelope \<lparr>Soap_XMLNS = ns, Soap_Body =
      \<lparr>Soap_BusinessEnvelope = z\<rparr>\<rparr>)) now
   = ProcessPaymentCheckSOAP hmac parse (XDoc (xenc_SOAPEnvelope \<lparr>Soap_XMLNS = ns', Soap_Body =
      \<lparr>Soap_BusinessEnvelope = z\<lparr>Biz_SigContainer := g, Biz_Sender := s, Biz_Receiver := t,
        Biz_MessageType := k\<rparr>\<rparr>\<rparr>)) now"
  unfolding ProcessPaymentCheckSOAP_def decode_envelope sum.case
  by (rule arg_cong [where f = "case_sum f g" for f g], rule check_of_envelope) simp_all

end
