(* ===== verification/Adapters.thy ===== *)
theory Adapters
  imports Digital_Ruble Payments "HOL-Library.List_Lexorder" "HOL-Library.Char_ord"
begin

section \<open>The payment adapters (\<open>internal/subsystems/adapter\<close>)\<close>

text \<open>
  The adapters of YooKassa, PayAnyWay and the digital ruble: what they send and what they make
  of the answer. The HTTP client of YooKassa, MD5 and the QR encoder (a third-party package)
  are parameters: \<open>client\<close> gives for a request the status and the first JSON value of the body,
  or the error of the request, \<open>md5\<close> the hexadecimal digest, \<open>qr\<close> the bytes of the image.
  \<open>url.Values.Encode\<close> and base64 are modelled. A configuration read from the environment
  (\<open>env\<close>) becomes a record.
\<close>

subsection \<open>Helpers\<close>

definition adapter_truncate :: "gostring \<Rightarrow> int \<Rightarrow> gostring" where
  "adapter_truncate s mx = (if mx \<le> 0 \<or> int (length (runes s)) \<le> mx then s
     else encode_runes (take (nat mx) (runes s)))"

fun adapter_firstNonEmpty :: "gostring list \<Rightarrow> gostring" where
  "adapter_firstNonEmpty [] = ''''"
| "adapter_firstNonEmpty (v # vs) = (if v \<noteq> '''' then v else adapter_firstNonEmpty vs)"

text \<open>\<open>url.QueryEscape\<close> and \<open>url.Values.Encode\<close>; every key is \<open>Set\<close> once.\<close>

definition upper_hex :: "nat \<Rightarrow> char" where
  "upper_hex n = (if n < 10 then char_of (48 + n) else char_of (55 + n))"

definition unreserved :: "char \<Rightarrow> bool" where
  "unreserved c = (let n = byte c in is_digit n \<or> 65 \<le> n \<and> n \<le> 90 \<or> 97 \<le> n \<and> n \<le> 122
     \<or> c \<in> {CHR ''-'', CHR ''_'', CHR ''.'', CHR ''~''})"

definition QueryEscape :: "gostring \<Rightarrow> gostring" where
  "QueryEscape s = concat (map (\<lambda>c. if c = CHR '' '' then ''+'' else if unreserved c then [c]
     else [CHR ''%'', upper_hex (byte c div 16), upper_hex (byte c mod 16)]) s)"

definition Values_Encode :: "(gostring \<times> gostring) list \<Rightarrow> gostring" where
  "Values_Encode vs = Join (map (\<lambda>(k, v). QueryEscape k @ ''='' @ QueryEscape v) (sort_key fst vs)) ''&''"

text \<open>Base64 with padding.\<close>

definition base64_digit :: "nat \<Rightarrow> char" where
  "base64_digit n = ''ABCDEFGHIJKLMNOPQRSTUVWXYZabcdefghijklmnopqrstuvwxyz0123456789+/'' ! n"

fun base64 :: "gostring \<Rightarrow> gostring" where
  "base64 (a # b # c # s) = (let n = (byte a * 256 + byte b) * 256 + byte c in
     map base64_digit [n div 262144, n div 4096 mod 64, n div 64 mod 64, n mod 64] @ base64 s)"
| "base64 [a, b] = (let n = (byte a * 256 + byte b) * 4 in
     map base64_digit [n div 4096, n div 64 mod 64, n mod 64] @ ''='')"
| "base64 [a] = (let n = byte a * 16 in map base64_digit [n div 64, n mod 64] @ ''=='')"
| "base64 [] = ''''"

subsection \<open>YooKassa\<close>

record http_call =
  Hc_Method :: gostring
  Hc_URL :: gostring
  Hc_Auth :: "gostring \<times> gostring"
  Hc_Headers :: "(gostring \<times> gostring) list"
  Hc_Body :: jtext

type_synonym http_client = "http_call \<Rightarrow> (int \<times> json option) result"

record YooKassaAdapter =
  Yoo_shopID :: gostring
  Yoo_secretKey :: gostring
  Yoo_apiURL :: gostring
  Yoo_refundURL :: gostring
  Yoo_returnURL :: gostring

definition env_or :: "gostring \<Rightarrow> gostring \<Rightarrow> gostring" where
  "env_or v dflt = (if v = '''' then dflt else v)"

definition NewYooKassaAdapterFromEnv :: "(gostring \<Rightarrow> gostring) \<Rightarrow> YooKassaAdapter result" where
  "NewYooKassaAdapterFromEnv env =
     (let get = (\<lambda>k. TrimSpace (env k)); shopID = get ''YOOKASSA_SHOP_ID''; secretKey = get ''YOOKASSA_SECRET_KEY'' in
      if shopID = '''' \<or> secretKey = ''''
      then Inl ''YOOKASSA_SHOP_ID and YOOKASSA_SECRET_KEY are required''
      else Inr \<lparr>Yoo_shopID = shopID, Yoo_secretKey = secretKey,
        Yoo_apiURL = env_or (get ''YOOKASSA_API_URL'') ''https://api.yookassa.ru/v3/payments'',
        Yoo_refundURL = env_or (get ''YOOKASSA_REFUNDS_URL'') ''https://api.yookassa.ru/v3/refunds'',
        Yoo_returnURL = env_or (env_or (get ''PAYMENT_RETURN_URL'') (get ''YOOKASSA_RETURN_URL''))
          ''http://localhost:8080''\<rparr>)"

record yookassaPaymentResponse =
  YP_Type :: gostring
  YP_ID :: gostring
  YP_Status :: gostring
  YP_Paid :: bool
  YP_Description :: gostring
  YP_ConfirmationType :: gostring
  YP_ConfirmationURL :: gostring
  YP_CancellationParty :: gostring
  YP_CancellationReason :: gostring

definition zero_yoo_payment :: yookassaPaymentResponse where
  "zero_yoo_payment = \<lparr>YP_Type = '''', YP_ID = '''', YP_Status = '''', YP_Paid = False, YP_Description = '''',
     YP_ConfirmationType = '''', YP_ConfirmationURL = '''', YP_CancellationParty = '''',
     YP_CancellationReason = ''''\<rparr>"

text \<open>The anonymous nested structs are flattened: their fields are decoded into the outer record.\<close>

definition tab_yookassaPaymentResponse :: "yookassaPaymentResponse jfields" where
  "tab_yookassaPaymentResponse =
    [(''type'', dec_str YP_Type_update), (''id'', dec_str YP_ID_update),
     (''status'', dec_str YP_Status_update), (''paid'', dec_bool YP_Paid_update),
     (''description'', dec_str YP_Description_update),
     (''confirmation'', dec_struct [(''type'', dec_str YP_ConfirmationType_update),
        (''confirmation_url'', dec_str YP_ConfirmationURL_update)]),
     (''cancellation_details'', dec_struct [(''party'', dec_str YP_CancellationParty_update),
        (''reason'', dec_str YP_CancellationReason_update)])]"

record yookassaRefundResponse =
  YR_Type :: gostring
  YR_ID :: gostring
  YR_Status :: gostring
  YR_Description :: gostring
  YR_AmountValue :: gostring
  YR_AmountCurrency :: gostring
  YR_PaymentID :: gostring
  YR_CreatedAt :: gostring
  YR_CancellationParty :: gostring
  YR_CancellationReason :: gostring

definition zero_yoo_refund :: yookassaRefundResponse where
  "zero_yoo_refund = \<lparr>YR_Type = '''', YR_ID = '''', YR_Status = '''', YR_Description = '''',
     YR_AmountValue = '''', YR_AmountCurrency = '''', YR_PaymentID = '''', YR_CreatedAt = '''',
     YR_CancellationParty = '''', YR_CancellationReason = ''''\<rparr>"

definition tab_yookassaRefundResponse :: "yookassaRefundResponse jfields" where
  "tab_yookassaRefundResponse =
    [(''type'', dec_str YR_Type_update), (''id'', dec_str YR_ID_update),
     (''status'', dec_str YR_Status_update), (''description'', dec_str YR_Description_update),
     (''amount'', dec_struct [(''value'', dec_str YR_AmountValue_update),
        (''currency'', dec_str YR_AmountCurrency_update)]),
     (''payment_id'', dec_str YR_PaymentID_update), (''created_at'', dec_str YR_CreatedAt_update),
     (''cancellation_details'', dec_struct [(''party'', dec_str YR_CancellationParty_update),
        (''reason'', dec_str YR_CancellationReason_update)])]"

definition adapter_mapYooKassaStatus :: "gostring \<Rightarrow> gostring" where
  "adapter_mapYooKassaStatus status = (let s = ToLower status in
     if s = ''succeeded'' then StatusCaptured
     else if s = ''pending'' \<or> s = ''waiting_for_capture'' then StatusPending
     else if s = ''canceled'' then StatusDeclined else StatusPending)"

definition mapYooKassaRefundStatus :: "gostring \<Rightarrow> gostring" where
  "mapYooKassaRefundStatus status = (let s = ToLower status in
     if s = ''succeeded'' then RefundStatusSuccess
     else if s = ''pending'' then RefundStatusProcess
     else if s = ''canceled'' then RefundStatusFail else RefundStatusProcess)"

definition yookassaAdapterErrorCode :: "gostring \<Rightarrow> gostring \<Rightarrow> gostring" where
  "yookassaAdapterErrorCode status reason =
     (if status \<noteq> StatusDeclined \<and> status \<noteq> StatusFailed then ''''
      else if EqualFold (TrimSpace reason) ''fraud_suspected'' then ErrorYooKassaFraudSuspected
      else ErrorYooKassaPaymentDeclined)"

text \<open>A map is marshalled with its keys in order.\<close>

definition yoo_str :: "gostring \<Rightarrow> gostring \<Rightarrow> gostring \<times> json" where
  "yoo_str k v = (k, JStr (to_valid_utf8 v))"

definition yoo_amount :: "AmountMoney \<Rightarrow> gostring \<times> json" where
  "yoo_amount a = (''amount'', JObj [yoo_str ''currency'' (Amount_Currency a),
     yoo_str ''value'' (FormatFloat2 (Amount_Value a))])"

definition yoo_post :: "YooKassaAdapter \<Rightarrow> gostring \<Rightarrow> gostring \<Rightarrow> json \<Rightarrow> http_call" where
  "yoo_post a url key body = \<lparr>Hc_Method = ''POST'', Hc_URL = url, Hc_Auth = (Yoo_shopID a, Yoo_secretKey a),
     Hc_Headers = [(''Content-Type'', ''application/json''), (''Idempotence-Key'', key)],
     Hc_Body = JDoc body\<rparr>"

definition payment_call :: "YooKassaAdapter \<Rightarrow> CreatePaymentRequest \<Rightarrow> http_call" where
  "payment_call a req = (let info = Req_PaymentInfo req in
     yoo_post a (Yoo_apiURL a) (Req_IdempotencyKey req) (JObj
       [yoo_amount (Info_Amount info), (''capture'', JBool True),
        (''confirmation'', JObj [yoo_str ''return_url'' (Yoo_returnURL a), yoo_str ''type'' ''redirect'']),
        yoo_str ''description'' (adapter_truncate (Info_Description info) 128),
        (''metadata'', JObj [yoo_str ''idempotency_key'' (Req_IdempotencyKey req),
          yoo_str ''merchant_id'' (Req_MerchantID req), yoo_str ''payment_id'' (Req_PaymentID req)])]))"

definition refund_call :: "YooKassaAdapter \<Rightarrow> RefundRequest \<Rightarrow> http_call" where
  "refund_call a req = yoo_post a (Yoo_refundURL a) (RfReq_IdempotencyKey req) (JObj
     ([yoo_amount (RfReq_Amount req)] @
      (if TrimSpace (RfReq_Reason req) = '''' then []
       else [yoo_str ''description'' (adapter_truncate (RfReq_Reason req) 128)]) @
      [(''metadata'', JObj [yoo_str ''idempotency_key'' (RfReq_IdempotencyKey req),
          yoo_str ''merchant_id'' (RfReq_MerchantID req), yoo_str ''payment_id'' (RfReq_PaymentID req),
          yoo_str ''refund_id'' (RfReq_RefundID req)]),
       yoo_str ''payment_id'' (RfReq_ExternalPaymentID req)]))"

definition yoo_decode :: "'r jfields \<Rightarrow> 'r \<Rightarrow> json option \<Rightarrow> 'r result" where
  "yoo_decode T zero body = (case body of None \<Rightarrow> Inl ''invalid character in JSON''
     | Some j \<Rightarrow> (case dec_struct T j zero of None \<Rightarrow> Inl ''json: cannot unmarshal'' | Some y \<Rightarrow> Inr y))"

definition Yoo_Send :: "http_client \<Rightarrow> YooKassaAdapter \<Rightarrow> gostring \<Rightarrow> CreatePaymentRequest \<Rightarrow>
    AdapterResult result" where
  "Yoo_Send client a token req = (case client (payment_call a req) of
     Inl err \<Rightarrow> Inl err
   | Inr (code, body) \<Rightarrow> (case yoo_decode tab_yookassaPaymentResponse zero_yoo_payment body of
       Inl err \<Rightarrow> Inl err
     | Inr y \<Rightarrow>
         if code < 200 \<or> 300 \<le> code then
           Inr (zero_result\<lparr>AR_PaymentSystem := ''YOOKASSA'', AR_Status := StatusFailed,
             AR_ProviderStatus := YP_Type y, AR_ErrorCode := ErrorProviderUnavailable,
             AR_ErrorMessage := (if YP_Description y = '''' then ''yookassa returned HTTP '' @ Itoa code
               else YP_Description y)\<rparr>)
         else
           (let status = adapter_mapYooKassaStatus (YP_Status y);
                errorMessage = YP_CancellationReason y in
            Inr (zero_result\<lparr>AR_ExternalTransactionID := YP_ID y, AR_PaymentSystem := ''YOOKASSA'',
              AR_Status := status, AR_ProviderStatus := YP_Status y,
              AR_PaymentURL := YP_ConfirmationURL y,
              AR_ErrorCode := yookassaAdapterErrorCode status (YP_CancellationReason y),
              AR_ErrorMessage := (if errorMessage = '''' \<and> status = StatusDeclined
                then ''payment was canceled by YooKassa'' else errorMessage)\<rparr>))))"

definition Yoo_Refund :: "http_client \<Rightarrow> YooKassaAdapter \<Rightarrow> RefundRequest \<Rightarrow> RefundResult result" where
  "Yoo_Refund client a req = (case client (refund_call a req) of
     Inl err \<Rightarrow> Inl err
   | Inr (code, body) \<Rightarrow> (case yoo_decode tab_yookassaRefundResponse zero_yoo_refund body of
       Inl err \<Rightarrow> Inl err
     | Inr y \<Rightarrow>
         if code < 200 \<or> 300 \<le> code then
           Inr \<lparr>RfRes_ExternalRefundID = '''', RfRes_PaymentSystem = ''YOOKASSA'',
             RfRes_Status = RefundStatusFail, RfRes_ProviderStatus = YR_Type y,
             RfRes_ErrorMessage = (if YR_Description y = ''''
               then ''yookassa refund returned HTTP '' @ Itoa code else YR_Description y)\<rparr>
         else
           Inr \<lparr>RfRes_ExternalRefundID = YR_ID y, RfRes_PaymentSystem = ''YOOKASSA'',
             RfRes_Status = mapYooKassaRefundStatus (YR_Status y), RfRes_ProviderStatus = YR_Status y,
             RfRes_ErrorMessage = YR_CancellationReason y\<rparr>))"

subsection \<open>PayAnyWay\<close>

record PayAnyWayAdapter =
  Paw_mntID :: gostring
  Paw_integrityKey :: gostring
  Paw_paymentURL :: gostring
  Paw_testMode :: bool
  Paw_unitID :: gostring

definition payAnyWayBoolEnv :: "(gostring \<Rightarrow> gostring) \<Rightarrow> gostring \<Rightarrow> bool \<Rightarrow> bool" where
  "payAnyWayBoolEnv env name dflt = (let v = ToLower (TrimSpace (env name)) in
     if v = '''' then dflt
     else if v \<in> {''1'', ''true'', ''yes'', ''y'', ''on''} then True
     else if v \<in> {''0'', ''false'', ''no'', ''n'', ''off''} then False else dflt)"

definition NewPayAnyWayAdapterFromEnv :: "(gostring \<Rightarrow> gostring) \<Rightarrow> PayAnyWayAdapter result" where
  "NewPayAnyWayAdapterFromEnv env =
     (let mntID = adapter_firstNonEmpty [env ''PAYANYWAY_MNT_ID'', env ''PAYANYWAY_BUSINESS_ACCOUNT'',
            env ''PAYANYWAY_ACCOUNT_ID''];
          integrityKey = TrimSpace (env ''PAYANYWAY_INTEGRITY_CODE'') in
      if TrimSpace mntID = '''' then Inl ''PAYANYWAY_MNT_ID is required''
      else if integrityKey = '''' then Inl ''PAYANYWAY_INTEGRITY_CODE is required''
      else Inr \<lparr>Paw_mntID = TrimSpace mntID, Paw_integrityKey = integrityKey,
        Paw_paymentURL = env_or (TrimSpace (env ''PAYANYWAY_PAYMENT_URL''))
          ''https://www.payanyway.ru/assistant.htm'',
        Paw_testMode = payAnyWayBoolEnv env ''PAYANYWAY_TEST_MODE'' True,
        Paw_unitID = TrimSpace (env ''PAYANYWAY_PAYMENT_UNIT_ID'')\<rparr>)"

definition payAnyWayPaymentSignature :: "(gostring \<Rightarrow> gostring) \<Rightarrow> gostring \<Rightarrow> gostring \<Rightarrow> gostring \<Rightarrow>
    gostring \<Rightarrow> gostring \<Rightarrow> gostring \<Rightarrow> gostring \<Rightarrow> gostring" where
  "payAnyWayPaymentSignature md5 mntID transactionID amount currency subscriberID testMode integrityKey =
     md5 (TrimSpace mntID @ TrimSpace transactionID @ TrimSpace amount @ TrimSpace currency
       @ TrimSpace subscriberID @ TrimSpace testMode @ integrityKey)"

definition payAnyWayDefaultUnitID :: "gostring \<Rightarrow> gostring" where
  "payAnyWayDefaultUnitID t = (if t = PaymentMethodSBP then ''sbpc2b''
     else if t = PaymentMethodCard then ''card'' else '''')"

definition Paw_Send :: "(gostring \<Rightarrow> gostring) \<Rightarrow> PayAnyWayAdapter \<Rightarrow> gostring \<Rightarrow> CreatePaymentRequest \<Rightarrow>
    AdapterResult result" where
  "Paw_Send md5 a token req =
     (let info = Req_PaymentInfo req;
          transactionID = env_or (TrimSpace (Req_PaymentID req)) (TrimSpace (Req_IdempotencyKey req)) in
      if transactionID = ''''
      then Inl ''payment_id or idempotency_key is required for PayAnyWay payment''
      else
        let amount = FormatFloat2 (Amount_Value (Info_Amount info));
            currency = env_or (TrimSpace (Amount_Currency (Info_Amount info))) ''RUB'';
            testMode = (if Paw_testMode a then ''1'' else ''0'');
            subscriberID = TrimSpace (Req_MerchantID req);
            signature = payAnyWayPaymentSignature md5 (Paw_mntID a) transactionID amount currency
              subscriberID testMode (Paw_integrityKey a);
            unitID = adapter_firstNonEmpty [Paw_unitID a,
              payAnyWayDefaultUnitID (Method_Type (Info_PaymentMethodData info))];
            params = [(''MNT_ID'', Paw_mntID a), (''MNT_TRANSACTION_ID'', transactionID),
              (''MNT_AMOUNT'', amount), (''MNT_CURRENCY_CODE'', currency),
              (''MNT_SUBSCRIBER_ID'', subscriberID), (''MNT_TEST_MODE'', testMode),
              (''MNT_DESCRIPTION'', adapter_truncate (adapter_firstNonEmpty [Info_Description info,
                 ''Payment '' @ transactionID]) 255),
              (''MNT_SIGNATURE'', signature)]
              @ (if unitID \<noteq> '''' then [(''paymentSystem.unitId'', unitID)] else []);
            separator = (if Contains (Paw_paymentURL a) ''?'' then ''&'' else ''?'')
        in Inr (zero_result\<lparr>AR_ExternalTransactionID := transactionID, AR_PaymentSystem := ''PAYANYWAY'',
             AR_Status := StatusPending,
             AR_ProviderStatus := (if Paw_testMode a then ''test_payment_url_created''
               else ''payment_url_created''),
             AR_PaymentURL := Paw_paymentURL a @ separator @ Values_Encode params\<rparr>))"

subsection \<open>Digital ruble\<close>

record DigitalRubleAdapter =
  DRA_participantBank :: gostring
  DRA_schemaVersion :: gostring
  DRA_qrTTL :: int

text \<open>\<open>time.Duration(seconds) * time.Second\<close> wraps around 64 bits.\<close>

definition wrap64 :: "int \<Rightarrow> int" where
  "wrap64 n = (n + 2 ^ 63) mod 2 ^ 64 - 2 ^ 63"

definition NewDigitalRubleAdapterFromEnv :: "(gostring \<Rightarrow> gostring) \<Rightarrow> DigitalRubleAdapter" where
  "NewDigitalRubleAdapterFromEnv env =
     \<lparr>DRA_participantBank = env_or (TrimSpace (env ''DIGITAL_RUBLE_PARTICIPANT_BANK'')) ''BANK_PARTNER_1'',
      DRA_schemaVersion = env_or (TrimSpace (env ''DIGITAL_RUBLE_SCHEMA_VERSION'')) ''drub.v1'',
      DRA_qrTTL = (case ParseInt64 (TrimSpace (env ''DIGITAL_RUBLE_QR_TTL_SECONDS'')) of
        Some seconds \<Rightarrow> if 0 < seconds then wrap64 (seconds * Second) else 15 * Minute
      | None \<Rightarrow> 15 * Minute)\<rparr>"

definition digitalRubleWalletID :: "CreatePaymentRequest \<Rightarrow> gostring" where
  "digitalRubleWalletID req = (let c = Info_CustomerData (Req_PaymentInfo req) in
     if TrimSpace (Cust_DigitalRubleWalletID c) \<noteq> '''' then TrimSpace (Cust_DigitalRubleWalletID c)
     else if TrimSpace (Cust_DigitalRubleIdentifier c) \<noteq> '''' then TrimSpace (Cust_DigitalRubleIdentifier c)
     else TrimSpace (Cust_DigitalWalletID c))"

definition digitalRubleQuery :: "gostring \<Rightarrow> CreatePaymentRequest \<Rightarrow> gostring" where
  "digitalRubleQuery qrID req = Values_Encode [(''qr_id'', qrID), (''payment_id'', Req_PaymentID req),
     (''merchant_id'', Req_MerchantID req)]"

definition qrPayload :: "DigitalRubleAdapter \<Rightarrow> gostring \<Rightarrow> CreatePaymentRequest \<Rightarrow> gostring \<Rightarrow> gostring" where
  "qrPayload a qrID req walletID = (let info = Req_PaymentInfo req; c = Info_CustomerData info in
     ''drub://'' @ Values_Encode
       [(''type'', ''UNIVERSAL_QR''), (''rail'', ''DIGITAL_RUBLE''), (''schema'', DRA_schemaVersion a),
        (''participant_bank'', DRA_participantBank a), (''qr_id'', qrID),
        (''merchant_id'', Req_MerchantID req), (''payment_id'', Req_PaymentID req),
        (''amount'', FormatFloat2 (Amount_Value (Info_Amount info))),
        (''currency'', Amount_Currency (Info_Amount info)), (''payer_wallet'', walletID),
        (''recipient_account'', TrimSpace (Cust_DigitalRubleAccount c)),
        (''recipient_identifier'', TrimSpace (Cust_DigitalRubleIdentifier c)),
        (''item_category'', PrimaryCategory (Info_Items info)),
        (''required_money_mark'', RequiredMoneyMark (PrimaryCategory (Info_Items info))),
        (''smart_contract_id'', SmartContractID (DR_SmartContractID (Info_DigitalRubleData info))),
        (''purpose'', adapter_truncate (Info_Description info) 140)])"

definition qrImageDataURI :: "(gostring \<Rightarrow> gostring result) \<Rightarrow> gostring \<Rightarrow> gostring" where
  "qrImageDataURI qr payload = (let payload = TrimSpace payload in
     if payload = '''' then ''''
     else (case qr payload of Inl _ \<Rightarrow> '''' | Inr png \<Rightarrow> ''data:image/png;base64,'' @ base64 png))"

text \<open>\<open>clock i\<close> is the clock at the \<open>i\<close>-th of its four readings.\<close>

definition DR_Send :: "(gostring \<Rightarrow> gostring result) \<Rightarrow> DigitalRubleAdapter \<Rightarrow> (nat \<Rightarrow> gotime) \<Rightarrow> gostring \<Rightarrow>
    CreatePaymentRequest \<Rightarrow> AdapterResult result" where
  "DR_Send qr a clock token req =
     (let walletID = digitalRubleWalletID req;
          qrID = ''drqr_'' @ Itoa (clock 0); externalID = ''drub_'' @ Itoa (clock 1);
          expiresAt = clock 2 + DRA_qrTTL a; platformMessageID = NewMessageID (clock 3);
          check = PaymentCheckFromCreateRequest req walletID platformMessageID (clock 4);
          payload = qrPayload a qrID req walletID in
      Inr (zero_result\<lparr>AR_ExternalTransactionID := externalID, AR_PaymentSystem := ''DIGITAL_RUBLE'',
        AR_Status := StatusPending, AR_ProviderStatus := ''qr_issued'',
        AR_PaymentURL := ''digital-ruble://pay?'' @ digitalRubleQuery qrID req,
        AR_QRID := qrID, AR_QRPayload := payload, AR_QRImageDataURI := qrImageDataURI qr payload,
        AR_QRExpiresAt := expiresAt, AR_ParticipantBank := DRA_participantBank a,
        AR_SchemaVersion := DRA_schemaVersion a,
        AR_SettlementHint := ''RUB + DIGITAL_RUBLE; settlement through participant bank emulator'',
        AR_MoneyMark := Chk_MoneyMark check, AR_SmartContractID := Chk_SmartContractID check,
        AR_SmartContractResult := ''PENDING'',
        AR_SmartContractReason := ''will be checked by digital ruble platform emulator after QR scan'',
        AR_PlatformMessageID := platformMessageID, AR_PlatformTransport := PlatformTransportSOAP,
        AR_PlatformSignatureType := SignatureTypeHMAC\<rparr>))"

definition DR_Refund :: "gotime \<Rightarrow> RefundRequest \<Rightarrow> RefundResult result" where
  "DR_Refund nanos req = (let failed = Contains (ToLower (RfReq_Reason req)) ''simulate_failed'' in
     Inr \<lparr>RfRes_ExternalRefundID = ''drrf_'' @ Itoa nanos, RfRes_PaymentSystem = ''DIGITAL_RUBLE'',
       RfRes_Status = (if failed then RefundStatusFail else RefundStatusSuccess),
       RfRes_ProviderStatus = (if failed then ''refund_failed'' else ''reversed''),
       RfRes_ErrorMessage = (if failed then ''digital ruble refund emulation failed'' else '''')\<rparr>)"

subsection \<open>The contract of an adapter\<close>

text \<open>
  What the orchestrator may rely on of a \<open>PaymentAdapter\<close>: the statuses it answers with are
  known ones. A \<open>settled_adapter\<close> moreover always answers, with a status that ends the retries.
\<close>

lemma callback_outcome_known:
  assumes "AR_Status res \<in> {StatusCaptured, StatusPending, StatusDeclined, StatusFailed}"
  shows "fst (callback_outcome res) = AR_Status res
    \<and> (snd (snd (callback_outcome res)) = None \<longleftrightarrow> AR_Status res \<in> {StatusCaptured, StatusPending})"
proof -
  have "AR_Status res \<noteq> ''''" using assms by auto
  moreover have "StatusCaptureRequested \<noteq> StatusDeclined" "StatusCaptureRequested \<noteq> StatusFailed"
    by (simp_all add: lit)
  ultimately show ?thesis using assms by (auto simp: callback_outcome_def Let_def)
qed

locale payment_adapter =
  fixes send :: adapter and statuses :: "gostring set"
  assumes answers: "send n tok r = Inr res \<Longrightarrow> AR_Status res \<in> statuses"
    and known: "statuses \<subseteq> {StatusCaptured, StatusPending, StatusDeclined, StatusFailed}"
begin

lemma callback_keeps_status:
  "send n tok r = Inr res \<Longrightarrow> HandleCallback res v tok' t = Inr resp \<Longrightarrow>
    Resp_CurrentStatus resp = AR_Status res
    \<and> (Resp_Error resp = None \<longleftrightarrow> AR_Status res \<in> {StatusCaptured, StatusPending})"
proof -
  assume a: "send n tok r = Inr res" and h: "HandleCallback res v tok' t = Inr resp"
  have "AR_Status res \<in> {StatusCaptured, StatusPending, StatusDeclined, StatusFailed}"
    using answers [OF a] known by blast
  with callback_outcome_known [OF this] h show ?thesis
    by (auto simp: HandleCallback_def split: prod.splits)
qed

end

locale settled_adapter = payment_adapter +
  assumes total: "\<exists>res. send n tok r = Inr res"
    and settles: "statuses \<subseteq> {StatusCaptured, StatusPending, StatusDeclined}"
begin

lemma one_call:
  assumes "CS_adapter c = send" and "send_loop e c req v 0 w = ((res, k), w')"
  shows "k = 0 \<and> w_calls w' = w_calls w @ [(CS_provider c, CS_token c, v)] \<and> w_sleeps w' = w_sleeps w
    \<and> AR_Status res \<in> statuses"
proof -
  obtain out where out: "send (length (w_calls w)) (CS_token c) v = Inr out" using total by blast
  have st: "AR_Status (attempt_reply c v w 0) = AR_Status out"
    by (simp add: attempt_reply_def adapter_reply_def assms(1) out Let_def)
  then have "settled (attempt_reply c v w 0)"
    using answers [OF out] settles by (auto simp: settled_def)
  then have "attempts c v w = 0" by (simp add: attempts_def)
  with send_loop_shape [OF assms(2)] st answers [OF out] show ?thesis by simp
qed

end

interpretation simulated: settled_adapter "\<lambda>n. Simulated_Send ps (clock n)" "{StatusCaptured}"
  for ps clock
  by unfold_locales (auto simp: Simulated_Send_def)

interpretation ruble: settled_adapter "\<lambda>n. DR_Send qr a (clock n)" "{StatusPending}" for qr a clock
  by unfold_locales (auto simp: DR_Send_def Let_def)

interpretation yoo: payment_adapter "\<lambda>n. Yoo_Send (client n) a"
  "{StatusCaptured, StatusPending, StatusDeclined, StatusFailed}" for client a
  by unfold_locales
    (auto simp: Yoo_Send_def adapter_mapYooKassaStatus_def Let_def split: sum.splits if_splits)

interpretation paw: payment_adapter "\<lambda>n. Paw_Send md5 a" "{StatusPending}" for md5 a
  by unfold_locales (auto simp: Paw_Send_def Let_def split: if_splits)

subsection \<open>A run to evaluate the model on\<close>

lemma first_attempt_velocity: "checkVelocity (fst (recordAndCount h r t newVelocityStore)) = no_rule"
proof -
  let ?e = "velocity_event h r t"
  have one: "fst (recordAndCount h r t newVelocityStore) = velocity_spec ?e t [?e]"
    by (simp add: recordAndCount_def Let_def countLocked_spec tenant_events_def newVelocityStore_def
        pruneLocked_def record_event_def)
  have "card (used_cards t P [?e]) \<le> 1" for P
  proof -
    have "used_cards t P [?e] \<subseteq> {VE_CardHash ?e}" by (auto simp: used_cards_def)
    from card_mono [OF _ this] show ?thesis by simp
  qed
  moreover have "Antifraud.attempts t d P [?e] \<le> 1" for d P by (simp add: Antifraud.attempts_def)
  ultimately have "velocity_hits (velocity_spec ?e t [?e]) = []"
    by (simp add: velocity_hits_def velocity_spec_def Let_def not_le le_less_trans [of _ 1])
  then show ?thesis by (simp add: one checkVelocity_def Let_def)
qed

lemma sample_rules: "rule_results {} (Request_WithoutSensitive sample_normalized) c no_rule
   = replicate 7 no_rule @ [checkVelocity c]"
proof -
  define v where "v = Request_WithoutSensitive sample_normalized"
  have f: "Info_Amount (Req_PaymentInfo v) = \<lparr>Amount_Value = Fin 1500, Amount_Currency = ''RUB''\<rparr>"
    "Method_Type (Info_PaymentMethodData (Req_PaymentInfo v)) = PaymentMethodCard"
    "Cust_CardNumber (Info_CustomerData (Req_PaymentInfo v)) = ''4111111111111111''"
    "Cust_Phone (Info_CustomerData (Req_PaymentInfo v)) = ''''"
    "Cust_Email (Info_CustomerData (Req_PaymentInfo v)) = ''''"
    "Info_Description (Req_PaymentInfo v) = ''order 1''"
    by (simp_all add: v_def sample_normalized_def sample_request_def Request_WithoutSensitive_def
        Customer_WithoutSensitive_def zero_customer_def)
  have "ToLower (TrimSpace ''order 1'') = ''order 1''" by (simp add: go_eval)
  moreover have "\<not> list_ex (\<lambda>w. Contains ''order 1'' w) suspiciousWords" by code_simp
  ultimately have descr: "checkDescription v = no_rule" by (simp add: checkDescription_def f Let_def)
  have "checkAmount v = no_rule"
    by (simp add: Let_def checkAmount_def f defaultBlockAmountLimit_def defaultReviewAmountLimit_def f)
  moreover have "af_onlyDigits ''4111111111111111'' = ''4111111111111111''" by code_simp
  then have "checkCard v = no_rule"
    by (simp add: Let_def checkCard_def f blockedCards_def blockedLast4_def)
  moreover have "checkDigitalWallet v = no_rule" by (simp add: Let_def checkDigitalWallet_def f)
  moreover have "checkPhone v = no_rule" by (simp add: Let_def checkPhone_def f)
  moreover have "checkEmail {} v = no_rule" by (simp add: Let_def checkEmail_def f)

  ultimately show ?thesis unfolding v_def [symmetric] by (simp add: descr rule_results_def numeral_eq_Suc)
qed


lemma sample_passes:
  "\<exists>fraud vel. Check h '''' OpaNil None t (Request_WithoutSensitive sample_normalized) newVelocityStore
     = (Inr fraud, vel) \<and> AF_Result fraud = ResultPassed"
proof -
  let ?v = "Request_WithoutSensitive sample_normalized"
  obtain c vel where rec: "recordAndCount h ?v t newVelocityStore = (c, vel)" by fastforce
  have vel: "checkVelocity c = no_rule" using first_attempt_velocity [of h ?v t] by (simp add: rec)
  have dom: "loadDisposableEmailDomains '''' = {}"
    by (simp add: loadDisposableEmailDomains_def normalizeEmailDomain_def TrimSuffix_def HasSuffix_def
        TrimRightByte_def TrimLeftByte_def TrimByte_def HasPrefix_def)
  have none: "Rule_Name no_rule = ''''" by (simp add: no_rule_def)
  have "score_loop 0 [] (replicate 7 no_rule @ [no_rule])
    = \<lparr>AF_Result = ResultPassed, AF_Reason = ''no suspicious antifraud rules triggered''\<rparr>"
    by (simp add: none numeral_eq_Suc maxRiskScoreBeforeBlock_def maxRiskScoreBeforeReview_def)
  moreover have "checkOPA OpaNil ?v = Inr no_rule" by (simp add: checkOPA_def)
  ultimately show ?thesis
    by (simp add: Check_def rec dom sample_rules vel)
qed

definition yoo_env :: "(nat \<Rightarrow> http_client) \<Rightarrow> YooKassaAdapter \<Rightarrow> env" where
  "yoo_env client a = sample_env\<lparr>env_factory := [''yookassa'' \<mapsto> \<lambda>n. Yoo_Send (client n) a],
     env_getenv := (\<lambda>_. ''yookassa'')\<rparr>"

lemma yoo_env_simps [simp]:
  "env_playground (yoo_env client a) = env_playground sample_env"
  "env_ctx (yoo_env client a) = (\<lambda>_. None)" "env_routes (yoo_env client a) = None"
  "env_tokenize (yoo_env client a) = (\<lambda>_ _. Inr ''tok_0123456789'')"
  "env_getenv (yoo_env client a) = (\<lambda>_. ''yookassa'')" "env_opa (yoo_env client a) = OpaNil"
  "env_domains (yoo_env client a) = ''''"
  "env_factory (yoo_env client a) = [''yookassa'' \<mapsto> \<lambda>n. Yoo_Send (client n) a]"
  "env_sha256 (yoo_env client a) = (\<lambda>x. x)"
  by (simp_all add: yoo_env_def sample_env_def)

lemma validation_yoo: "validation (yoo_env client a) sample_request w
    = (Request_WithoutSensitive sample_normalized, None)"
proof -
  have "validation (yoo_env client a) sample_request w = validation sample_env sample_request w"
    by (simp add: validation_def receive_def session_id_def StartSession_def logEvent_def now_def
        yoo_env_def Let_def)
  then show ?thesis by (simp add: validation_sample)
qed

lemma sample_route: "Route None (Request_WithoutSensitive sample_normalized) = Inr (''CARD'', ''card_adapter'')"
proof -
  define v where "v = Request_WithoutSensitive sample_normalized"
  have f: "Method_Type (Info_PaymentMethodData (Req_PaymentInfo v)) = PaymentMethodCard"
    "Cust_CardNumber (Info_CustomerData (Req_PaymentInfo v)) = ''4111111111111111''"
    by (simp_all add: v_def sample_normalized_def sample_request_def Request_WithoutSensitive_def
        Customer_WithoutSensitive_def zero_customer_def)
  have "detectCardScheme ''4111111111111111'' = cardSchemeVisa" by code_simp
  then show ?thesis unfolding v_def [symmetric]
    by (simp add: Route_def f providerForCardScheme_Mir default_route_def Let_def)
qed

lemma sample_resolve: "Resolve (\<lambda>_. ''yookassa'') [''yookassa'' \<mapsto> a] ''card_adapter'' ps = Inr (a, ''yookassa'')"
proof -
  have "normalizeAdapterKey ''card_adapter'' = ''card_adapter''"
    "normalizeAdapterKey ''yookassa'' = ''yookassa''"
    by (simp_all add: normalizeAdapterKey_def go_eval)
  then show ?thesis
    by (simp add: Resolve_def providerFromEnv_def isLegacyAdapterKey_def Factory_Get_def Let_def)
qed


text \<open>YooKassa answering every call with a captured payment.\<close>

definition captured_reply :: json where
  "captured_reply = JObj [(''id'', JStr ''2a''), (''status'', JStr ''succeeded'')]"

definition yoo_shop :: YooKassaAdapter where
  "yoo_shop = \<lparr>Yoo_shopID = ''shop'', Yoo_secretKey = ''key'', Yoo_apiURL = ''https://y/payments'',
     Yoo_refundURL = ''https://y/refunds'', Yoo_returnURL = ''https://m/''\<rparr>"

lemma captured_reply_decodes:
  "dec_struct tab_yookassaPaymentResponse captured_reply zero_yoo_payment
    = Some (zero_yoo_payment\<lparr>YP_ID := ''2a'', YP_Status := ''succeeded''\<rparr>)"
  by (simp add: captured_reply_def dec_struct_def tab_yookassaPaymentResponse_def lookup_field_def
      dec_str_def zero_yoo_payment_def)

lemma Yoo_Send_sample: "AR_Status (projr (Yoo_Send (\<lambda>_. Inr (200, Some captured_reply)) a tok r)) = StatusCaptured
    \<and> (\<exists>res. Yoo_Send (\<lambda>_. Inr (200, Some captured_reply)) a tok r = Inr res)"
proof -
  have "ToLower ''succeeded'' = ''succeeded''" by (simp add: go_eval)
  then show ?thesis
    by (simp add: Yoo_Send_def yoo_decode_def captured_reply_decodes adapter_mapYooKassaStatus_def Let_def)
qed

lemma yoo_sample_run:
  defines "e \<equiv> yoo_env (\<lambda>_ _. Inr (200, Some captured_reply)) yoo_shop"
  shows "\<exists>resp w'. CreatePayment mem_ops e sample_request sample_world = ((resp, None), w')
    \<and> Resp_CurrentStatus resp = StatusCaptured"
proof -
  obtain resp err w' where run: "CreatePayment mem_ops e sample_request sample_world = ((resp, err), w')"
    by (metis prod.collapse)
  let ?v = "Request_WithoutSensitive sample_normalized"
  obtain sid wr where recv: "receive e (Request_WithoutSensitive sample_request) sample_world = (sid, wr)"
    by fastforce
  have vel: "w_velocity wr = newVelocityStore"
    using receive_simps(5) [of e "Request_WithoutSensitive sample_request" sample_world]
    unfolding recv by (simp add: sample_world_def)
  have valid: "Validate (env_playground e) (env_ctx e (w_tick wr)) (now e wr) sample_request = (?v, None)"
    using validation_yoo [of "\<lambda>_ _. Inr (200, Some captured_reply)" yoo_shop sample_world]
    by (simp add: validation_def e_def [symmetric] recv)
  define wp where "wp = logEvent e ?v EventPaymentValidated LogLevelInfo ''validator'' StatusPending
    ''Payment request validated'' [] (SetStatus (Req_MerchantID ?v) (Req_PaymentID ?v) StatusPending (tick wr))"
  have "w_velocity wp = newVelocityStore" by (simp add: wp_def vel)
  have fraud: "check_fraud mem_ops e sample_request ?v sid wp = ((resp, err), w')"
    using run unfolding CreatePayment_new [OF sample_new] process_def recv prod.case Let_def valid
      option.case wp_def by simp
  obtain fraud vel where check: "Check (env_sha256 e) (env_domains e) (env_opa e) (env_ctx e (w_tick wp))
      (now e wp) ?v (w_velocity wp) = (Inr fraud, vel)" "AF_Result fraud = ResultPassed"
    using sample_passes by (metis \<open>w_velocity wp = newVelocityStore\<close> e_def yoo_env_simps(2,6,7))
  have passed: "AF_Result fraud \<noteq> ''BLOCKED''" using check(2) by (simp add: lit)
  obtain wf where "route_and_send mem_ops e sample_request ?v sid wf = ((resp, err), w')"
    using fraud check(1) passed by (auto simp: check_fraud_def Let_def)
  then obtain c tok res n w0 w1 where sent: "send_loop e c sample_request ?v 0 w0 = ((res, n), w1)"
    "finish mem_ops e sample_request ?v sid tok res n w1 = ((resp, err), w')"
    "CS_adapter c = (\<lambda>n. Yoo_Send (\<lambda>_. Inr (200, Some captured_reply)) yoo_shop)"
    by (auto simp: route_and_send_def e_def sample_route sample_resolve Let_def split: prod.splits)
  have reply: "AR_Status (attempt_reply c ?v w0 i) = StatusCaptured" for i
    using Yoo_Send_sample [of yoo_shop "CS_token c" ?v]
    by (auto simp: attempt_reply_def adapter_reply_def sent(3) Let_def)
  then have "AR_Status res = StatusCaptured" using send_loop_shape [OF sent(1)] by simp
  then have "Resp_CurrentStatus resp = StatusCaptured"
    using finish_status [OF sent(2)] callback_outcome_known [of res] by simp
  moreover have "err = None" using finish_end [OF sent(2)] by simp
  ultimately show ?thesis using run by blast
qed

subsection \<open>Properties\<close>

text \<open>What YooKassa answered to a call: a success status and a document that decodes to \<open>y\<close>.\<close>

definition yoo_answer :: "http_client \<Rightarrow> http_call \<Rightarrow> yookassaPaymentResponse \<Rightarrow> bool" where
  "yoo_answer client call y = (\<exists>code j. client call = Inr (code, Some j) \<and> 200 \<le> code \<and> code < 300
     \<and> dec_struct tab_yookassaPaymentResponse j zero_yoo_payment = Some y)"

lemma Yoo_Send_captured:
  assumes "Yoo_Send client a tok r = Inr res" and "AR_Status res = StatusCaptured"
  obtains y where "yoo_answer client (payment_call a r) y" "ToLower (YP_Status y) = ''succeeded''"
    "AR_ExternalTransactionID res = YP_ID y"
  using assms
  by (auto simp: Yoo_Send_def yoo_decode_def yoo_answer_def adapter_mapYooKassaStatus_def Let_def not_less not_le
      split: sum.splits option.splits if_splits)

text \<open>
  C27: Money is only reported as captured when the provider says so. If every registered adapter
  is the YooKassa adapter, a new payment whose response says \<open>CAPTURED\<close> was posted to the
  payment endpoint with the shop's credentials and the payment's idempotency key, its amount
  and its identifiers, and the answer had a success code and the status \<open>succeeded\<close>.
\<close>

theorem yookassa_captured:
  assumes "new_payment ops req w" and "CreatePayment ops e req w = ((resp, err), w')"
    and "\<forall>f\<in>ran (env_factory e). f = (\<lambda>n. Yoo_Send (client n) a)"
    and "Resp_CurrentStatus resp = StatusCaptured"
  shows "\<exists>n y v. yoo_answer (client n) (payment_call a v) y \<and> ToLower (YP_Status y) = ''succeeded''
    \<and> v = Request_WithoutSensitive (normalizeRequest req)
    \<and> Hc_Auth (payment_call a v) = (Yoo_shopID a, Yoo_secretKey a)
    \<and> (''Idempotence-Key'', TrimSpace (Req_IdempotencyKey req)) \<in> set (Hc_Headers (payment_call a v))"
proof -
  let ?v = "Request_WithoutSensitive (normalizeRequest req)"
  from captured_by_adapter [OF assms(1,2,4)] obtain f n tok res where
    f: "f \<in> ran (env_factory e)" "AR_Status res = StatusCaptured" "f n tok ?v = Inr res" .
  have "Yoo_Send (client n) a tok ?v = Inr res" using f(1,3) assms(3) by auto
  from Yoo_Send_captured [OF this f(2)] obtain y where
    "yoo_answer (client n) (payment_call a ?v) y" "ToLower (YP_Status y) = ''succeeded''" .
  moreover have "Hc_Auth (payment_call a ?v) = (Yoo_shopID a, Yoo_secretKey a)"
    "(''Idempotence-Key'', Req_IdempotencyKey ?v) \<in> set (Hc_Headers (payment_call a ?v))"
    by (simp_all add: payment_call_def yoo_post_def Let_def)
  moreover have "Req_IdempotencyKey ?v = TrimSpace (Req_IdempotencyKey req)"
    by (simp add: Request_WithoutSensitive_def normalizeRequest_def Let_def)
  ultimately show ?thesis by metis
qed

text \<open>
  A digital ruble payment is issued once. The digital ruble adapter always answers and its
  answer ends the retries: one call, no waiting, status \<open>PENDING\<close>; and what the merchant gets
  has that status, no error, and the QR payload and money mark of the answer.
\<close>

theorem digital_ruble_one_call:
  assumes "CS_adapter c = (\<lambda>n. DR_Send qr a (clock n))"
    and "send_loop e c req v 0 w = ((res, k), w')" and "HandleCallback res v tok t = Inr resp"
  shows "w_calls w' = w_calls w @ [(CS_provider c, CS_token c, v)] \<and> w_sleeps w' = w_sleeps w \<and> k = 0
    \<and> Resp_CurrentStatus resp = StatusPending \<and> Resp_Error resp = None
    \<and> TD_MoneyMark (Resp_TransactionDetails resp)
        = RequiredMoneyMark (PrimaryCategory (Info_Items (Req_PaymentInfo v)))
    \<and> TD_QRPayload (Resp_TransactionDetails resp)
        = qrPayload a (TD_QRID (Resp_TransactionDetails resp)) v (digitalRubleWalletID v)"
proof -
  note call = ruble.one_call [OF assms(1,2)]
  have "attempts c v w = 0" using send_loop_shape [OF assms(2)] call by simp
  then have "res = attempt_reply c v w 0" using send_loop_shape [OF assms(2)] by simp
  then have res: "DR_Send qr a (clock (length (w_calls w))) (CS_token c) v = Inr res"
    by (simp add: attempt_reply_def adapter_reply_def assms(1) DR_Send_def Let_def)
  have "Resp_CurrentStatus resp = StatusPending \<and> Resp_Error resp = None"
    using ruble.callback_keeps_status [where clock = clock and n = "length (w_calls w)", OF res assms(3)] call
    by simp
  moreover have "TD_MoneyMark (Resp_TransactionDetails resp) = AR_MoneyMark res"
    "TD_QRPayload (Resp_TransactionDetails resp) = AR_QRPayload res"
    "TD_QRID (Resp_TransactionDetails resp) = AR_QRID res"
    using assms(3) by (auto simp: HandleCallback_def split: prod.splits)
  moreover have "AR_MoneyMark res = RequiredMoneyMark (PrimaryCategory (Info_Items (Req_PaymentInfo v)))"
    "AR_QRPayload res = qrPayload a (AR_QRID res) v (digitalRubleWalletID v)"
    using res by (auto simp: DR_Send_def PaymentCheckFromCreateRequest_def Let_def)
  ultimately show ?thesis using call by simp
qed

theorem yookassa_captured_witness:
  "\<exists>n y v. yoo_answer (\<lambda>_. Inr (200, Some captured_reply)) (payment_call yoo_shop v) y
    \<and> ToLower (YP_Status y) = ''succeeded'' \<and> v = Request_WithoutSensitive sample_normalized \<and> n = (0 :: nat)"
proof -
  obtain resp w' where run: "CreatePayment mem_ops (yoo_env (\<lambda>_ _. Inr (200, Some captured_reply)) yoo_shop)
      sample_request sample_world = ((resp, None), w')" "Resp_CurrentStatus resp = StatusCaptured"
    using yoo_sample_run by blast
  have "\<forall>f\<in>ran (env_factory (yoo_env (\<lambda>_ _. Inr (200, Some captured_reply)) yoo_shop)).
      f = (\<lambda>n. Yoo_Send ((\<lambda>_ _. Inr (200, Some captured_reply)) n) yoo_shop)"
    by simp
  from yookassa_captured [OF sample_new run(1) this run(2)] show ?thesis
    unfolding sample_normalized by blast
qed

definition ruble_adapter :: DigitalRubleAdapter where
  "ruble_adapter = \<lparr>DRA_participantBank = ''BANK_PARTNER_1'', DRA_schemaVersion = ''drub.v1'',
     DRA_qrTTL = 15 * Minute\<rparr>"

definition ruble_site :: call_site where
  "ruble_site = \<lparr>CS_adapter = (\<lambda>n. DR_Send (\<lambda>_. Inl ''no image'') ruble_adapter ((\<lambda>_ i. int i) n)),
     CS_provider = ''digital_ruble'', CS_adapterKey = ''digital_ruble'',
     CS_paymentSystem = ''DIGITAL_RUBLE'', CS_token = ''tok''\<rparr>"

theorem digital_ruble_one_call_witness:
  "\<exists>res k w'. send_loop sample_env ruble_site sample_request sample_normalized 0 sample_world = ((res, k), w')
     \<and> w_calls w' = [(''digital_ruble'', ''tok'', sample_normalized)] \<and> k = 0"
proof -
  obtain res k w' where run: "send_loop sample_env ruble_site sample_request sample_normalized 0 sample_world
      = ((res, k), w')" by (metis prod.collapse)
  obtain resp where "HandleCallback res sample_normalized ''tok'' 0 = Inr resp"
    by (cases "callback_outcome res") (simp add: HandleCallback_def)
  from digital_ruble_one_call [OF _ run this, of "\<lambda>_. Inl ''no image''" ruble_adapter "\<lambda>_ i. int i"] run
  show ?thesis by (simp add: ruble_site_def sample_world_def)
qed

end
