(* ===== verification/Webhooks.thy ===== *)
theory Webhooks
  imports Adapters
begin

section \<open>The YooKassa webhook (\<open>internal/httpapi/webhooks/yookassa_handler.go\<close>)\<close>

text \<open>
  What the webhook handlers share, and the handler of YooKassa. They run on the \<open>world\<close> of the
  orchestrator: the same store, log and notifications. The logger is not nil; notifications may
  be (\<open>notifies\<close>). A reply is that of \<open>Http\<close>; \<open>http.Error\<close> appends a newline. The number parser,
  \<open>time.Parse\<close> (\<open>None\<close> for an error) and the HTTP client are parameters.
\<close>

subsection \<open>Shared helpers\<close>

fun webhooks_firstNonEmpty :: "gostring list \<Rightarrow> gostring" where
  "webhooks_firstNonEmpty [] = ''''"
| "webhooks_firstNonEmpty (v # vs) = (if TrimSpace v \<noteq> '''' then v else webhooks_firstNonEmpty vs)"

definition http_Error :: "gostring \<Rightarrow> int \<Rightarrow> http_reply" where
  "http_Error msg code = reply_text code (msg @ [CHR 0x0A])"

definition log_now :: "env \<Rightarrow> (gotime \<Rightarrow> PaymentEvent) \<Rightarrow> 's world \<Rightarrow> 's world" where
  "log_now e ev w = tick (w\<lparr>w_log := w_log w @ [ev (now e w)]\<rparr>)"

text \<open>The event literals of the handlers; message and details agree.\<close>

definition webhook_event :: "gostring \<Rightarrow> gostring \<Rightarrow> gostring \<Rightarrow> gostring \<Rightarrow> gostring \<Rightarrow> gostring \<Rightarrow> gostring \<Rightarrow>
    gostring \<Rightarrow> (gostring \<times> gostring) list \<Rightarrow> gotime \<Rightarrow> PaymentEvent" where
  "webhook_event eventType level service merchantID paymentID key status message contextMap t =
     \<lparr>Ev_Type = eventType, Ev_Level = level, Ev_Service = service, Ev_MerchantID = merchantID,
      Ev_PaymentID = paymentID, Ev_IdempotencyKey = key, Ev_CorrelationID = paymentID,
      Ev_CurrentStatus = status, Ev_Timestamp = t, Ev_Message = message, Ev_Details = message,
      Ev_Context = contextMap\<rparr>"

text \<open>The notification, with the event for its failure.\<close>

definition notify_merchant :: "env \<Rightarrow> bool \<Rightarrow> (goerror \<Rightarrow> gotime \<Rightarrow> PaymentEvent) \<Rightarrow> PaymentResponse \<Rightarrow>
    's world \<Rightarrow> 's world" where
  "notify_merchant e notifies failed resp w =
     (if \<not> notifies then w
      else (let notifyErr = Notify e resp w; w = notified resp w in
        case notifyErr of None \<Rightarrow> w | Some err \<Rightarrow> log_now e (failed err) w))"

text \<open>\<open>payload, _ := json.Marshal(resp)\<close>, then \<open>Save\<close> at the current time.\<close>

definition marshal_or_empty :: "PaymentResponse \<Rightarrow> jtext" where
  "marshal_or_empty resp = (case MarshalResponse resp of Inl _ \<Rightarrow> JRaw '''' | Inr b \<Rightarrow> b)"

definition webhook_save :: "'s store_ops \<Rightarrow> env \<Rightarrow> gostring \<Rightarrow> gostring \<Rightarrow> gostring \<Rightarrow> gostring \<Rightarrow>
    PaymentResponse \<Rightarrow> 's world \<Rightarrow> goerror option \<times> 's world" where
  "webhook_save ops e merchantID paymentID key status resp w =
     (case op_Save ops merchantID paymentID key status (marshal_or_empty resp) (now e w) (w_store w) of
      (err, s) \<Rightarrow> (err, (tick w)\<lparr>w_store := s\<rparr>))"

subsection \<open>Notifications of YooKassa\<close>

record yookassaPaymentObject =
  YO_ID :: gostring
  YO_Status :: gostring
  YO_Paid :: bool
  YO_Test :: bool
  YO_CreatedAt :: gostring
  YO_Description :: gostring
  YO_AmountValue :: gostring
  YO_AmountCurrency :: gostring
  YO_MerchantID :: gostring
  YO_PaymentID :: gostring
  YO_IdempotencyKey :: gostring
  YO_CancellationParty :: gostring
  YO_CancellationReason :: gostring

record yookassaNotification =
  YN_Type :: gostring
  YN_Event :: gostring
  YN_Object :: yookassaPaymentObject

definition zero_yoo_object :: yookassaPaymentObject where
  "zero_yoo_object = \<lparr>YO_ID = '''', YO_Status = '''', YO_Paid = False, YO_Test = False, YO_CreatedAt = '''',
     YO_Description = '''', YO_AmountValue = '''', YO_AmountCurrency = '''', YO_MerchantID = '''',
     YO_PaymentID = '''', YO_IdempotencyKey = '''', YO_CancellationParty = '''', YO_CancellationReason = ''''\<rparr>"

definition tab_yookassaPaymentObject :: "yookassaPaymentObject jfields" where
  "tab_yookassaPaymentObject =
    [(''id'', dec_str YO_ID_update), (''status'', dec_str YO_Status_update),
     (''paid'', dec_bool YO_Paid_update), (''test'', dec_bool YO_Test_update),
     (''created_at'', dec_str YO_CreatedAt_update), (''description'', dec_str YO_Description_update),
     (''amount'', dec_struct [(''value'', dec_str YO_AmountValue_update),
        (''currency'', dec_str YO_AmountCurrency_update)]),
     (''metadata'', dec_struct [(''merchant_id'', dec_str YO_MerchantID_update),
        (''payment_id'', dec_str YO_PaymentID_update),
        (''idempotency_key'', dec_str YO_IdempotencyKey_update)]),
     (''cancellation_details'', dec_struct [(''party'', dec_str YO_CancellationParty_update),
        (''reason'', dec_str YO_CancellationReason_update)])]"

definition tab_yookassaNotification :: "yookassaNotification jfields" where
  "tab_yookassaNotification = [(''type'', dec_str YN_Type_update), (''event'', dec_str YN_Event_update),
     (''object'', dec_sub YN_Object YN_Object_update tab_yookassaPaymentObject)]"

definition zero_yoo_notification :: yookassaNotification where
  "zero_yoo_notification = \<lparr>YN_Type = '''', YN_Event = '''', YN_Object = zero_yoo_object\<rparr>"

definition mapYooKassaStatus :: "gostring \<Rightarrow> gostring" where
  "mapYooKassaStatus status = (let s = ToLower (TrimSpace status) in
     if s = ''succeeded'' then StatusCaptured
     else if s = ''pending'' \<or> s = ''waiting_for_capture'' then StatusPending
     else if s = ''canceled'' then StatusDeclined else StatusPending)"

definition gatewayErrorCodeFromYooKassaCancellation :: "gostring \<Rightarrow> gostring" where
  "gatewayErrorCodeFromYooKassaCancellation reason =
     (if ToLower (TrimSpace reason) = ''fraud_suspected'' then ErrorYooKassaFraudSuspected
      else ErrorYooKassaPaymentDeclined)"

definition fraudResultFromYooKassaCancellation :: "gostring \<Rightarrow> gostring" where
  "fraudResultFromYooKassaCancellation reason =
     (if EqualFold (TrimSpace reason) ''fraud_suspected'' then ErrorBlockedByProviderFraud
      else ErrorDeclinedByProvider)"

definition formatYooKassaDeclineMessage :: "gostring \<Rightarrow> gostring \<Rightarrow> gostring" where
  "formatYooKassaDeclineMessage party reason = (let party = TrimSpace party; reason = TrimSpace reason in
     if reason = '''' then ''payment was canceled by YooKassa''
     else if party = '''' then reason else party @ '': '' @ reason)"

subsection \<open>The handler\<close>

record YooKassaWebhookHandler =
  YH_notifies :: bool
  YH_shopID :: gostring
  YH_secretKey :: gostring
  YH_apiURL :: gostring

definition NewYooKassaWebhookHandlerWithNotifications :: "(gostring \<Rightarrow> gostring) \<Rightarrow> bool \<Rightarrow>
    YooKassaWebhookHandler" where
  "NewYooKassaWebhookHandlerWithNotifications env notifies =
     \<lparr>YH_notifies = notifies, YH_shopID = TrimSpace (env ''YOOKASSA_SHOP_ID''),
      YH_secretKey = TrimSpace (env ''YOOKASSA_SECRET_KEY''),
      YH_apiURL = TrimRightByte (env_or (TrimSpace (env ''YOOKASSA_API_BASE_URL''))
        ''https://api.yookassa.ru/v3'') CHR ''/''\<rparr>"

definition fetchPayment :: "http_client \<Rightarrow> YooKassaWebhookHandler \<Rightarrow> gostring \<Rightarrow>
    yookassaPaymentObject result" where
  "fetchPayment client h paymentID =
     (if YH_shopID h = '''' \<or> YH_secretKey h = '''' \<or> paymentID = ''''
      then Inl ''yookassa credentials are empty''
      else (case client \<lparr>Hc_Method = ''GET'', Hc_URL = YH_apiURL h @ ''/payments/'' @ paymentID,
          Hc_Auth = (YH_shopID h, YH_secretKey h), Hc_Headers = [], Hc_Body = JRaw ''''\<rparr> of
        Inl err \<Rightarrow> Inl err
      | Inr (code, body) \<Rightarrow>
          if code < 200 \<or> 300 \<le> code then Inl (''yookassa get payment returned HTTP '' @ Itoa code)
          else yoo_decode tab_yookassaPaymentObject zero_yoo_object body))"

text \<open>The response that is built when none is stored.\<close>

definition yoo_new_response :: "float_parser \<Rightarrow> gostring \<Rightarrow> gostring \<Rightarrow> gostring \<Rightarrow> yookassaPaymentObject \<Rightarrow>
    gotime \<Rightarrow> gotime \<Rightarrow> PaymentResponse" where
  "yoo_new_response parse merchantID paymentID key payment createdAt updatedAt =
     \<lparr>Resp_ID = paymentID, Resp_MerchantID = merchantID, Resp_IdempotencyKey = key,
      Resp_CurrentStatus = mapYooKassaStatus (YO_Status payment),
      Resp_PaymentInfo = \<lparr>RInfo_Amount = \<lparr>Amount_Value = fst (parse (YO_AmountValue payment)),
          Amount_Currency = YO_AmountCurrency payment\<rparr>,
        RInfo_PaymentMethodData = \<lparr>Method_Type = PaymentMethodCard\<rparr>,
        RInfo_CustomerData = zero_customer, RInfo_Items = [], RInfo_DigitalRubleData = no_ruble_data,
        RInfo_Description = YO_Description payment, RInfo_CreatedAt = createdAt,
        RInfo_UpdatedAt = updatedAt\<rparr>,
      Resp_TransactionDetails = zero_details\<lparr>TD_ExternalTransactionID := YO_ID payment,
        TD_PaymentSystem := ''YOOKASSA'', TD_ProviderStatus := YO_Status payment,
        TD_FraudCheckResult := ''PASSED''\<rparr>,
      Resp_Error = None\<rparr>"

definition yoo_loadOrBuildResponse :: "'s store_ops \<Rightarrow> env \<Rightarrow> float_parser \<Rightarrow> (gostring \<Rightarrow> gotime option) \<Rightarrow>
    gostring \<Rightarrow> gostring \<Rightarrow> gostring \<Rightarrow> yookassaPaymentObject \<Rightarrow> 's world \<Rightarrow> PaymentResponse \<times> 's world" where
  "yoo_loadOrBuildResponse ops e parse parseTime merchantID paymentID key payment w =
     (let stored = (case op_GetByIdempotencyKey ops merchantID key (w_store w) of
            Inr (Some (_, payload)) \<Rightarrow> if payload \<noteq> JRaw '''' then UnmarshalResponse payload else None
          | _ \<Rightarrow> None)
      in case stored of
        Some resp \<Rightarrow> (resp, w)
      | None \<Rightarrow>
          (let createdAt = now e w; w = tick w;
               createdAt = (if YO_CreatedAt payment = '''' then createdAt
                 else (case parseTime (YO_CreatedAt payment) of Some t \<Rightarrow> t | None \<Rightarrow> createdAt))
           in (yoo_new_response parse merchantID paymentID key payment createdAt (now e w), tick w)))"

text \<open>What a notification makes of the response, before it is sanitised.\<close>

definition yoo_apply :: "gostring \<Rightarrow> gostring \<Rightarrow> gostring \<Rightarrow> yookassaPaymentObject \<Rightarrow> gotime \<Rightarrow>
    PaymentResponse \<Rightarrow> PaymentResponse" where
  "yoo_apply merchantID paymentID key payment updatedAt resp =
     (let status = mapYooKassaStatus (YO_Status payment);
          td = (Resp_TransactionDetails resp)\<lparr>TD_ExternalTransactionID := YO_ID payment,
            TD_PaymentSystem := ''YOOKASSA'', TD_ProviderStatus := YO_Status payment, TD_PaymentURL := '''',
            TD_CancellationParty := YO_CancellationParty payment,
            TD_CancellationReason := YO_CancellationReason payment\<rparr>;
          resp = resp\<lparr>Resp_ID := paymentID, Resp_MerchantID := merchantID, Resp_IdempotencyKey := key,
            Resp_CurrentStatus := status,
            Resp_PaymentInfo := (Resp_PaymentInfo resp)\<lparr>RInfo_UpdatedAt := updatedAt\<rparr>,
            Resp_TransactionDetails := td\<rparr>
      in if status = StatusDeclined \<or> status = StatusFailed then
           (let providerReason = TrimSpace (YO_CancellationReason payment);
                providerParty = TrimSpace (YO_CancellationParty payment);
                msg = (if providerReason = '''' then ''payment was canceled by YooKassa'' else providerReason)
            in resp\<lparr>Resp_TransactionDetails := td\<lparr>TD_ProviderErrorCode := providerReason,
                 TD_ProviderErrorMessage := msg,
                 TD_FraudCheckResult := fraudResultFromYooKassaCancellation providerReason\<rparr>,
               Resp_Error := Some (NewGatewayError
                 (gatewayErrorCodeFromYooKassaCancellation providerReason)
                 (formatYooKassaDeclineMessage providerParty providerReason))\<rparr>)
         else resp\<lparr>Resp_Error := None\<rparr>)"

definition yoo_ok :: http_reply where
  "yoo_ok = reply_text 200 ''ok''"

definition yoo_logged :: "yookassaNotification \<Rightarrow> yookassaPaymentObject \<Rightarrow> gostring \<Rightarrow> gostring \<Rightarrow> gostring \<Rightarrow>
    gostring \<Rightarrow> gotime \<Rightarrow> PaymentEvent" where
  "yoo_logged notification payment merchantID paymentID key status =
     (let bad = (status = StatusDeclined \<or> status = StatusFailed) in
      webhook_event (if bad then EventPaymentFailed else EventAdapterResultReceived)
        (if bad then LogLevelWarn else LogLevelInfo) ''adapter'' merchantID paymentID key status
        (if bad then ''YooKassa webhook processed: payment declined'' else ''YooKassa webhook processed'')
        [(''provider'', ''yookassa''), (''yookassa_event'', YN_Event notification),
         (''external_transaction_id'', YO_ID payment), (''provider_status'', YO_Status payment),
         (''cancellation_party'', YO_CancellationParty payment),
         (''cancellation_reason'', YO_CancellationReason payment),
         (''gateway_error_code'', gatewayErrorCodeFromYooKassaCancellation (YO_CancellationReason payment)),
         (''paid'', FormatBool (YO_Paid payment)), (''test'', FormatBool (YO_Test payment))])"

text \<open>From the metadata on.\<close>

definition yoo_process :: "'s store_ops \<Rightarrow> env \<Rightarrow> YooKassaWebhookHandler \<Rightarrow> float_parser \<Rightarrow>
    (gostring \<Rightarrow> gotime option) \<Rightarrow> yookassaNotification \<Rightarrow> yookassaPaymentObject \<Rightarrow> 's world \<Rightarrow>
    http_reply \<times> 's world" where
  "yoo_process ops e h parse parseTime notification payment w =
     (let merchantID = TrimSpace (YO_MerchantID payment); paymentID = TrimSpace (YO_PaymentID payment);
          key = TrimSpace (YO_IdempotencyKey payment) in
      if merchantID = '''' \<or> paymentID = '''' \<or> key = '''' then
        (yoo_ok, log_now e (webhook_event EventPaymentFailed LogLevelWarn ''adapter'' '''' '''' '''' StatusFailed
           ''YooKassa webhook ignored: missing metadata''
           [(''provider'', ''yookassa''), (''yookassa_event'', YN_Event notification),
            (''external_transaction_id'', YO_ID payment), (''provider_status'', YO_Status payment)]) w)
      else
        (case yoo_loadOrBuildResponse ops e parse parseTime merchantID paymentID key payment w of
          (resp, w) \<Rightarrow>
            (let status = mapYooKassaStatus (YO_Status payment);
                 resp = Sanitized (yoo_apply merchantID paymentID key payment (now e w) resp)
             in case webhook_save ops e merchantID paymentID key status resp (tick w) of
                  (Some err, w) \<Rightarrow> (http_Error err 500, w)
                | (None, w) \<Rightarrow>
                    (yoo_ok, notify_merchant e (YH_notifies h)
                      (\<lambda>err. webhook_event EventNotificationFailed LogLevelWarn ''notifications'' merchantID
                        paymentID key status ''Merchant notification after YooKassa webhook failed''
                        [(''provider'', ''yookassa''), (''error_message'', err)])
                      resp (log_now e (yoo_logged notification payment merchantID paymentID key status) w)))))"

text \<open>The notification is replaced by what YooKassa says of the payment, if it says anything.\<close>

definition yoo_verified :: "http_client \<Rightarrow> YooKassaWebhookHandler \<Rightarrow> yookassaNotification \<Rightarrow>
    yookassaPaymentObject" where
  "yoo_verified client h notification =
     (case fetchPayment client h (YO_ID (YN_Object notification)) of
        Inr verified \<Rightarrow> if YO_ID verified \<noteq> '''' then verified else YN_Object notification
      | Inl _ \<Rightarrow> YN_Object notification)"

definition yoo_ServeHTTP :: "'s store_ops \<Rightarrow> env \<Rightarrow> YooKassaWebhookHandler \<Rightarrow> http_client \<Rightarrow> float_parser \<Rightarrow>
    (gostring \<Rightarrow> gotime option) \<Rightarrow> http_request \<Rightarrow> 's world \<Rightarrow> http_reply \<times> 's world" where
  "yoo_ServeHTTP ops e h client parse parseTime r w =
     (if Hr_Method r \<noteq> ''POST'' then (http_Error ''method not allowed'' 405, w)
      else (case decode_body tab_yookassaNotification zero_yoo_notification r of
        None \<Rightarrow> (http_Error ''invalid json'' 400, w)
      | Some notification \<Rightarrow>
          if YN_Type notification \<noteq> ''notification'' \<or> YN_Event notification = ''''
             \<or> YO_ID (YN_Object notification) = ''''
          then (http_Error ''invalid notification'' 400, w)
          else yoo_process ops e h parse parseTime notification (yoo_verified client h notification) w))"

subsection \<open>Facts\<close>

lemma log_now_simps [simp]:
  "w_store (log_now e ev w) = w_store w" "w_notes (log_now e ev w) = w_notes w"
  "w_calls (log_now e ev w) = w_calls w" "w_status (log_now e ev w) = w_status w"
  "w_velocity (log_now e ev w) = w_velocity w"
  by (simp_all add: log_now_def)

lemma notify_merchant_simps [simp]:
  "w_store (notify_merchant e b failed resp w) = w_store w"
  "w_calls (notify_merchant e b failed resp w) = w_calls w"
  "w_notes (notify_merchant e b failed resp w) = w_notes w @ (if b then [resp] else [])"
  "w_status (notify_merchant e b failed resp w) = w_status w"
  "w_velocity (notify_merchant e b failed resp w) = w_velocity w"
  by (simp_all add: notify_merchant_def notified_def Let_def split: option.splits)

lemma webhook_save_cases:
  assumes "webhook_save ops e m p k st resp w = (err, w')"
  shows "(err, w_store w') = op_Save ops m p k st (marshal_or_empty resp) (now e w) (w_store w)
    \<and> w_notes w' = w_notes w \<and> w_calls w' = w_calls w \<and> w_status w' = w_status w
    \<and> w_velocity w' = w_velocity w"
  using assms by (auto simp: webhook_save_def split: prod.splits)

lemma Sanitized_status [simp]:
  "Resp_CurrentStatus (Sanitized r) = Resp_CurrentStatus r" "Resp_Error (Sanitized r) = Resp_Error r"
  "Resp_ID (Sanitized r) = Resp_ID r" "Resp_MerchantID (Sanitized r) = Resp_MerchantID r"
  "Resp_IdempotencyKey (Sanitized r) = Resp_IdempotencyKey r"
  by (simp_all add: Sanitized_def Let_def)

lemma yoo_apply_simps [simp]:
  "Resp_ID (yoo_apply m p k pay t r) = p" "Resp_MerchantID (yoo_apply m p k pay t r) = m"
  "Resp_IdempotencyKey (yoo_apply m p k pay t r) = k"
  "Resp_CurrentStatus (yoo_apply m p k pay t r) = mapYooKassaStatus (YO_Status pay)"
  "Resp_Error (yoo_apply m p k pay t r) = None \<longleftrightarrow> mapYooKassaStatus (YO_Status pay) \<noteq> StatusDeclined"
proof -
  have "mapYooKassaStatus (YO_Status pay) \<noteq> StatusFailed" by (simp add: mapYooKassaStatus_def Let_def)
  then show "Resp_Error (yoo_apply m p k pay t r) = None \<longleftrightarrow> mapYooKassaStatus (YO_Status pay) \<noteq> StatusDeclined"
    by (simp add: yoo_apply_def Let_def)
qed (simp_all add: yoo_apply_def Let_def)

lemma yoo_load_simps:
  assumes "yoo_loadOrBuildResponse ops e parse parseTime m p k pay w = (resp, w')"
  shows "w_store w' = w_store w" "w_notes w' = w_notes w" "w_calls w' = w_calls w"
  using assms by (auto simp: yoo_loadOrBuildResponse_def Let_def split: option.splits)

text \<open>A notification that is processed: what it says of the payment, and for whom.\<close>

definition yoo_accepted :: "http_request \<Rightarrow> yookassaNotification \<Rightarrow> bool" where
  "yoo_accepted r n = (Hr_Method r = ''POST''
     \<and> decode_body tab_yookassaNotification zero_yoo_notification r = Some n
     \<and> YN_Type n = ''notification'' \<and> YN_Event n \<noteq> '''' \<and> YO_ID (YN_Object n) \<noteq> '''')"

definition yoo_named :: "yookassaPaymentObject \<Rightarrow> gostring \<Rightarrow> gostring \<Rightarrow> gostring \<Rightarrow> bool" where
  "yoo_named pay m p k = (m = TrimSpace (YO_MerchantID pay) \<and> p = TrimSpace (YO_PaymentID pay)
     \<and> k = TrimSpace (YO_IdempotencyKey pay) \<and> m \<noteq> '''' \<and> p \<noteq> '''' \<and> k \<noteq> '''')"

text \<open>\<open>resp\<close> was saved under status \<open>st\<close> and, if that worked, announced.\<close>

definition announced :: "'s store_ops \<Rightarrow> bool \<Rightarrow> gostring \<Rightarrow> gostring \<Rightarrow> gostring \<Rightarrow> gostring \<Rightarrow>
    PaymentResponse \<Rightarrow> int \<Rightarrow> 's world \<Rightarrow> 's world \<Rightarrow> bool" where
  "announced ops notifies m p k st resp code w w' =
     (\<exists>err t. (err, w_store w') = op_Save ops m p k st (marshal_or_empty resp) t (w_store w)
       \<and> (if err = None then code = 200 \<and> w_notes w' = w_notes w @ (if notifies then [resp] else [])
          else code = 500 \<and> w_notes w' = w_notes w)
       \<and> Resp_MerchantID resp = m \<and> Resp_ID resp = p \<and> Resp_CurrentStatus resp = st
       \<and> w_calls w' = w_calls w)"

text \<open>The response that is stored under the key, if it can be read.\<close>

definition yoo_stored :: "'s store_ops \<Rightarrow> gostring \<Rightarrow> gostring \<Rightarrow> 's world \<Rightarrow> PaymentResponse option" where
  "yoo_stored ops m k w = (case op_GetByIdempotencyKey ops m k (w_store w) of
     Inr (Some (_, payload)) \<Rightarrow> if payload = JRaw '''' then None else UnmarshalResponse payload
   | _ \<Rightarrow> None)"

lemma yoo_load_response:
  assumes "yoo_loadOrBuildResponse ops e parse parseTime m p k pay w = (resp, w')"
  shows "case yoo_stored ops m k w of
      Some old \<Rightarrow> resp = old
    | None \<Rightarrow> RInfo_Amount (Resp_PaymentInfo resp) = \<lparr>Amount_Value = fst (parse (YO_AmountValue pay)),
          Amount_Currency = YO_AmountCurrency pay\<rparr> \<and> RInfo_Items (Resp_PaymentInfo resp) = []"
  using assms
  by (auto simp: yoo_loadOrBuildResponse_def yoo_stored_def yoo_new_response_def Let_def
      split: sum.splits option.splits if_splits prod.splits)

text \<open>What the details of a response say of the payment at the provider.\<close>

definition yoo_facts :: "yookassaPaymentObject \<Rightarrow> TransactionDetails \<Rightarrow> bool" where
  "yoo_facts pay td = (TD_ExternalTransactionID td = YO_ID pay \<and> TD_PaymentSystem td = ''YOOKASSA''
     \<and> TD_ProviderStatus td = YO_Status pay \<and> TD_PaymentURL td = ''''
     \<and> TD_CancellationParty td = YO_CancellationParty pay
     \<and> TD_CancellationReason td = YO_CancellationReason pay)"

lemma yoo_apply_info:
  "RInfo_Amount (Resp_PaymentInfo (Sanitized (yoo_apply m p k pay t r))) = RInfo_Amount (Resp_PaymentInfo r)"
    "RInfo_PaymentMethodData (Resp_PaymentInfo (Sanitized (yoo_apply m p k pay t r)))
      = RInfo_PaymentMethodData (Resp_PaymentInfo r)"
    "RInfo_Items (Resp_PaymentInfo (Sanitized (yoo_apply m p k pay t r))) = RInfo_Items (Resp_PaymentInfo r)"
    "TD_ExternalTransactionID (Resp_TransactionDetails (Sanitized (yoo_apply m p k pay t r))) = YO_ID pay"
    "TD_PaymentSystem (Resp_TransactionDetails (Sanitized (yoo_apply m p k pay t r))) = ''YOOKASSA''"
    "TD_ProviderStatus (Resp_TransactionDetails (Sanitized (yoo_apply m p k pay t r))) = YO_Status pay"
    "TD_PaymentURL (Resp_TransactionDetails (Sanitized (yoo_apply m p k pay t r))) = ''''"
    "TD_CancellationParty (Resp_TransactionDetails (Sanitized (yoo_apply m p k pay t r))) = YO_CancellationParty pay"
    "TD_CancellationReason (Resp_TransactionDetails (Sanitized (yoo_apply m p k pay t r))) = YO_CancellationReason pay"
  by (simp_all add: Sanitized_def yoo_apply_def Let_def)

lemma yoo_process_effect:
  assumes "yoo_named pay m p k"
    and "yoo_process ops e h parse parseTime n pay w = (reply, w')"
  shows "\<exists>resp. announced ops (YH_notifies h) m p k (mapYooKassaStatus (YO_Status pay)) resp (fst reply) w w'
    \<and> (Resp_Error resp = None \<longleftrightarrow> mapYooKassaStatus (YO_Status pay) \<noteq> StatusDeclined)
    \<and> Resp_IdempotencyKey resp = k \<and> yoo_facts pay (Resp_TransactionDetails resp)
    \<and> (case yoo_stored ops m k w of
        Some old \<Rightarrow> RInfo_Amount (Resp_PaymentInfo resp) = RInfo_Amount (Resp_PaymentInfo old)
          \<and> RInfo_PaymentMethodData (Resp_PaymentInfo resp) = RInfo_PaymentMethodData (Resp_PaymentInfo old)
          \<and> RInfo_Items (Resp_PaymentInfo resp) = RInfo_Items (Resp_PaymentInfo old)
      | None \<Rightarrow> RInfo_Amount (Resp_PaymentInfo resp) = \<lparr>Amount_Value = fst (parse (YO_AmountValue pay)),
            Amount_Currency = YO_AmountCurrency pay\<rparr>
          \<and> RInfo_Items (Resp_PaymentInfo resp) = [])"
proof -
  let ?st = "mapYooKassaStatus (YO_Status pay)"
  obtain r0 w0 where load: "yoo_loadOrBuildResponse ops e parse parseTime m p k pay w = (r0, w0)" by fastforce
  note w0 = yoo_load_simps [OF load]
  define resp where "resp = Sanitized (yoo_apply m p k pay (now e w0) r0)"
  obtain err w1 where save: "webhook_save ops e m p k ?st resp (tick w0) = (err, w1)" by fastforce
  note w1 = webhook_save_cases [OF save]
  have names: "\<not> (m = '''' \<or> p = '''' \<or> k = '''')" "m = TrimSpace (YO_MerchantID pay)"
    "p = TrimSpace (YO_PaymentID pay)" "k = TrimSpace (YO_IdempotencyKey pay)"
    using assms(1) unfolding yoo_named_def by blast+
  have run: "(reply, w') = (case (err, w1) of
      (Some err, w) \<Rightarrow> (http_Error err 500, w)
    | (None, w) \<Rightarrow> (yoo_ok, notify_merchant e (YH_notifies h)
        (\<lambda>err. webhook_event EventNotificationFailed LogLevelWarn ''notifications'' m p k ?st
          ''Merchant notification after YooKassa webhook failed''
          [(''provider'', ''yookassa''), (''error_message'', err)])
        resp (log_now e (yoo_logged n pay m p k ?st) w)))"
    using assms(2) names(1) load save
    unfolding yoo_process_def Let_def names(2-4) [symmetric] resp_def by simp
  have "announced ops (YH_notifies h) m p k ?st resp (fst reply) w w'"
    unfolding announced_def
  proof (intro exI conjI)
    show "(err, w_store w') = op_Save ops m p k ?st (marshal_or_empty resp) (now e (tick w0)) (w_store w)"
      using run w1 w0 by (cases err) auto
  qed (use run w1 w0 in \<open>cases err; simp add: resp_def http_Error_def reply_text_def yoo_ok_def\<close>)+
  moreover have "yoo_facts pay (Resp_TransactionDetails resp)"
    unfolding resp_def yoo_facts_def by (simp add: yoo_apply_info)
  moreover have "RInfo_Amount (Resp_PaymentInfo resp) = RInfo_Amount (Resp_PaymentInfo r0)"
    "RInfo_PaymentMethodData (Resp_PaymentInfo resp) = RInfo_PaymentMethodData (Resp_PaymentInfo r0)"
    "RInfo_Items (Resp_PaymentInfo resp) = RInfo_Items (Resp_PaymentInfo r0)"
    unfolding resp_def by (simp_all add: yoo_apply_info)
  moreover note yoo_load_response [OF load]
  ultimately show ?thesis by (intro exI [of _ resp]) (simp add: resp_def split: option.splits)
qed

lemma yoo_ServeHTTP_accepted:
  "yoo_accepted r n \<Longrightarrow> yoo_ServeHTTP ops e h client parse parseTime r w
    = yoo_process ops e h parse parseTime n (yoo_verified client h n) w"
  by (simp add: yoo_accepted_def yoo_ServeHTTP_def)

lemma yoo_process_notification:
  assumes "yoo_process ops e h parse parseTime n pay w = (reply, w1)"
    and "yoo_process ops e h parse parseTime n' pay w = (reply', w2)"
  shows "reply' = reply \<and> w_store w2 = w_store w1 \<and> w_notes w2 = w_notes w1"
proof -
  have "fst (yoo_process ops e h parse parseTime n pay w) = fst (yoo_process ops e h parse parseTime n' pay w)
    \<and> w_store (snd (yoo_process ops e h parse parseTime n pay w))
        = w_store (snd (yoo_process ops e h parse parseTime n' pay w))
    \<and> w_notes (snd (yoo_process ops e h parse parseTime n pay w))
        = w_notes (snd (yoo_process ops e h parse parseTime n' pay w))"
    unfolding yoo_process_def Let_def by (simp split: prod.split option.split)
  with assms show ?thesis by simp
qed

subsection \<open>Properties\<close>

text \<open>
  C28: A notification that YooKassa confirms only says which payment to look at. If the lookup
  of its payment succeeds, the saved response lies under the merchant, payment and key of the
  provider's metadata, and its status, its error (exactly when the payment was cancelled), its external
  number, provider status and reason of cancellation are those of the looked-up payment, whatever
  was stored before. Amount, method and items are those of the stored response, if one can be
  read, even if the provider names another amount; only without one the amount is the provider's.
  This response is announced once if the save worked. Any other accepted notification
  with the same payment id has the same effect.
\<close>

theorem yookassa_webhook_verified:
  assumes "yoo_accepted r n" and "fetchPayment client h (YO_ID (YN_Object n)) = Inr pay"
    and "YO_ID pay \<noteq> ''''" and "yoo_named pay m p k"
    and "yoo_ServeHTTP ops e h client parse parseTime r w = (reply, w')"
  shows "(\<exists>resp. announced ops (YH_notifies h) m p k (mapYooKassaStatus (YO_Status pay)) resp (fst reply) w w'
      \<and> (Resp_Error resp = None \<longleftrightarrow> mapYooKassaStatus (YO_Status pay) \<noteq> StatusDeclined)
      \<and> yoo_facts pay (Resp_TransactionDetails resp)
      \<and> (case yoo_stored ops m k w of
          Some old \<Rightarrow> RInfo_Amount (Resp_PaymentInfo resp) = RInfo_Amount (Resp_PaymentInfo old)
            \<and> RInfo_PaymentMethodData (Resp_PaymentInfo resp) = RInfo_PaymentMethodData (Resp_PaymentInfo old)
            \<and> RInfo_Items (Resp_PaymentInfo resp) = RInfo_Items (Resp_PaymentInfo old)
        | None \<Rightarrow> RInfo_Amount (Resp_PaymentInfo resp) = \<lparr>Amount_Value = fst (parse (YO_AmountValue pay)),
              Amount_Currency = YO_AmountCurrency pay\<rparr>
            \<and> RInfo_Items (Resp_PaymentInfo resp) = []))
    \<and> (\<forall>r' n' reply' w''. yoo_accepted r' n' \<longrightarrow> YO_ID (YN_Object n') = YO_ID (YN_Object n) \<longrightarrow>
        yoo_ServeHTTP ops e h client parse parseTime r' w = (reply', w'') \<longrightarrow>
        reply' = reply \<and> w_store w'' = w_store w' \<and> w_notes w'' = w_notes w')"
proof -
  have look: "yoo_verified client h n' = pay" if "YO_ID (YN_Object n') = YO_ID (YN_Object n)" for n'
    using assms(2,3) that by (simp add: yoo_verified_def)
  have run: "yoo_process ops e h parse parseTime n pay w = (reply, w')"
    using assms(5) by (simp add: yoo_ServeHTTP_accepted [OF assms(1)] look)
  have same: "reply' = reply \<and> w_store w'' = w_store w' \<and> w_notes w'' = w_notes w'"
    if "yoo_accepted r' n'" "YO_ID (YN_Object n') = YO_ID (YN_Object n)"
      "yoo_ServeHTTP ops e h client parse parseTime r' w = (reply', w'')" for r' n' reply' w''
    by (rule yoo_process_notification [OF run, of n'])
      (use that(3) in \<open>simp add: yoo_ServeHTTP_accepted [OF that(1)] look [OF that(2)]\<close>)
  note effect = yoo_process_effect [OF assms(4) run]
  show ?thesis
    by (rule conjI, rule exE [OF effect], rule exI, (elim conjE, intro conjI; assumption))
      (rule allI impI same | assumption)+
qed

text \<open>
  C29: A notification that YooKassa does not confirm is believed. If the lookup fails (the shop
  has no credentials configured, or YooKassa is unreachable or does not know the payment),
  anyone who can reach the endpoint marks any payment of any merchant as captured: a
  notification that says \<open>succeeded\<close> is saved as \<open>CAPTURED\<close> without an error and announced.
\<close>

theorem yookassa_webhook_unverified:
  assumes "yoo_accepted r n" and "fetchPayment client h (YO_ID (YN_Object n)) = Inl err"
    and "yoo_named (YN_Object n) m p k" and "ToLower (TrimSpace (YO_Status (YN_Object n))) = ''succeeded''"
    and "yoo_ServeHTTP ops e h client parse parseTime r w = (reply, w')"
  shows "\<exists>resp. announced ops (YH_notifies h) m p k StatusCaptured resp (fst reply) w w' \<and> Resp_Error resp = None"
proof -
  have run: "yoo_process ops e h parse parseTime n (YN_Object n) w = (reply, w')"
    using assms(5) by (simp add: yoo_ServeHTTP_accepted [OF assms(1)] yoo_verified_def assms(2))
  have "mapYooKassaStatus (YO_Status (YN_Object n)) = StatusCaptured"
    by (simp add: mapYooKassaStatus_def assms(4))
  with yoo_process_effect [OF assms(3) run] show ?thesis by auto
qed

text \<open>A forged notification, and one request with it.\<close>

definition forged :: json where
  "forged = JObj [(''type'', JStr ''notification''), (''event'', JStr ''payment.succeeded''),
     (''object'', JObj [(''id'', JStr ''x''), (''status'', JStr ''succeeded''),
       (''metadata'', JObj [(''merchant_id'', JStr ''m''), (''payment_id'', JStr ''p''),
         (''idempotency_key'', JStr ''k'')])])]"

definition forged_notification :: yookassaNotification where
  "forged_notification = \<lparr>YN_Type = ''notification'', YN_Event = ''payment.succeeded'',
     YN_Object = zero_yoo_object\<lparr>YO_ID := ''x'', YO_Status := ''succeeded'', YO_MerchantID := ''m'',
       YO_PaymentID := ''p'', YO_IdempotencyKey := ''k''\<rparr>\<rparr>"

definition forged_request :: http_request where
  "forged_request = \<lparr>Hr_Method = ''POST'', Hr_Path = ''/webhooks/yookassa'', Hr_URI = ''/webhooks/yookassa'',
     Hr_Header = (\<lambda>_. ''''), Hr_Query = (\<lambda>_. ''''), Hr_Form = Inr (\<lambda>_. ''''),
     Hr_Body = Body_data ''forged'' (Some forged) (Some forged),
     Hr_RemoteAddr = ''203.0.113.9:4000'', Hr_TLS = False, Hr_Scheme = ''''\<rparr>"

lemma forged_decodes: "dec_struct tab_yookassaNotification forged zero_yoo_notification = Some forged_notification"
  by (simp add: forged_def dec_struct_def tab_yookassaNotification_def tab_yookassaPaymentObject_def
      lookup_field_def dec_str_def dec_sub_def zero_yoo_notification_def zero_yoo_object_def
      forged_notification_def)

lemma forged_accepted: "yoo_accepted forged_request forged_notification"
proof -
  have "decode_body tab_yookassaNotification zero_yoo_notification forged_request = Some forged_notification"
    by (simp add: decode_body_def body_first_def forged_request_def forged_decodes)
  then show ?thesis
    by (simp add: yoo_accepted_def) (simp add: forged_request_def forged_notification_def)
qed

lemma forged_named: "yoo_named (YN_Object forged_notification) ''m'' ''p'' ''k''"
  by (simp add: yoo_named_def forged_notification_def go_eval)

definition idle_handler :: YooKassaWebhookHandler where
  "idle_handler = \<lparr>YH_notifies = True, YH_shopID = '''', YH_secretKey = '''', YH_apiURL = ''''\<rparr>"

definition busy_handler :: YooKassaWebhookHandler where
  "busy_handler = idle_handler\<lparr>YH_shopID := ''shop'', YH_secretKey := ''key''\<rparr>"

theorem yookassa_webhook_verified_witness:
  defines "w' \<equiv> snd (yoo_ServeHTTP mem_ops sample_env busy_handler
    (\<lambda>_. Inr (200, Some (JObj [(''id'', JStr ''x''), (''status'', JStr ''canceled''),
       (''metadata'', JObj [(''merchant_id'', JStr ''m''), (''payment_id'', JStr ''p''),
         (''idempotency_key'', JStr ''k'')])])))
    (\<lambda>_. (Fin 0, None)) (\<lambda>_. None) forged_request sample_world)"
  shows "\<exists>resp code. announced mem_ops True ''m'' ''p'' ''k'' StatusDeclined resp code sample_world w'
    \<and> Resp_Error resp \<noteq> None"
proof -
  let ?client = "\<lambda>_ :: http_call. Inr (200, Some (JObj [(''id'', JStr ''x''), (''status'', JStr ''canceled''),
       (''metadata'', JObj [(''merchant_id'', JStr ''m''), (''payment_id'', JStr ''p''),
         (''idempotency_key'', JStr ''k'')])])) :: (int \<times> json option) result"
  define pay where "pay = zero_yoo_object\<lparr>YO_ID := ''x'', YO_Status := ''canceled'', YO_MerchantID := ''m'',
       YO_PaymentID := ''p'', YO_IdempotencyKey := ''k''\<rparr>"
  have fetch: "fetchPayment ?client busy_handler (YO_ID (YN_Object forged_notification)) = Inr pay"
    by (simp add: fetchPayment_def busy_handler_def idle_handler_def forged_notification_def yoo_decode_def
        dec_struct_def tab_yookassaPaymentObject_def lookup_field_def dec_str_def zero_yoo_object_def pay_def)
  have "ToLower (TrimSpace ''canceled'') = ''canceled''" by (simp add: go_eval)
  then have st: "mapYooKassaStatus (YO_Status pay) = StatusDeclined"
    by (simp add: pay_def mapYooKassaStatus_def)
  have named: "YO_ID pay \<noteq> ''''" "yoo_named pay ''m'' ''p'' ''k''"
    by (simp_all add: pay_def yoo_named_def go_eval)
  obtain reply where "yoo_ServeHTTP mem_ops sample_env busy_handler ?client (\<lambda>_. (Fin 0, None)) (\<lambda>_. None)
      forged_request sample_world = (reply, w')"
    unfolding w'_def by (metis prod.collapse)
  from yookassa_webhook_verified [OF forged_accepted fetch named this] show ?thesis
    by (auto simp: st busy_handler_def idle_handler_def)
qed

theorem yookassa_webhook_unverified_witness:
  "\<exists>resp code. announced mem_ops True ''m'' ''p'' ''k'' StatusCaptured resp code sample_world
      (snd (yoo_ServeHTTP mem_ops sample_env idle_handler (\<lambda>_. Inl ''no route'') (\<lambda>_. (Fin 0, None))
        (\<lambda>_. None) forged_request sample_world))"
proof -
  have "fetchPayment (\<lambda>_. Inl ''no route'') idle_handler (YO_ID (YN_Object forged_notification))
      = Inl ''yookassa credentials are empty''"
    by (simp add: fetchPayment_def idle_handler_def)
  from yookassa_webhook_unverified [OF forged_accepted this forged_named _ prod.collapse [symmetric],
      of mem_ops sample_env "\<lambda>_. (Fin 0, None)" "\<lambda>_. None" sample_world]
  show ?thesis by (auto simp: forged_notification_def idle_handler_def go_eval)
qed

end
