(* ===== verification/Webhook_Payanyway.thy ===== *)
theory Webhook_Payanyway
  imports Webhooks
begin

section \<open>The PayAnyWay webhook (\<open>internal/httpapi/webhooks/payanyway_handler.go\<close>)\<close>

text \<open>
  The Pay URL that PayAnyWay calls when a payment is paid, and the fiscal receipt it is answered
  with. A form (\<open>url.Values\<close>) is the list of its entries in the order a \<open>range\<close> visits them,
  the names distinct; the order matters only when two names differ just in case. MD5 (the
  hexadecimal digest), the number parser and the environment are parameters; \<open>form\<close> is the
  outcome of \<open>ParseForm\<close>. A reply that is no document is given by its text.

  A value inside the receipt is the text of a JSON document: \<open>json_text\<close> writes strings as
  \<open>json.Marshal\<close> does, with its HTML-safe escapes.
\<close>

subsection \<open>JSON texts of flat string objects\<close>

definition lower_hex :: "nat \<Rightarrow> char" where
  "lower_hex n = (if n < 10 then char_of (48 + n) else char_of (87 + n))"

definition json_escape :: "nat \<Rightarrow> gostring" where
  "json_escape r = [CHR 0x5C, CHR ''u'', lower_hex (r div 4096), lower_hex (r div 256 mod 16),
     lower_hex (r div 16 mod 16), lower_hex (r mod 16)]"

definition json_rune :: "nat \<Rightarrow> gostring" where
  "json_rune r =
     (case map_of [(34, CHR 0x22), (92, CHR 0x5C), (8, CHR ''b''), (12, CHR ''f''), (10, CHR ''n''),
         (13, CHR ''r''), (9, CHR ''t'')] r of
        Some c \<Rightarrow> [CHR 0x5C, c]
      | None \<Rightarrow> if r < 32 \<or> r \<in> {38, 60, 62, 0x2028, 0x2029} then json_escape r else encode_rune r)"

text \<open>An invalid byte reads as U+FFFD and is written as its escape.\<close>

fun invalid_or_rune :: "nat \<times> nat \<Rightarrow> gostring" where
  "invalid_or_rune (r, w) = (if r = 0xFFFD \<and> w = 1 then json_escape 0xFFFD else json_rune r)"

function json_chars :: "gostring \<Rightarrow> gostring" where
  "json_chars s = (if s = [] then [] else
     invalid_or_rune (decode_rune s) @ json_chars (drop (snd (decode_rune s)) s))"
  by pat_completeness auto
termination by (relation "measure length") (auto simp: decode_rune_width)

definition json_string :: "gostring \<Rightarrow> gostring" where
  "json_string s = [CHR 0x22] @ json_chars s @ [CHR 0x22]"

definition json_object :: "(gostring \<times> gostring) list \<Rightarrow> gostring" where
  "json_object kvs = ''{'' @ Join (map (\<lambda>(k, v). json_string k @ '':'' @ json_string v) kvs) '','' @ ''}''"

definition json_array :: "gostring list \<Rightarrow> gostring" where
  "json_array xs = ''['' @ Join xs '','' @ '']''"

definition omit_member :: "gostring \<Rightarrow> gostring \<Rightarrow> (gostring \<times> gostring) list" where
  "omit_member k v = (if v = '''' then [] else [(k, v)])"

subsection \<open>The form\<close>

type_synonym url_values = "(gostring \<times> gostring list) list"

text \<open>\<open>form.Get\<close> reads the first value of the name, \<open>""\<close> if there is none.\<close>

definition Values_Get :: "url_values \<Rightarrow> gostring \<Rightarrow> gostring" where
  "Values_Get form key = (case map_of form key of Some (v # _) \<Rightarrow> v | _ \<Rightarrow> '''')"

fun fold_value :: "url_values \<Rightarrow> gostring \<Rightarrow> gostring" where
  "fold_value [] key = ''''"
| "fold_value ((formKey, values) # form) key =
     (if EqualFold formKey key \<and> values \<noteq> [] then TrimSpace (hd values) else fold_value form key)"

definition payAnyWayFormValue :: "url_values \<Rightarrow> gostring \<Rightarrow> gostring" where
  "payAnyWayFormValue form key = (let v = TrimSpace (Values_Get form key) in
     if v \<noteq> '''' then v else fold_value form key)"

definition payAnyWayWebhookBoolEnv :: "(gostring \<Rightarrow> gostring) \<Rightarrow> gostring \<Rightarrow> bool \<Rightarrow> bool" where
  "payAnyWayWebhookBoolEnv env name defaultValue = (let value = ToLower (TrimSpace (env name)) in
     if value = '''' then defaultValue
     else if value \<in> {''1'', ''true'', ''yes'', ''y'', ''on''} then True
     else if value \<in> {''0'', ''false'', ''no'', ''n'', ''off''} then False else defaultValue)"

record PayAnyWayWebhookHandler =
  PH_notifies :: bool
  PH_mntID :: gostring
  PH_integrityKey :: gostring
  PH_testMode :: bool

definition NewPayAnyWayWebhookHandler :: "(gostring \<Rightarrow> gostring) \<Rightarrow> bool \<Rightarrow> PayAnyWayWebhookHandler" where
  "NewPayAnyWayWebhookHandler env notifies =
     \<lparr>PH_notifies = notifies,
      PH_mntID = TrimSpace (webhooks_firstNonEmpty [env ''PAYANYWAY_MNT_ID'',
        env ''PAYANYWAY_BUSINESS_ACCOUNT'', env ''PAYANYWAY_ACCOUNT_ID'']),
      PH_integrityKey = TrimSpace (env ''PAYANYWAY_INTEGRITY_CODE''),
      PH_testMode = payAnyWayWebhookBoolEnv env ''PAYANYWAY_TEST_MODE'' True\<rparr>"

definition payAnyWayWebhookSignature :: "(gostring \<Rightarrow> gostring) \<Rightarrow> gostring \<Rightarrow> gostring \<Rightarrow> gostring \<Rightarrow>
    gostring \<Rightarrow> gostring \<Rightarrow> gostring \<Rightarrow> gostring \<Rightarrow> gostring \<Rightarrow> gostring" where
  "payAnyWayWebhookSignature md5 mntID transactionID operationID amount currency subscriberID testMode
     integrityKey = md5 (TrimSpace mntID @ TrimSpace transactionID @ TrimSpace operationID @ TrimSpace amount
       @ TrimSpace currency @ TrimSpace subscriberID @ TrimSpace testMode @ integrityKey)"

definition payAnyWayResponseSignature :: "(gostring \<Rightarrow> gostring) \<Rightarrow> gostring \<Rightarrow> gostring \<Rightarrow> gostring \<Rightarrow>
    gostring \<Rightarrow> gostring" where
  "payAnyWayResponseSignature md5 resultCode mntID transactionID integrityKey =
     md5 (TrimSpace resultCode @ TrimSpace mntID @ TrimSpace transactionID @ integrityKey)"

definition logWebhookAttempt :: "env \<Rightarrow> PayAnyWayWebhookHandler \<Rightarrow> url_values \<Rightarrow> gostring \<Rightarrow> gostring \<Rightarrow>
    's world \<Rightarrow> 's world" where
  "logWebhookAttempt e h form providerStatus reason w =
     (let val = payAnyWayFormValue form;
          paymentID = webhooks_firstNonEmpty [val ''payment_id'', val ''MNT_TRANSACTION_ID''];
          merchantID = webhooks_firstNonEmpty [val ''merchant_id'', val ''MNT_SUBSCRIBER_ID''];
          rejected = (reason \<noteq> '''') in
      log_now e (webhook_event (if rejected then EventPaymentFailed else EventMerchantWebhookReceived)
        (if rejected then LogLevelWarn else LogLevelInfo) ''adapter'' merchantID paymentID
        (val ''idempotency_key'') StatusPending
        (if rejected then ''PayAnyWay webhook rejected: '' @ reason else ''PayAnyWay webhook received'')
        [(''provider'', ''payanyway''), (''provider_status'', providerStatus), (''reject_reason'', reason),
         (''mnt_id'', val ''MNT_ID''), (''mnt_transaction_id'', val ''MNT_TRANSACTION_ID''),
         (''external_operation_id'', val ''MNT_OPERATION_ID''), (''amount'', val ''MNT_AMOUNT''),
         (''currency'', val ''MNT_CURRENCY_CODE''), (''mnt_test_mode'', val ''MNT_TEST_MODE''),
         (''payment_system_unit_id'', val ''paymentSystem.unitId''),
         (''has_signature'', FormatBool (val ''MNT_SIGNATURE'' \<noteq> '''')),
         (''configured_test_mode'', FormatBool (PH_testMode h)),
         (''configured_mnt_id_match'',
            FormatBool (PH_mntID h = '''' \<or> EqualFold (val ''MNT_ID'') (PH_mntID h)))]) w)"

subsection \<open>The receipt\<close>

definition parsePayAnyWayAmount :: "float_parser \<Rightarrow> gostring \<Rightarrow> f64" where
  "parsePayAnyWayAmount parse amount = fst (parse (ReplaceAll (TrimSpace amount) CHR '','' ''.''))"

fun firstPositive :: "f64 list \<Rightarrow> f64" where
  "firstPositive [] = Fin 1"
| "firstPositive (v # vs) = (if Fin 0 < v then v else firstPositive vs)"

definition normalizePayAnyWayPhone :: "gostring \<Rightarrow> gostring" where
  "normalizePayAnyWayPhone phone = encode_runes (filter is_digit (runes phone))"

definition payAnyWayTruncate :: "gostring \<Rightarrow> int \<Rightarrow> gostring" where
  "payAnyWayTruncate v mx = (let v = TrimSpace v; rs = runes v in
     if mx \<le> 0 \<or> int (length rs) \<le> mx then v else encode_runes (take (nat mx) rs))"

record payAnyWayInventoryItem =
  Inv_Name :: gostring
  Inv_Price :: gostring
  Inv_Quantity :: gostring
  Inv_VATTag :: gostring
  Inv_PaymentMethod :: gostring
  Inv_PaymentObject :: gostring
  Inv_IDInternal :: gostring

definition inventory_items :: "float_parser \<Rightarrow> PaymentResponse \<Rightarrow> gostring \<Rightarrow> gostring \<Rightarrow> PaymentItem list" where
  "inventory_items parse resp transactionID amount =
     (let info = Resp_PaymentInfo resp in
      if RInfo_Items info \<noteq> [] then RInfo_Items info
      else [zero_item\<lparr>
        Item_Name := webhooks_firstNonEmpty [RInfo_Description info, ''PayAnyWay payment '' @ transactionID],
        Item_Price := firstPositive [Amount_Value (RInfo_Amount info), parsePayAnyWayAmount parse amount],
        Item_Quantity := Fin 1, Item_VATTag := ''1105'', Item_PaymentMethod := ''full_payment'',
        Item_PaymentObject := ''service'', Item_IDInternal := transactionID\<rparr>])"

definition inventory_id :: "gostring \<Rightarrow> nat \<Rightarrow> nat \<Rightarrow> PaymentItem \<Rightarrow> gostring" where
  "inventory_id transactionID n i item = (let idInternal = TrimSpace (Item_IDInternal item) in
     if idInternal = '''' then transactionID @ (if 1 < n then ''_'' @ Itoa (int i + 1) else '''')
     else idInternal)"

definition inventory_line :: "float_parser \<Rightarrow> PaymentResponse \<Rightarrow> gostring \<Rightarrow> gostring \<Rightarrow> nat \<Rightarrow>
    nat \<times> PaymentItem \<Rightarrow> payAnyWayInventoryItem" where
  "inventory_line parse resp transactionID amount n = (\<lambda>(i, item).
     (let info = Resp_PaymentInfo resp in
      \<lparr>Inv_Name = payAnyWayTruncate (webhooks_firstNonEmpty
         [Item_Name item, RInfo_Description info, ''PayAnyWay payment'']) 128,
       Inv_Price = FormatFloat2 (firstPositive [Item_Price item, Amount_Value (RInfo_Amount info),
         parsePayAnyWayAmount parse amount]),
       Inv_Quantity = FormatFloat2 (firstPositive [Item_Quantity item, Fin 1]),
       Inv_VATTag = webhooks_firstNonEmpty [Item_VATTag item, ''1105''],
       Inv_PaymentMethod = webhooks_firstNonEmpty [Item_PaymentMethod item, ''full_payment''],
       Inv_PaymentObject = webhooks_firstNonEmpty [Item_PaymentObject item, ''service''],
       Inv_IDInternal = payAnyWayTruncate (inventory_id transactionID n i item) 64\<rparr>))"

definition payAnyWayInventory :: "float_parser \<Rightarrow> PaymentResponse \<Rightarrow> gostring \<Rightarrow> gostring \<Rightarrow>
    payAnyWayInventoryItem list" where
  "payAnyWayInventory parse resp transactionID amount =
     (let items = inventory_items parse resp transactionID amount in
      map (inventory_line parse resp transactionID amount (length items)) (enumerate 0 items))"

definition json_inventory :: "payAnyWayInventoryItem \<Rightarrow> gostring" where
  "json_inventory x = json_object ([(''name'', Inv_Name x), (''price'', Inv_Price x),
     (''quantity'', Inv_Quantity x), (''vatTag'', Inv_VATTag x), (''pm'', Inv_PaymentMethod x),
     (''po'', Inv_PaymentObject x)] @ omit_member ''idInternal'' (Inv_IDInternal x))"

definition receipt_attributes :: "(gostring \<Rightarrow> gostring) \<Rightarrow> float_parser \<Rightarrow> PaymentResponse \<Rightarrow> gostring \<Rightarrow>
    gostring \<Rightarrow> (gostring \<times> gostring) list" where
  "receipt_attributes env parse resp transactionID amount =
     (let customer = RInfo_CustomerData (Resp_PaymentInfo resp);
          email = TrimSpace (Cust_Email customer); phone = normalizePayAnyWayPhone (Cust_Phone customer);
          sno = TrimSpace (env ''PAYANYWAY_SNO'') in
      [(''INVENTORY'', json_array (map json_inventory (payAnyWayInventory parse resp transactionID amount)))]
      @ (if email \<noteq> '''' \<or> phone \<noteq> '''' then [(''CLIENT'', json_array [json_object
          (omit_member ''email'' email @ omit_member ''phone'' phone)])] else [])
      @ omit_member ''CUSTOMER'' email @ omit_member ''PHONE'' phone @ omit_member ''SNO'' sno)"

type_synonym xml_reply = "int \<times> xtext"

definition writePayAnyWayReceiptResponse :: "(gostring \<Rightarrow> gostring) \<Rightarrow> (gostring \<Rightarrow> gostring) \<Rightarrow> float_parser \<Rightarrow>
    PaymentResponse \<Rightarrow> gostring \<Rightarrow> gostring \<Rightarrow> gostring \<Rightarrow> gostring \<Rightarrow> xml_reply" where
  "writePayAnyWayReceiptResponse env md5 parse resp mntID transactionID amount integrityKey =
     (200, XDoc (Elem ''MNT_RESPONSE'' [] ''''
       ([xml_leaf ''MNT_ID'' (TrimSpace mntID), xml_leaf ''MNT_TRANSACTION_ID'' (TrimSpace transactionID),
         xml_leaf ''MNT_RESULT_CODE'' ''200''] @ xml_omit ''MNT_DESCRIPTION'' ''Order paid''
        @ xml_omit ''MNT_AMOUNT'' (TrimSpace amount)
        @ [xml_leaf ''MNT_SIGNATURE'' (payAnyWayResponseSignature md5 ''200'' mntID transactionID integrityKey),
           Elem ''MNT_ATTRIBUTES'' [] '''' (map (\<lambda>(k, v). Elem ''ATTRIBUTE'' [] ''''
             [xml_leaf ''KEY'' k, xml_leaf ''VALUE'' v])
             (receipt_attributes env parse resp transactionID amount))])))"

subsection \<open>The handler\<close>

definition paw_new_response :: "float_parser \<Rightarrow> gostring \<Rightarrow> gostring \<Rightarrow> gostring \<Rightarrow> gostring \<Rightarrow> gostring \<Rightarrow>
    gostring \<Rightarrow> gotime \<Rightarrow> gotime \<Rightarrow> PaymentResponse" where
  "paw_new_response parse merchantID paymentID amount currency transactionID operationID createdAt updatedAt =
     \<lparr>Resp_ID = paymentID, Resp_MerchantID = merchantID, Resp_IdempotencyKey = transactionID,
      Resp_CurrentStatus = StatusCaptured,
      Resp_PaymentInfo = \<lparr>RInfo_Amount = \<lparr>Amount_Value = fst (parse (ReplaceAll amount CHR '','' ''.'')),
          Amount_Currency = webhooks_firstNonEmpty [currency, ''RUB'']\<rparr>,
        RInfo_PaymentMethodData = \<lparr>Method_Type = PaymentMethodSBP\<rparr>,
        RInfo_CustomerData = zero_customer, RInfo_Items = [], RInfo_DigitalRubleData = no_ruble_data,
        RInfo_Description = ''PayAnyWay payment'', RInfo_CreatedAt = createdAt,
        RInfo_UpdatedAt = updatedAt\<rparr>,
      Resp_TransactionDetails = zero_details\<lparr>TD_ExternalTransactionID := operationID,
        TD_PaymentSystem := ''PAYANYWAY'', TD_ProviderStatus := ''paid'', TD_FraudCheckResult := ''PASSED''\<rparr>,
      Resp_Error = None\<rparr>"

definition paw_stored :: "'s store_ops \<Rightarrow> gostring \<Rightarrow> gostring \<Rightarrow> 's world \<Rightarrow> PaymentResponse option" where
  "paw_stored ops merchantID paymentID w =
     (case op_GetByPaymentID ops merchantID paymentID (w_store w) of
        Inr (Some (_, payload)) \<Rightarrow> if payload \<noteq> JRaw '''' then UnmarshalResponse payload else None
      | _ \<Rightarrow> None)"

definition paw_loadOrBuildResponse :: "'s store_ops \<Rightarrow> env \<Rightarrow> float_parser \<Rightarrow> gostring \<Rightarrow> gostring \<Rightarrow> gostring \<Rightarrow>
    gostring \<Rightarrow> gostring \<Rightarrow> gostring \<Rightarrow> 's world \<Rightarrow> PaymentResponse \<times> 's world" where
  "paw_loadOrBuildResponse ops e parse merchantID paymentID amount currency transactionID operationID w =
     (case paw_stored ops merchantID paymentID w of
        Some resp \<Rightarrow> (resp, w)
      | None \<Rightarrow> (paw_new_response parse merchantID paymentID amount currency transactionID operationID
          (now e w) (now e (tick w)), tick (tick w)))"

definition paw_apply :: "gostring \<Rightarrow> gostring \<Rightarrow> gostring \<Rightarrow> gotime \<Rightarrow> PaymentResponse \<Rightarrow> PaymentResponse" where
  "paw_apply merchantID paymentID operationID updatedAt resp = resp\<lparr>Resp_ID := paymentID,
     Resp_MerchantID := merchantID, Resp_CurrentStatus := StatusCaptured,
     Resp_PaymentInfo := (Resp_PaymentInfo resp)\<lparr>RInfo_UpdatedAt := updatedAt\<rparr>,
     Resp_TransactionDetails := (Resp_TransactionDetails resp)\<lparr>TD_ExternalTransactionID := operationID,
       TD_PaymentSystem := ''PAYANYWAY'', TD_ProviderStatus := ''paid'', TD_PaymentURL := ''''\<rparr>,
     Resp_Error := None\<rparr>"

definition paw_processed :: "gostring \<Rightarrow> gostring \<Rightarrow> gostring \<Rightarrow> PayAnyWayWebhookHandler \<Rightarrow> url_values \<Rightarrow>
    gotime \<Rightarrow> PaymentEvent" where
  "paw_processed merchantID paymentID key h form =
     (let val = payAnyWayFormValue form in
      webhook_event EventAdapterResultReceived LogLevelInfo ''adapter'' merchantID paymentID key StatusCaptured
        ''PayAnyWay Pay URL processed''
        [(''provider'', ''payanyway''), (''external_transaction_id'', val ''MNT_TRANSACTION_ID''),
         (''external_operation_id'', val ''MNT_OPERATION_ID''), (''provider_status'', ''paid''),
         (''amount'', val ''MNT_AMOUNT''), (''currency'', val ''MNT_CURRENCY_CODE''),
         (''test'', FormatBool (PH_testMode h))])"

definition paw_merchant :: "url_values \<Rightarrow> gostring" where
  "paw_merchant form = webhooks_firstNonEmpty
     [payAnyWayFormValue form ''merchant_id'', payAnyWayFormValue form ''MNT_SUBSCRIBER_ID'']"

definition paw_payment :: "url_values \<Rightarrow> gostring" where
  "paw_payment form = webhooks_firstNonEmpty
     [payAnyWayFormValue form ''payment_id'', payAnyWayFormValue form ''MNT_TRANSACTION_ID'']"

text \<open>From \<open>status := string(dto.StatusCaptured)\<close> on.\<close>

definition paw_capture :: "'s store_ops \<Rightarrow> env \<Rightarrow> PayAnyWayWebhookHandler \<Rightarrow> (gostring \<Rightarrow> gostring) \<Rightarrow>
    float_parser \<Rightarrow> url_values \<Rightarrow> gostring \<Rightarrow> gostring \<Rightarrow> 's world \<Rightarrow> xml_reply \<times> 's world" where
  "paw_capture ops e h md5 parse form merchantID paymentID w =
     (let val = payAnyWayFormValue form; transactionID = val ''MNT_TRANSACTION_ID''; amount = val ''MNT_AMOUNT'' in
      case paw_loadOrBuildResponse ops e parse merchantID paymentID amount (val ''MNT_CURRENCY_CODE'')
          transactionID (val ''MNT_OPERATION_ID'') w of
        (resp, w) \<Rightarrow>
          (let resp = Sanitized (paw_apply merchantID paymentID (val ''MNT_OPERATION_ID'') (now e w) resp);
               resp = (if Resp_IdempotencyKey resp = '''' then resp\<lparr>Resp_IdempotencyKey :=
                   webhooks_firstNonEmpty [val ''idempotency_key'', transactionID]\<rparr> else resp);
               key = Resp_IdempotencyKey resp in
           case webhook_save ops e merchantID paymentID key StatusCaptured resp (tick w) of
             (Some err, w) \<Rightarrow> ((500, XRaw (err @ [CHR 0x0A])), w)
           | (None, w) \<Rightarrow>
               (writePayAnyWayReceiptResponse (env_getenv e) md5 parse resp (val ''MNT_ID'') transactionID amount
                  (PH_integrityKey h),
                notify_merchant e (PH_notifies h)
                  (\<lambda>err. webhook_event EventNotificationFailed LogLevelWarn ''notifications'' merchantID
                    paymentID key StatusCaptured ''Merchant notification after PayAnyWay Pay URL failed''
                    [(''provider'', ''payanyway''), (''error_message'', err)])
                  resp (log_now e (paw_processed merchantID paymentID key h form) w))))"

text \<open>What a notification is rejected for: the reply and the reason, in the order of the checks.\<close>

definition paw_reject :: "PayAnyWayWebhookHandler \<Rightarrow> (gostring \<Rightarrow> gostring) \<Rightarrow> url_values \<Rightarrow>
    (int \<times> gostring) option" where
  "paw_reject h md5 form =
     (let val = payAnyWayFormValue form; mntID = val ''MNT_ID''; transactionID = val ''MNT_TRANSACTION_ID'';
          operationID = val ''MNT_OPERATION_ID''; amount = val ''MNT_AMOUNT'';
          currency = val ''MNT_CURRENCY_CODE''; signature = val ''MNT_SIGNATURE'' in
      if PH_integrityKey h = '''' then Some (500, ''PayAnyWay integrity code is not configured'')
      else if mntID = '''' \<or> transactionID = '''' \<or> operationID = '''' \<or> amount = '''' \<or> currency = ''''
          \<or> signature = '''' then Some (400, ''missing required PayAnyWay fields'')
      else if PH_mntID h \<noteq> '''' \<and> \<not> EqualFold mntID (PH_mntID h)
        then Some (400, ''unexpected PayAnyWay MNT_ID'')
      else if \<not> EqualFold signature (payAnyWayWebhookSignature md5 mntID transactionID operationID amount currency
          (val ''MNT_SUBSCRIBER_ID'') (val ''MNT_TEST_MODE'') (PH_integrityKey h))
        then Some (400, ''invalid PayAnyWay signature'')
      else None)"

definition paw_ServeHTTP :: "'s store_ops \<Rightarrow> env \<Rightarrow> PayAnyWayWebhookHandler \<Rightarrow> (gostring \<Rightarrow> gostring) \<Rightarrow>
    float_parser \<Rightarrow> gostring \<Rightarrow> url_values result \<Rightarrow> 's world \<Rightarrow> xml_reply \<times> 's world" where
  "paw_ServeHTTP ops e h md5 parse meth form w =
     (if meth \<noteq> ''POST'' \<and> meth \<noteq> ''GET'' then ((405, XRaw (''method not allowed'' @ [CHR 0x0A])), w)
      else (case form of
        Inl _ \<Rightarrow> ((400, XRaw (''invalid form'' @ [CHR 0x0A])), w)
      | Inr form \<Rightarrow>
          (let w = logWebhookAttempt e h form ''received'' '''' w in
           case paw_reject h md5 form of
             Some (code, reason) \<Rightarrow>
               ((code, XRaw (reason @ [CHR 0x0A])), logWebhookAttempt e h form ''rejected'' reason w)
           | None \<Rightarrow>
               if paw_merchant form = '''' \<or> paw_payment form = '''' then
                 (writePayAnyWayReceiptResponse (env_getenv e) md5 parse zero_response
                    (payAnyWayFormValue form ''MNT_ID'') (payAnyWayFormValue form ''MNT_TRANSACTION_ID'')
                    (payAnyWayFormValue form ''MNT_AMOUNT'') (PH_integrityKey h),
                  log_now e (webhook_event EventPaymentFailed LogLevelWarn ''adapter'' '''' '''' '''' StatusCaptured
                    ''PayAnyWay Pay URL ignored: missing merchant or payment metadata''
                    [(''provider'', ''payanyway''),
                     (''external_transaction_id'', payAnyWayFormValue form ''MNT_TRANSACTION_ID''),
                     (''external_operation_id'', payAnyWayFormValue form ''MNT_OPERATION_ID''),
                     (''provider_status'', ''paid''), (''test'', FormatBool (PH_testMode h))]) w)
               else paw_capture ops e h md5 parse form (paw_merchant form) (paw_payment form) w)))"

subsection \<open>Facts\<close>

lemma logWebhookAttempt_simps [simp]:
  "w_store (logWebhookAttempt e h form st why w) = w_store w"
  "w_notes (logWebhookAttempt e h form st why w) = w_notes w"
  "w_calls (logWebhookAttempt e h form st why w) = w_calls w"
  by (simp_all add: logWebhookAttempt_def Let_def)

lemma paw_apply_simps [simp]:
  "Resp_ID (paw_apply m p opn t r) = p" "Resp_MerchantID (paw_apply m p opn t r) = m"
  "Resp_CurrentStatus (paw_apply m p opn t r) = StatusCaptured" "Resp_Error (paw_apply m p opn t r) = None"
  "Resp_IdempotencyKey (paw_apply m p opn t r) = Resp_IdempotencyKey r"
  "RInfo_Amount (Resp_PaymentInfo (paw_apply m p opn t r)) = RInfo_Amount (Resp_PaymentInfo r)"
  by (simp_all add: paw_apply_def)

lemma Sanitized_amount [simp]: "RInfo_Amount (Resp_PaymentInfo (Sanitized r)) = RInfo_Amount (Resp_PaymentInfo r)"
  by (simp add: Sanitized_def Let_def)

lemma paw_load_simps:
  assumes "paw_loadOrBuildResponse ops e parse m p a c t opn w = (resp, w')"
  shows "w_store w' = w_store w" "w_notes w' = w_notes w" "w_calls w' = w_calls w"
    "paw_stored ops m p w = Some old \<Longrightarrow> resp = old"
  using assms by (auto simp: paw_loadOrBuildResponse_def tick_def split: option.splits)

lemma fst_receipt [simp]: "fst (writePayAnyWayReceiptResponse env md5 parse r m t a k) = 200"
  by (simp add: writePayAnyWayReceiptResponse_def)

lemma paw_capture_effect:
  assumes "paw_capture ops e h md5 parse form m p w = (reply, w')"
  shows "\<exists>resp. announced ops (PH_notifies h) m p (Resp_IdempotencyKey resp) StatusCaptured resp (fst reply) w w'
    \<and> Resp_Error resp = None
    \<and> (\<forall>old. paw_stored ops m p w = Some old \<longrightarrow>
         RInfo_Amount (Resp_PaymentInfo resp) = RInfo_Amount (Resp_PaymentInfo old))"
proof -
  let ?val = "payAnyWayFormValue form"
  obtain r0 w0 where load: "paw_loadOrBuildResponse ops e parse m p (?val ''MNT_AMOUNT'')
      (?val ''MNT_CURRENCY_CODE'') (?val ''MNT_TRANSACTION_ID'') (?val ''MNT_OPERATION_ID'') w = (r0, w0)" by fastforce
  note w0 = paw_load_simps [OF load]
  define r1 where "r1 = Sanitized (paw_apply m p (?val ''MNT_OPERATION_ID'') (now e w0) r0)"
  define resp where "resp = (if Resp_IdempotencyKey r1 = '''' then r1\<lparr>Resp_IdempotencyKey :=
      webhooks_firstNonEmpty [?val ''idempotency_key'', ?val ''MNT_TRANSACTION_ID'']\<rparr> else r1)"
  obtain err w1 where save: "webhook_save ops e m p (Resp_IdempotencyKey resp) StatusCaptured resp (tick w0)
      = (err, w1)" by fastforce
  note w1 = webhook_save_cases [OF save]
  have names: "Resp_MerchantID resp = m" "Resp_ID resp = p" "Resp_CurrentStatus resp = StatusCaptured"
    "Resp_Error resp = None" "RInfo_Amount (Resp_PaymentInfo resp) = RInfo_Amount (Resp_PaymentInfo r0)"
    by (simp_all add: resp_def r1_def)
  have "(reply, w') = (case (err, w1) of
      (Some err, w) \<Rightarrow> ((500, XRaw (err @ [CHR 0x0A])), w)
    | (None, w) \<Rightarrow> (writePayAnyWayReceiptResponse (env_getenv e) md5 parse resp (?val ''MNT_ID'')
          (?val ''MNT_TRANSACTION_ID'') (?val ''MNT_AMOUNT'') (PH_integrityKey h),
        notify_merchant e (PH_notifies h)
          (\<lambda>err. webhook_event EventNotificationFailed LogLevelWarn ''notifications'' m p
            (Resp_IdempotencyKey resp) StatusCaptured ''Merchant notification after PayAnyWay Pay URL failed''
            [(''provider'', ''payanyway''), (''error_message'', err)])
          resp (log_now e (paw_processed m p (Resp_IdempotencyKey resp) h form) w)))"
    using assms unfolding paw_capture_def Let_def load prod.case r1_def [symmetric] resp_def [symmetric] save
    by simp
  then have run: "fst reply = (if err = None then 200 else 500) \<and> w_store w' = w_store w1
    \<and> w_calls w' = w_calls w1 \<and> w_notes w' = w_notes w1 @ (if err = None \<and> PH_notifies h then [resp] else [])"
    by (cases err) auto
  have "announced ops (PH_notifies h) m p (Resp_IdempotencyKey resp) StatusCaptured resp (fst reply) w w'"
    unfolding announced_def
  proof (intro exI conjI)
    show "(err, w_store w') = op_Save ops m p (Resp_IdempotencyKey resp) StatusCaptured (marshal_or_empty resp)
        (now e (tick w0)) (w_store w)"
      using run w1 w0 by simp
  qed (use run w1 w0 names in auto)
  then show ?thesis using names w0(4) by (intro exI [of _ resp]) simp
qed

text \<open>What the integrity code covers.\<close>

definition paw_signed_fields :: "gostring list" where
  "paw_signed_fields = [''MNT_ID'', ''MNT_TRANSACTION_ID'', ''MNT_OPERATION_ID'', ''MNT_AMOUNT'',
     ''MNT_CURRENCY_CODE'', ''MNT_SUBSCRIBER_ID'', ''MNT_TEST_MODE'']"

definition paw_signed :: "PayAnyWayWebhookHandler \<Rightarrow> (gostring \<Rightarrow> gostring) \<Rightarrow> (gostring \<Rightarrow> gostring) \<Rightarrow> bool" where
  "paw_signed h md5 val =
     (PH_integrityKey h \<noteq> '''' \<and> list_all (\<lambda>k. val k \<noteq> '''') (take 5 paw_signed_fields)
      \<and> (PH_mntID h \<noteq> '''' \<longrightarrow> EqualFold (val ''MNT_ID'') (PH_mntID h)) \<and> val ''MNT_SIGNATURE'' \<noteq> ''''
      \<and> EqualFold (val ''MNT_SIGNATURE'') (md5 (concat (map val paw_signed_fields) @ PH_integrityKey h)))"

lemma fold_value_trimmed [simp]: "TrimSpace (fold_value form k) = fold_value form k"
  by (induction form k rule: fold_value.induct) auto

lemma payAnyWayFormValue_trimmed [simp]: "TrimSpace (payAnyWayFormValue form k) = payAnyWayFormValue form k"
  by (simp add: payAnyWayFormValue_def Let_def)

lemma paw_reject_None: "paw_reject h md5 form = None \<longleftrightarrow> paw_signed h md5 (payAnyWayFormValue form)"
proof -
  let ?v = "payAnyWayFormValue form"
  have s: "payAnyWayWebhookSignature md5 (?v ''MNT_ID'') (?v ''MNT_TRANSACTION_ID'') (?v ''MNT_OPERATION_ID'')
      (?v ''MNT_AMOUNT'') (?v ''MNT_CURRENCY_CODE'') (?v ''MNT_SUBSCRIBER_ID'') (?v ''MNT_TEST_MODE'')
      (PH_integrityKey h) = md5 (concat (map ?v paw_signed_fields) @ PH_integrityKey h)"
    by (simp add: payAnyWayWebhookSignature_def paw_signed_fields_def)
  show ?thesis unfolding paw_reject_def Let_def s paw_signed_def by (auto simp: paw_signed_fields_def)
qed

lemma paw_payment_nonempty: "paw_signed h md5 (payAnyWayFormValue form) \<Longrightarrow> paw_payment form \<noteq> ''''"
  by (simp add: paw_signed_def paw_payment_def paw_signed_fields_def)

lemma paw_ServeHTTP_signed:
  assumes "meth \<in> {''POST'', ''GET''}" and "paw_signed h md5 (payAnyWayFormValue form)"
    and "paw_merchant form \<noteq> ''''"
  shows "paw_ServeHTTP ops e h md5 parse meth (Inr form) w =
    paw_capture ops e h md5 parse form (paw_merchant form) (paw_payment form)
      (logWebhookAttempt e h form ''received'' '''' w)"
proof -
  have "paw_reject h md5 form = None" using assms(2) by (simp add: paw_reject_None)
  then show ?thesis using assms(1,3) paw_payment_nonempty [OF assms(2)]
    by (auto simp: paw_ServeHTTP_def Let_def)
qed

lemma paw_stored_log [simp]: "paw_stored ops m p (logWebhookAttempt e h form st why w) = paw_stored ops m p w"
  by (simp add: paw_stored_def)

lemma announced_log [simp]:
  "announced ops b m p k st resp code (logWebhookAttempt e h form st' why w) w' = announced ops b m p k st resp code w w'"
  by (simp add: announced_def)

text \<open>The same notification for another payment: the names of the merchant and the payment replaced.\<close>

definition redirected :: "gostring \<Rightarrow> gostring \<Rightarrow> url_values \<Rightarrow> url_values" where
  "redirected m p form = (''merchant_id'', [m]) # (''payment_id'', [p])
     # filter (\<lambda>kv. \<not> EqualFold (fst kv) ''merchant_id'' \<and> \<not> EqualFold (fst kv) ''payment_id'') form"

lemma redirected_other:
  assumes "\<not> EqualFold ''merchant_id'' k" and "\<not> EqualFold ''payment_id'' k"
  shows "payAnyWayFormValue (redirected m p form) k = payAnyWayFormValue form k"
proof -
  let ?keep = "\<lambda>kv. \<not> EqualFold (fst kv) ''merchant_id'' \<and> \<not> EqualFold (fst kv) ''payment_id''"
  have keep: "?keep (k', vs)" if "EqualFold k' k" for k' and vs :: "gostring list"
    using that assms unfolding EqualFold_def fst_conv by argo
  have g: "map_of (filter ?keep form) k = map_of form k" using keep [of k] by (induction form) auto
  have f: "fold_value (filter ?keep form) k = fold_value form k"
  proof (induction form)
    case (Cons kv form)
    then show ?case using keep [of "fst kv" "snd kv"] by (cases kv) auto
  qed simp
  have "k \<noteq> ''merchant_id''" "k \<noteq> ''payment_id''" using assms by auto
  then show ?thesis using assms g f by (simp add: payAnyWayFormValue_def redirected_def Values_Get_def Let_def)
qed

lemma redirected_names:
  "TrimSpace m \<noteq> '''' \<Longrightarrow> payAnyWayFormValue (redirected m p form) ''merchant_id'' = TrimSpace m"
  "TrimSpace p \<noteq> '''' \<Longrightarrow> payAnyWayFormValue (redirected m p form) ''payment_id'' = TrimSpace p"
  by (simp_all add: payAnyWayFormValue_def redirected_def Values_Get_def)

lemma signed_names: "k \<in> set (''MNT_SIGNATURE'' # paw_signed_fields) \<Longrightarrow>
    \<not> EqualFold ''merchant_id'' k \<and> \<not> EqualFold ''payment_id'' k"
proof -
  have "list_all (\<lambda>k. \<not> EqualFold ''merchant_id'' k \<and> \<not> EqualFold ''payment_id'' k)
      (''MNT_SIGNATURE'' # paw_signed_fields)" by code_simp
  then show "k \<in> set (''MNT_SIGNATURE'' # paw_signed_fields) \<Longrightarrow> ?thesis" unfolding list_all_iff by blast
qed

lemma paw_signed_cong:
  "(\<And>k. k \<in> set (''MNT_SIGNATURE'' # paw_signed_fields) \<Longrightarrow> v k = v' k) \<Longrightarrow> paw_signed h md5 v = paw_signed h md5 v'"
  by (simp add: paw_signed_def paw_signed_fields_def)

subsection \<open>Properties\<close>

text \<open>
  C30: A PayAnyWay notification takes effect exactly if it is signed. It must come by POST or
  GET with a readable form, all mandatory fields, the shop's account and an integrity code that
  is the MD5 of the seven signed fields and the shop's secret, and it must name a merchant; then the payment is
  saved as \<open>CAPTURED\<close> without an error, announced once if the save worked, and the amount kept
  with it is the one stored before. Any other request changes neither the store nor anything
  outside.
\<close>

theorem payanyway_webhook_signed:
  assumes "paw_ServeHTTP ops e h md5 parse meth form w = (reply, w')"
  shows "if meth \<in> {''POST'', ''GET''} \<and> (\<exists>f. form = Inr f \<and> paw_signed h md5 (payAnyWayFormValue f) \<and> paw_merchant f \<noteq> '''')
    then \<exists>f resp. form = Inr f
      \<and> announced ops (PH_notifies h) (paw_merchant f) (paw_payment f) (Resp_IdempotencyKey resp) StatusCaptured
          resp (fst reply) w w'
      \<and> Resp_Error resp = None
      \<and> (\<forall>old. paw_stored ops (paw_merchant f) (paw_payment f) w = Some old \<longrightarrow>
           RInfo_Amount (Resp_PaymentInfo resp) = RInfo_Amount (Resp_PaymentInfo old))
    else w_store w' = w_store w \<and> w_notes w' = w_notes w \<and> w_calls w' = w_calls w"
proof (cases "meth \<in> {''POST'', ''GET''} \<and>
    (\<exists>f. form = Inr f \<and> paw_signed h md5 (payAnyWayFormValue f) \<and> paw_merchant f \<noteq> '''')")
  case True
  then obtain f where f: "form = Inr f" "paw_signed h md5 (payAnyWayFormValue f)" "paw_merchant f \<noteq> ''''" by auto
  have "paw_capture ops e h md5 parse f (paw_merchant f) (paw_payment f)
      (logWebhookAttempt e h f ''received'' '''' w) = (reply, w')"
    using assms True f by (simp add: paw_ServeHTTP_signed)
  from paw_capture_effect [OF this] True f(1) show ?thesis by simp
next
  case False
  have "w_store w' = w_store w \<and> w_notes w' = w_notes w \<and> w_calls w' = w_calls w"
  proof (cases form)
    case (Inr f)
    have no: "meth \<notin> {''POST'', ''GET''} \<or> \<not> paw_signed h md5 (payAnyWayFormValue f) \<or> paw_merchant f = ''''"
      using False Inr by blast
    show ?thesis using assms no Inr paw_reject_None [of h md5 f]
      by (auto simp: paw_ServeHTTP_def Let_def split: if_splits option.splits)
  qed (use assms in \<open>simp add: paw_ServeHTTP_def split: if_splits\<close>)
  with False show ?thesis by (simp only: if_False)
qed

text \<open>
  C31: The signature of PayAnyWay does not cover whose payment it is for. Whoever holds one
  signed notification, say for a payment of one ruble of his own, has any payment of any
  merchant captured by replacing the fields \<open>merchant_id\<close> and \<open>payment_id\<close>: the payment keeps
  its own stored amount, whatever amount was paid.
\<close>

theorem payanyway_redirected_capture:
  assumes "paw_signed h md5 (payAnyWayFormValue form)" and "TrimSpace m \<noteq> ''''" and "TrimSpace p \<noteq> ''''"
    and "paw_ServeHTTP ops e h md5 parse ''POST'' (Inr (redirected m p form)) w = (reply, w')"
  shows "\<exists>resp. announced ops (PH_notifies h) (TrimSpace m) (TrimSpace p) (Resp_IdempotencyKey resp)
        StatusCaptured resp (fst reply) w w'
    \<and> Resp_Error resp = None
    \<and> (\<forall>old. paw_stored ops (TrimSpace m) (TrimSpace p) w = Some old \<longrightarrow>
         RInfo_Amount (Resp_PaymentInfo resp) = RInfo_Amount (Resp_PaymentInfo old))"
proof -
  let ?f = "redirected m p form"
  have "paw_signed h md5 (payAnyWayFormValue ?f) = paw_signed h md5 (payAnyWayFormValue form)"
    by (rule paw_signed_cong) (use signed_names redirected_other in blast)
  then have s: "paw_signed h md5 (payAnyWayFormValue ?f)" using assms(1) by simp
  have n: "paw_merchant ?f = TrimSpace m" "paw_payment ?f = TrimSpace p"
    using assms(2,3) by (simp_all add: paw_merchant_def paw_payment_def redirected_names)
  have "paw_ServeHTTP ops e h md5 parse ''POST'' (Inr ?f) w = paw_capture ops e h md5 parse ?f (paw_merchant ?f)
      (paw_payment ?f) (logWebhookAttempt e h ?f ''received'' '''' w)"
    by (rule paw_ServeHTTP_signed [OF _ s]) (use n assms(2) in auto)
  then have "paw_capture ops e h md5 parse ?f (TrimSpace m) (TrimSpace p)
      (logWebhookAttempt e h ?f ''received'' '''' w) = (reply, w')"
    using assms(4) unfolding n by simp
  from paw_capture_effect [OF this] show ?thesis by simp
qed

text \<open>A signed notification of shop \<open>s\<close> for one ruble; the digest of the example is the identity.\<close>

definition paid_form :: url_values where
  "paid_form = [(''MNT_ID'', [''s'']), (''MNT_TRANSACTION_ID'', [''1'']), (''MNT_OPERATION_ID'', [''2'']),
     (''MNT_AMOUNT'', [''1.00'']), (''MNT_CURRENCY_CODE'', [''RUB'']), (''MNT_SUBSCRIBER_ID'', [''m1'']),
     (''MNT_SIGNATURE'', [''s121.00rubm1key''])]"

definition paid_handler :: PayAnyWayWebhookHandler where
  "paid_handler = \<lparr>PH_notifies = True, PH_mntID = ''s'', PH_integrityKey = ''key'', PH_testMode = True\<rparr>"

lemma paid_signed: "paw_signed paid_handler (\<lambda>s. s) (payAnyWayFormValue paid_form)"
  unfolding paid_handler_def by code_simp

lemma paid_merchant: "paw_merchant paid_form = ''m1''" "paw_payment paid_form = ''1''"
  by code_simp+

theorem payanyway_webhook_signed_witness:
  "\<exists>resp code. announced mem_ops True ''m1'' ''1'' (Resp_IdempotencyKey resp) StatusCaptured resp code sample_world
      (snd (paw_ServeHTTP mem_ops sample_env paid_handler (\<lambda>s. s) (\<lambda>_. (Fin 1, None)) ''POST'' (Inr paid_form)
        sample_world))"
  using payanyway_webhook_signed [OF surjective_pairing [of "paw_ServeHTTP mem_ops sample_env paid_handler
      (\<lambda>s. s) (\<lambda>_. (Fin 1, None)) ''POST'' (Inr paid_form) sample_world"]] paid_signed paid_merchant
  by (auto simp: paid_handler_def)

theorem payanyway_redirected_capture_witness:
  "\<exists>resp code. announced mem_ops True ''victim'' ''p9'' (Resp_IdempotencyKey resp) StatusCaptured resp code
      sample_world (snd (paw_ServeHTTP mem_ops sample_env paid_handler (\<lambda>s. s) (\<lambda>_. (Fin 1, None)) ''POST''
        (Inr (redirected ''victim'' ''p9'' paid_form)) sample_world))"
proof -
  have "TrimSpace ''victim'' = ''victim''" "TrimSpace ''p9'' = ''p9''" by (simp_all add: go_eval)
  with payanyway_redirected_capture [OF paid_signed _ _ surjective_pairing [of "paw_ServeHTTP mem_ops sample_env
      paid_handler (\<lambda>s. s) (\<lambda>_. (Fin 1, None)) ''POST'' (Inr (redirected ''victim'' ''p9'' paid_form))
      sample_world"]]
  show ?thesis by (auto simp: paid_handler_def)
qed

end
