(* ===== verification/Webhook_Sandbox.thy ===== *)
theory Webhook_Sandbox
  imports Webhook_Payanyway
begin

section \<open>The sandbox endpoints (\<open>internal/httpapi/webhooks/digital_ruble_sandbox_handler.go\<close>,
  \<open>digital_ruble_soap_handler.go\<close>, \<open>merchant_demo_handler.go\<close>)\<close>

text \<open>
  The endpoint that plays the customer who scans a digital ruble QR code, the SOAP endpoint of
  the platform, and the demo receiver of notifications. HMAC, the number parser and \<open>time.Parse\<close>
  (by layout; \<open>None\<close> for an error) are parameters. The SOAP body is given as its length
  and its document, or the error of reading it; a reply is a JSON or an XML document.
\<close>

subsection \<open>Scanning a QR code\<close>

record digitalRubleSandboxRequest =
  Scan_MerchantID :: gostring
  Scan_PaymentID :: gostring
  Scan_QRID :: gostring
  Scan_PayerWalletID :: gostring
  Scan_Result :: gostring
  Scan_Reason :: gostring

definition zero_scan :: digitalRubleSandboxRequest where
  "zero_scan = \<lparr>Scan_MerchantID = '''', Scan_PaymentID = '''', Scan_QRID = '''', Scan_PayerWalletID = '''',
     Scan_Result = '''', Scan_Reason = ''''\<rparr>"

definition tab_digitalRubleSandboxRequest :: "digitalRubleSandboxRequest jfields" where
  "tab_digitalRubleSandboxRequest =
     [(''merchant_id'', dec_str Scan_MerchantID_update), (''payment_id'', dec_str Scan_PaymentID_update),
      (''qr_id'', dec_str Scan_QRID_update), (''payer_wallet_id'', dec_str Scan_PayerWalletID_update),
      (''result'', dec_str Scan_Result_update), (''reason'', dec_str Scan_Reason_update)]"

definition normalize_scan :: "digitalRubleSandboxRequest \<Rightarrow> digitalRubleSandboxRequest" where
  "normalize_scan req =
     \<lparr>Scan_MerchantID = TrimSpace (Scan_MerchantID req), Scan_PaymentID = TrimSpace (Scan_PaymentID req),
      Scan_QRID = TrimSpace (Scan_QRID req), Scan_PayerWalletID = TrimSpace (Scan_PayerWalletID req),
      Scan_Result = (let result = ToLower (TrimSpace (Scan_Result req)) in
        if result = '''' then ''captured'' else result),
      Scan_Reason = TrimSpace (Scan_Reason req)\<rparr>"

text \<open>Status, provider status, error code and message.\<close>

type_synonym scan_outcome = "gostring \<times> gostring \<times> gostring \<times> gostring"

definition digitalRubleSandboxResult :: "gostring \<Rightarrow> gostring \<Rightarrow> scan_outcome" where
  "digitalRubleSandboxResult result reason =
     (let r = ToLower (TrimSpace result); say = (\<lambda>text. if reason = '''' then text else reason) in
      if r \<in> {''captured'', ''capture'', ''success'', ''settled'', ''paid''} then (StatusCaptured, ''settled'', '''', '''')
      else if r \<in> {''declined'', ''reject'', ''rejected''} then
        (StatusDeclined, ''participant_rejected'', ErrorDigitalRubleDeclined,
         say ''digital ruble payment rejected by participant bank emulator'')
      else if r \<in> {''failed'', ''error''} then
        (StatusFailed, ''technical_error'', ErrorDigitalRubleTechnical,
         say ''digital ruble participant bank emulator returned technical error'')
      else if r \<in> {''expired'', ''cancelled'', ''canceled''} then
        (StatusCancelled, ''qr_expired'', ErrorDigitalRubleQRExpired,
         say ''digital ruble QR code expired before confirmation'')
      else (StatusCaptured, ''settled'', '''', ''''))"

text \<open>The expiry of a QR code: \<open>None\<close> if there is none, and then the clock is not read.\<close>

definition RFC3339Nano :: gostring where "RFC3339Nano = ''2006-01-02T15:04:05.999999999Z07:00''"

definition qr_expiry :: "time_parser \<Rightarrow> gostring \<Rightarrow> gotime option" where
  "qr_expiry parseTime v = (let v = TrimSpace v in
     if v = '''' then None
     else (case parseTime RFC3339 v of Some t \<Rightarrow> Some t | None \<Rightarrow> parseTime RFC3339Nano v))"

definition qrExpired :: "env \<Rightarrow> time_parser \<Rightarrow> gostring \<Rightarrow> 's world \<Rightarrow> bool \<times> 's world" where
  "qrExpired e parseTime v w = (case qr_expiry parseTime v of
     None \<Rightarrow> (False, w) | Some t \<Rightarrow> (t < now e w, tick w))"

definition digitalRublePayerWalletID :: "gostring \<Rightarrow> PaymentResponse \<Rightarrow> gostring" where
  "digitalRublePayerWalletID v resp = (let c = RInfo_CustomerData (Resp_PaymentInfo resp) in
     if TrimSpace v \<noteq> '''' then TrimSpace v
     else if TrimSpace (Cust_DigitalRubleWalletID c) \<noteq> '''' then TrimSpace (Cust_DigitalRubleWalletID c)
     else if TrimSpace (Cust_DigitalRubleIdentifier c) \<noteq> '''' then TrimSpace (Cust_DigitalRubleIdentifier c)
     else TrimSpace (Cust_DigitalWalletID c))"

text \<open>The clock is read for a message id if none is stored.\<close>

definition checkDigitalRubleSmartContract :: "env \<Rightarrow> hmac \<Rightarrow> float_parser \<Rightarrow> PaymentResponse \<Rightarrow> gostring \<Rightarrow>
    's world \<Rightarrow> scan_outcome \<times> PaymentResponse \<times> 's world" where
  "checkDigitalRubleSmartContract e hmac parse resp payerWalletID w =
     (let td = Resp_TransactionDetails resp; payerWalletID = digitalRublePayerWalletID payerWalletID resp;
          messageID = TD_PlatformMessageID td; t = now e w;
          w = (if messageID = '''' then tick w else w);
          check = PaymentCheckFromResponse resp payerWalletID messageID t;
          failed = (\<lambda>st err. ((StatusFailed, st, ErrorDigitalRubleSOAP, err),
            resp\<lparr>Resp_TransactionDetails := td\<lparr>TD_SmartContractResult := ''ERROR'',
              TD_SmartContractReason := err\<rparr>\<rparr>, w)) in
      case BuildPaymentCheckSOAP hmac check t of
        Inl err \<Rightarrow> failed ''soap_message_build_failed'' err
      | Inr soapRequest \<Rightarrow> (case ProcessPaymentCheckSOAP hmac parse soapRequest t of
          Inl err \<Rightarrow> failed ''soap_message_processing_failed'' err
        | Inr (res, _) \<Rightarrow>
            (if \<not> Res_Allowed res
             then (StatusDeclined, ''smart_contract_rejected'', ErrorDigitalRubleMarkFailed, Res_Reason res)
             else (StatusCaptured, ''settled'', '''', ''''),
             resp\<lparr>Resp_TransactionDetails := td\<lparr>TD_MoneyMark := Res_MoneyMark res,
               TD_SmartContractID := Res_SmartContractID res, TD_SmartContractResult := Res_Result res,
               TD_SmartContractReason := Res_Reason res, TD_PlatformMessageID := Res_MessageID res,
               TD_PlatformTransport := PlatformTransportSOAP,
               TD_PlatformSignatureType := SignatureTypeHMAC\<rparr>\<rparr>, w)))"

definition writeDigitalRubleSandboxError :: "int \<Rightarrow> gostring \<Rightarrow> gostring \<Rightarrow> http_reply" where
  "writeDigitalRubleSandboxError status code message =
     reply_json status (enc_GatewayError (NewGatewayError code message))"

text \<open>The outcome of the scan, from the requested result, the expiry of the QR code and the contract.\<close>

definition scan_outcome_of :: "env \<Rightarrow> hmac \<Rightarrow> float_parser \<Rightarrow> time_parser \<Rightarrow> digitalRubleSandboxRequest \<Rightarrow>
    PaymentResponse \<Rightarrow> 's world \<Rightarrow> scan_outcome \<times> PaymentResponse \<times> 's world" where
  "scan_outcome_of e hmac parse parseTime req resp w =
     (case digitalRubleSandboxResult (Scan_Result req) (Scan_Reason req) of
       (status, providerStatus, errCode, errMsg) \<Rightarrow>
         (case qrExpired e parseTime (TD_QRExpiresAt (Resp_TransactionDetails resp)) w of
           (expired, w) \<Rightarrow>
             if expired \<and> status = StatusCaptured then
               ((StatusCancelled, ''qr_expired'', ErrorDigitalRubleQRExpired,
                 ''digital ruble QR code expired before confirmation''), resp, w)
             else if status = StatusCaptured \<and> errCode = '''' then
               checkDigitalRubleSmartContract e hmac parse resp (Scan_PayerWalletID req) w
             else ((status, providerStatus, errCode, errMsg), resp, w)))"

definition scan_apply :: "scan_outcome \<Rightarrow> gotime \<Rightarrow> PaymentResponse \<Rightarrow> PaymentResponse" where
  "scan_apply = (\<lambda>(status, providerStatus, errCode, errMsg) updatedAt resp.
     resp\<lparr>Resp_CurrentStatus := status,
       Resp_PaymentInfo := (Resp_PaymentInfo resp)\<lparr>RInfo_UpdatedAt := updatedAt\<rparr>,
       Resp_TransactionDetails := (Resp_TransactionDetails resp)\<lparr>TD_ProviderStatus := providerStatus,
         TD_PaymentURL := '''', TD_FraudCheckResult := ''PASSED'',
         TD_ProviderErrorCode := (if errCode \<noteq> '''' then providerStatus else ''''),
         TD_ProviderErrorMessage := (if errCode \<noteq> '''' then errMsg else '''')\<rparr>,
       Resp_Error := (if errCode \<noteq> '''' then Some (NewGatewayError errCode errMsg) else None)\<rparr>)"

definition scan_logged :: "digitalRubleSandboxRequest \<Rightarrow> gostring \<Rightarrow> PaymentResponse \<Rightarrow> gotime \<Rightarrow> PaymentEvent" where
  "scan_logged req providerStatus resp =
     (let failed = (Resp_Error resp \<noteq> None); td = Resp_TransactionDetails resp in
      webhook_event (if failed then EventPaymentFailed else EventAdapterResultReceived)
        (if failed then LogLevelWarn else LogLevelInfo) ''adapter'' (Resp_MerchantID resp) (Resp_ID resp)
        (Resp_IdempotencyKey resp) (Resp_CurrentStatus resp)
        (if failed then ''Digital ruble sandbox scan processed with failure''
         else ''Digital ruble sandbox scan processed'')
        [(''provider'', ''digital_ruble''), (''sandbox_result'', Scan_Result req), (''qr_id'', TD_QRID td),
         (''provider_status'', providerStatus), (''money_mark'', TD_MoneyMark td),
         (''smart_contract'', TD_SmartContractResult td)])"

text \<open>From the outcome on.\<close>

definition scan_finish :: "'s store_ops \<Rightarrow> env \<Rightarrow> bool \<Rightarrow> digitalRubleSandboxRequest \<Rightarrow>
    scan_outcome \<times> PaymentResponse \<times> 's world \<Rightarrow> http_reply \<times> 's world" where
  "scan_finish ops e notifies req = (\<lambda>(out, resp, w).
     (let resp = Sanitized (scan_apply out (now e w) resp) in
      case webhook_save ops e (Resp_MerchantID resp) (Resp_ID resp) (Resp_IdempotencyKey resp)
          (Resp_CurrentStatus resp) resp (tick w) of
        (Some err, w) \<Rightarrow> (writeDigitalRubleSandboxError 500 ErrorPaymentStorage err, w)
      | (None, w) \<Rightarrow>
          (reply_json 200 (enc_PaymentResponse resp),
           notify_merchant e notifies
             (\<lambda>err. webhook_event EventNotificationFailed LogLevelWarn ''notifications'' (Resp_MerchantID resp)
               (Resp_ID resp) (Resp_IdempotencyKey resp) (Resp_CurrentStatus resp)
               ''Merchant notification after digital ruble sandbox scan failed''
               [(''provider'', ''digital_ruble''), (''error_message'', err)])
             resp (log_now e (scan_logged req (fst (snd out)) resp) w))))"

text \<open>The stored payment a scan is for, or the error reply.\<close>

definition scanned_payment :: "'s store_ops \<Rightarrow> digitalRubleSandboxRequest \<Rightarrow> 's \<Rightarrow>
    http_reply + PaymentResponse" where
  "scanned_payment ops req s =
     (if Scan_MerchantID req = '''' \<or> Scan_PaymentID req = ''''
      then Inl (writeDigitalRubleSandboxError 400 ErrorBadRequest ''merchant_id and payment_id are required'')
      else (case op_GetByPaymentID ops (Scan_MerchantID req) (Scan_PaymentID req) s of
        Inl err \<Rightarrow> Inl (writeDigitalRubleSandboxError 500 ErrorPaymentStorage err)
      | Inr None \<Rightarrow> Inl (writeDigitalRubleSandboxError 404 ErrorPaymentNotFound ''payment not found'')
      | Inr (Some (_, payload)) \<Rightarrow> (case UnmarshalResponse payload of
          None \<Rightarrow> Inl (writeDigitalRubleSandboxError 500 ErrorInvalidStoredResponse ''json: cannot unmarshal'')
        | Some resp \<Rightarrow>
            (let td = Resp_TransactionDetails resp in
             if ToUpper (TrimSpace (TD_PaymentSystem td)) \<noteq> ''DIGITAL_RUBLE''
             then Inl (writeDigitalRubleSandboxError 400 ErrorBadRequest ''payment is not a digital ruble payment'')
             else if Scan_QRID req \<noteq> '''' \<and> TD_QRID td \<noteq> '''' \<and> Scan_QRID req \<noteq> TD_QRID td
             then Inl (writeDigitalRubleSandboxError 400 ErrorBadRequest ''qr_id does not match payment'')
             else Inr resp))))"

definition scan_ServeHTTP :: "'s store_ops \<Rightarrow> env \<Rightarrow> bool \<Rightarrow> hmac \<Rightarrow> float_parser \<Rightarrow> time_parser \<Rightarrow>
    http_request \<Rightarrow> 's world \<Rightarrow> http_reply \<times> 's world" where
  "scan_ServeHTTP ops e notifies hmac parse parseTime r w =
     (if Hr_Method r \<noteq> ''POST''
      then (writeDigitalRubleSandboxError 405 ErrorMethodNotAllowed ''use POST'', w)
      else (case decode_body tab_digitalRubleSandboxRequest zero_scan r of
        None \<Rightarrow> (writeDigitalRubleSandboxError 400 ErrorBadRequest ''invalid json'', w)
      | Some req \<Rightarrow> (case scanned_payment ops (normalize_scan req) (w_store w) of
          Inl reply \<Rightarrow> (reply, w)
        | Inr resp \<Rightarrow> scan_finish ops e notifies (normalize_scan req)
            (scan_outcome_of e hmac parse parseTime (normalize_scan req) resp w))))"

subsection \<open>The SOAP endpoint and the demo receiver\<close>

definition soap_ServeHTTP :: "hmac \<Rightarrow> float_parser \<Rightarrow> gotime \<Rightarrow> gostring \<Rightarrow> (int \<times> xtext) result \<Rightarrow>
    http_reply + (int \<times> xtext)" where
  "soap_ServeHTTP hmac parse clock meth body =
     (let fail = (\<lambda>status code message. Inl (reply_json status (enc_GatewayError (NewGatewayError code message)))) in
      if meth \<noteq> ''POST'' then fail 405 ErrorMethodNotAllowed ''use POST''
      else (case body of
        Inl err \<Rightarrow> fail 400 ErrorDigitalRubleSOAP err
      | Inr (len, doc) \<Rightarrow>
          if 128 * 1024 < len then fail 400 ErrorDigitalRubleSOAP ''http: request body too large''
          else (case ProcessPaymentCheckSOAP hmac parse doc clock of
            Inl err \<Rightarrow> fail 400 ErrorDigitalRubleSOAP err
          | Inr (_, response) \<Rightarrow> Inr (200, response))))"

record demo_payload =
  Demo_Event :: gostring
  Demo_PaymentID :: gostring
  Demo_MerchantID :: gostring
  Demo_IdempotencyKey :: gostring
  Demo_Status :: gostring

definition tab_demo_payload :: "demo_payload jfields" where
  "tab_demo_payload = [(''event'', dec_str Demo_Event_update), (''payment_id'', dec_str Demo_PaymentID_update),
     (''merchant_id'', dec_str Demo_MerchantID_update),
     (''idempotency_key'', dec_str Demo_IdempotencyKey_update), (''status'', dec_str Demo_Status_update)]"

definition demo_ServeHTTP :: "env \<Rightarrow> http_request \<Rightarrow> 's world \<Rightarrow> http_reply \<times> 's world" where
  "demo_ServeHTTP e r w =
     (if Hr_Method r \<noteq> ''POST'' then (http_Error ''method not allowed'' 405, w)
      else (case decode_body tab_demo_payload \<lparr>Demo_Event = '''', Demo_PaymentID = '''', Demo_MerchantID = '''',
          Demo_IdempotencyKey = '''', Demo_Status = ''''\<rparr> r of
        None \<Rightarrow> (http_Error ''invalid json'' 400, w)
      | Some p \<Rightarrow> (reply_json 200 (JObj (emit_str ''status'' ''ok'')),
          log_now e (webhook_event EventMerchantWebhookReceived LogLevelInfo ''api_gateway'' (Demo_MerchantID p)
            (Demo_PaymentID p) (Demo_IdempotencyKey p) (Demo_Status p)
            ''Demo merchant webhook received notification from payment gateway''
            [(''merchant_event'', Demo_Event p)]) w)))"

subsection \<open>Facts\<close>

text \<open>The results that reject a payment; every other result captures it.\<close>

definition rejecting_results :: "gostring list" where
  "rejecting_results = [''declined'', ''reject'', ''rejected'', ''failed'', ''error'', ''expired'', ''cancelled'',
     ''canceled'']"

lemma digitalRubleSandboxResult_cases:
  assumes "digitalRubleSandboxResult result reason = (status, providerStatus, errCode, errMsg)"
  shows "if ToLower (TrimSpace result) \<in> set rejecting_results
    then status \<in> {StatusDeclined, StatusFailed, StatusCancelled} \<and> errCode \<noteq> ''''
    else status = StatusCaptured \<and> errCode = ''''"
  using assms by (auto simp: digitalRubleSandboxResult_def rejecting_results_def Let_def lit split: if_splits)

text \<open>The check that is made for a stored payment and the wallet of a scan.\<close>

definition scan_check :: "PaymentResponse \<Rightarrow> gostring \<Rightarrow> gotime \<Rightarrow> PaymentCheck" where
  "scan_check resp payerWalletID t = PaymentCheckFromResponse resp
     (digitalRublePayerWalletID payerWalletID resp) (TD_PlatformMessageID (Resp_TransactionDetails resp)) t"

definition same_payment :: "PaymentResponse \<Rightarrow> PaymentResponse \<Rightarrow> bool" where
  "same_payment resp old = (Resp_ID resp = Resp_ID old \<and> Resp_MerchantID resp = Resp_MerchantID old
     \<and> Resp_IdempotencyKey resp = Resp_IdempotencyKey old)"

lemma contract_verdict:
  assumes "plain_check (scan_check resp wallet (now e w))"
    and "parse (FormatFloat2 (Amount_Value (RInfo_Amount (Resp_PaymentInfo resp)))) = (a, None)"
    and "checkDigitalRubleSmartContract e hmac parse resp wallet w = (out, resp', w')"
    and "n = normalizePaymentCheck (scan_check resp wallet (now e w)) (now e w)"
  shows "(if a \<le> walletMarkedBalance (Chk_WalletID n) (Chk_MoneyMark n)
      then fst out = StatusCaptured \<and> fst (snd (snd out)) = ''''
      else fst out = StatusDeclined \<and> fst (snd (snd out)) = ErrorDigitalRubleMarkFailed)
    \<and> w_store w' = w_store w \<and> w_notes w' = w_notes w \<and> w_calls w' = w_calls w \<and> same_payment resp' resp"
proof -
  let ?c = "scan_check resp wallet (now e w)"
  have amt: "parse (FormatFloat2 (Chk_Amount ?c)) = (a, None)"
    using assms(2) by (simp add: scan_check_def PaymentCheckFromResponse_def Let_def)
  obtain body reply where run: "BuildPaymentCheckSOAP hmac ?c (now e w) = Inr body"
    "ProcessPaymentCheckSOAP hmac parse body (now e w) = Inr (CheckMarkedMoney (n\<lparr>Chk_Amount := a\<rparr>) (now e w), reply)"
    using soap_check_processed [where parse = parse and a = a and now = "now e w" and now' = "now e w"
      and hmac = hmac, OF assms(1) amt refl] unfolding assms(4) by blast
  have n: "Chk_MoneyMark n \<noteq> ''''" "TrimSpace (Chk_WalletID n) = Chk_WalletID n"
    unfolding assms(4) by (auto simp: normalizePaymentCheck_def Let_def RequiredMoneyMark_def lit)
  have verdict: "Res_Allowed (CheckMarkedMoney (n\<lparr>Chk_Amount := a\<rparr>) (now e w))
      \<longleftrightarrow> a \<le> walletMarkedBalance (Chk_WalletID n) (Chk_MoneyMark n)"
    using n by (simp add: CheckMarkedMoney_def Let_def)
  show ?thesis
    using assms(3) run verdict unfolding checkDigitalRubleSmartContract_def Let_def scan_check_def [symmetric]
    by (auto simp: same_payment_def split: if_splits)
qed

lemma scan_outcome_verdict:
  assumes "scan_outcome_of e hmac parse parseTime req old w = (out, resp, w')"
    and "qrExpired e parseTime (TD_QRExpiresAt (Resp_TransactionDetails old)) w = (expired, w0)"
    and "plain_check (scan_check old (Scan_PayerWalletID req) (now e w0))"
    and "parse (FormatFloat2 (Amount_Value (RInfo_Amount (Resp_PaymentInfo old)))) = (a, None)"
    and "n = normalizePaymentCheck (scan_check old (Scan_PayerWalletID req) (now e w0)) (now e w0)"
  shows "(fst out = StatusCaptured \<longleftrightarrow> ToLower (TrimSpace (Scan_Result req)) \<notin> set rejecting_results
        \<and> \<not> expired \<and> a \<le> walletMarkedBalance (Chk_WalletID n) (Chk_MoneyMark n))
    \<and> (fst (snd (snd out)) = '''' \<longleftrightarrow> fst out = StatusCaptured)
    \<and> w_store w' = w_store w \<and> w_notes w' = w_notes w \<and> w_calls w' = w_calls w \<and> same_payment resp old"
proof -
  obtain status prov code msg where res:
    "digitalRubleSandboxResult (Scan_Result req) (Scan_Reason req) = (status, prov, code, msg)" by (cases rule: prod_cases4)
  note cs = digitalRubleSandboxResult_cases [OF res]
  have w0: "w_store w0 = w_store w" "w_notes w0 = w_notes w" "w_calls w0 = w_calls w"
    using assms(2) by (auto simp: qrExpired_def split: option.splits)
  have self: "same_payment old old" by (simp add: same_payment_def)
  show ?thesis
  proof (cases "status = StatusCaptured \<and> \<not> expired")
    case True
    then have "checkDigitalRubleSmartContract e hmac parse old (Scan_PayerWalletID req) w0 = (out, resp, w')"
      using assms(1,2) cs by (auto simp: scan_outcome_of_def res lit split: if_splits)
    from contract_verdict [OF assms(3,4) this assms(5)] True cs w0 show ?thesis
      by (auto simp: lit split: if_splits)
  next
    case False
    have same: "resp = old \<and> w' = w0 \<and> (if expired \<and> status = StatusCaptured
        then out = (StatusCancelled, ''qr_expired'', ErrorDigitalRubleQRExpired,
          ''digital ruble QR code expired before confirmation'') else out = (status, prov, code, msg))"
      using assms(1) False by (auto simp: scan_outcome_of_def res assms(2) split: if_splits)
    have ne: "StatusCancelled \<noteq> StatusCaptured" "StatusDeclined \<noteq> StatusCaptured" "StatusFailed \<noteq> StatusCaptured"
      "ErrorDigitalRubleQRExpired \<noteq> ''''" by (simp_all add: lit)
    show ?thesis
    proof (cases "expired \<and> status = StatusCaptured")
      case True
      with same ne w0 self show ?thesis by simp
    next
      case no: False
      with False have "status \<noteq> StatusCaptured" by blast
      with cs have "ToLower (TrimSpace (Scan_Result req)) \<in> set rejecting_results" "code \<noteq> ''''"
        by (auto split: if_splits)
      with no same w0 self \<open>status \<noteq> StatusCaptured\<close> show ?thesis by simp
    qed
  qed
qed

lemma scan_apply_simps [simp]:
  "same_payment (Sanitized (scan_apply out t r)) r"
  "Resp_CurrentStatus (scan_apply out t r) = fst out"
  "Resp_Error (scan_apply out t r) = None \<longleftrightarrow> fst (snd (snd out)) = ''''"
  by (cases out; simp add: scan_apply_def same_payment_def)+

lemma scan_finish_effect:
  assumes "scan_finish ops e notifies req (out, r, w0) = (reply, w')"
    and "w_store w0 = w_store w" "w_notes w0 = w_notes w" "w_calls w0 = w_calls w" and "same_payment r old"
  shows "\<exists>resp. announced ops notifies (Resp_MerchantID old) (Resp_ID old) (Resp_IdempotencyKey old)
      (Resp_CurrentStatus resp) resp (fst reply) w w'
    \<and> Resp_CurrentStatus resp = fst out \<and> (Resp_Error resp = None \<longleftrightarrow> fst (snd (snd out)) = '''')"
proof -
  define resp where "resp = Sanitized (scan_apply out (now e w0) r)"
  obtain err w1 where save: "webhook_save ops e (Resp_MerchantID resp) (Resp_ID resp) (Resp_IdempotencyKey resp)
      (Resp_CurrentStatus resp) resp (tick w0) = (err, w1)" by fastforce
  note w1 = webhook_save_cases [OF save]
  have names: "same_payment resp old" "Resp_CurrentStatus resp = fst out"
    "Resp_Error resp = None \<longleftrightarrow> fst (snd (snd out)) = ''''"
    using assms(5) scan_apply_simps(1) [of out "now e w0" r] unfolding resp_def
    by (simp_all add: same_payment_def)
  have run: "fst reply = (if err = None then 200 else 500) \<and> w_store w' = w_store w1 \<and> w_calls w' = w_calls w1
    \<and> w_notes w' = w_notes w1 @ (if err = None \<and> notifies then [resp] else [])"
    using assms(1) save unfolding scan_finish_def prod.case Let_def resp_def [symmetric]
    by (cases err) (auto simp: writeDigitalRubleSandboxError_def)
  have "announced ops notifies (Resp_MerchantID old) (Resp_ID old) (Resp_IdempotencyKey old)
      (Resp_CurrentStatus resp) resp (fst reply) w w'"
    unfolding announced_def
  proof (intro exI conjI)
    show "(err, w_store w') = op_Save ops (Resp_MerchantID old) (Resp_ID old) (Resp_IdempotencyKey old)
        (Resp_CurrentStatus resp) (marshal_or_empty resp) (now e (tick w0)) (w_store w)"
      using run w1 assms(2) names(1) by (simp add: same_payment_def)
  qed (use run w1 assms(2-4) names in \<open>auto simp: same_payment_def\<close>)
  then show ?thesis using names(2,3) by (intro exI [of _ resp] conjI)
qed

subsection \<open>Properties\<close>

text \<open>
  C32: What a scan of a digital ruble QR code does. For a stored digital ruble payment whose QR
  id the request does not contradict, the payment is saved with its new status and announced
  once if that worked; it becomes \<open>CAPTURED\<close> exactly if the requested result is none of the
  eight rejecting ones, the QR code has not expired, and the wallet named in the request
  holds enough money of the required mark; every other status comes with an error. The status
  it had before does not matter, and an unknown result counts as a payment.
\<close>

theorem digital_ruble_scan:
  assumes "Hr_Method r = ''POST''" and "decode_body tab_digitalRubleSandboxRequest zero_scan r = Some body"
    and "req = normalize_scan body" and "scanned_payment ops req (w_store w) = Inr old"
    and "qrExpired e parseTime (TD_QRExpiresAt (Resp_TransactionDetails old)) w = (expired, w0)"
    and "plain_check (scan_check old (Scan_PayerWalletID req) (now e w0))"
    and "parse (FormatFloat2 (Amount_Value (RInfo_Amount (Resp_PaymentInfo old)))) = (a, None)"
    and "n = normalizePaymentCheck (scan_check old (Scan_PayerWalletID req) (now e w0)) (now e w0)"
    and "scan_ServeHTTP ops e notifies hmac parse parseTime r w = (reply, w')"
  shows "\<exists>resp. announced ops notifies (Resp_MerchantID old) (Resp_ID old) (Resp_IdempotencyKey old)
      (Resp_CurrentStatus resp) resp (fst reply) w w'
    \<and> (Resp_CurrentStatus resp = StatusCaptured \<longleftrightarrow>
        ToLower (TrimSpace (Scan_Result req)) \<notin> set rejecting_results \<and> \<not> expired
        \<and> a \<le> walletMarkedBalance (Chk_WalletID n) (Chk_MoneyMark n))
    \<and> (Resp_Error resp = None \<longleftrightarrow> Resp_CurrentStatus resp = StatusCaptured)"
proof -
  obtain out resp1 w1 where out: "scan_outcome_of e hmac parse parseTime req old w = (out, resp1, w1)"
    by (cases rule: prod_cases3)
  note v = scan_outcome_verdict [OF out assms(5-8)]
  have "scan_finish ops e notifies req (out, resp1, w1) = (reply, w')"
    using assms(9) by (simp add: scan_ServeHTTP_def assms(1,2,4) assms(3) [symmetric] out)
  from scan_finish_effect [OF this, of w old] v show ?thesis by auto
qed

text \<open>A declined payment of 100 rubles, scanned with an unknown result.\<close>

definition stored_scan :: json where
  "stored_scan = JObj [(''id'', JStr ''p''), (''merchant_id'', JStr ''m''), (''idempotency_key'', JStr ''k''),
     (''current_status'', JStr ''DECLINED''),
     (''payment_info'', JObj [(''amount'', JObj [(''value'', JNum (Fin 100)), (''currency'', JStr ''RUB'')])]),
     (''transaction_details'', JObj [(''payment_system'', JStr ''DIGITAL_RUBLE''),
        (''platform_message_id'', JStr ''drmsg_1'')])]"

definition scan_store :: "InMemoryTransactionStore store_ops" where
  "scan_store = mem_ops\<lparr>op_GetByPaymentID := \<lambda>_ _ _. Inr (Some (StatusDeclined, JDoc stored_scan))\<rparr>"

definition odd_scan :: json where
  "odd_scan = JObj [(''merchant_id'', JStr ''m''), (''payment_id'', JStr ''p''), (''result'', JStr ''no'')]"

definition odd_request :: http_request where
  "odd_request = forged_request\<lparr>Hr_Body := Body_data ''scan'' (Some odd_scan) (Some odd_scan)\<rparr>"

definition scanned_response :: PaymentResponse where
  "scanned_response = zero_response\<lparr>Resp_ID := ''p'', Resp_MerchantID := ''m'', Resp_IdempotencyKey := ''k'',
     Resp_CurrentStatus := ''DECLINED'',
     Resp_PaymentInfo := (Resp_PaymentInfo zero_response)\<lparr>RInfo_Amount :=
       \<lparr>Amount_Value = Fin 100, Amount_Currency = ''RUB''\<rparr>\<rparr>,
     Resp_TransactionDetails := zero_details\<lparr>TD_PaymentSystem := ''DIGITAL_RUBLE'',
       TD_PlatformMessageID := ''drmsg_1''\<rparr>\<rparr>"

lemma scanned_decodes: "UnmarshalResponse (JDoc stored_scan) = Some scanned_response"
  by (simp add: UnmarshalResponse_def stored_scan_def dec_struct_def tab_PaymentResponse_def
      tab_PaymentInfoResponse_def tab_AmountMoney_def tab_TransactionDetails_def lookup_field_def dec_str_def
      dec_num_def dec_sub_def scanned_response_def zero_response_def zero_details_def)

lemma odd_decodes: "decode_body tab_digitalRubleSandboxRequest zero_scan odd_request =
    Some (zero_scan\<lparr>Scan_MerchantID := ''m'', Scan_PaymentID := ''p'', Scan_Result := ''no''\<rparr>)"
  by (simp add: decode_body_def body_first_def odd_request_def odd_scan_def dec_struct_def
      tab_digitalRubleSandboxRequest_def lookup_field_def dec_str_def zero_scan_def)

lemma odd_normal: "normalize_scan (zero_scan\<lparr>Scan_MerchantID := ''m'', Scan_PaymentID := ''p'', Scan_Result := ''no''\<rparr>)
    = zero_scan\<lparr>Scan_MerchantID := ''m'', Scan_PaymentID := ''p'', Scan_Result := ''no''\<rparr>"
  by (simp add: normalize_scan_def zero_scan_def go_eval)

lemma odd_check:
  "scan_check scanned_response '''' t = \<lparr>Chk_MessageID = ''drmsg_1'', Chk_MerchantID = ''m'', Chk_PaymentID = ''p'',
     Chk_WalletID = '''', Chk_Amount = Fin 100, Chk_Currency = ''RUB'', Chk_Category = ''general'',
     Chk_MoneyMark = ''GENERAL'', Chk_SmartContractID = ''SC_MARKED_MONEY_V1''\<rparr>"
proof -
  have "NormalizeCategory ''general'' = ''general''" by (simp add: NormalizeCategory_def go_eval)
  then show ?thesis
    by (simp add: scan_check_def PaymentCheckFromResponse_def digitalRublePayerWalletID_def scanned_response_def
        zero_response_def zero_details_def zero_customer_def no_ruble_data_def RequiredMoneyMark_def
        PrimaryCategory_def SmartContractID_def lit)
qed

lemma odd_scanned:
  "scanned_payment scan_store (zero_scan\<lparr>Scan_MerchantID := ''m'', Scan_PaymentID := ''p'', Scan_Result := ''no''\<rparr>)
     s = Inr scanned_response"
proof -
  have "ToUpper (TrimSpace ''DIGITAL_RUBLE'') = ''DIGITAL_RUBLE''" by (simp add: go_eval)
  then show ?thesis by (simp add: scanned_payment_def scan_store_def scanned_decodes zero_scan_def)
    (simp add: scanned_response_def)
qed

theorem digital_ruble_scan_witness:
  "\<exists>resp code. announced scan_store True ''m'' ''p'' ''k'' StatusCaptured resp code sample_world
      (snd (scan_ServeHTTP scan_store sample_env True (@) (\<lambda>_. (Fin 100, None)) (\<lambda>_ _. None) odd_request
        sample_world))
    \<and> Resp_Error resp = None"
proof -
  let ?req = "zero_scan\<lparr>Scan_MerchantID := ''m'', Scan_PaymentID := ''p'', Scan_Result := ''no''\<rparr>"
  define n where "n = normalizePaymentCheck (scan_check scanned_response (Scan_PayerWalletID ?req)
      (now sample_env sample_world)) (now sample_env sample_world)"
  have wallet: "Scan_PayerWalletID ?req = ''''" "Scan_Result ?req = ''no''" by (simp_all add: zero_scan_def)
  have expiry: "qrExpired sample_env (\<lambda>_ _. None) (TD_QRExpiresAt (Resp_TransactionDetails scanned_response))
      sample_world = (False, sample_world)"
    by (simp add: qrExpired_def qr_expiry_def)
  have plain: "plain_check (scan_check scanned_response (Scan_PayerWalletID ?req) (now sample_env sample_world))"
    unfolding wallet odd_check by (simp add: plain_check_def byte_def go_eval)
  have "Chk_WalletID n = ''''" "Chk_MoneyMark n = ''GENERAL''"
    unfolding n_def wallet odd_check by (simp_all add: normalizePaymentCheck_def go_eval)
  moreover have "ToUpper (TrimSpace ''GENERAL'') = ''GENERAL''" "ToLower (TrimSpace ''no'') = ''no''"
    by (simp_all add: go_eval)
  ultimately have enough: "Fin 100 \<le> walletMarkedBalance (Chk_WalletID n) (Chk_MoneyMark n)"
    "ToLower (TrimSpace (Scan_Result ?req)) \<notin> set rejecting_results"
    by (simp_all add: walletMarkedBalance_def wallet_balances_def lit wallet rejecting_results_def less_eq_f64_def)
  have names: "Resp_MerchantID scanned_response = ''m''" "Resp_ID scanned_response = ''p''"
    "Resp_IdempotencyKey scanned_response = ''k''" by (simp_all add: scanned_response_def)
  have post: "Hr_Method odd_request = ''POST''" by (simp add: odd_request_def forged_request_def)
  from digital_ruble_scan [where notifies = True and hmac = "(@)" and parse = "\<lambda>_. (Fin 100, None)" and a = "Fin 100",
      OF post odd_decodes odd_normal [symmetric] odd_scanned expiry plain refl n_def surjective_pairing] enough
  show ?thesis unfolding names by (elim exE) (rule exI, rule exI, auto)
qed

end
