(* ===== verification/Reports.thy ===== *)
theory Reports
  imports Storage Payments_Api "HOL-Library.AList" "HOL-Library.Multiset" "HOL-Library.List_Lexorder" "HOL-Library.Char_ord"
begin

section \<open>Transaction reports (\<open>storage/reporting.go\<close>, \<open>httpapi/reports/handler.go\<close>, \<open>dto/report.go\<close>)\<close>

text \<open>
  A report lists the latest transactions of a merchant that pass a filter and sums them up. The
  in-memory store goes through its payments in an unspecified order, given as the list \<open>iter\<close>
  of one iteration; the bucket maps of the summary are association lists, encoded in the order
  of their keys. Counters are Go's \<open>int\<close>: a report has at most 500 rows, so they cannot
  overflow.
\<close>

record storedReportTx =
  Rt_MerchantID :: gostring
  Rt_PaymentID :: gostring
  Rt_IdempotencyKey :: gostring
  Rt_Status :: gostring
  Rt_PayloadJSON :: jtext
  Rt_CreatedAt :: gotime
  Rt_UpdatedAt :: gotime

record TransactionReportFilter =
  Flt_MerchantID :: gostring
  Flt_DateFrom :: "gotime option"
  Flt_DateTo :: "gotime option"
  Flt_Status :: gostring
  Flt_PaymentSystem :: gostring
  Flt_PaymentMethod :: gostring
  Flt_Limit :: int

record TransactionReportFilterResponse =
  FR_MerchantID :: gostring
  FR_DateFrom :: gostring
  FR_DateTo :: gostring
  FR_Status :: gostring
  FR_PaymentSystem :: gostring
  FR_PaymentMethod :: gostring
  FR_Limit :: int

record TransactionReportBucket =
  Bucket_Count :: int
  Bucket_Amount :: f64

type_synonym buckets = "(gostring \<times> TransactionReportBucket) list"

record TransactionReportSummary =
  Sum_TotalCount :: int
  Sum_TotalAmount :: f64
  Sum_CapturedCount :: int
  Sum_CapturedAmount :: f64
  Sum_PendingCount :: int
  Sum_DeclinedCount :: int
  Sum_FailedCount :: int
  Sum_AverageAmount :: f64
  Sum_ByStatus :: buckets
  Sum_ByPaymentSystem :: buckets
  Sum_ByPaymentMethod :: buckets

record TransactionReportItem =
  RI_PaymentID :: gostring
  RI_IdempotencyKey :: gostring
  RI_Status :: gostring
  RI_Amount :: AmountMoney
  RI_PaymentMethod :: gostring
  RI_PaymentSystem :: gostring
  RI_ProviderStatus :: gostring
  RI_ExternalTransactionID :: gostring
  RI_FraudCheckResult :: gostring
  RI_CreatedAt :: gotime
  RI_UpdatedAt :: gotime

record TransactionReport =
  Rep_MerchantID :: gostring
  Rep_GeneratedAt :: gotime
  Rep_Filter :: TransactionReportFilterResponse
  Rep_Summary :: TransactionReportSummary
  Rep_Transactions :: "TransactionReportItem list"

subsection \<open>Filtering\<close>

definition defaultReportLimit :: int where "defaultReportLimit = 100"
definition maxReportLimit :: int where "maxReportLimit = 500"

definition normalizeTransactionReportFilter :: "TransactionReportFilter \<Rightarrow> TransactionReportFilter" where
  "normalizeTransactionReportFilter f =
     f\<lparr>Flt_MerchantID := TrimSpace (Flt_MerchantID f), Flt_Status := ToUpper (TrimSpace (Flt_Status f)),
       Flt_PaymentSystem := ToUpper (TrimSpace (Flt_PaymentSystem f)),
       Flt_PaymentMethod := TrimSpace (Flt_PaymentMethod f),
       Flt_Limit := (let limit = (if Flt_Limit f \<le> 0 then defaultReportLimit else Flt_Limit f) in
         if maxReportLimit < limit then maxReportLimit else limit)\<rparr>"

definition paymentResponseFromStoredRecord :: "storedReportTx \<Rightarrow> PaymentResponse" where
  "paymentResponseFromStoredRecord rec =
     (case UnmarshalResponse (SanitizePaymentPayloadJSON (Rt_PayloadJSON rec)) of
        None \<Rightarrow> zero_response\<lparr>Resp_ID := Rt_PaymentID rec, Resp_MerchantID := Rt_MerchantID rec,
          Resp_IdempotencyKey := Rt_IdempotencyKey rec, Resp_CurrentStatus := Rt_Status rec\<rparr>
      | Some resp \<Rightarrow> Sanitized resp)"

definition recordMatchesReportFilter :: "storedReportTx \<Rightarrow> TransactionReportFilter \<Rightarrow> bool" where
  "recordMatchesReportFilter rec f =
     (let resp = paymentResponseFromStoredRecord rec in
      (case Flt_DateFrom f of None \<Rightarrow> True | Some t \<Rightarrow> \<not> Rt_CreatedAt rec < t)
      \<and> (case Flt_DateTo f of None \<Rightarrow> True | Some t \<Rightarrow> \<not> t < Rt_CreatedAt rec)
      \<and> (Flt_Status f \<noteq> '''' \<longrightarrow> EqualFold (Rt_Status rec) (Flt_Status f))
      \<and> (Flt_PaymentSystem f \<noteq> '''' \<longrightarrow>
           EqualFold (TD_PaymentSystem (Resp_TransactionDetails resp)) (Flt_PaymentSystem f))
      \<and> (Flt_PaymentMethod f \<noteq> '''' \<longrightarrow>
           Method_Type (RInfo_PaymentMethodData (Resp_PaymentInfo resp)) = Flt_PaymentMethod f))"

text \<open>The record of a payment that the iteration visits under \<open>key\<close>, if it is the merchant's.\<close>

definition report_record :: "gostring \<Rightarrow> gostring \<times> storedTx \<Rightarrow> storedReportTx option" where
  "report_record merchantID = (\<lambda>(key, tx).
     if \<not> HasPrefix key (merchantID @ '':'') then None
     else Some \<lparr>Rt_MerchantID = merchantID, Rt_PaymentID = TrimPrefix key (merchantID @ '':''),
       Rt_IdempotencyKey = Tx_idempotencyKey tx, Rt_Status = Tx_status tx,
       Rt_PayloadJSON = Tx_payloadJSON tx,
       Rt_CreatedAt = (if IsZero (Tx_createdAt tx) then Tx_updatedAt tx else Tx_createdAt tx),
       Rt_UpdatedAt = Tx_updatedAt tx\<rparr>)"

definition report_records :: "TransactionReportFilter \<Rightarrow> (gostring \<times> storedTx) list \<Rightarrow> storedReportTx list" where
  "report_records f iter = filter (\<lambda>rec. recordMatchesReportFilter rec f)
     (List.map_filter (report_record (Flt_MerchantID f)) iter)"

subsection \<open>Sorting\<close>

text \<open>The two nested loops of \<open>sortReportRecords\<close>, the inner one for a fixed \<open>i\<close>.\<close>

definition sort_inner :: "nat \<Rightarrow> storedReportTx list \<Rightarrow> storedReportTx list" where
  "sort_inner i records = fold (\<lambda>j rs. if Rt_CreatedAt (rs ! i) < Rt_CreatedAt (rs ! j)
     then rs[i := rs ! j, j := rs ! i] else rs) [i + 1..<length records] records"

definition sortReportRecords :: "storedReportTx list \<Rightarrow> storedReportTx list" where
  "sortReportRecords records = fold sort_inner [0..<length records] records"

subsection \<open>The report\<close>

definition firstNonEmptyString :: "gostring list \<Rightarrow> gostring" where
  "firstNonEmptyString values = firstNonEmpty values"

definition transactionReportItem :: "storedReportTx \<Rightarrow> PaymentResponse \<Rightarrow> TransactionReportItem" where
  "transactionReportItem rec resp =
     (let info = Resp_PaymentInfo resp; td = Resp_TransactionDetails resp in
      \<lparr>RI_PaymentID = firstNonEmptyString [Resp_ID resp, Rt_PaymentID rec],
       RI_IdempotencyKey = firstNonEmptyString [Resp_IdempotencyKey resp, Rt_IdempotencyKey rec],
       RI_Status = firstNonEmptyString [Resp_CurrentStatus resp, Rt_Status rec],
       RI_Amount = RInfo_Amount info, RI_PaymentMethod = Method_Type (RInfo_PaymentMethodData info),
       RI_PaymentSystem = TD_PaymentSystem td, RI_ProviderStatus = TD_ProviderStatus td,
       RI_ExternalTransactionID = TD_ExternalTransactionID td,
       RI_FraudCheckResult = TD_FraudCheckResult td,
       RI_CreatedAt = Rt_CreatedAt rec, RI_UpdatedAt = Rt_UpdatedAt rec\<rparr>)"

definition incrementReportBucket :: "gostring \<Rightarrow> f64 \<Rightarrow> buckets \<Rightarrow> buckets" where
  "incrementReportBucket key amount bs =
     (let bucket = (case map_of bs key of Some b \<Rightarrow> b | None \<Rightarrow> \<lparr>Bucket_Count = 0, Bucket_Amount = Fin 0\<rparr>) in
      AList.update key \<lparr>Bucket_Count = Bucket_Count bucket + 1,
        Bucket_Amount = f64_add (Bucket_Amount bucket) amount\<rparr> bs)"

text \<open>The counter of the status class, chosen by the status in upper case.\<close>

definition count_status :: "gostring \<Rightarrow> f64 \<Rightarrow> TransactionReportSummary \<Rightarrow> TransactionReportSummary" where
  "count_status status amount s = (let st = ToUpper status in
     if st = StatusCaptured then s\<lparr>Sum_CapturedCount := Sum_CapturedCount s + 1,
       Sum_CapturedAmount := f64_add (Sum_CapturedAmount s) amount\<rparr>
     else if st = StatusPending \<or> st = StatusCaptureRequested
       then s\<lparr>Sum_PendingCount := Sum_PendingCount s + 1\<rparr>
     else if st = StatusDeclined \<or> st = StatusCancelled
       then s\<lparr>Sum_DeclinedCount := Sum_DeclinedCount s + 1\<rparr>
     else if st = StatusFailed then s\<lparr>Sum_FailedCount := Sum_FailedCount s + 1\<rparr>
     else s)"

definition addTransactionToSummary :: "TransactionReportItem \<Rightarrow> TransactionReportSummary \<Rightarrow>
    TransactionReportSummary" where
  "addTransactionToSummary item s =
     (let amount = Amount_Value (RI_Amount item); status = firstNonEmptyString [RI_Status item, ''UNKNOWN''];
          paymentSystem = firstNonEmptyString [RI_PaymentSystem item, ''UNKNOWN''];
          paymentMethod = firstNonEmptyString [RI_PaymentMethod item, ''UNKNOWN''];
          s = s\<lparr>Sum_TotalCount := Sum_TotalCount s + 1, Sum_TotalAmount := f64_add (Sum_TotalAmount s) amount\<rparr>;
          s = count_status status amount s
      in s\<lparr>Sum_ByStatus := incrementReportBucket status amount (Sum_ByStatus s),
           Sum_ByPaymentSystem := incrementReportBucket paymentSystem amount (Sum_ByPaymentSystem s),
           Sum_ByPaymentMethod := incrementReportBucket paymentMethod amount (Sum_ByPaymentMethod s)\<rparr>)"

definition empty_summary :: TransactionReportSummary where
  "empty_summary = \<lparr>Sum_TotalCount = 0, Sum_TotalAmount = Fin 0, Sum_CapturedCount = 0,
     Sum_CapturedAmount = Fin 0, Sum_PendingCount = 0, Sum_DeclinedCount = 0, Sum_FailedCount = 0,
     Sum_AverageAmount = Fin 0, Sum_ByStatus = [], Sum_ByPaymentSystem = [], Sum_ByPaymentMethod = []\<rparr>"

definition transactionReportFilterResponse :: "TransactionReportFilter \<Rightarrow> TransactionReportFilterResponse" where
  "transactionReportFilterResponse f =
     (let show_time = (\<lambda>t. case t of None \<Rightarrow> '''' | Some t \<Rightarrow> FormatRFC3339 t) in
      \<lparr>FR_MerchantID = Flt_MerchantID f, FR_DateFrom = show_time (Flt_DateFrom f),
       FR_DateTo = show_time (Flt_DateTo f), FR_Status = Flt_Status f,
       FR_PaymentSystem = Flt_PaymentSystem f, FR_PaymentMethod = Flt_PaymentMethod f,
       FR_Limit = Flt_Limit f\<rparr>)"

definition report_item :: "storedReportTx \<Rightarrow> TransactionReportItem" where
  "report_item rec = transactionReportItem rec (paymentResponseFromStoredRecord rec)"

definition buildTransactionReport :: "TransactionReportFilter \<Rightarrow> storedReportTx list \<Rightarrow> gotime \<Rightarrow>
    TransactionReport" where
  "buildTransactionReport f records generatedAt =
     (let items = map report_item records; s = fold addTransactionToSummary items empty_summary;
          s = (if 0 < Sum_TotalCount s then s\<lparr>Sum_AverageAmount :=
                 f64_div_count (Sum_TotalAmount s) (nat (Sum_TotalCount s))\<rparr> else s)
      in \<lparr>Rep_MerchantID = Flt_MerchantID f, Rep_GeneratedAt = generatedAt,
          Rep_Filter = transactionReportFilterResponse f, Rep_Summary = s, Rep_Transactions = items\<rparr>)"

definition mem_BuildTransactionReport :: "(gostring \<times> storedTx) list \<Rightarrow> TransactionReportFilter \<Rightarrow> gotime \<Rightarrow>
    TransactionReport result" where
  "mem_BuildTransactionReport iter f generatedAt =
     (let f = normalizeTransactionReportFilter f in
      if Flt_MerchantID f = '''' then Inl ''merchant_id is required''
      else (let records = sortReportRecords (report_records f iter);
                records = (if Flt_Limit f < int (length records) then take (nat (Flt_Limit f)) records
                  else records)
            in Inr (buildTransactionReport f records generatedAt)))"

subsection \<open>The endpoint\<close>

definition omit_some :: "gostring \<Rightarrow> json option \<Rightarrow> (gostring \<times> json) list" where
  "omit_some k j = (case j of None \<Rightarrow> [] | Some j \<Rightarrow> [(k, j)])"

definition emit_int :: "gostring \<Rightarrow> int \<Rightarrow> (gostring \<times> json) list" where
  "emit_int k n = [(k, JNum (Fin (of_int n)))]"

definition enc_buckets :: "buckets \<Rightarrow> json" where
  "enc_buckets bs = JObj (map (\<lambda>(k, b). (to_valid_utf8 k,
     JObj (emit_int ''count'' (Bucket_Count b) @ [(''amount'', JNum (Bucket_Amount b))]))) (sort_key fst bs))"

definition enc_TransactionReportSummary :: "TransactionReportSummary \<Rightarrow> json" where
  "enc_TransactionReportSummary s = JObj (emit_int ''total_count'' (Sum_TotalCount s) @
     [(''total_amount'', JNum (Sum_TotalAmount s))] @ emit_int ''captured_count'' (Sum_CapturedCount s) @
     [(''captured_amount'', JNum (Sum_CapturedAmount s))] @ emit_int ''pending_count'' (Sum_PendingCount s) @
     emit_int ''declined_count'' (Sum_DeclinedCount s) @ emit_int ''failed_count'' (Sum_FailedCount s) @
     [(''average_amount'', JNum (Sum_AverageAmount s)), (''by_status'', enc_buckets (Sum_ByStatus s)),
      (''by_payment_system'', enc_buckets (Sum_ByPaymentSystem s)),
      (''by_payment_method'', enc_buckets (Sum_ByPaymentMethod s))])"

definition enc_TransactionReportItem :: "TransactionReportItem \<Rightarrow> json" where
  "enc_TransactionReportItem x = JObj (emit_str ''payment_id'' (RI_PaymentID x) @
     emit_str ''idempotency_key'' (RI_IdempotencyKey x) @ emit_str ''status'' (RI_Status x) @
     [(''amount'', enc_AmountMoney (RI_Amount x))] @ emit_str ''payment_method'' (RI_PaymentMethod x) @
     omit_str ''payment_system'' (RI_PaymentSystem x) @ omit_str ''provider_status'' (RI_ProviderStatus x) @
     omit_str ''external_transaction_id'' (RI_ExternalTransactionID x) @
     omit_str ''fraud_check_result'' (RI_FraudCheckResult x) @
     [(''created_at'', JTime (RI_CreatedAt x)), (''updated_at'', JTime (RI_UpdatedAt x))])"

definition enc_TransactionReportFilterResponse :: "TransactionReportFilterResponse \<Rightarrow> json" where
  "enc_TransactionReportFilterResponse f = JObj (emit_str ''merchant_id'' (FR_MerchantID f) @
     omit_str ''date_from'' (FR_DateFrom f) @ omit_str ''date_to'' (FR_DateTo f) @
     omit_str ''status'' (FR_Status f) @ omit_str ''payment_system'' (FR_PaymentSystem f) @
     omit_str ''payment_method'' (FR_PaymentMethod f) @ emit_int ''limit'' (FR_Limit f))"

definition enc_TransactionReport :: "TransactionReport \<Rightarrow> json" where
  "enc_TransactionReport r = JObj (emit_str ''merchant_id'' (Rep_MerchantID r) @
     [(''generated_at'', JTime (Rep_GeneratedAt r)),
      (''filter'', enc_TransactionReportFilterResponse (Rep_Filter r)),
      (''summary'', enc_TransactionReportSummary (Rep_Summary r)),
      (''transactions'', JArr (map enc_TransactionReportItem (Rep_Transactions r)))])"

definition enc_TransactionReportResponse :: "TransactionReport option \<Rightarrow> bool \<Rightarrow> GatewayError option \<Rightarrow> json" where
  "enc_TransactionReportResponse data success err = JObj (
     omit_some ''data'' (map_option enc_TransactionReport data) @ [(''success'', JBool success)] @
     omit_some ''error'' (map_option enc_GatewayError err))"

definition report_error :: "int \<Rightarrow> gostring \<Rightarrow> gostring \<Rightarrow> http_reply" where
  "report_error status code message =
     reply_json status (enc_TransactionReportResponse None False (Some (NewGatewayError code message)))"

definition parseOptionalReportTime :: "time_parser \<Rightarrow> gostring \<Rightarrow> bool \<Rightarrow> gotime option result" where
  "parseOptionalReportTime parseTime v endOfDay = (let v = TrimSpace v in
     if v = '''' then Inr None
     else (case parseTime RFC3339 v of
       Some t \<Rightarrow> Inr (Some t)
     | None \<Rightarrow> (case parseTime ''2006-01-02'' v of
         None \<Rightarrow> Inl ''date_from/date_to must be RFC3339 or YYYY-MM-DD''
       | Some t \<Rightarrow> Inr (Some (if endOfDay then t + (24 * Hour - Nanosecond) else t)))))"

definition reports_firstNonEmpty :: "gostring \<Rightarrow> gostring \<Rightarrow> gostring" where
  "reports_firstNonEmpty a b = (if TrimSpace a \<noteq> '''' then a else if TrimSpace b \<noteq> '''' then b else '''')"

definition report_limit :: "gostring \<Rightarrow> int result" where
  "report_limit q = (let raw = TrimSpace q in
     if raw = '''' then Inr 100
     else (case ParseInt64 raw of
       None \<Rightarrow> Inl ''limit must be an integer''
     | Some limit \<Rightarrow> if limit \<le> 0 then Inl ''limit must be greater than zero''
         else Inr (if 500 < limit then 500 else limit)))"

definition decodeTransactionReportFilter :: "time_parser \<Rightarrow> http_request \<Rightarrow> TransactionReportFilter result" where
  "decodeTransactionReportFilter parseTime r =
     (let q = Hr_Query r; merchantID = TrimSpace (q ''merchant_id'') in
      if merchantID = '''' then Inl ''merchant_id is required''
      else (case report_limit (q ''limit'') of Inl err \<Rightarrow> Inl err
      | Inr limit \<Rightarrow> (case parseOptionalReportTime parseTime (q ''date_from'') False of Inl err \<Rightarrow> Inl err
      | Inr dateFrom \<Rightarrow> (case parseOptionalReportTime parseTime (q ''date_to'') True of Inl err \<Rightarrow> Inl err
      | Inr dateTo \<Rightarrow> Inr \<lparr>Flt_MerchantID = merchantID, Flt_DateFrom = dateFrom, Flt_DateTo = dateTo,
          Flt_Status = TrimSpace (q ''status''),
          Flt_PaymentSystem = TrimSpace (reports_firstNonEmpty (q ''payment_system'') (q ''provider'')),
          Flt_PaymentMethod = TrimSpace (q ''payment_method''), Flt_Limit = limit\<rparr>))))"

text \<open>A report store: the clock is read for the report's own time.\<close>

type_synonym 's report_store = "TransactionReportFilter \<Rightarrow> gotime \<Rightarrow> 's \<Rightarrow> TransactionReport result"

definition report_ServeHTTP :: "'s report_store option \<Rightarrow> env \<Rightarrow> time_parser \<Rightarrow> 's world handler" where
  "report_ServeHTTP store e parseTime ctx r w =
     (let denied = ''transaction report access is not allowed for this role or merchant'' in
      if Hr_Method r \<noteq> ''GET'' then (report_error 405 ErrorMethodNotAllowed ''use GET'', w)
      else if Hr_Path r \<noteq> ''/reports/transactions''
        then (report_error 404 ErrorNotFound ''report endpoint not found'', w)
      else (case store of
        None \<Rightarrow> (report_error 500 ErrorReportStoreUnavailable ''report store is not configured'', w)
      | Some build \<Rightarrow> (case decodeTransactionReportFilter parseTime r of
          Inl err \<Rightarrow> (report_error 400 ErrorBadRequest err, w)
        | Inr f \<Rightarrow> (case MerchantFromContext ctx of
            None \<Rightarrow> (report_error 401 ErrorAuthContextMissing ''authenticated merchant context is required'', w)
          | Some authMerchant \<Rightarrow>
              if \<not> CanReadMerchantData authMerchant (Flt_MerchantID f)
              then (report_error 403 ErrorMerchantScopeMismatch denied,
                tick (w\<lparr>w_log := w_log w @ [LogAuthorizationFailed authMerchant (Flt_MerchantID f)
                  ''GET /reports/transactions'' denied (now e w)]\<rparr>))
              else (case build f (now e w) (w_store w) of
                Inl err \<Rightarrow> (report_error 500 ErrorReportStorage err, w)
              | Inr report \<Rightarrow> (reply_json 200 (enc_TransactionReportResponse (Some report) True None), tick w))))))"

subsection \<open>The sort\<close>

text \<open>One exchange of the inner loop.\<close>

definition exchange :: "nat \<Rightarrow> nat \<Rightarrow> storedReportTx list \<Rightarrow> storedReportTx list" where
  "exchange i j rs = (if Rt_CreatedAt (rs ! i) < Rt_CreatedAt (rs ! j)
     then rs[i := rs ! j, j := rs ! i] else rs)"

lemma exchange_simps:
  assumes "i < j" "j < length rs"
  shows "length (exchange i j rs) = length rs" "mset (exchange i j rs) = mset rs"
    "take i (exchange i j rs) = take i rs"
    "\<And>k. k \<noteq> i \<Longrightarrow> k \<noteq> j \<Longrightarrow> exchange i j rs ! k = rs ! k"
    "Rt_CreatedAt (rs ! i) \<le> Rt_CreatedAt (exchange i j rs ! i)"
    "Rt_CreatedAt (exchange i j rs ! j) \<le> Rt_CreatedAt (exchange i j rs ! i)"
  using assms mset_swap [of i rs j] by (auto simp: exchange_def list_update_swap)

lemma sort_inner_upto:
  assumes "i < length rs" "m \<le> length rs" "rs' = fold (exchange i) [i + 1..<m] rs"
  shows "length rs' = length rs \<and> mset rs' = mset rs \<and> take i rs' = take i rs
    \<and> (\<forall>k. i < k \<longrightarrow> k < m \<longrightarrow> Rt_CreatedAt (rs' ! k) \<le> Rt_CreatedAt (rs' ! i))"
  using assms(2,3)
proof (induction m arbitrary: rs')
  case (Suc m)
  define r where "r = fold (exchange i) [i + 1..<m] rs"
  have r: "length r = length rs" "mset r = mset rs" "take i r = take i rs"
    "\<And>k. i < k \<Longrightarrow> k < m \<Longrightarrow> Rt_CreatedAt (r ! k) \<le> Rt_CreatedAt (r ! i)"
    using Suc.IH [OF _ r_def] Suc.prems(1) by auto
  show ?case
  proof (cases "i < m")
    case True
    then have rs': "rs' = exchange i m r" using Suc.prems(2) by (simp add: r_def)
    have m: "m < length r" using Suc.prems(1) r(1) by simp
    note x = exchange_simps [OF True m]
    have "Rt_CreatedAt (rs' ! k) \<le> Rt_CreatedAt (rs' ! i)" if "i < k" "k < Suc m" for k
    proof (cases "k = m")
      case False
      then have "rs' ! k = r ! k" using x(4) [of k] that rs' by simp
      then show ?thesis using r(4) [of k] x(5) that False unfolding rs' by simp
    qed (use x(6) rs' in simp)
    then show ?thesis using x r unfolding rs' by simp
  next
    case False
    then show ?thesis using Suc.prems r r_def by simp
  qed
qed simp

lemma sort_inner_spec:
  assumes "i < length rs"
  shows "length (sort_inner i rs) = length rs" "mset (sort_inner i rs) = mset rs"
    "take i (sort_inner i rs) = take i rs"
    "\<And>k. i < k \<Longrightarrow> k < length rs \<Longrightarrow> Rt_CreatedAt (sort_inner i rs ! k) \<le> Rt_CreatedAt (sort_inner i rs ! i)"
proof -
  have "sort_inner i rs = fold (exchange i) [i + 1..<length rs] rs"
    unfolding sort_inner_def by (intro fold_cong ext) (simp_all add: exchange_def)
  from sort_inner_upto [OF assms le_refl this]
  show "length (sort_inner i rs) = length rs" "mset (sort_inner i rs) = mset rs"
    "take i (sort_inner i rs) = take i rs"
    "\<And>k. i < k \<Longrightarrow> k < length rs \<Longrightarrow> Rt_CreatedAt (sort_inner i rs ! k) \<le> Rt_CreatedAt (sort_inner i rs ! i)"
    by auto
qed

lemma mset_drop_eq:
  assumes "take i xs = take i ys" "mset xs = mset ys"
  shows "mset (drop i xs) = mset (drop i ys)"
proof -
  have "mset (take i xs) + mset (drop i xs) = mset (take i ys) + mset (drop i ys)"
    using assms(2) by (simp flip: mset_append)
  then show ?thesis using assms(1) by simp
qed

lemma sort_upto:
  assumes "m \<le> length rs" "rs' = fold sort_inner [0..<m] rs"
  shows "length rs' = length rs \<and> mset rs' = mset rs
    \<and> (\<forall>a b. a < m \<longrightarrow> a < b \<longrightarrow> b < length rs \<longrightarrow> Rt_CreatedAt (rs' ! b) \<le> Rt_CreatedAt (rs' ! a))"
  using assms
proof (induction m arbitrary: rs')
  case (Suc m)
  define r where "r = fold sort_inner [0..<m] rs"
  have r: "length r = length rs" "mset r = mset rs"
    "\<And>a b. a < m \<Longrightarrow> a < b \<Longrightarrow> b < length rs \<Longrightarrow> Rt_CreatedAt (r ! b) \<le> Rt_CreatedAt (r ! a)"
    using Suc.IH [OF _ r_def] Suc.prems(1) by auto
  have rs': "rs' = sort_inner m r" using Suc.prems(2) by (simp add: r_def)
  have m: "m < length r" using Suc.prems(1) r(1) by simp
  note s = sort_inner_spec [OF m]
  have rest: "set (drop m rs') = set (drop m r)"
    using mset_drop_eq [OF s(3,2)] unfolding rs' by (metis set_mset_mset)
  have "Rt_CreatedAt (rs' ! b) \<le> Rt_CreatedAt (rs' ! a)" if ab: "a < Suc m" "a < b" "b < length rs" for a b
  proof (cases "a = m")
    case True
    then show ?thesis using s(4) ab r(1) unfolding rs' by simp
  next
    case False
    then have a: "a < m" using ab by simp
    then have same: "rs' ! a = r ! a" using s(3) unfolding rs' by (metis nth_take)
    show ?thesis
    proof (cases "b < m")
      case True
      then have "rs' ! b = r ! b" using s(3) unfolding rs' by (metis nth_take)
      then show ?thesis using r(3) [OF a ab(2,3)] same by simp
    next
      case False
      then have "rs' ! b \<in> set (drop m rs')"
        using ab s(1) r(1) unfolding rs' in_set_conv_nth by (intro exI [of _ "b - m"]) simp
      then obtain c where "c < length (drop m r)" "drop m r ! c = rs' ! b"
        unfolding rest in_set_conv_nth by blast
      then have "m + c < length rs" "rs' ! b = r ! (m + c)" using r(1) m by simp_all
      then show ?thesis using r(3) [OF a, of "m + c"] same a by simp
    qed
  qed
  then show ?case using s r unfolding rs' by simp
qed simp

lemma sortReportRecords_spec:
  "length (sortReportRecords rs) = length rs" "mset (sortReportRecords rs) = mset rs"
  "sorted_wrt (\<lambda>a b. Rt_CreatedAt b \<le> Rt_CreatedAt a) (sortReportRecords rs)"
  using sort_upto [OF le_refl refl, of rs]
  by (auto simp: sortReportRecords_def sorted_wrt_iff_nth_less)

subsection \<open>Buckets and counters\<close>

definition bucket_of :: "(gostring \<times> f64) list \<Rightarrow> gostring \<Rightarrow> TransactionReportBucket option" where
  "bucket_of kas k = (let amounts = map snd (filter (\<lambda>ka. fst ka = k) kas) in
     if amounts = [] then None
     else Some \<lparr>Bucket_Count = int (length amounts), Bucket_Amount = foldl f64_add (Fin 0) amounts\<rparr>)"

lemma increment_bucket_of:
  assumes "map_of bs = bucket_of kas"
  shows "map_of (incrementReportBucket k a bs) = bucket_of (kas @ [(k, a)])"
  unfolding incrementReportBucket_def update_conv' Let_def assms
  by (rule ext) (auto simp: bucket_of_def Let_def)

definition status_key :: "TransactionReportItem \<Rightarrow> gostring" where
  "status_key x = firstNonEmptyString [RI_Status x, ''UNKNOWN'']"

definition system_key :: "TransactionReportItem \<Rightarrow> gostring" where
  "system_key x = firstNonEmptyString [RI_PaymentSystem x, ''UNKNOWN'']"

definition method_key :: "TransactionReportItem \<Rightarrow> gostring" where
  "method_key x = firstNonEmptyString [RI_PaymentMethod x, ''UNKNOWN'']"

definition item_amount :: "TransactionReportItem \<Rightarrow> f64" where
  "item_amount x = Amount_Value (RI_Amount x)"

definition of_status :: "gostring list \<Rightarrow> TransactionReportItem list \<Rightarrow> TransactionReportItem list" where
  "of_status sts xs = filter (\<lambda>x. ToUpper (status_key x) \<in> set sts) xs"

text \<open>What a summary says of the items it sums up.\<close>

definition summary_of :: "TransactionReportItem list \<Rightarrow> TransactionReportSummary \<Rightarrow> bool" where
  "summary_of xs s =
     (Sum_TotalCount s = int (length xs) \<and> Sum_TotalAmount s = foldl f64_add (Fin 0) (map item_amount xs)
      \<and> Sum_CapturedCount s = int (length (of_status [StatusCaptured] xs))
      \<and> Sum_CapturedAmount s = foldl f64_add (Fin 0) (map item_amount (of_status [StatusCaptured] xs))
      \<and> Sum_PendingCount s = int (length (of_status [StatusPending, StatusCaptureRequested] xs))
      \<and> Sum_DeclinedCount s = int (length (of_status [StatusDeclined, StatusCancelled] xs))
      \<and> Sum_FailedCount s = int (length (of_status [StatusFailed] xs))
      \<and> map_of (Sum_ByStatus s) = bucket_of (map (\<lambda>x. (status_key x, item_amount x)) xs)
      \<and> map_of (Sum_ByPaymentSystem s) = bucket_of (map (\<lambda>x. (system_key x, item_amount x)) xs)
      \<and> map_of (Sum_ByPaymentMethod s) = bucket_of (map (\<lambda>x. (method_key x, item_amount x)) xs))"

lemma count_status_simps [simp]:
  "Sum_TotalCount (count_status st a s) = Sum_TotalCount s"
  "Sum_TotalAmount (count_status st a s) = Sum_TotalAmount s"
  "Sum_ByStatus (count_status st a s) = Sum_ByStatus s"
  "Sum_ByPaymentSystem (count_status st a s) = Sum_ByPaymentSystem s"
  "Sum_ByPaymentMethod (count_status st a s) = Sum_ByPaymentMethod s"
  by (simp_all add: count_status_def Let_def)

lemma count_status_counts:
  "Sum_CapturedCount (count_status st a s) = Sum_CapturedCount s + (if ToUpper st \<in> set [StatusCaptured] then 1 else 0)"
  "Sum_CapturedAmount (count_status st a s)
    = (if ToUpper st \<in> set [StatusCaptured] then f64_add (Sum_CapturedAmount s) a else Sum_CapturedAmount s)"
  "Sum_PendingCount (count_status st a s)
    = Sum_PendingCount s + (if ToUpper st \<in> set [StatusPending, StatusCaptureRequested] then 1 else 0)"
  "Sum_DeclinedCount (count_status st a s)
    = Sum_DeclinedCount s + (if ToUpper st \<in> set [StatusDeclined, StatusCancelled] then 1 else 0)"
  "Sum_FailedCount (count_status st a s) = Sum_FailedCount s + (if ToUpper st \<in> set [StatusFailed] then 1 else 0)"
  by (simp_all add: count_status_def Let_def lit)

lemma addTransaction_summary_of:
  assumes "summary_of xs s"
  shows "summary_of (xs @ [x]) (addTransactionToSummary x s)"
  using assms
  by (simp add: summary_of_def addTransactionToSummary_def Let_def status_key_def [symmetric]
      system_key_def [symmetric] method_key_def [symmetric] item_amount_def [symmetric]
      count_status_counts of_status_def increment_bucket_of)

lemma fold_summary_of: "summary_of xs (fold addTransactionToSummary xs empty_summary)"
proof (induction xs rule: rev_induct)
  case Nil
  show ?case by (simp add: summary_of_def empty_summary_def of_status_def bucket_of_def fun_eq_iff)
next
  case (snoc x xs)
  then show ?case using addTransaction_summary_of by simp
qed

lemma of_status_disjoint:
  "length (of_status [StatusCaptured] xs) + length (of_status [StatusPending, StatusCaptureRequested] xs)
    + length (of_status [StatusDeclined, StatusCancelled] xs) + length (of_status [StatusFailed] xs) \<le> length xs"
  by (induction xs) (auto simp: of_status_def lit)

subsection \<open>Whose payments the store holds\<close>

text \<open>The record comes from a save of the merchant.\<close>

type_synonym save_call = "gostring \<times> gostring \<times> gostring \<times> gostring \<times> jtext \<times> gotime"

definition from_save :: "gostring \<Rightarrow> gostring \<Rightarrow> storedTx \<Rightarrow> save_call \<Rightarrow> bool" where
  "from_save merchantID paymentID tx = (\<lambda>(m, p, k, st, pay, t). m = merchantID \<and> p = paymentID
     \<and> Tx_status tx = st \<and> Tx_idempotencyKey tx = k \<and> Tx_updatedAt tx = t
     \<and> Tx_payloadJSON tx = (if pay = JRaw '''' then pay else SanitizePaymentPayloadJSON pay))"

definition iteration_of_payments :: "(gostring \<times> storedTx) list \<Rightarrow> InMemoryTransactionStore \<Rightarrow> bool" where
  "iteration_of_payments iter s = (map_of iter = Mem_byPaymentID s \<and> distinct (map fst iter))"

lemma stored_payments_saved:
  assumes "Mem_byPaymentID (foldl save_step NewInMemoryTransactionStore xs) key = Some tx"
  shows "\<exists>x\<in>set xs. \<exists>p. key = store_key (fst x) p \<and> from_save (fst x) p tx x"
  using assms
proof (induction xs rule: rev_induct)
  case Nil
  then show ?case by (simp add: NewInMemoryTransactionStore_def)
next
  case (snoc x xs)
  obtain m p k st pay t where x: "x = (m, p, k, st, pay, t)" by (cases x)
  let ?s = "foldl save_step NewInMemoryTransactionStore xs"
  obtain e s' where s': "mem_Save m p k st pay t ?s = (e, s')" by fastforce
  then have step: "foldl save_step NewInMemoryTransactionStore (xs @ [x]) = s'" by (simp add: x save_step_def)
  show ?case
  proof (cases "Mem_byPaymentID ?s key = Some tx")
    case True
    then show ?thesis using snoc.IH by auto
  next
    case False
    have "Mem_byPaymentID s' key = Some tx" using snoc.prems step by simp
    with False have "e = None" using mem_Save_error [of m p k st pay t ?s] s' by (cases e) auto
    then obtain q where q: "save_payload pay = Inr q" "m \<noteq> ''''" "k \<noteq> ''''"
      using s' by (cases "save_payload pay") (auto simp: mem_Save_def split: if_splits)
    then have "s' = (let tx = new_tx k st q t (Mem_byIdempotency ?s (store_key m k)) in
        if p \<noteq> '''' then ?s\<lparr>Mem_byIdempotency := (Mem_byIdempotency ?s)(store_key m k \<mapsto> tx),
          Mem_byPaymentID := (Mem_byPaymentID ?s)(store_key m p \<mapsto> tx)\<rparr>
        else ?s\<lparr>Mem_byIdempotency := (Mem_byIdempotency ?s)(store_key m k \<mapsto> tx)\<rparr>)"
      using s' by (auto simp: mem_Save_def Let_def)
    with False snoc.prems step have "key = store_key m p"
      "tx = new_tx k st q t (Mem_byIdempotency ?s (store_key m k))"
      by (auto simp: Let_def split: if_splits)
    with save_payload_Inr [OF q(1)] have "from_save m p tx x" by (simp add: from_save_def x)
    then show ?thesis using \<open>key = store_key m p\<close> x by auto
  qed
qed

lemma report_record_saved:
  assumes "iteration_of_payments iter (foldl save_step NewInMemoryTransactionStore xs)"
    and "\<forall>x\<in>set xs. colon_free (fst x)" and "colon_free m"
    and "(key, tx) \<in> set iter" and "report_record m (key, tx) = Some rec"
  shows "\<exists>x\<in>set xs. from_save m (Rt_PaymentID rec) tx x"
proof -
  let ?s = "foldl save_step NewInMemoryTransactionStore xs"
  have "map_of iter key = Some tx"
    using assms(1,4) map_of_is_SomeI [of iter key tx] by (simp add: iteration_of_payments_def)
  then have "Mem_byPaymentID ?s key = Some tx" using assms(1) by (simp add: iteration_of_payments_def)
  from stored_payments_saved [OF this] obtain x p where
    x: "x \<in> set xs" "key = store_key (fst x) p" "from_save (fst x) p tx x" by blast
  have pre: "HasPrefix key (m @ '':'')" and rec: "Rt_PaymentID rec = TrimPrefix key (m @ '':'')"
    using assms(5) by (auto simp: report_record_def split: if_splits)
  then obtain rest where rest: "key = m @ '':'' @ rest" by (auto simp: HasPrefix_iff)
  then have "Rt_PaymentID rec = rest" using rec TrimPrefix_append [of "m @ '':''" rest] by simp
  moreover have "m = fst x" "rest = p"
    using store_key_inj [OF assms(3), of "fst x" rest p] assms(2) x(1,2) rest
    by (auto simp: store_key_def)
  ultimately show ?thesis using x by auto
qed

lemma report_limit_bounds:
  "1 \<le> Flt_Limit (normalizeTransactionReportFilter f) \<and> Flt_Limit (normalizeTransactionReportFilter f) \<le> 500"
  by (simp add: normalizeTransactionReportFilter_def Let_def defaultReportLimit_def maxReportLimit_def)

lemma build_transactions [simp]: "Rep_Transactions (buildTransactionReport f rs t) = map report_item rs"
  by (simp add: buildTransactionReport_def Let_def)

lemma take_sorted_split:
  assumes "sorted_wrt (\<lambda>a b. R b a) xs"
  shows "\<forall>a\<in>set (take n xs). \<forall>b\<in>set (drop n xs). R b a"
  using assms by (metis append_take_drop_id sorted_wrt_append)

text \<open>The records a report of the in-memory store is built from.\<close>

definition listed_records :: "(gostring \<times> storedTx) list \<Rightarrow> TransactionReportFilter \<Rightarrow> storedReportTx list" where
  "listed_records iter f = take (nat (Flt_Limit f)) (sortReportRecords (report_records f iter))"

lemma mem_report_listed:
  assumes "mem_BuildTransactionReport iter f t = Inr rep"
  shows "rep = buildTransactionReport (normalizeTransactionReportFilter f)
    (listed_records iter (normalizeTransactionReportFilter f)) t"
  using assms report_limit_bounds [of f]
  by (auto simp: mem_BuildTransactionReport_def listed_records_def Let_def split: if_splits)

lemma report_ServeHTTP_200:
  assumes "report_ServeHTTP (Some build) e parseTime ctx r w = (reply, w')" and "fst reply = 200"
  shows "\<exists>f caller rep. decodeTransactionReportFilter parseTime r = Inr f
    \<and> MerchantFromContext ctx = Some caller \<and> CanReadMerchantData caller (Flt_MerchantID f)
    \<and> build f (now e w) (w_store w) = Inr rep
    \<and> reply = reply_json 200 (enc_TransactionReportResponse (Some rep) True None) \<and> w' = tick w"
proof -
  have codes: "fst (report_error c k x) = c" for c k x by (simp add: report_error_def)
  have req: "Hr_Method r = ''GET''" "Hr_Path r = ''/reports/transactions''"
    using assms codes unfolding report_ServeHTTP_def Let_def by (auto split: if_splits)
  obtain f where f: "decodeTransactionReportFilter parseTime r = Inr f"
    using assms codes req by (cases "decodeTransactionReportFilter parseTime r")
      (auto simp: report_ServeHTTP_def Let_def)
  obtain caller where c: "MerchantFromContext ctx = Some caller"
    using assms codes req f by (cases "MerchantFromContext ctx") (auto simp: report_ServeHTTP_def Let_def)
  have read: "CanReadMerchantData caller (Flt_MerchantID f)"
    using assms codes req f c by (cases "CanReadMerchantData caller (Flt_MerchantID f)")
      (auto simp: report_ServeHTTP_def Let_def)
  obtain rep where rep: "build f (now e w) (w_store w) = Inr rep"
    using assms codes req f c read by (cases "build f (now e w) (w_store w)")
      (auto simp: report_ServeHTTP_def Let_def)
  have "reply = reply_json 200 (enc_TransactionReportResponse (Some rep) True None)" "w' = tick w"
    using assms(1) req f c read rep by (simp_all add: report_ServeHTTP_def Let_def)
  with f c read rep show ?thesis by (intro exI conjI)
qed

subsection \<open>Properties\<close>

text \<open>
  C33: A report lists the latest matching transactions, newest first. Its rows are the records
  that pass the filter, each once, sorted by their creation time; if there are more than the
  limit (between 1 and 500), it stops at the limit, and what it leaves out is nowhere newer
  than what it lists.
\<close>

theorem report_latest:
  assumes "mem_BuildTransactionReport iter f t = Inr rep" and "g = normalizeTransactionReportFilter f"
  shows "1 \<le> Flt_Limit g \<and> Flt_Limit g \<le> 500 \<and> (\<exists>listed rest. Rep_Transactions rep = map report_item listed
    \<and> mset (listed @ rest) = mset (report_records g iter)
    \<and> int (length listed) = min (Flt_Limit g) (int (length (report_records g iter)))
    \<and> sorted_wrt (\<lambda>a b. Rt_CreatedAt b \<le> Rt_CreatedAt a) listed
    \<and> (\<forall>a\<in>set listed. \<forall>b\<in>set rest. Rt_CreatedAt b \<le> Rt_CreatedAt a))"
proof -
  let ?rs = "sortReportRecords (report_records g iter)" and ?n = "nat (Flt_Limit g)"
  note spec = sortReportRecords_spec [of "report_records g iter"]
  have "Rep_Transactions rep = map report_item (take ?n ?rs)"
    using mem_report_listed [OF assms(1)] by (simp add: listed_records_def assms(2))
  moreover have "mset (take ?n ?rs @ drop ?n ?rs) = mset (report_records g iter)"
    using spec(2) by (simp only: append_take_drop_id)
  moreover have "int (length (take ?n ?rs)) = min (Flt_Limit g) (int (length (report_records g iter)))"
    using spec(1) report_limit_bounds [of f] unfolding assms(2) length_take by linarith
  moreover have "sorted_wrt (\<lambda>a b. Rt_CreatedAt b \<le> Rt_CreatedAt a) (take ?n ?rs)"
    using spec(3) by (rule sorted_wrt_take)
  moreover note take_sorted_split [OF spec(3), of ?n]
  ultimately show ?thesis using report_limit_bounds [of f] unfolding assms(2) by blast
qed

text \<open>
  C34: The summary of a report agrees with its rows. The counters and amounts are those of the
  rows of each status class, every bucket counts and adds up exactly the rows with its status,
  payment system or method, and no row is counted in two classes.
\<close>

theorem report_summary:
  "summary_of (Rep_Transactions (buildTransactionReport f records t)) (Rep_Summary (buildTransactionReport f records t))
    \<and> (let s = Rep_Summary (buildTransactionReport f records t) in
        Sum_CapturedCount s + Sum_PendingCount s + Sum_DeclinedCount s + Sum_FailedCount s \<le> Sum_TotalCount s)"
proof -
  let ?items = "map report_item records"
  have s: "summary_of ?items (Rep_Summary (buildTransactionReport f records t))"
    using fold_summary_of [of ?items] unfolding buildTransactionReport_def Let_def
    by (cases "0 < Sum_TotalCount (fold addTransactionToSummary ?items empty_summary)")
      (simp_all add: summary_of_def del: map_map fold_map)
  moreover have "int (length (of_status [StatusCaptured] ?items)
      + length (of_status [StatusPending, StatusCaptureRequested] ?items)
      + length (of_status [StatusDeclined, StatusCancelled] ?items) + length (of_status [StatusFailed] ?items))
      \<le> int (length ?items)"
    using of_status_disjoint [of ?items] by simp
  ultimately show ?thesis by (simp add: Let_def summary_of_def)
qed

text \<open>
  C35: A report shows a caller only payments that he may read. When the endpoint answers 200,
  the caller is authenticated and may read the data of the requested merchant, and every row
  comes from a save of that merchant, for stores filled by merchants whose identifiers hold no
  colon.
\<close>

theorem report_only_readable:
  assumes "report_ServeHTTP (Some (\<lambda>f t s. mem_BuildTransactionReport (iter s) f t)) e parseTime ctx r w = (reply, w')"
    and "fst reply = 200" and "m = TrimSpace (Hr_Query r ''merchant_id'')" and "colon_free m"
    and "w_store w = foldl save_step NewInMemoryTransactionStore xs" and "\<forall>x\<in>set xs. colon_free (fst x)"
    and "iteration_of_payments (iter (w_store w)) (w_store w)"
  shows "\<exists>caller f listed. MerchantFromContext ctx = Some caller \<and> CanReadMerchantData caller m
    \<and> reply = reply_json 200 (enc_TransactionReportResponse
        (Some (buildTransactionReport f listed (now e w))) True None)
    \<and> (\<forall>rec\<in>set listed. \<exists>x\<in>set xs. \<exists>tx. from_save m (Rt_PaymentID rec) tx x
        \<and> Rt_Status rec = Tx_status tx \<and> Rt_PayloadJSON rec = Tx_payloadJSON tx)
    \<and> w_store w' = w_store w"
proof -
  obtain f caller rep where f: "decodeTransactionReportFilter parseTime r = Inr f"
    and caller: "MerchantFromContext ctx = Some caller" "CanReadMerchantData caller (Flt_MerchantID f)"
    and rep: "mem_BuildTransactionReport (iter (w_store w)) f (now e w) = Inr rep"
      "reply = reply_json 200 (enc_TransactionReportResponse (Some rep) True None)" "w' = tick w"
    using report_ServeHTTP_200 [OF assms(1,2)] by blast
  have fm: "Flt_MerchantID f = m"
    using f unfolding decodeTransactionReportFilter_def Let_def assms(3)
    by (auto split: if_splits sum.splits)
  let ?g = "normalizeTransactionReportFilter f"
  have gm: "Flt_MerchantID ?g = m" using fm assms(3) by (simp add: normalizeTransactionReportFilter_def)
  have rows: "\<exists>x\<in>set xs. \<exists>tx. from_save m (Rt_PaymentID rec) tx x \<and> Rt_Status rec = Tx_status tx
      \<and> Rt_PayloadJSON rec = Tx_payloadJSON tx" if "rec \<in> set (listed_records (iter (w_store w)) ?g)" for rec
  proof -
    have "rec \<in> set (sortReportRecords (report_records ?g (iter (w_store w))))"
      using that by (auto simp: listed_records_def dest: in_set_takeD)
    then have "rec \<in> set (report_records ?g (iter (w_store w)))"
      using sortReportRecords_spec(2) by (metis set_mset_mset)
    then obtain key tx where kt: "(key, tx) \<in> set (iter (w_store w))" "report_record m (key, tx) = Some rec"
      by (auto simp: report_records_def gm List.map_filter_def)
    have "Rt_Status rec = Tx_status tx \<and> Rt_PayloadJSON rec = Tx_payloadJSON tx"
      using kt(2) by (auto simp: report_record_def split: if_splits)
    with report_record_saved [OF assms(7) [unfolded assms(5)] assms(6,4) kt(1) [unfolded assms(5)] kt(2)]
    show ?thesis by blast
  qed
  show ?thesis
    using caller fm rep mem_report_listed [OF rep(1)] rows
    by (intro exI [of _ caller] exI [of _ ?g] exI [of _ "listed_records (iter (w_store w)) ?g"]) simp
qed

text \<open>A store with one payment, its iteration, and a request for its report.\<close>

definition one_save :: "save_call list" where
  "one_save = [(''m'', ''p'', ''k'', StatusCaptured, JRaw '''', 7)]"

definition one_iter :: "InMemoryTransactionStore \<Rightarrow> (gostring \<times> storedTx) list" where
  "one_iter s = (case Mem_byPaymentID s ''m:p'' of None \<Rightarrow> [] | Some tx \<Rightarrow> [(''m:p'', tx)])"

definition report_http :: http_request where
  "report_http = sample_http\<lparr>Hr_Path := ''/reports/transactions'',
     Hr_Query := (\<lambda>k. if k = ''merchant_id'' then '' m '' else '''')\<rparr>"

definition two_payments :: "(gostring \<times> storedTx) list" where
  "two_payments = [(''m:p'', \<lparr>Tx_status = StatusPending, Tx_payloadJSON = JRaw '''', Tx_idempotencyKey = ''k'',
      Tx_createdAt = 5, Tx_updatedAt = 5\<rparr>),
     (''m:q'', \<lparr>Tx_status = StatusCaptured, Tx_payloadJSON = JRaw '''', Tx_idempotencyKey = ''l'',
      Tx_createdAt = 9, Tx_updatedAt = 9\<rparr>)]"

definition latest_filter :: TransactionReportFilter where
  "latest_filter = \<lparr>Flt_MerchantID = ''m'', Flt_DateFrom = None, Flt_DateTo = None, Flt_Status = '''',
     Flt_PaymentSystem = '''', Flt_PaymentMethod = '''', Flt_Limit = 1\<rparr>"

lemma latest_filter_normal: "normalizeTransactionReportFilter latest_filter = latest_filter"
  by (simp add: normalizeTransactionReportFilter_def latest_filter_def maxReportLimit_def go_eval)

lemma two_records: "length (report_records latest_filter two_payments) = 2"
  by (simp add: report_records_def two_payments_def List.map_filter_def report_record_def latest_filter_def
      recordMatchesReportFilter_def Let_def HasPrefix_def)

lemma mem_report_ok:
  "TrimSpace (Flt_MerchantID f) \<noteq> '''' \<Longrightarrow> \<exists>rep. mem_BuildTransactionReport iter f t = Inr rep"
  by (simp add: mem_BuildTransactionReport_def normalizeTransactionReportFilter_def Let_def)

theorem report_latest_witness:
  "\<exists>rep x. mem_BuildTransactionReport two_payments latest_filter 11 = Inr rep \<and> Rep_Transactions rep = [x]"
proof -
  obtain rep where rep: "mem_BuildTransactionReport two_payments latest_filter 11 = Inr rep"
    using mem_report_ok [of latest_filter] by (auto simp: latest_filter_def go_eval)
  obtain listed where "Rep_Transactions rep = map report_item listed"
    "int (length listed) = min (Flt_Limit latest_filter) (int (length (report_records latest_filter two_payments)))"
    using report_latest [OF rep latest_filter_normal [symmetric]] by blast
  then have "Rep_Transactions rep = map report_item listed" "length listed = 1"
    by (simp_all add: two_records) (simp add: latest_filter_def)
  then show ?thesis using rep by (auto simp: length_Suc_conv)
qed

theorem report_only_readable_witness:
  "\<exists>caller f listed. MerchantFromContext (WithMerchant sample_merchant) = Some caller
    \<and> CanReadMerchantData caller ''m''
    \<and> fst (report_ServeHTTP (Some (\<lambda>f t s. mem_BuildTransactionReport (one_iter s) f t)) sample_env (\<lambda>_ _. None)
        (WithMerchant sample_merchant) report_http
        (sample_world\<lparr>w_store := foldl save_step NewInMemoryTransactionStore one_save\<rparr>))
      = reply_json 200 (enc_TransactionReportResponse (Some (buildTransactionReport f listed
          (now sample_env sample_world))) True None)"
proof -
  let ?s = "foldl save_step NewInMemoryTransactionStore one_save"
  let ?w = "sample_world\<lparr>w_store := ?s\<rparr>"
  let ?build = "\<lambda>f t s. mem_BuildTransactionReport (one_iter s) f t"
  let ?run = "report_ServeHTTP (Some ?build) sample_env (\<lambda>_ _. None) (WithMerchant sample_merchant) report_http ?w"
  have m: "TrimSpace (Hr_Query report_http ''merchant_id'') = ''m''" by (simp add: report_http_def go_eval)
  have tx: "Mem_byPaymentID ?s = [''m:p'' \<mapsto> new_tx ''k'' StatusCaptured (JRaw '''') 7 None]"
    by (simp add: one_save_def save_step_def mem_Save_def save_payload_def Let_def NewInMemoryTransactionStore_def
        store_key_def)
  have iter: "iteration_of_payments (one_iter (w_store ?w)) (w_store ?w)"
    by (simp add: iteration_of_payments_def one_iter_def tx)
  have f: "decodeTransactionReportFilter (\<lambda>_ _. None) report_http
      = Inr (latest_filter\<lparr>Flt_Limit := 100\<rparr>)"
    by (simp add: decodeTransactionReportFilter_def m report_limit_def parseOptionalReportTime_def
        reports_firstNonEmpty_def) (simp add: report_http_def report_limit_def reports_firstNonEmpty_def
        parseOptionalReportTime_def latest_filter_def)
  have read: "MerchantFromContext (WithMerchant sample_merchant) = Some sample_merchant"
    "CanReadMerchantData sample_merchant ''m''"
  proof -
    have "NormalizeRole RoleMerchant = RoleMerchant" "TrimSpace ''m'' = ''m''"
      by (simp_all add: NormalizeRole_def lit go_eval)
    then show "MerchantFromContext (WithMerchant sample_merchant) = Some sample_merchant"
      "CanReadMerchantData sample_merchant ''m''"
      by (simp_all add: MerchantFromContext_WithMerchant sample_merchant_def CanReadMerchantData_def)
  qed
  have "TrimSpace (Flt_MerchantID (latest_filter\<lparr>Flt_Limit := 100\<rparr>)) \<noteq> ''''"
    by (simp add: latest_filter_def go_eval)
  then obtain rep where rep: "?build (latest_filter\<lparr>Flt_Limit := 100\<rparr>) (now sample_env ?w) (w_store ?w) = Inr rep"
    using mem_report_ok by blast
  have "Hr_Method report_http = ''GET''" "Hr_Path report_http = ''/reports/transactions''"
    by (simp_all add: report_http_def sample_http_def)
  moreover have "Flt_MerchantID (latest_filter\<lparr>Flt_Limit := 100\<rparr>) = ''m''" by (simp add: latest_filter_def)
  ultimately have "fst (fst ?run) = 200"
    unfolding report_ServeHTTP_def Let_def using f read rep by simp
  from report_only_readable [OF surjective_pairing this m [symmetric] _ _ _ iter, of one_save]
  show ?thesis by (auto simp: one_save_def colon_free_def m now_def)
qed

end
