(* ===== verification/Secrets.thy ===== *)
theory Secrets
  imports Adapters
begin

section \<open>Protection of merchant secrets (\<open>internal/subsystems/secrets\<close>)\<close>

text \<open>
  Secrets are stored as they are, or encrypted by the transit engine of a Vault server. The
  server is a parameter: \<open>ve_do\<close> gives for a request the status, the body's text and the first
  JSON value in it, or the error of the request; \<open>ve_newRequest\<close> is the error of building a
  request for a URL, \<open>ve_readFile\<close> is \<open>os.ReadFile\<close>. \<open>url.PathEscape\<close> and the decoder of
  base64 are modelled; the decoder's error does not say at which byte it gave up.
\<close>

subsection \<open>Base64 decoding\<close>

definition base64_alphabet :: gostring where
  "base64_alphabet = ''ABCDEFGHIJKLMNOPQRSTUVWXYZabcdefghijklmnopqrstuvwxyz0123456789+/''"

definition base64_value :: "char \<Rightarrow> nat option" where
  "base64_value c = map_of (zip base64_alphabet [0..<64]) c"

fun base64_quads :: "gostring \<Rightarrow> gostring option" where
  "base64_quads (a # b # c # d # s) =
     (case (base64_value a, base64_value b, base64_value c, base64_value d) of
        (Some v, Some x, Some y, Some z) \<Rightarrow> (let n = ((v * 64 + x) * 64 + y) * 64 + z in
          map_option (\<lambda>t. char_of (n div 65536) # char_of (n div 256 mod 256) # char_of (n mod 256) # t)
            (base64_quads s))
      | (Some v, Some x, Some y, None) \<Rightarrow> if d = CHR ''='' \<and> s = []
          then (let n = ((v * 64 + x) * 64 + y) div 4 in Some [char_of (n div 256), char_of (n mod 256)]) else None
      | (Some v, Some x, None, None) \<Rightarrow> if c = CHR ''='' \<and> d = CHR ''='' \<and> s = []
          then Some [char_of ((v * 64 + x) div 16)] else None
      | _ \<Rightarrow> None)"
| "base64_quads [] = Some []"
| "base64_quads _ = None"

definition base64_decode :: "gostring \<Rightarrow> gostring option" where
  "base64_decode s = base64_quads (filter (\<lambda>c. c \<noteq> CHR 0x0A \<and> c \<noteq> CHR 0x0D) s)"

subsection \<open>Vault\<close>

definition VaultCiphertextPrefix :: gostring where [lit]: "VaultCiphertextPrefix = ''vault:v''"
definition defaultVaultAddress :: gostring where "defaultVaultAddress = ''http://127.0.0.1:8200''"
definition defaultVaultTransitMount :: gostring where "defaultVaultTransitMount = ''transit''"
definition defaultVaultTransitKey :: gostring where "defaultVaultTransitKey = ''payment-gateway-merchant-secrets''"
definition maxVaultErrorBodySize :: nat where "maxVaultErrorBodySize = 4096"

record VaultTransitConfig =
  VC_Address :: gostring
  VC_Token :: gostring
  VC_TokenFile :: gostring
  VC_Namespace :: gostring
  VC_MountPath :: gostring
  VC_KeyName :: gostring
  VC_Context :: gostring
  VC_APIVersion :: gostring

record VaultTransitProtector =
  VP_address :: gostring
  VP_token :: gostring
  VP_tokenFile :: gostring
  VP_namespace :: gostring
  VP_mountPath :: gostring
  VP_keyName :: gostring
  VP_context :: gostring
  VP_apiVersion :: gostring

definition NewVaultTransitProtector :: "VaultTransitConfig \<Rightarrow> VaultTransitProtector result" where
  "NewVaultTransitProtector cfg =
     (let address = TrimRightByte (TrimSpace (VC_Address cfg)) CHR ''/''; token = TrimSpace (VC_Token cfg);
          tokenFile = TrimSpace (VC_TokenFile cfg) in
      if token = '''' \<and> tokenFile = '''' then Inl ''VAULT_TOKEN or VAULT_TOKEN_FILE is required''
      else Inr \<lparr>VP_address = env_or address defaultVaultAddress, VP_token = token, VP_tokenFile = tokenFile,
        VP_namespace = TrimSpace (VC_Namespace cfg),
        VP_mountPath = env_or (TrimByte (TrimSpace (VC_MountPath cfg)) CHR ''/'') defaultVaultTransitMount,
        VP_keyName = env_or (TrimByte (TrimSpace (VC_KeyName cfg)) CHR ''/'') defaultVaultTransitKey,
        VP_context = VC_Context cfg, VP_apiVersion = env_or (TrimSpace (VC_APIVersion cfg)) ''v1''\<rparr>)"

definition path_unreserved :: "char \<Rightarrow> bool" where
  "path_unreserved c = (unreserved c \<or> c \<in> set ''$&+=:@'')"

definition PathEscape :: "gostring \<Rightarrow> gostring" where
  "PathEscape s = concat (map (\<lambda>c. if path_unreserved c then [c]
     else [CHR ''%'', upper_hex (byte c div 16), upper_hex (byte c mod 16)]) s)"

definition escapeVaultPath :: "gostring \<Rightarrow> gostring" where
  "escapeVaultPath path = Join (map PathEscape (Split CHR ''/'' (TrimByte path CHR ''/''))) ''/''"

definition encodedContext :: "VaultTransitProtector \<Rightarrow> gostring" where
  "encodedContext p = (if VP_context p = '''' then '''' else base64 (VP_context p))"

record vault_env =
  ve_newRequest :: "gostring \<Rightarrow> goerror option"
  ve_readFile :: "gostring \<Rightarrow> gostring result"
  ve_do :: "http_call \<Rightarrow> (int \<times> gostring \<times> json option) result"

definition readToken :: "vault_env \<Rightarrow> VaultTransitProtector \<Rightarrow> gostring result" where
  "readToken e p =
     (if VP_tokenFile p \<noteq> '''' then
        (case ve_readFile e (VP_tokenFile p) of
           Inl err \<Rightarrow> Inl (''VAULT_TOKEN_FILE read failed: '' @ err)
         | Inr raw \<Rightarrow> if TrimSpace raw = '''' then Inl ''VAULT_TOKEN_FILE is empty'' else Inr (TrimSpace raw))
      else if TrimSpace (VP_token p) = '''' then Inl ''VAULT_TOKEN is empty'' else Inr (TrimSpace (VP_token p)))"

text \<open>The flattened answer \<open>{"data": {"ciphertext": ..., "plaintext": ...}}\<close>.\<close>

record vaultTransitResponse =
  VR_Ciphertext :: gostring
  VR_Plaintext :: gostring

definition zero_vault :: vaultTransitResponse where
  "zero_vault = \<lparr>VR_Ciphertext = '''', VR_Plaintext = ''''\<rparr>"

definition tab_vaultTransitResponse :: "vaultTransitResponse jfields" where
  "tab_vaultTransitResponse = [(''data'', dec_struct [(''ciphertext'', dec_str VR_Ciphertext_update),
     (''plaintext'', dec_str VR_Plaintext_update)])]"

definition vault_endpoint :: "VaultTransitProtector \<Rightarrow> gostring \<Rightarrow> gostring" where
  "vault_endpoint p operation = VP_address p @ ''/'' @ TrimByte (VP_apiVersion p) CHR ''/'' @ ''/''
     @ escapeVaultPath (VP_mountPath p) @ ''/'' @ operation @ ''/'' @ escapeVaultPath (VP_keyName p)"

definition vault_request :: "VaultTransitProtector \<Rightarrow> gostring \<Rightarrow> gostring \<Rightarrow> json \<Rightarrow> http_call" where
  "vault_request p operation token body =
     \<lparr>Hc_Method = ''POST'', Hc_URL = vault_endpoint p operation, Hc_Auth = ('''', ''''),
      Hc_Headers = [(''X-Vault-Token'', token), (''Content-Type'', ''application/json''),
        (''Accept'', ''application/json'')]
        @ (if VP_namespace p \<noteq> '''' then [(''X-Vault-Namespace'', VP_namespace p)] else []),
      Hc_Body = JDoc body\<rparr>"

definition vault_call :: "vault_env \<Rightarrow> VaultTransitProtector \<Rightarrow> gostring \<Rightarrow> json \<Rightarrow> vaultTransitResponse result" where
  "vault_call e p operation body =
     (case ve_newRequest e (vault_endpoint p operation) of
        Some err \<Rightarrow> Inl err
      | None \<Rightarrow> (case readToken e p of
          Inl err \<Rightarrow> Inl err
        | Inr token \<Rightarrow> (case ve_do e (vault_request p operation token body) of
            Inl err \<Rightarrow> Inl (''vault transit '' @ operation @ '' request failed: '' @ err)
          | Inr (code, t, doc) \<Rightarrow>
              if code < 200 \<or> 300 \<le> code then
                Inl (''vault transit '' @ operation @ '' failed: http '' @ Itoa code @ '': ''
                  @ TrimSpace (take maxVaultErrorBodySize t))
              else (case yoo_decode tab_vaultTransitResponse zero_vault doc of
                Inl err \<Rightarrow> Inl (''vault transit '' @ operation @ '' response decode failed: '' @ err)
              | Inr r \<Rightarrow> Inr r))))"

definition enc_vaultTransitEncryptRequest :: "gostring \<Rightarrow> gostring \<Rightarrow> json" where
  "enc_vaultTransitEncryptRequest plaintext ctx = JObj (emit_str ''plaintext'' plaintext @ omit_str ''context'' ctx)"

definition enc_vaultTransitDecryptRequest :: "gostring \<Rightarrow> gostring \<Rightarrow> json" where
  "enc_vaultTransitDecryptRequest ciphertext ctx = JObj (emit_str ''ciphertext'' ciphertext @ omit_str ''context'' ctx)"

definition vault_Protect :: "vault_env \<Rightarrow> VaultTransitProtector \<Rightarrow> gostring \<Rightarrow> gostring result" where
  "vault_Protect e p plaintext =
     (if plaintext = '''' \<or> HasPrefix plaintext VaultCiphertextPrefix then Inr plaintext
      else (case vault_call e p ''encrypt'' (enc_vaultTransitEncryptRequest (base64 plaintext) (encodedContext p)) of
        Inl err \<Rightarrow> Inl err
      | Inr r \<Rightarrow> if TrimSpace (VR_Ciphertext r) = '''' then Inl ''vault transit encrypt returned empty ciphertext''
          else Inr (VR_Ciphertext r)))"

definition vault_Reveal :: "vault_env \<Rightarrow> VaultTransitProtector \<Rightarrow> gostring \<Rightarrow> gostring result" where
  "vault_Reveal e p storedValue =
     (if storedValue = '''' \<or> \<not> HasPrefix storedValue VaultCiphertextPrefix then Inr storedValue
      else (case vault_call e p ''decrypt'' (enc_vaultTransitDecryptRequest storedValue (encodedContext p)) of
        Inl err \<Rightarrow> Inl err
      | Inr r \<Rightarrow> if TrimSpace (VR_Plaintext r) = '''' then Inl ''vault transit decrypt returned empty plaintext''
          else (case base64_decode (VR_Plaintext r) of
            None \<Rightarrow> Inl ''vault transit decrypt returned invalid base64 plaintext: illegal base64 data''
          | Some plaintext \<Rightarrow> Inr plaintext)))"

subsection \<open>The protectors\<close>

datatype Protector = NoopProtector | VaultProtector VaultTransitProtector

definition Protect :: "vault_env \<Rightarrow> Protector \<Rightarrow> gostring \<Rightarrow> gostring result" where
  "Protect e p v = (case p of NoopProtector \<Rightarrow> Inr v | VaultProtector p \<Rightarrow> vault_Protect e p v)"

definition Reveal :: "vault_env \<Rightarrow> Protector \<Rightarrow> gostring \<Rightarrow> gostring result" where
  "Reveal e p v = (case p of NoopProtector \<Rightarrow> Inr v | VaultProtector p \<Rightarrow> vault_Reveal e p v)"

definition Protector_Enabled :: "Protector \<Rightarrow> bool" where
  "Protector_Enabled p = (case p of NoopProtector \<Rightarrow> False | VaultProtector _ \<Rightarrow> True)"

definition secrets_firstNonEmpty :: "gostring \<Rightarrow> gostring \<Rightarrow> gostring" where
  "secrets_firstNonEmpty a b = (if TrimSpace a \<noteq> '''' then a else if TrimSpace b \<noteq> '''' then b else '''')"

definition NewProtectorFromEnv :: "(gostring \<Rightarrow> gostring) \<Rightarrow> Protector result" where
  "NewProtectorFromEnv env =
     (let provider = ToLower (TrimSpace (secrets_firstNonEmpty (env ''SECRET_PROTECTOR'')
            (env ''SECRET_PROTECTOR_PROVIDER''))) in
      if provider \<in> {'''', ''none'', ''noop'', ''plain'', ''plaintext''} then Inr NoopProtector
      else if provider \<in> {''vault'', ''vault_transit'', ''vault-transit'', ''hashicorp_vault'', ''hashicorp-vault''} then
        (case NewVaultTransitProtector \<lparr>VC_Address = env ''VAULT_ADDR'', VC_Token = env ''VAULT_TOKEN'',
            VC_TokenFile = env ''VAULT_TOKEN_FILE'', VC_Namespace = env ''VAULT_NAMESPACE'',
            VC_MountPath = env ''VAULT_TRANSIT_MOUNT'', VC_KeyName = env ''VAULT_TRANSIT_KEY'',
            VC_Context = env ''VAULT_TRANSIT_CONTEXT'', VC_APIVersion = env ''VAULT_API_VERSION''\<rparr> of
          Inl err \<Rightarrow> Inl err | Inr p \<Rightarrow> Inr (VaultProtector p))
      else Inl ''unsupported SECRET_PROTECTOR value'')"

subsection \<open>Decoding what was encoded\<close>

lemma base64_digit_nth: "base64_digit n = base64_alphabet ! n"
  by (simp only: base64_digit_def base64_alphabet_def)

lemma base64_value_digit: "n < 64 \<Longrightarrow> base64_value (base64_digit n) = Some n"
proof -
  have "length base64_alphabet = 64" "distinct base64_alphabet" unfolding base64_alphabet_def by code_simp+
  then show "n < 64 \<Longrightarrow> ?thesis"
    unfolding base64_value_def base64_digit_nth by (subst map_of_zip_nth) simp_all
qed

lemma base64_value_pad: "base64_value CHR ''='' = None"
  by (simp add: base64_value_def base64_alphabet_def)

lemma base64_digit_text:
  assumes "n < 64"
  shows "base64_digit n \<noteq> CHR 0x0A \<and> base64_digit n \<noteq> CHR 0x0D \<and> base64_digit n \<noteq> CHR '' ''
    \<and> printable [base64_digit n]"
proof -
  have "length base64_alphabet = 64"
    "list_all (\<lambda>c. c \<noteq> CHR 0x0A \<and> c \<noteq> CHR 0x0D \<and> c \<noteq> CHR '' '' \<and> printable [c]) base64_alphabet"
    unfolding base64_alphabet_def by code_simp+
  then show ?thesis using assms unfolding base64_digit_nth list_all_length by simp
qed

lemma base_64_digits:
  fixes n :: nat
  shows "(n div 64) * 64 + n mod 64 = n" "(n div 4096 * 64 + n div 64 mod 64) * 64 + n mod 64 = n"
    "((n div 262144 * 64 + n div 4096 mod 64) * 64 + n div 64 mod 64) * 64 + n mod 64 = n"
proof -
  have d: "n div 4096 = n div 64 div 64" "n div 262144 = n div 64 div 64 div 64"
    by (simp_all flip: div_mult2_eq)
  show "(n div 64) * 64 + n mod 64 = n" by (rule div_mult_mod_eq)
  show "(n div 4096 * 64 + n div 64 mod 64) * 64 + n mod 64 = n" unfolding d div_mult_mod_eq ..
  show "((n div 262144 * 64 + n div 4096 mod 64) * 64 + n div 64 mod 64) * 64 + n mod 64 = n"
    unfolding d div_mult_mod_eq ..
qed

lemma char_of_mod_byte: "m mod 256 = byte c \<Longrightarrow> char_of m = c"
  by (simp add: char_of_eq_iff take_bit_eq_mod byte_def)

lemma three_bytes:
  fixes a b c :: nat
  assumes "a < 256" "b < 256" "c < 256" "n = (a * 256 + b) * 256 + c"
  shows "n div 262144 < 64" "n div 65536 mod 256 = a" "n div 256 mod 256 = b" "n mod 256 = c"
proof -
  have "n div 65536 = a" using assms by (intro div_nat_eqI) auto
  then show "n div 65536 mod 256 = a" using assms(1) by simp
  have "n div 256 = a * 256 + b" using assms by (intro div_nat_eqI) auto
  then show "n div 256 mod 256 = b" using assms(2) by simp
  show "n mod 256 = c" unfolding assms(4) using assms(3) by (simp only: mod_mult_self3 mod_less)
  have "n < 64 * 262144" using assms by simp
  then show "n div 262144 < 64" by (rule less_mult_imp_div_less)
qed

lemma base64_quads_base64: "base64_quads (base64 s) = Some s"
proof (induction s rule: base64.induct)
  case (1 a b c s)
  define n where "n = (byte a * 256 + byte b) * 256 + byte c"
  note n = three_bytes [OF byte_less byte_less byte_less n_def]
  have "base64 (a # b # c # s) = base64_digit (n div 262144) # base64_digit (n div 4096 mod 64)
      # base64_digit (n div 64 mod 64) # base64_digit (n mod 64) # base64 s"
    unfolding base64.simps Let_def n_def [symmetric] by simp
  then have "base64_quads (base64 (a # b # c # s)) = Some (char_of (n div 65536) # char_of (n div 256 mod 256)
      # char_of (n mod 256) # s)"
    using 1 n(1) base_64_digits(3) [of n] by (simp add: base64_value_digit Let_def)
  then show ?case using n(2-4) by (simp add: char_of_mod_byte)
next
  case (2 a b)
  define n where "n = (byte a * 256 + byte b) * 4"
  have "byte a * 256 + byte b < 65536" using byte_less [of a] byte_less [of b] by linarith
  then have "n < 64 * 4096" by (simp add: n_def)
  then have "n div 4096 < 64" by (rule less_mult_imp_div_less)
  moreover have "base64 [a, b] = [base64_digit (n div 4096), base64_digit (n div 64 mod 64),
      base64_digit (n mod 64), CHR ''='']"
    unfolding base64.simps Let_def n_def [symmetric] by simp
  ultimately have "base64_quads (base64 [a, b]) = Some [char_of (n div 4 div 256), char_of (n div 4 mod 256)]"
    using base_64_digits(2) [of n] by (simp add: Let_def base64_value_digit base64_value_pad)
  moreover have "n div 4 = byte a * 256 + byte b" by (simp add: n_def)
  moreover have "(byte a * 256 + byte b) div 256 = byte a" "(byte a * 256 + byte b) mod 256 = byte b"
    using byte_less [of b] by (simp_all only: mod_mult_self3 mod_less div_mult_self3 div_less)
  ultimately show ?case by simp
next
  case (3 a)
  define n where "n = byte a * 16"
  have "n < 64 * 64" using byte_less [of a] by (simp add: n_def)
  then have "n div 64 < 64" by (rule less_mult_imp_div_less)
  moreover have "base64 [a] = [base64_digit (n div 64), base64_digit (n mod 64), CHR ''='', CHR ''='']"
    unfolding base64.simps Let_def n_def [symmetric] by simp
  ultimately have "base64_quads (base64 [a]) = Some [char_of (n div 16)]"
    using base_64_digits(1) [of n] by (simp add: Let_def base64_value_digit base64_value_pad)
  then show ?case by (simp add: n_def)
qed simp

lemma base64_digit_in: "n < 64 \<Longrightarrow> base64_digit n \<in> set base64_alphabet"
proof -
  have "length base64_alphabet = 64" unfolding base64_alphabet_def by code_simp
  then show "n < 64 \<Longrightarrow> ?thesis" unfolding base64_digit_nth by simp
qed

lemma set_base64: "set (base64 s) \<subseteq> set (CHR ''='' # base64_alphabet)"
proof (induction s rule: base64.induct)
  case (1 a b c s)
  have "((byte a * 256 + byte b) * 256 + byte c) div 262144 < 64"
    by (rule three_bytes(1) [OF byte_less byte_less byte_less refl])
  then show ?case using 1 by (simp add: Let_def base64_digit_in)
next
  case (2 a b)
  have "byte a * 256 + byte b < 65536" using byte_less [of a] byte_less [of b] by linarith
  then have "(byte a * 256 + byte b) * 4 < 64 * 4096" by simp
  then have "(byte a * 256 + byte b) * 4 div 4096 < 64" by (rule less_mult_imp_div_less)
  then show ?case by (simp add: Let_def base64_digit_in)
next
  case (3 a)
  have "byte a * 16 < 64 * 64" using byte_less [of a] by simp
  then have "byte a * 16 div 64 < 64" by (rule less_mult_imp_div_less)
  then show ?case by (simp add: Let_def base64_digit_in)
qed simp

lemma base64_text: "c \<in> set (base64 s) \<Longrightarrow> byte c < 128 \<and> \<not> ascii_space (byte c) \<and> c \<noteq> CHR 0x0A \<and> c \<noteq> CHR 0x0D"
proof -
  have "list_all (\<lambda>c. byte c < 128 \<and> \<not> ascii_space (byte c) \<and> c \<noteq> CHR 0x0A \<and> c \<noteq> CHR 0x0D)
      (CHR ''='' # base64_alphabet)" unfolding base64_alphabet_def by code_simp
  then show "c \<in> set (base64 s) \<Longrightarrow> ?thesis" using set_base64 [of s] unfolding list_all_iff by blast
qed

lemma base64_decode_base64: "base64_decode (base64 s) = Some s"
proof -
  have "filter (\<lambda>c. c \<noteq> CHR 0x0A \<and> c \<noteq> CHR 0x0D) (base64 s) = base64 s"
    using base64_text by (simp add: filter_id_conv)
  then show ?thesis by (simp add: base64_decode_def base64_quads_base64)
qed

lemma base64_nonempty: "s \<noteq> [] \<Longrightarrow> base64 s \<noteq> []"
  by (cases s rule: base64.cases) (simp_all add: Let_def)

lemma base64_trimmed: "TrimSpace (base64 s) = base64 s"
  using base64_text by (intro TrimSpace_no_space) blast

subsection \<open>Properties\<close>

text \<open>
  C36: A secret that Vault encrypts comes back. With a usable token and a Vault server whose
  \<open>decrypt\<close> returns what it was given to \<open>encrypt\<close>, what is stored is the ciphertext and never
  the secret, and revealing it returns the secret byte for byte. This holds for every secret but
  the empty one and one that itself begins with \<open>vault:v\<close>: such a secret is taken for a
  ciphertext and stored as it is, and it does not come back if the server cannot decrypt it.
\<close>

theorem vault_roundtrip:
  assumes "\<forall>u. ve_newRequest e u = None" and "readToken e p = Inr token"
    and "s \<noteq> ''''" and "\<not> HasPrefix s VaultCiphertextPrefix"
    and "ve_do e (vault_request p ''encrypt'' token
        (enc_vaultTransitEncryptRequest (base64 s) (encodedContext p)))
      = Inr (200, t1, Some (JObj [(''data'', JObj [(''ciphertext'', JStr c)])]))"
    and "HasPrefix c VaultCiphertextPrefix" and "TrimSpace c \<noteq> ''''"
    and "ve_do e (vault_request p ''decrypt'' token
        (enc_vaultTransitDecryptRequest c (encodedContext p)))
      = Inr (200, t2, Some (JObj [(''data'', JObj [(''plaintext'', JStr (base64 s))])]))"
  shows "Protect e (VaultProtector p) s = Inr c \<and> c \<noteq> s \<and> Reveal e (VaultProtector p) c = Inr s
    \<and> (HasPrefix x VaultCiphertextPrefix \<longrightarrow> Protect e (VaultProtector p) x = Inr x
        \<and> (vault_call e p ''decrypt'' (enc_vaultTransitDecryptRequest x (encodedContext p)) = Inl err
            \<longrightarrow> Reveal e (VaultProtector p) x = Inl err))"
proof -
  have dec: "yoo_decode tab_vaultTransitResponse zero_vault
      (Some (JObj [(''data'', JObj [(k, JStr x)])])) = Inr (case map_of [(''ciphertext'', zero_vault\<lparr>VR_Ciphertext := x\<rparr>),
        (''plaintext'', zero_vault\<lparr>VR_Plaintext := x\<rparr>)] k of Some r \<Rightarrow> r | None \<Rightarrow> zero_vault)"
    if "k = ''ciphertext'' \<or> k = ''plaintext''" for k x
    using that by (auto simp: yoo_decode_def tab_vaultTransitResponse_def dec_struct_def lookup_field_def dec_str_def
        zero_vault_def)
  have "vault_call e p ''encrypt'' (enc_vaultTransitEncryptRequest (base64 s) (encodedContext p))
      = Inr (zero_vault\<lparr>VR_Ciphertext := c\<rparr>)"
    using assms(1,2,5) by (simp add: vault_call_def dec)
  then have "Protect e (VaultProtector p) s = Inr c"
    using assms(3,4,7) by (simp add: Protect_def vault_Protect_def)
  moreover have "vault_call e p ''decrypt'' (enc_vaultTransitDecryptRequest c (encodedContext p))
      = Inr (zero_vault\<lparr>VR_Plaintext := base64 s\<rparr>)"
    using assms(1,2,8) by (simp add: vault_call_def dec)
  then have "Reveal e (VaultProtector p) c = Inr s"
    using assms(6) base64_nonempty [OF assms(3)]
    by (cases "c = ''''") (simp_all add: Reveal_def vault_Reveal_def base64_trimmed base64_decode_base64 lit HasPrefix_def)
  moreover have "Protect e (VaultProtector p) x = Inr x"
    "vault_call e p ''decrypt'' (enc_vaultTransitDecryptRequest x (encodedContext p)) = Inl err \<Longrightarrow>
      Reveal e (VaultProtector p) x = Inl err" if "HasPrefix x VaultCiphertextPrefix"
    using that by (auto simp: Protect_def vault_Protect_def Reveal_def vault_Reveal_def lit HasPrefix_def)
  ultimately show ?thesis using assms(4,6) by blast
qed

text \<open>A server that keeps one secret under the ciphertext \<open>vault:v1:x\<close>.\<close>

definition sample_vault :: vault_env where
  "sample_vault = \<lparr>ve_newRequest = (\<lambda>_. None), ve_readFile = (\<lambda>_. Inl ''no such file''),
     ve_do = (\<lambda>call. if HasSuffix (Hc_URL call) ''/encrypt/payment-gateway-merchant-secrets''
       then Inr (200, '''', Some (JObj [(''data'', JObj [(''ciphertext'', JStr ''vault:v1:x'')])]))
       else Inr (200, '''', Some (JObj [(''data'', JObj [(''plaintext'', JStr (base64 ''key''))])])))\<rparr>"

definition sample_protector :: VaultTransitProtector where
  "sample_protector = \<lparr>VP_address = defaultVaultAddress, VP_token = ''t'', VP_tokenFile = '''', VP_namespace = '''',
     VP_mountPath = ''transit'', VP_keyName = defaultVaultTransitKey, VP_context = '''', VP_apiVersion = ''v1''\<rparr>"

theorem vault_roundtrip_witness:
  "Protect sample_vault (VaultProtector sample_protector) ''key'' = Inr ''vault:v1:x''
    \<and> Reveal sample_vault (VaultProtector sample_protector) ''vault:v1:x'' = Inr ''key''"
proof -
  have tok: "readToken sample_vault sample_protector = Inr ''t''"
    by (simp add: readToken_def sample_protector_def go_eval)
  have e: "HasSuffix (vault_endpoint sample_protector ''encrypt'') ''/encrypt/payment-gateway-merchant-secrets''"
    unfolding sample_protector_def defaultVaultTransitKey_def defaultVaultAddress_def by code_simp
  have d: "\<not> HasSuffix (vault_endpoint sample_protector ''decrypt'') ''/encrypt/payment-gateway-merchant-secrets''"
    unfolding sample_protector_def defaultVaultTransitKey_def defaultVaultAddress_def by code_simp
  show ?thesis
    using vault_roundtrip [of sample_vault sample_protector "''t''" "''key''" "''''" "''vault:v1:x''" "''''"
        "''''" "''''"] tok e d
    by (simp add: sample_vault_def vault_request_def lit go_eval)
qed

end
