(* ===== verification/Tokenizer.thy ===== *)
theory Tokenizer
  imports Orchestrator
begin

section \<open>Tokenizers (\<open>internal/subsystems/tokenizer\<close>)\<close>

text \<open>
  The two implementations behind the contract \<open>Tokenizer\<close>: one draws a random token, the other
  also keeps its hash and a masked payment value in the table \<open>payment_tokens\<close>, one row per
  merchant and payment (the conflict clause of its insert). \<open>rand\<close> gives the bytes of
  \<open>crypto/rand\<close> or its error, \<open>sha256\<close> the hexadecimal digest, \<open>db\<close> the error of the database
  for a row; \<open>NOW()\<close> is \<open>time.Now()\<close>.
\<close>

definition hex_digit :: "nat \<Rightarrow> char" where
  "hex_digit n = (if n < 10 then char_of (48 + n) else char_of (87 + n))"

definition hex_EncodeToString :: "gostring \<Rightarrow> gostring" where
  "hex_EncodeToString s = concat (map (\<lambda>c. [hex_digit (byte c div 16), hex_digit (byte c mod 16)]) s)"

type_synonym random = "nat \<Rightarrow> gostring result"

definition random_token :: "random \<Rightarrow> nat \<Rightarrow> gostring result" where
  "random_token rand n = (case rand n of Inl err \<Rightarrow> Inl err | Inr b \<Rightarrow> Inr (''tok_'' @ hex_EncodeToString b))"

definition ephemeral_Tokenize :: "random \<Rightarrow> CreatePaymentRequest \<Rightarrow> gostring result" where
  "ephemeral_Tokenize rand req = random_token rand 16"

subsection \<open>The Postgres tokenizer\<close>

definition defaultTokenTTL :: int where "defaultTokenTTL = 24 * Hour"

definition generateToken :: "random \<Rightarrow> gostring result" where
  "generateToken rand = random_token rand 32"

definition hashToken :: "(gostring \<Rightarrow> gostring) \<Rightarrow> gostring \<Rightarrow> gostring" where
  "hashToken sha256 token = sha256 token"

definition tok_TokenPreview :: "gostring \<Rightarrow> gostring" where
  "tok_TokenPreview token = (if token = '''' then '''' else if length token \<le> 12 then token
     else take 8 token @ ''...'' @ drop (length token - 4) token)"

definition tok_onlyDigits :: "gostring \<Rightarrow> gostring" where
  "tok_onlyDigits s = encode_runes (filter is_digit (runes s))"

definition tok_MaskCardNumber :: "gostring \<Rightarrow> gostring" where
  "tok_MaskCardNumber pan = (let digits = tok_onlyDigits pan in
     if length digits < 10 then ''''
     else take 6 digits @ ''******'' @ drop (length digits - 4) digits)"

definition tok_MaskPhone :: "gostring \<Rightarrow> gostring" where
  "tok_MaskPhone phone = (let digits = tok_onlyDigits phone in
     if length digits < 5 then ''''
     else (let prefix = (if HasPrefix (TrimSpace phone) ''+'' then ''+'' else '''') in
       if length digits \<le> 4 then prefix @ digits
       else prefix @ take 4 digits @ ''******'' @ drop (length digits - 2) digits))"

definition MaskWalletID :: "gostring \<Rightarrow> gostring" where
  "MaskWalletID walletID = (let walletID = TrimSpace walletID in
     if walletID = '''' then '''' else if length walletID \<le> 4 then take 1 walletID @ ''***''
     else take 3 walletID @ ''***'' @ drop (length walletID - 2) walletID)"

fun tok_firstNonEmpty :: "gostring list \<Rightarrow> gostring" where
  "tok_firstNonEmpty [] = ''''"
| "tok_firstNonEmpty (v # vs) = (if TrimSpace v \<noteq> '''' then TrimSpace v else tok_firstNonEmpty vs)"

definition maskedPaymentValue :: "CreatePaymentRequest \<Rightarrow> gostring" where
  "maskedPaymentValue req = (let c = Info_CustomerData (Req_PaymentInfo req);
       t = Method_Type (Info_PaymentMethodData (Req_PaymentInfo req)) in
     if t = PaymentMethodCard then tok_MaskCardNumber (Cust_CardNumber c)
     else if t = PaymentMethodSBP then tok_MaskPhone (Cust_Phone c)
     else if t = PaymentMethodDigitalWallet then MaskWalletID (Cust_DigitalWalletID c)
     else if t = PaymentMethodDigitalRuble then MaskWalletID (tok_firstNonEmpty
       [Cust_DigitalRubleWalletID c, Cust_DigitalRubleIdentifier c, Cust_DigitalWalletID c])
     else '''')"

record token_row =
  Tok_IdempotencyKey :: gostring
  Tok_Hash :: gostring
  Tok_Preview :: gostring
  Tok_PaymentMethod :: gostring
  Tok_MaskedValue :: gostring
  Tok_ExpiresAt :: gotime
  Tok_CreatedAt :: gotime
  Tok_RevokedAt :: "gotime option"

type_synonym token_table = "gostring \<times> gostring \<rightharpoonup> token_row"

definition token_row_of :: "(gostring \<Rightarrow> gostring) \<Rightarrow> CreatePaymentRequest \<Rightarrow> gostring \<Rightarrow> int \<Rightarrow> gotime \<Rightarrow> token_row" where
  "token_row_of sha256 req token ttl t =
     \<lparr>Tok_IdempotencyKey = Req_IdempotencyKey req, Tok_Hash = hashToken sha256 token,
      Tok_Preview = tok_TokenPreview token,
      Tok_PaymentMethod = Method_Type (Info_PaymentMethodData (Req_PaymentInfo req)),
      Tok_MaskedValue = maskedPaymentValue req, Tok_ExpiresAt = t + ttl, Tok_CreatedAt = t, Tok_RevokedAt = None\<rparr>"

definition postgres_Tokenize :: "random \<Rightarrow> (gostring \<Rightarrow> gostring) \<Rightarrow> (token_table \<Rightarrow> token_row \<Rightarrow> goerror option) \<Rightarrow>
    gotime \<Rightarrow> CreatePaymentRequest \<Rightarrow> token_table \<Rightarrow> gostring result \<times> token_table" where
  "postgres_Tokenize rand sha256 db t req T =
     (if Req_MerchantID req = '''' \<or> Req_PaymentID req = '''' \<or> Req_IdempotencyKey req = ''''
      then (Inl ''merchant_id, payment_id and idempotency_key are required for tokenization'', T)
      else (case generateToken rand of
        Inl err \<Rightarrow> (Inl err, T)
      | Inr token \<Rightarrow>
          (let row = token_row_of sha256 req token defaultTokenTTL t; key = (Req_MerchantID req, Req_PaymentID req) in
           case db T row of
             Some err \<Rightarrow> (Inl err, T)
           | None \<Rightarrow> (Inr token, T(key \<mapsto> (case T key of
               None \<Rightarrow> row | Some old \<Rightarrow> row\<lparr>Tok_CreatedAt := Tok_CreatedAt old\<rparr>))))))"

subsection \<open>What the tokenizer keeps\<close>

lemma length_hex [simp]: "length (hex_EncodeToString s) = 2 * length s"
  by (induction s) (simp_all add: hex_EncodeToString_def)

lemma length_random_token:
  assumes "\<And>n b. rand n = Inr b \<Longrightarrow> length b = n" "random_token rand n = Inr token"
  shows "length token = 4 + 2 * n"
  using assms by (auto simp: random_token_def split: sum.splits)

lemma random_token_prefix: "random_token rand n = Inr token \<Longrightarrow> take 4 token = ''tok_''"
  by (auto simp: random_token_def split: sum.splits)

lemma TokenPreview_long: "length token = 68 \<Longrightarrow> tok_TokenPreview token = take 8 token @ ''...'' @ drop 64 token"
  by (auto simp: tok_TokenPreview_def)

lemma length_MaskCardNumber: "length (tok_MaskCardNumber pan) \<le> 16"
  by (auto simp: tok_MaskCardNumber_def Let_def)

lemma MaskCardNumber_digits:
  "length (filter (\<lambda>c. is_digit (byte c)) (tok_MaskCardNumber pan)) \<le> 10"
proof (cases "length (tok_onlyDigits pan) < 10")
  case False
  let ?P = "\<lambda>c. is_digit (byte c)" and ?d = "tok_onlyDigits pan"
  have "length (filter ?P (take 6 ?d)) \<le> 6"
    using length_filter_le [of ?P "take 6 ?d"] by simp
  moreover have "length (filter ?P (drop (length ?d - 4) ?d)) \<le> 4"
    using length_filter_le [of ?P "drop (length ?d - 4) ?d"] by simp
  ultimately show ?thesis
    using False by (simp add: tok_MaskCardNumber_def Let_def is_digit_def byte_def)
qed (simp add: tok_MaskCardNumber_def)

lemma MaskCardNumber_middle:
  assumes "length (tok_onlyDigits p) \<ge> 10" "length (tok_onlyDigits q) \<ge> 10"
    "take 6 (tok_onlyDigits p) = take 6 (tok_onlyDigits q)"
    "drop (length (tok_onlyDigits p) - 4) (tok_onlyDigits p) = drop (length (tok_onlyDigits q) - 4) (tok_onlyDigits q)"
  shows "tok_MaskCardNumber p = tok_MaskCardNumber q"
  using assms by (simp add: tok_MaskCardNumber_def Let_def)

lemma postgres_Tokenize_cases:
  assumes "postgres_Tokenize rand sha256 db t req T = (r, T')"
  obtains (failed) err where "r = Inl err" "T' = T"
  | (stored) token row where "generateToken rand = Inr token" "r = Inr token"
      "row = token_row_of sha256 req token defaultTokenTTL t" "db T row = None"
      "T' = T((Req_MerchantID req, Req_PaymentID req) \<mapsto> (case T (Req_MerchantID req, Req_PaymentID req) of
         None \<Rightarrow> row | Some old \<Rightarrow> row\<lparr>Tok_CreatedAt := Tok_CreatedAt old\<rparr>))"
proof (cases "Req_MerchantID req = '''' \<or> Req_PaymentID req = '''' \<or> Req_IdempotencyKey req = ''''")
  case True
  then show thesis
    using assms failed by (auto simp: postgres_Tokenize_def)
next
  case False
  note eq = assms [unfolded postgres_Tokenize_def if_not_P [OF False]]
  show thesis
  proof (cases "generateToken rand")
    case (Inl err)
    then show thesis
      using eq by (intro failed [of err]) auto
  next
    case (Inr token)
    show thesis
    proof (cases "db T (token_row_of sha256 req token defaultTokenTTL t)")
      case None
      show thesis
        by (rule stored [OF Inr _ refl None]) (use eq Inr None in \<open>simp_all add: Let_def\<close>)
    next
      case (Some err)
      then show thesis
        using eq Inr by (intro failed [of err]) (auto simp: Let_def)
    qed
  qed
qed

lemma postgres_Tokenize_cong:
  assumes "Req_MerchantID q = Req_MerchantID p" "Req_PaymentID q = Req_PaymentID p"
    "Req_IdempotencyKey q = Req_IdempotencyKey p"
    "\<And>token. token_row_of sha256 q token defaultTokenTTL t = token_row_of sha256 p token defaultTokenTTL t"
  shows "postgres_Tokenize rand sha256 db t q = postgres_Tokenize rand sha256 db t p"
  unfolding postgres_Tokenize_def assms ..

text \<open>
  C38: A token of the Postgres tokenizer has 68 bytes, and the only thing its table learns is the
  row of this merchant and payment: the hash of the token, its first 8 and last 4 bytes, the
  method, an expiry 24 hours ahead and, for a card, at most ten digits of the number. A failed
  attempt changes nothing, and a row is the same for two cards that agree on the first six and
  the last four digits.
\<close>

theorem tokenize_row:
  assumes rand: "\<And>n b. rand n = Inr b \<Longrightarrow> length b = n"
    and run: "postgres_Tokenize rand sha256 db t req T = (r, T')"
    and card: "Method_Type (Info_PaymentMethodData (Req_PaymentInfo req)) = PaymentMethodCard"
    and same: "length (tok_onlyDigits (Cust_CardNumber (Info_CustomerData (Req_PaymentInfo req)))) \<ge> 10"
      "length (tok_onlyDigits pan) \<ge> 10"
      "take 6 (tok_onlyDigits pan) = take 6 (tok_onlyDigits (Cust_CardNumber (Info_CustomerData (Req_PaymentInfo req))))"
      "drop (length (tok_onlyDigits pan) - 4) (tok_onlyDigits pan) =
        drop (length (tok_onlyDigits (Cust_CardNumber (Info_CustomerData (Req_PaymentInfo req)))) - 4)
          (tok_onlyDigits (Cust_CardNumber (Info_CustomerData (Req_PaymentInfo req))))"
  shows "(case r of Inl _ \<Rightarrow> T' = T
     | Inr token \<Rightarrow> length token = 68 \<and> (\<exists>row. T' = T((Req_MerchantID req, Req_PaymentID req) \<mapsto> row) \<and>
         Tok_IdempotencyKey row = Req_IdempotencyKey req \<and> Tok_Hash row = sha256 token \<and>
         Tok_Preview row = take 8 token @ ''...'' @ drop 64 token \<and>
         Tok_ExpiresAt row = t + 24 * Hour \<and> Tok_RevokedAt row = None \<and>
         length (filter (\<lambda>c. is_digit (byte c)) (Tok_MaskedValue row)) \<le> 10)) \<and>
    postgres_Tokenize rand sha256 db t (req\<lparr>Req_PaymentInfo := (Req_PaymentInfo req)
      \<lparr>Info_CustomerData := (Info_CustomerData (Req_PaymentInfo req))\<lparr>Cust_CardNumber := pan\<rparr>\<rparr>\<rparr>) T = (r, T')"
proof
  show "case r of Inl _ \<Rightarrow> T' = T
     | Inr token \<Rightarrow> length token = 68 \<and> (\<exists>row. T' = T((Req_MerchantID req, Req_PaymentID req) \<mapsto> row) \<and>
         Tok_IdempotencyKey row = Req_IdempotencyKey req \<and> Tok_Hash row = sha256 token \<and>
         Tok_Preview row = take 8 token @ ''...'' @ drop 64 token \<and>
         Tok_ExpiresAt row = t + 24 * Hour \<and> Tok_RevokedAt row = None \<and>
         length (filter (\<lambda>c. is_digit (byte c)) (Tok_MaskedValue row)) \<le> 10)"
    using run
  proof (cases rule: postgres_Tokenize_cases)
    case (stored token row)
    have "length token = 68"
      using length_random_token [where n = 32 and token = token, OF rand] stored(1) by (simp add: generateToken_def)
    moreover have "Tok_MaskedValue row = tok_MaskCardNumber (Cust_CardNumber (Info_CustomerData (Req_PaymentInfo req)))"
      using card by (simp add: stored(3) token_row_of_def maskedPaymentValue_def)
    ultimately show ?thesis
      using MaskCardNumber_digits
      by (auto simp: stored(2,5) stored(3) token_row_of_def hashToken_def TokenPreview_long defaultTokenTTL_def
          simp del: list.set split: option.split)
  qed simp
  show "postgres_Tokenize rand sha256 db t (req\<lparr>Req_PaymentInfo := (Req_PaymentInfo req)
      \<lparr>Info_CustomerData := (Info_CustomerData (Req_PaymentInfo req))\<lparr>Cust_CardNumber := pan\<rparr>\<rparr>\<rparr>) T = (r, T')"
    unfolding run [symmetric]
    by (rule fun_cong [OF postgres_Tokenize_cong])
      (use card MaskCardNumber_middle [OF same(2,1,3,4)] in
        \<open>simp_all add: token_row_of_def maskedPaymentValue_def\<close>)
qed

lemma tok_onlyDigits_digitsOnly: "tok_onlyDigits s = digitsOnly s"
  by (simp add: tok_onlyDigits_def digitsOnly_def)

theorem tokenize_row_witness:
  "(case postgres_Tokenize (\<lambda>n. Inr (replicate n CHR ''a'')) (\<lambda>s. rev s) (\<lambda>_ _. None) 0 sample_request Map.empty of
      (Inl _, T') \<Rightarrow> T' = Map.empty
    | (Inr token, T') \<Rightarrow> length token = 68 \<and> T' \<noteq> Map.empty)"
proof -
  let ?rand = "\<lambda>n. Inr (replicate n CHR ''a'')" and ?pan = "''4111110000001111''"
  obtain r T' where r: "postgres_Tokenize ?rand rev (\<lambda>_ _. None) 0 sample_request Map.empty = (r, T')"
    by fastforce
  have *: "case r of Inl _ \<Rightarrow> T' = Map.empty | Inr token \<Rightarrow> length token = 68 \<and> T' \<noteq> Map.empty"
    using tokenize_row [OF _ r, of ?pan, THEN conjunct1]
    by (cases r) (auto simp: sample_request_def tok_onlyDigits_digitsOnly is_digit_def byte_def)
  then show ?thesis
    by (simp only: r prod.case)
qed

end
