(* ===== verification/Providers.thy ===== *)
theory Providers
  imports Adapters Refunds "HOL-Library.Product_Lexorder"
begin

section \<open>Route table and provider factory\<close>

text \<open>
  The table \<open>merchant_payment_routes\<close> with the query of \<open>GetActiveRoute\<close>
  (\<open>internal/subsystems/routing/postgres_routes.go\<close>), and the adapters that \<open>NewFactoryFromEnv\<close>
  (\<open>internal/subsystems/adapter/factory.go\<close>) registers for an environment. A registered adapter is
  a value of the type \<open>provider\<close>, the dynamic types behind the interface \<open>PaymentAdapter\<close>; all but
  PayAnyWay also implement \<open>RefundAdapter\<close>. The HTTP client, the clock, MD5 and the QR encoder are
  parameters, and may answer differently at each call.
\<close>

subsection \<open>The route table\<close>

record route_row =
  Row_ID :: int
  Row_MerchantID :: gostring
  Row_PaymentMethod :: gostring
  Row_Provider :: gostring
  Row_PaymentSystem :: gostring
  Row_Priority :: int
  Row_Active :: bool

definition active_rows :: "gostring \<Rightarrow> gostring \<Rightarrow> route_row list \<Rightarrow> route_row list" where
  "active_rows merchantID paymentMethod rows = filter (\<lambda>x. Row_MerchantID x = merchantID
     \<and> Row_PaymentMethod x = paymentMethod \<and> Row_Active x) rows"

definition route_of_row :: "route_row \<Rightarrow> PaymentRoute" where
  "route_of_row x = \<lparr>Route_MerchantID = Row_MerchantID x, Route_PaymentMethod = Row_PaymentMethod x,
     Route_Provider = Row_Provider x, Route_PaymentSystem = Row_PaymentSystem x, Route_Priority = Row_Priority x\<rparr>"

text \<open>\<open>ORDER BY priority ASC, id ASC LIMIT 1\<close>; \<open>Inl\<close> is a failing query.\<close>

definition select_route :: "route_row list result \<Rightarrow> gostring \<Rightarrow> gostring \<Rightarrow> PaymentRoute option result" where
  "select_route table merchantID paymentMethod = (case table of
     Inl err \<Rightarrow> Inl err
   | Inr rows \<Rightarrow> (case sort_key (\<lambda>x. (Row_Priority x, Row_ID x)) (active_rows merchantID paymentMethod rows) of
       [] \<Rightarrow> Inr None | x # _ \<Rightarrow> Inr (Some (route_of_row x))))"

definition pg_routes :: "route_row list result \<Rightarrow> route_store" where
  "pg_routes table = GetActiveRoute (select_route table)"

text \<open>\<open>UNIQUE (merchant_id, payment_method, provider)\<close> and the primary key.\<close>

definition routes_ok :: "route_row list \<Rightarrow> bool" where
  "routes_ok rows = (distinct (map Row_ID rows)
     \<and> distinct (map (\<lambda>x. (Row_MerchantID x, Row_PaymentMethod x, Row_Provider x)) rows))"

subsection \<open>The factory\<close>

datatype provider = SimulatedProvider gostring | YooKassaProvider YooKassaAdapter
  | PayAnyWayProvider PayAnyWayAdapter | RubleProvider DigitalRubleAdapter

definition NewFactory :: "(gostring \<Rightarrow> gostring) \<Rightarrow> provider factory" where
  "NewFactory env =
     (let f = Register ''simulated'' (Some (SimulatedProvider ''SIMULATED'')) Map.empty
      in Register ''digital_ruble'' (Some (RubleProvider (NewDigitalRubleAdapterFromEnv env))) f)"

definition NewFactoryFromEnv :: "(gostring \<Rightarrow> gostring) \<Rightarrow> provider factory" where
  "NewFactoryFromEnv env =
     (let f = NewFactory env;
          f = (case NewYooKassaAdapterFromEnv env of
            Inr a \<Rightarrow> Register ''yookassa'' (Some (YooKassaProvider a)) f | Inl _ \<Rightarrow> f)
      in case NewPayAnyWayAdapterFromEnv env of
           Inr a \<Rightarrow> Register ''payanyway'' (Some (PayAnyWayProvider a)) f | Inl _ \<Rightarrow> f)"

record provider_env =
  pv_client :: "nat \<Rightarrow> http_client"
  pv_clock :: "nat \<Rightarrow> nat \<Rightarrow> gotime"
  pv_md5 :: "gostring \<Rightarrow> gostring"
  pv_qr :: "gostring \<Rightarrow> gostring result"

text \<open>\<open>Send\<close> and \<open>Refund\<close> through the interface; \<open>n\<close> counts the calls.\<close>

definition provider_Send :: "provider_env \<Rightarrow> provider \<Rightarrow> adapter" where
  "provider_Send v p n = (case p of
     SimulatedProvider ps \<Rightarrow> Simulated_Send ps (pv_clock v n 0)
   | YooKassaProvider a \<Rightarrow> Yoo_Send (pv_client v n) a
   | PayAnyWayProvider a \<Rightarrow> Paw_Send (pv_md5 v) a
   | RubleProvider a \<Rightarrow> DR_Send (pv_qr v) a (pv_clock v n))"

definition provider_Refund :: "provider_env \<Rightarrow> provider \<Rightarrow> refund_adapter option" where
  "provider_Refund v p = (case p of
     SimulatedProvider ps \<Rightarrow> Some (\<lambda>n. Simulated_Refund ps)
   | YooKassaProvider a \<Rightarrow> Some (\<lambda>n. Yoo_Refund (pv_client v n) a)
   | PayAnyWayProvider a \<Rightarrow> None
   | RubleProvider a \<Rightarrow> Some (\<lambda>n. DR_Refund (pv_clock v n 0)))"

definition payment_factory :: "provider_env \<Rightarrow> (gostring \<Rightarrow> gostring) \<Rightarrow> adapter factory" where
  "payment_factory v env = map_option (provider_Send v) \<circ> NewFactoryFromEnv env"

definition refund_factory :: "provider_env \<Rightarrow> (gostring \<Rightarrow> gostring) \<Rightarrow> refund_adapter option factory" where
  "refund_factory v env = map_option (provider_Refund v) \<circ> NewFactoryFromEnv env"

interpretation provider: payment_adapter "provider_Send v p"
  "{StatusCaptured, StatusPending, StatusDeclined, StatusFailed}" for v p
proof
  fix n tok r res
  assume "provider_Send v p n tok r = Inr res"
  then show "AR_Status res \<in> {StatusCaptured, StatusPending, StatusDeclined, StatusFailed}"
    by (cases p) (auto simp: provider_Send_def Simulated_Send_def DR_Send_def Let_def dest: yoo.answers paw.answers)
qed simp

subsection \<open>Facts\<close>

lemma provider_keys:
  "normalizeAdapterKey ''simulated'' = ''simulated''" "normalizeAdapterKey ''digital_ruble'' = ''digital_ruble''"
  "normalizeAdapterKey ''yookassa'' = ''yookassa''" "normalizeAdapterKey ''payanyway'' = ''payanyway''"
  by (simp_all add: normalizeAdapterKey_def go_eval)

text \<open>What is registered, by key.\<close>

lemma NewFactoryFromEnv_table:
  "NewFactoryFromEnv env k =
     (if k = ''payanyway'' then (case NewPayAnyWayAdapterFromEnv env of Inr a \<Rightarrow> Some (PayAnyWayProvider a) | Inl _ \<Rightarrow> None)
      else if k = ''yookassa'' then (case NewYooKassaAdapterFromEnv env of Inr a \<Rightarrow> Some (YooKassaProvider a) | Inl _ \<Rightarrow> None)
      else if k = ''digital_ruble'' then Some (RubleProvider (NewDigitalRubleAdapterFromEnv env))
      else if k = ''simulated'' then Some (SimulatedProvider ''SIMULATED'') else None)"
  by (simp add: NewFactoryFromEnv_def NewFactory_def Register_def provider_keys Let_def split: sum.splits)

lemma select_route_first:
  assumes "active_rows m p rows \<noteq> []"
  obtains x where "x \<in> set (active_rows m p rows)"
    "\<forall>y\<in>set (active_rows m p rows). (Row_Priority x, Row_ID x) \<le> (Row_Priority y, Row_ID y)"
    "select_route (Inr rows) m p = Inr (Some (route_of_row x))"
proof -
  let ?key = "\<lambda>x. (Row_Priority x, Row_ID x)" and ?rows = "active_rows m p rows"
  have len: "length (sort_key ?key ?rows) = length ?rows" by simp
  then obtain x xs where s: "sort_key ?key ?rows = x # xs" using assms by (cases "sort_key ?key ?rows") auto
  have "set ?rows = insert x (set xs)" using s by (metis list.set(2) set_sort)
  moreover have "\<forall>y\<in>set xs. ?key x \<le> ?key y"
    using sorted_sort_key [of ?key ?rows] unfolding s by simp
  ultimately show thesis by (intro that [of x]) (auto simp: select_route_def s)
qed


definition mir_payment :: "CreatePaymentRequest \<Rightarrow> bool" where
  "mir_payment r = (Method_Type (Info_PaymentMethodData (Req_PaymentInfo r)) = PaymentMethodCard
     \<and> detectCardScheme (Cust_CardNumber (Info_CustomerData (Req_PaymentInfo r))) = cardSchemeMir)"

lemma Route_with_table:
  assumes "t = Method_Type (Info_PaymentMethodData (Req_PaymentInfo r))"
  shows "Route (Some get) r = (if mir_payment r then Inr (''YOOKASSA'', ''yookassa'')
    else (case get (Req_MerchantID r) t of
      Inl e \<Rightarrow> Inl (''failed to load payment route: '' @ e)
    | Inr (Some route) \<Rightarrow> Inr (Route_PaymentSystem route, ToLower (TrimSpace (Route_Provider route)))
    | Inr None \<Rightarrow> default_route t))"
proof -
  have scheme: "(if t = PaymentMethodCard then providerForCardScheme (detectCardScheme
      (Cust_CardNumber (Info_CustomerData (Req_PaymentInfo r)))) else None)
    = (if mir_payment r then Some (''YOOKASSA'', ''yookassa'') else None)"
    by (simp add: providerForCardScheme_detect providerForCardScheme_Mir(1) mir_payment_def assms)
  show ?thesis unfolding Route_def assms [symmetric] Let_def scheme by (cases "mir_payment r") simp_all
qed

text \<open>A key that names a provider gives the adapter of this name; it takes its credentials.\<close>

lemma named_provider:
  assumes "Resolve env (NewFactoryFromEnv env) key ps = Inr (a, name)"
    and "key \<in> {''simulated'', ''digital_ruble'', ''yookassa'', ''payanyway''}"
  shows "name = key \<and> (case a of SimulatedProvider _ \<Rightarrow> key = ''simulated'' | RubleProvider _ \<Rightarrow> key = ''digital_ruble''
      | YooKassaProvider y \<Rightarrow> key = ''yookassa'' \<and> Yoo_secretKey y \<noteq> ''''
      | PayAnyWayProvider y \<Rightarrow> key = ''payanyway'' \<and> Paw_integrityKey y \<noteq> '''')
    \<and> (provider_Refund v a = None \<longleftrightarrow> key = ''payanyway'')"
proof -
  from assms(2) have "normalizeAdapterKey key = key" "\<not> isLegacyAdapterKey key" "key \<noteq> ''''"
    by (auto simp: provider_keys isLegacyAdapterKey_def)
  with assms(1) have f: "NewFactoryFromEnv env key = Some a" "name = key"
    by (simp_all add: Resolve_def Factory_Get_def split: option.splits)
  have yoo: "Yoo_secretKey y \<noteq> ''''" if "NewYooKassaAdapterFromEnv env = Inr y" for y
    using that by (auto simp: NewYooKassaAdapterFromEnv_def Let_def split: if_splits)
  have paw: "Paw_integrityKey y \<noteq> ''''" if "NewPayAnyWayAdapterFromEnv env = Inr y" for y
    using that by (auto simp: NewPayAnyWayAdapterFromEnv_def Let_def split: if_splits)
  from assms(2) f show ?thesis
    by (elim insertE emptyE) (auto simp: NewFactoryFromEnv_table provider_Refund_def dest: yoo paw split: sum.splits)
qed

subsection \<open>Properties\<close>

text \<open>
  C40: Where a payment goes. With the route table on Postgres, a MIR card goes to YooKassa
  whatever the table says; any other payment of a known method goes to the provider of the
  merchant's first active row for the method, by priority and then by age, and to the method's
  default if there is none. A row's provider is taken without regard to case and blanks.
\<close>

theorem routed_by_table:
  assumes "t = Method_Type (Info_PaymentMethodData (Req_PaymentInfo r))"
    and "t \<in> {PaymentMethodSBP, PaymentMethodCard, PaymentMethodDigitalWallet, PaymentMethodDigitalRuble}"
    and "m = TrimSpace (Req_MerchantID r)" and "m \<noteq> ''''"
  shows "if mir_payment r then Route (Some (pg_routes (Inr rows))) r = Inr (''YOOKASSA'', ''yookassa'')
    else if active_rows m t rows = []
    then Route (Some (pg_routes (Inr rows))) r = default_route t \<and> (\<exists>x. default_route t = Inr x)
    else (\<exists>x\<in>set (active_rows m t rows).
        (\<forall>y\<in>set (active_rows m t rows). (Row_Priority x, Row_ID x) \<le> (Row_Priority y, Row_ID y))
      \<and> Route (Some (pg_routes (Inr rows))) r = Inr (normalizePaymentSystem (Row_PaymentSystem x)
          (normalizeProvider (Row_Provider x)), ToLower (TrimSpace (normalizeProvider (Row_Provider x)))))"
proof -
  have "t \<noteq> ''''" using assms(2) by auto
  then have get: "pg_routes (Inr rows) (Req_MerchantID r) t = (case select_route (Inr rows) m t of
      Inl e \<Rightarrow> Inl e | Inr None \<Rightarrow> Inr None
    | Inr (Some route) \<Rightarrow> let route = route\<lparr>Route_Provider := normalizeProvider (Route_Provider route)\<rparr>
        in Inr (Some (route\<lparr>Route_PaymentSystem := normalizePaymentSystem (Route_PaymentSystem route) (Route_Provider route)\<rparr>)))"
    using assms(3,4) by (simp add: pg_routes_def GetActiveRoute_def Let_def)
  show ?thesis
  proof (cases "mir_payment r \<or> active_rows m t rows = []")
    case True
    then show ?thesis
      using default_route_total [OF assms(2)] unfolding Route_with_table [OF assms(1)] get
      by (auto simp: select_route_def)
  next
    case False
    then obtain x where x: "x \<in> set (active_rows m t rows)"
      "\<forall>y\<in>set (active_rows m t rows). (Row_Priority x, Row_ID x) \<le> (Row_Priority y, Row_ID y)"
      "select_route (Inr rows) m t = Inr (Some (route_of_row x))" by (metis select_route_first)
    have "Route (Some (pg_routes (Inr rows))) r = Inr (normalizePaymentSystem (Row_PaymentSystem x)
        (normalizeProvider (Row_Provider x)), ToLower (TrimSpace (normalizeProvider (Row_Provider x))))"
      using False unfolding Route_with_table [OF assms(1)] get x(3) by (simp add: route_of_row_def Let_def)
    with False x(1,2) show ?thesis by auto
  qed
qed

theorem routed_by_table_witness:
  "Route (Some (pg_routes (Inr [\<lparr>Row_ID = 2, Row_MerchantID = ''m'', Row_PaymentMethod = PaymentMethodSBP,
      Row_Provider = ''PayAnyWay '', Row_PaymentSystem = '''', Row_Priority = 10, Row_Active = True\<rparr>])))
    ((zero_request PaymentMethodSBP)\<lparr>Req_MerchantID := ''m''\<rparr>) = Inr (''PAYANYWAY'', ''payanyway'')"
proof -
  let ?r = "(zero_request PaymentMethodSBP)\<lparr>Req_MerchantID := ''m''\<rparr>"
  have t: "PaymentMethodSBP = Method_Type (Info_PaymentMethodData (Req_PaymentInfo ?r))"
    by (simp add: zero_request_def)
  have m: "''m'' = TrimSpace (Req_MerchantID ?r)" by (simp add: go_eval)
  have "\<not> mir_payment ?r" by (simp add: mir_payment_def zero_request_def)
  moreover have "normalizePaymentSystem '''' (normalizeProvider ''PayAnyWay '') = ''PAYANYWAY''"
    "ToLower (TrimSpace (normalizeProvider ''PayAnyWay '')) = ''payanyway''"
    by (simp_all add: normalizePaymentSystem_def normalizeProvider_def go_eval)
  ultimately show ?thesis
    using routed_by_table [OF t _ m, of "[\<lparr>Row_ID = 2, Row_MerchantID = ''m'', Row_PaymentMethod = PaymentMethodSBP,
      Row_Provider = ''PayAnyWay '', Row_PaymentSystem = '''', Row_Priority = 10, Row_Active = True\<rparr>]"]
    by (simp add: active_rows_def)
qed

end
