(* ===== verification/Gateway.thy ===== *)
theory Gateway
  imports Payments_Api Refunds Network Webhook_Sandbox Reports Secrets Tokenizer Providers
begin

section \<open>The gateway process (\<open>cmd/payment-gateway/main.go\<close>)\<close>

text \<open>
  What \<open>main\<close> reads from its environment and refuses to start with, which stores it connects, and
  the route table with the middleware in front of every handler. \<open>http.ServeMux\<close> is modelled as
  it treats patterns without a method or a host: a path is cleaned and matched segment by
  segment. A request comes with its escaped path; the text of a redirect is its location, and a
  body in XML is left in the state. Listening and the access log are not modelled.
\<close>

subsection \<open>Startup\<close>

record startup =
  St_Addr :: gostring
  St_AppEnv :: gostring
  St_Transport :: TransportConfig
  St_Network :: NetworkConfig
  St_CertFile :: gostring
  St_KeyFile :: gostring

definition listen_addr :: "gostring \<Rightarrow> gostring" where
  "listen_addr addr = (if addr = '''' then '':8080'' else if \<not> Contains addr '':'' then '':'' @ addr else addr)"

text \<open>\<open>Inl\<close> is what is logged before \<open>os.Exit(1)\<close>.\<close>

definition startup_config :: "(gostring \<Rightarrow> gostring) \<Rightarrow> (gostring \<Rightarrow> (gostring \<times> gostring) result) \<Rightarrow>
    startup result" where
  "startup_config env urlParse =
     (let appEnv = (if env ''APP_ENV'' = '''' then ''dev'' else env ''APP_ENV'');
          transport = TransportConfigFromEnv env in
      case NetworkConfigFromEnv env of
        Inl err \<Rightarrow> Inl (''invalid network security configuration: '' @ err)
      | Inr network \<Rightarrow>
          (let transport = transport\<lparr>TC_TrustedProxyCIDRs := NC_TrustedProxyCIDRs network\<rparr>;
               cert = TrimSpace (env ''TLS_CERT_FILE''); key = TrimSpace (env ''TLS_KEY_FILE'') in
           case ValidateTLSConfig cert key of
             Some err \<Rightarrow> Inl err
           | None \<Rightarrow>
               if TC_RequireHTTPS transport \<and> cert = '''' \<and> \<not> TC_TrustProxyHeaders transport
               then Inl ''HTTPS enforcement requires TLS_CERT_FILE/TLS_KEY_FILE or TRUST_PROXY_HEADERS=true''
               else if IsProductionEnv appEnv \<and> TC_TrustProxyHeaders transport \<and> NC_TrustedProxyCIDRs network = []
               then Inl ''TRUSTED_PROXY_CIDRS must be set when TRUST_PROXY_HEADERS=true in production''
               else (case ValidateOutboundURLs urlParse (TC_RequireHTTPS transport)
                   [(''PAYMENT_RETURN_URL'', env ''PAYMENT_RETURN_URL''),
                    (''MERCHANT_WEBHOOK_URL'', env ''MERCHANT_WEBHOOK_URL'')] of
                 Some err \<Rightarrow> Inl (''insecure outbound URL configuration: '' @ err)
               | None \<Rightarrow> Inr \<lparr>St_Addr = listen_addr (env ''HTTP_ADDR''), St_AppEnv = appEnv,
                   St_Transport = transport, St_Network = network, St_CertFile = cert, St_KeyFile = key\<rparr>)))"

text \<open>
  The services on \<open>DATABASE_URL\<close>, in the order they are connected; \<open>init\<close> is the error of a step.
  \<open>Inr True\<close> means that everything runs on Postgres, \<open>Inr False\<close> that it stays in memory.
\<close>

datatype service = TransactionService | EventService | TokenService | MerchantService | RouteService
  | NotificationService

definition service_failure :: "service \<Rightarrow> gostring" where
  "service_failure s = (case s of
     TransactionService \<Rightarrow> ''failed to connect postgres''
   | EventService \<Rightarrow> ''failed to connect postgres event logger''
   | TokenService \<Rightarrow> ''failed to connect postgres tokenizer''
   | MerchantService \<Rightarrow> ''failed to initialize merchant authentication''
   | RouteService \<Rightarrow> ''failed to initialize payment routes''
   | NotificationService \<Rightarrow> ''failed to initialize merchant notifications'')"

fun connect_all :: "(service \<Rightarrow> goerror option) \<Rightarrow> service list \<Rightarrow> goerror option" where
  "connect_all init [] = None"
| "connect_all init (s # ss) = (case init s of
     Some err \<Rightarrow> Some (service_failure s @ '': '' @ err) | None \<Rightarrow> connect_all init ss)"

definition connect_services :: "(gostring \<Rightarrow> gostring) \<Rightarrow> (service \<Rightarrow> goerror option) \<Rightarrow> bool result" where
  "connect_services env init =
     (if env ''DATABASE_URL'' = '''' then Inr False
      else (case connect_all init [TransactionService, EventService, TokenService, MerchantService, RouteService,
          NotificationService] of
        Some err \<Rightarrow> Inl err | None \<Rightarrow> Inr True))"

text \<open>
  The merchant store on a database: \<open>db\<close> is the error of opening the pool, \<open>schema\<close> that of the
  schema; then the default merchant is seeded.
\<close>

definition NewPostgresMerchantStore :: "(gostring \<Rightarrow> gostring) \<Rightarrow> gostring \<Rightarrow> goerror option \<Rightarrow> goerror option \<Rightarrow>
    (gostring \<Rightarrow> gostring) \<Rightarrow> (Protector \<Rightarrow> gostring \<Rightarrow> gostring result) \<Rightarrow> merchant_table \<Rightarrow>
    Protector result \<times> merchant_table" where
  "NewPostgresMerchantStore sha256 dsn db schema env protect rows =
     (if dsn = '''' then (Inl ''dsn is empty'', rows)
      else (case db of Some err \<Rightarrow> (Inl err, rows) | None \<Rightarrow>
        (case NewProtectorFromEnv env of Inl err \<Rightarrow> (Inl err, rows) | Inr protector \<Rightarrow>
          (case schema of Some err \<Rightarrow> (Inl err, rows) | None \<Rightarrow>
            (case seedDefaultMerchant sha256 (protect protector) env rows of
              (Some err, rows) \<Rightarrow> (Inl err, rows)
            | (None, rows) \<Rightarrow> (Inr protector, rows))))))"

text \<open>The store behind the authentication.\<close>

datatype merchant_store = StaticStore Merchant
  | PostgresStore "gostring \<Rightarrow> gostring result" "merchant_table result"

definition store_lookup :: "merchant_store \<Rightarrow> merchant_lookup" where
  "store_lookup s = (case s of StaticStore m \<Rightarrow> static_GetByID (Some m)
   | PostgresStore reveal db \<Rightarrow> pg_GetByID reveal db)"

definition merchants_of :: "(gostring \<Rightarrow> gostring) \<Rightarrow> (gostring \<Rightarrow> gostring) \<Rightarrow> bool \<Rightarrow>
    (gostring \<Rightarrow> gostring result) \<Rightarrow> merchant_table result \<Rightarrow> merchant_store" where
  "merchants_of sha256 env on_postgres reveal db =
     (if on_postgres then PostgresStore reveal db else StaticStore (NewStaticMerchantStoreFromEnv sha256 env))"

text \<open>
  The orchestrator with its services; a nil service has a default, and so has a missing factory.
  \<open>base\<close> brings the clock, the validator and the environment.
\<close>

definition newSimpleOrchestrator :: "env \<Rightarrow> provider_env \<Rightarrow> (nat \<Rightarrow> random) \<Rightarrow>
    (nat \<Rightarrow> CreatePaymentRequest \<Rightarrow> gostring result) option \<Rightarrow> (nat \<Rightarrow> PaymentResponse \<Rightarrow> goerror option) option \<Rightarrow>
    route_store option \<Rightarrow> adapter factory option list \<Rightarrow> env" where
  "newSimpleOrchestrator base v rand tokenizerService notificationService routeStore adapterFactories =
     base\<lparr>env_tokenize := (case tokenizerService of None \<Rightarrow> (\<lambda>n. ephemeral_Tokenize (rand n)) | Some tok \<Rightarrow> tok),
       env_notify := (case notificationService of None \<Rightarrow> (\<lambda>_ _. None) | Some notify \<Rightarrow> notify),
       env_routes := routeStore,
       env_factory := (case adapterFactories of Some f # _ \<Rightarrow> f | _ \<Rightarrow> payment_factory v (env_getenv base))\<rparr>"

definition main_orchestrator :: "bool \<Rightarrow> env \<Rightarrow> provider_env \<Rightarrow> (nat \<Rightarrow> random) \<Rightarrow>
    (nat \<Rightarrow> CreatePaymentRequest \<Rightarrow> gostring result) \<Rightarrow> (nat \<Rightarrow> PaymentResponse \<Rightarrow> goerror option) \<Rightarrow>
    route_row list result \<Rightarrow> env" where
  "main_orchestrator on_postgres base v rand pgTokenizer webhookNotifications routeTable =
     newSimpleOrchestrator base v rand
       (Some (if on_postgres then pgTokenizer else (\<lambda>n. ephemeral_Tokenize (rand n))))
       (Some (if on_postgres then webhookNotifications else (\<lambda>_ _. None)))
       (if on_postgres then Some (pg_routes routeTable) else None) []"

text \<open>Every adapter that this orchestrator can call keeps the contract of an adapter.\<close>

lemma main_orchestrator_adapters:
  "env_factory (main_orchestrator b base v rand tok ntf table) key = Some send \<Longrightarrow>
    payment_adapter send {StatusCaptured, StatusPending, StatusDeclined, StatusFailed}"
  by (auto simp: main_orchestrator_def newSimpleOrchestrator_def payment_factory_def
      provider.payment_adapter_axioms split: option.splits)

subsection \<open>\<open>http.ServeMux\<close>\<close>

fun unescape :: "gostring \<Rightarrow> gostring option" where
  "unescape [] = Some []"
| "unescape (c # s) =
     (if c \<noteq> CHR ''%'' then map_option ((#) c) (unescape s)
      else (case s of
        a # b # t \<Rightarrow> (case (Network.hex_digit a, Network.hex_digit b) of
          (Some x, Some y) \<Rightarrow> map_option ((#) (char_of (16 * x + y))) (unescape t)
        | _ \<Rightarrow> None)
      | _ \<Rightarrow> None))"

definition segments :: "gostring \<Rightarrow> gostring list" where
  "segments p = map (\<lambda>s. case unescape s of Some u \<Rightarrow> u | None \<Rightarrow> s) (Split CHR ''/'' (drop 1 p))"

text \<open>\<open>path.Clean\<close> of a rooted path, and \<open>cleanPath\<close>, which keeps a final slash.\<close>

fun clean_segments :: "gostring list \<Rightarrow> gostring list \<Rightarrow> gostring list" where
  "clean_segments st [] = rev st"
| "clean_segments st (s # ss) =
     (if s = '''' \<or> s = ''.'' then clean_segments st ss
      else if s = ''..'' then clean_segments (tl st) ss
      else clean_segments (s # st) ss)"

definition cleanPath :: "gostring \<Rightarrow> gostring" where
  "cleanPath p = (if p = '''' then ''/''
     else (let p = (if hd p = CHR ''/'' then p else CHR ''/'' # p);
               np = CHR ''/'' # Join (clean_segments [] (Split CHR ''/'' p)) ''/''
           in if last p = CHR ''/'' \<and> np \<noteq> ''/'' then np @ ''/'' else np))"

datatype route = HealthRoute | CreatePaymentRoute | PaymentStatusRoute | RefundRoute | ReportRoute
  | YooKassaRoute | PayAnyWayRoute | RubleScanRoute | RubleSOAPRoute | DemoRoute

definition mux_patterns :: "(gostring \<times> route) list" where
  "mux_patterns =
     [(''/health'', HealthRoute), (''/payments'', CreatePaymentRoute), (''/payments/'', PaymentStatusRoute),
      (''/refunds/'', RefundRoute), (''/reports/transactions'', ReportRoute),
      (''/webhooks/yookassa'', YooKassaRoute), (''/webhooks/payanyway'', PayAnyWayRoute),
      (''/sandbox/digital-ruble/scan'', RubleScanRoute), (''/sandbox/digital-ruble/soap'', RubleSOAPRoute),
      (''/webhooks/digital-ruble'', RubleScanRoute), (''/merchant/webhook'', DemoRoute)]"

text \<open>A pattern that ends in a slash matches every path below it.\<close>

definition pattern_matches :: "gostring \<Rightarrow> gostring list \<Rightarrow> bool" where
  "pattern_matches pat segs = (let ps = Split CHR ''/'' (drop 1 pat) in
     if last ps = '''' then length ps \<le> length segs \<and> take (length ps - 1) segs = butlast ps
     else segs = ps)"

definition mux_match :: "gostring \<Rightarrow> (gostring \<times> route) option" where
  "mux_match p = (if p = '''' then None
     else List.find (\<lambda>(pat, _). pattern_matches pat (segments p)) mux_patterns)"

definition exact_match :: "gostring \<Rightarrow> bool" where
  "exact_match p = (case mux_match p of
     None \<Rightarrow> False
   | Some (pat, _) \<Rightarrow> if last pat \<noteq> CHR ''/'' then True
       else last p = CHR ''/'' \<and> count_list p CHR ''/'' = count_list pat CHR ''/'')"

datatype mux_result = Found route | Redirect gostring | NoRoute

definition mux_find :: "gostring \<Rightarrow> gostring \<Rightarrow> gostring \<Rightarrow> mux_result" where
  "mux_find meth urlPath esc =
     (let p = (if meth = ''CONNECT'' then esc else cleanPath esc) in
      if \<not> exact_match p \<and> \<not> HasSuffix p ''/'' \<and> exact_match (p @ ''/'') then Redirect (cleanPath urlPath @ ''/'')
      else if meth \<noteq> ''CONNECT'' \<and> p \<noteq> esc then Redirect p
      else (case mux_match p of None \<Rightarrow> NoRoute | Some (_, route) \<Rightarrow> Found route))"

subsection \<open>The state and the routes\<close>

text \<open>
  One state for all handlers: the world of the orchestrator, the calls of the refund adapters, and
  the XML body of the last reply. \<open>gv_form\<close> is the parsed form of a request and \<open>gv_soap\<close> its
  body as XML; \<open>gv_auth\<close> and \<open>gv_soapNow\<close> have the clock readings of the authentication and of
  the digital ruble platform.
\<close>

record 's gateway =
  gw_world :: "'s world"
  gw_refund_calls :: "(gostring \<times> RefundRequest) list"
  gw_xml :: "xtext option"

record 's gateway_env =
  gv_env :: env
  gv_store :: "'s store_ops"
  gv_refundStore :: "'s refund_ops"
  gv_reportStore :: "'s report_store"
  gv_refundFactory :: "refund_adapter option factory"
  gv_refundID :: "nat \<Rightarrow> gostring"
  gv_ParseFloat :: "gostring \<Rightarrow> f64 option"
  gv_merchants :: merchant_store
  gv_auth :: auth_env
  gv_transport :: TransportConfig
  gv_network :: NetworkConfig
  gv_showIP :: "ip \<Rightarrow> gostring"
  gv_client :: http_client
  gv_float :: float_parser
  gv_time :: time_parser
  gv_hmac :: hmac
  gv_md5 :: "gostring \<Rightarrow> gostring"
  gv_encodeError :: "goerror \<Rightarrow> http_reply"
  gv_form :: "http_request \<Rightarrow> url_values result"
  gv_soap :: "http_request \<Rightarrow> (int \<times> xtext) result"
  gv_soapNow :: gotime

definition audit :: "PaymentEvent \<Rightarrow> 's gateway \<Rightarrow> 's gateway" where
  "audit event s = s\<lparr>gw_world := tick ((gw_world s)\<lparr>w_log := w_log (gw_world s) @ [event]\<rparr>)\<rparr>"

definition on_world :: "('s world \<Rightarrow> http_reply \<times> 's world) \<Rightarrow> 's gateway \<Rightarrow> http_reply \<times> 's gateway" where
  "on_world h s = (case h (gw_world s) of (reply, w) \<Rightarrow> (reply, s\<lparr>gw_world := w\<rparr>))"

definition xml_on_world :: "('s world \<Rightarrow> xml_reply \<times> 's world) \<Rightarrow> 's gateway \<Rightarrow> http_reply \<times> 's gateway" where
  "xml_on_world h s = (case h (gw_world s) of
     ((status, body), w) \<Rightarrow> (reply_text status '''', s\<lparr>gw_world := w, gw_xml := Some body\<rparr>))"

text \<open>The refund handlers see the same store, clock and log; both stores keep refunds.\<close>

definition refund_view :: "'s gateway \<Rightarrow> 's refund_world" where
  "refund_view s = \<lparr>rw_store = w_store (gw_world s), rw_tick = w_tick (gw_world s), rw_log = w_log (gw_world s),
     rw_calls = gw_refund_calls s\<rparr>"

definition put_refunds :: "'s refund_world \<Rightarrow> 's gateway \<Rightarrow> 's gateway" where
  "put_refunds w s = s\<lparr>gw_world := (gw_world s)\<lparr>w_store := rw_store w, w_tick := rw_tick w, w_log := rw_log w\<rparr>,
     gw_refund_calls := rw_calls w\<rparr>"

definition refund_env_of :: "'s gateway_env \<Rightarrow> 's refund_env" where
  "refund_env_of g = \<lparr>rf_transactions = Some (gv_store g), rf_refunds = Some (gv_refundStore g),
     rf_factory = gv_refundFactory g, rf_getenv = env_getenv (gv_env g), rf_clock = env_clock (gv_env g),
     rf_id = gv_refundID g, rf_ParseFloat = gv_ParseFloat g\<rparr>"

definition on_refunds :: "'s gateway_env \<Rightarrow> 's gateway handler" where
  "on_refunds g ctx r s = (case refunds_ServeHTTP (refund_env_of g) ctx r (refund_view s) of
     Some (reply, w) \<Rightarrow> (reply, put_refunds w s) | None \<Rightarrow> (reply_text 0 '''', s))"

definition soap_on_world :: "'s gateway_env \<Rightarrow> http_request \<Rightarrow> 's gateway \<Rightarrow> http_reply \<times> 's gateway" where
  "soap_on_world g r s = (case soap_ServeHTTP (gv_hmac g) (gv_float g) (gv_soapNow g) (Hr_Method r) (gv_soap g r) of
     Inl reply \<Rightarrow> (reply, s)
   | Inr (status, body) \<Rightarrow> (reply_text status '''', s\<lparr>gw_xml := Some body\<rparr>))"

definition authenticated :: "'s gateway_env \<Rightarrow> 's gateway handler \<Rightarrow> http_request \<Rightarrow> 's gateway \<Rightarrow>
    http_reply \<times> 's gateway" where
  "authenticated g nxt r s = Middleware (gv_auth g) (Some (store_lookup (gv_merchants g)))
     (AuthenticatedNetworkMiddleware (gv_showIP g) (gv_network g) (now (gv_env g) (gw_world s)) audit nxt) r s"

definition providerWebhook :: "'s gateway_env \<Rightarrow> 's gateway handler \<Rightarrow> http_request \<Rightarrow> 's gateway \<Rightarrow>
    http_reply \<times> 's gateway" where
  "providerWebhook g nxt r s = WebhookNetworkMiddleware (gv_showIP g) (gv_network g)
     (now (gv_env g) (gw_world s)) audit nxt None r s"

definition health_handler :: "http_request \<Rightarrow> 's gateway \<Rightarrow> http_reply \<times> 's gateway" where
  "health_handler r s = (reply_json 200 (JObj (emit_str ''status'' ''ok'')), s)"

definition route_handler :: "'s gateway_env \<Rightarrow> route \<Rightarrow> http_request \<Rightarrow> 's gateway \<Rightarrow> http_reply \<times> 's gateway" where
  "route_handler g route r s =
     (let e = gv_env g; ops = gv_store g; fail = gv_encodeError g; env = env_getenv e in
      case route of
        HealthRoute \<Rightarrow> health_handler r s
      | CreatePaymentRoute \<Rightarrow>
          authenticated g (\<lambda>ctx r. on_world (NewCreatePaymentHandler ops e fail ctx r)) r s
      | PaymentStatusRoute \<Rightarrow>
          authenticated g (\<lambda>ctx r. on_world (NewGetPaymentStatusHandler ops e fail ctx r)) r s
      | RefundRoute \<Rightarrow> authenticated g (on_refunds g) r s
      | ReportRoute \<Rightarrow>
          authenticated g (\<lambda>ctx r. on_world (report_ServeHTTP (Some (gv_reportStore g)) e (gv_time g) ctx r)) r s
      | YooKassaRoute \<Rightarrow>
          providerWebhook g (\<lambda>_ r. on_world (yoo_ServeHTTP ops e (NewYooKassaWebhookHandlerWithNotifications env True)
            (gv_client g) (gv_float g) (gv_time g RFC3339Nano) r)) r s
      | PayAnyWayRoute \<Rightarrow>
          providerWebhook g (\<lambda>_ r. xml_on_world (paw_ServeHTTP ops e (NewPayAnyWayWebhookHandler env True)
            (gv_md5 g) (gv_float g) (Hr_Method r) (gv_form g r))) r s
      | RubleScanRoute \<Rightarrow>
          providerWebhook g (\<lambda>_ r. on_world (scan_ServeHTTP ops e True (gv_hmac g) (gv_float g) (gv_time g) r)) r s
      | RubleSOAPRoute \<Rightarrow> providerWebhook g (\<lambda>_. soap_on_world g) r s
      | DemoRoute \<Rightarrow> on_world (demo_ServeHTTP e r) s)"

definition serve_mux :: "'s gateway_env \<Rightarrow> gostring \<Rightarrow> http_request \<Rightarrow> 's gateway \<Rightarrow> http_reply \<times> 's gateway" where
  "serve_mux g esc r s =
     (if Hr_URI r = ''*'' then (reply_text 400 '''', s)
      else (case mux_find (Hr_Method r) (Hr_Path r) esc of
        NoRoute \<Rightarrow> (http_Error ''404 page not found'' 404, s)
      | Redirect location \<Rightarrow> (reply_text 301 location, s)
      | Found route \<Rightarrow> route_handler g route r s))"

definition gateway_serve :: "'s gateway_env \<Rightarrow> gostring \<Rightarrow> http_request \<Rightarrow> 's gateway \<Rightarrow>
    ((gostring \<times> gostring) list \<times> http_reply) \<times> 's gateway" where
  "gateway_serve g esc = transport_Middleware (gv_transport g) (serve_mux g esc)"

subsection \<open>Who reaches an adapter\<close>

lemma tick_calls [simp]: "w_calls (tick w) = w_calls w"
  by (simp add: tick_def)

lemma yoo_calls: "yoo_ServeHTTP ops e h client parse parseTime r w = (reply, w') \<Longrightarrow> w_calls w' = w_calls w"
  unfolding yoo_ServeHTTP_def yoo_process_def Let_def
  by (auto dest!: webhook_save_cases yoo_load_simps(3) split: if_splits option.splits prod.splits)

lemma paw_calls: "paw_ServeHTTP ops e h md5 parse meth form w = (reply, w') \<Longrightarrow> w_calls w' = w_calls w"
  unfolding paw_ServeHTTP_def Let_def
  by (auto dest!: paw_capture_effect simp: announced_def split: if_splits option.splits sum.splits)

lemma scan_outcome_calls:
  "scan_outcome_of e hmac parse parseTime req resp w = (out, r, w') \<Longrightarrow> w_calls w' = w_calls w"
  unfolding scan_outcome_of_def qrExpired_def checkDigitalRubleSmartContract_def Let_def
  by (auto split: if_splits option.splits sum.splits prod.splits)

lemma scan_calls: "scan_ServeHTTP ops e b hmac parse parseTime r w = (reply, w') \<Longrightarrow> w_calls w' = w_calls w"
  unfolding scan_ServeHTTP_def scan_finish_def Let_def
  by (auto dest!: webhook_save_cases scan_outcome_calls split: if_splits option.splits sum.splits prod.splits)

lemma demo_calls: "demo_ServeHTTP e r w = (reply, w') \<Longrightarrow> w_calls w' = w_calls w"
  by (auto simp: demo_ServeHTTP_def split: if_splits option.splits)

lemma status_calls: "NewGetPaymentStatusHandler ops e fail ctx r w = (reply, w') \<Longrightarrow> w_calls w' = w_calls w"
  by (auto simp: NewGetPaymentStatusHandler_def getPaymentStatusEndpoint_def
      split: if_splits option.splits sum.splits prod.splits)

lemma report_calls: "report_ServeHTTP store e parseTime ctx r w = (reply, w') \<Longrightarrow> w_calls w' = w_calls w"
  by (auto simp: report_ServeHTTP_def Let_def split: if_splits option.splits sum.splits)

definition adapter_calls :: "'s gateway \<Rightarrow> adapter_call list \<times> (gostring \<times> RefundRequest) list" where
  "adapter_calls s = (w_calls (gw_world s), gw_refund_calls s)"

lemma audit_calls [simp]:
  "adapter_calls (audit ev s) = adapter_calls s" "w_store (gw_world (audit ev s)) = w_store (gw_world s)"
  by (simp_all add: audit_def adapter_calls_def tick_def)

lemma on_world_calls:
  assumes "\<And>reply w'. h (gw_world s) = (reply, w') \<Longrightarrow> w_calls w' = w_calls (gw_world s)"
    and "on_world h s = (reply, s')"
  shows "adapter_calls s' = adapter_calls s"
  using assms by (auto simp: on_world_def adapter_calls_def split: prod.splits)

lemma xml_on_world_calls:
  assumes "\<And>reply w'. h (gw_world s) = (reply, w') \<Longrightarrow> w_calls w' = w_calls (gw_world s)"
    and "xml_on_world h s = (reply, s')"
  shows "adapter_calls s' = adapter_calls s"
  using assms by (auto simp: xml_on_world_def adapter_calls_def split: prod.splits)

lemma soap_calls: "soap_on_world g r s = (reply, s') \<Longrightarrow> adapter_calls s' = adapter_calls s"
  by (auto simp: soap_on_world_def adapter_calls_def split: sum.splits prod.splits)

lemma providerWebhook_calls:
  assumes "\<And>reply s'. nxt None r s = (reply, s') \<Longrightarrow> adapter_calls s' = adapter_calls s"
    and "providerWebhook g nxt r s = (reply, s')"
  shows "adapter_calls s' = adapter_calls s"
  using assms by (auto simp: providerWebhook_def WebhookNetworkMiddleware_def split: if_splits)

text \<open>The list for the role of a merchant, and what runs behind the two authenticated filters.\<close>

definition role_CIDRs :: "NetworkConfig \<Rightarrow> Merchant \<Rightarrow> ip_net list" where
  "role_CIDRs cfg m = (if Merchant_Role m = RoleMerchant then NC_MerchantAllowedCIDRs cfg
     else NC_AdminAllowedCIDRs cfg)"

lemma authenticated_role:
  assumes "AuthenticateMerchant a (Some lookup) r = Inr m"
  shows "Merchant_Role m \<in> {RoleMerchant, RoleAdmin, RoleAuditor}"
    and "MerchantFromContext (WithMerchant m) = Some m"
proof -
  from assms obtain m0 where m0: "m = m0\<lparr>Merchant_Role := NormalizeRole (Merchant_Role m0)\<rparr>"
    "Merchant_Role m \<in> {RoleMerchant, RoleAdmin, RoleAuditor}"
    unfolding AuthenticateMerchant_accepts [OF refl refl refl refl] by blast
  then have "NormalizeRole (Merchant_Role m) = Merchant_Role m" by simp
  with m0(2) show "MerchantFromContext (WithMerchant m) = Some m"
    by (auto simp: MerchantFromContext_WithMerchant)
  show "Merchant_Role m \<in> {RoleMerchant, RoleAdmin, RoleAuditor}" by (rule m0(2))
qed

lemma authenticated_cases:
  assumes "authenticated g nxt r s = (reply, s')"
  obtains (refused) "adapter_calls s' = adapter_calls s" "w_store (gw_world s') = w_store (gw_world s)"
  | (passed) m where "AuthenticateMerchant (gv_auth g) (Some (store_lookup (gv_merchants g))) r = Inr m"
      "IPAllowed (fst (ClientIP (gv_network g) r)) (role_CIDRs (gv_network g) m)"
      "nxt (WithMerchant m) r s = (reply, s')"
proof (cases "AuthenticateMerchant (gv_auth g) (Some (store_lookup (gv_merchants g))) r")
  case (Inl err)
  then show thesis using assms by (intro refused) (simp_all add: authenticated_def Middleware_def)
next
  case (Inr m)
  note role = authenticated_role [OF Inr]
  have norm: "NormalizeRole (Merchant_Role m) = Merchant_Role m" using context_role(1) [OF role(2)] .
  have nets: "(if Merchant_Role m \<in> {RoleAdmin, RoleAuditor} then NC_AdminAllowedCIDRs (gv_network g)
      else NC_MerchantAllowedCIDRs (gv_network g)) = role_CIDRs (gv_network g) m"
    using role(1) by (auto simp: role_CIDRs_def)
  show thesis
  proof (cases "IPAllowed (fst (ClientIP (gv_network g) r)) (role_CIDRs (gv_network g) m)")
    case True
    then have "nxt (WithMerchant m) r s = (reply, s')"
      using assms unfolding authenticated_def Middleware_def Inr AuthenticatedNetworkMiddleware_def
      by (simp del: insert_iff add: role(2) norm nets Let_def)
    with Inr True show thesis by (rule passed)
  next
    case False
    then have "\<exists>ev. audit ev s = s'"
      using assms unfolding authenticated_def Middleware_def Inr AuthenticatedNetworkMiddleware_def
      by (simp del: insert_iff add: role(2) norm nets Let_def) blast
    then obtain ev where "s' = audit ev s" by blast
    then show thesis by (intro refused) simp_all
  qed
qed

lemma store_lookup_provider: "merchant_provider (store_lookup st)"
  by (cases st) (simp_all add: store_lookup_def static_provider.merchant_provider_axioms
    pg_provider.merchant_provider_axioms)

text \<open>A payment or a refund that the gateway sends for merchant \<open>m\<close>.\<close>

definition payment_sent :: "'s gateway_env \<Rightarrow> Merchant \<Rightarrow> http_request \<Rightarrow> 's gateway \<Rightarrow> 's gateway \<Rightarrow> bool" where
  "payment_sent g m r s s' = (Hr_Path r = ''/payments'' \<and> gw_refund_calls s' = gw_refund_calls s
     \<and> (\<exists>req. decodeCreatePaymentRequest r = Inr req \<and> Req_MerchantID req = Merchant_ID m
       \<and> gw_world s' = snd (CreatePayment (gv_store g) (gv_env g) req (gw_world s))))"

definition refund_sent :: "'s gateway_env \<Rightarrow> Merchant \<Rightarrow> http_request \<Rightarrow> 's gateway \<Rightarrow> 's gateway \<Rightarrow> bool" where
  "refund_sent g m r s s' = (Hr_Path r \<in> {''/refunds/full/create'', ''/refunds/partial/create''}
     \<and> w_calls (gw_world s') = w_calls (gw_world s)
     \<and> (\<exists>mid pid st payload payment call. CanWriteMerchantData m mid
       \<and> op_GetByPaymentID (gv_store g) mid pid (w_store (gw_world s)) = Inr (Some (st, payload))
       \<and> UnmarshalResponse payload = Some payment \<and> Resp_CurrentStatus payment = StatusCaptured
       \<and> gw_refund_calls s' = gw_refund_calls s @ [call]))"

lemma refunds_calls:
  assumes "refunds_ServeHTTP e ctx r w = Some (reply, w')" "rw_calls w' \<noteq> rw_calls w"
  shows "Hr_Method r = ''POST'' \<and> Hr_Path r \<in> {''/refunds/full/create'', ''/refunds/partial/create''}
    \<and> (\<exists>full. create_refund e full ctx r w = (reply, w'))"
proof -
  have status: "refund_status e ctx r w \<noteq> Some (reply, w')"
    using assms(2) by (auto simp: refund_status_def Let_def split: if_splits option.splits sum.splits)
  have search: "refund_search e ctx r w \<noteq> Some (reply, w')"
    using assms(2) by (auto simp: refund_search_def Let_def split: if_splits option.splits sum.splits)
  show ?thesis
    using assms status search unfolding refunds_ServeHTTP_def
    by (auto split: if_splits)
qed

lemma refund_route_sent:
  assumes "on_refunds g (WithMerchant m) r s = (reply, s')" "adapter_calls s' \<noteq> adapter_calls s"
    and "MerchantFromContext (WithMerchant m) = Some m"
  shows "Hr_Method r = ''POST'' \<and> refund_sent g m r s s'"
proof -
  from assms(1,2) obtain w' where run: "refunds_ServeHTTP (refund_env_of g) (WithMerchant m) r (refund_view s) = Some (reply, w')"
    "s' = put_refunds w' s"
    by (auto simp: on_refunds_def split: option.splits prod.splits)
  have same: "w_calls (gw_world s') = w_calls (gw_world s)" "gw_refund_calls s' = rw_calls w'"
    by (simp_all add: run(2) put_refunds_def)
  have view: "rw_calls (refund_view s) = gw_refund_calls s" "rw_store (refund_view s) = w_store (gw_world s)"
    by (simp_all add: refund_view_def)
  have new: "rw_calls w' \<noteq> rw_calls (refund_view s)"
    using assms(2) same view by (simp add: adapter_calls_def)
  from refunds_calls [OF run(1) new] obtain full where c: "Hr_Method r = ''POST''"
    "Hr_Path r \<in> {''/refunds/full/create'', ''/refunds/partial/create''}"
    "create_refund (refund_env_of g) full (WithMerchant m) r (refund_view s) = (reply, w')" by blast
  show ?thesis
  proof (rule create_refund_needs [OF c(3) new])
    fix tops ops n req st payload payment provider
    assume n: "rf_transactions (refund_env_of g) = Some tops" "MerchantFromContext (WithMerchant m) = Some n"
      "CanWriteMerchantData n (RReq_MerchantID req)"
      "op_GetByPaymentID tops (RReq_MerchantID req) (RReq_PaymentID req) (rw_store (refund_view s))
        = Inr (Some (st, payload))"
      "UnmarshalResponse payload = Some payment" "Resp_CurrentStatus payment = StatusCaptured"
      "rw_calls w' = rw_calls (refund_view s) @ [(provider, adapter_request req payment
        (refund_amount req payment full) full (rf_id (refund_env_of g) (length (rw_calls (refund_view s)))))]"
    then have "tops = gv_store g" "n = m" using assms(3) by (simp_all add: refund_env_of_def)
    then have "\<exists>mid pid st payload payment call. CanWriteMerchantData m mid
       \<and> op_GetByPaymentID (gv_store g) mid pid (w_store (gw_world s)) = Inr (Some (st, payload))
       \<and> UnmarshalResponse payload = Some payment \<and> Resp_CurrentStatus payment = StatusCaptured
       \<and> gw_refund_calls s' = gw_refund_calls s @ [call]"
      using n(3-7) unfolding view same(2) by blast
    with c(1,2) same(1) show ?thesis by (simp add: refund_sent_def)
  qed
qed

lemma payment_route_sent:
  assumes "AuthenticateMerchant a (Some (store_lookup st)) r = Inr m"
    and "on_world (NewCreatePaymentHandler (gv_store g) (gv_env g) fail (WithMerchant m) r) s = (reply, s')"
    and "adapter_calls s' \<noteq> adapter_calls s" "Hr_Path r = ''/payments''" "whole_is_first r"
  shows "Hr_Method r = ''POST'' \<and> Merchant_Role m \<in> {RoleMerchant, RoleAdmin} \<and> payment_sent g m r s s'"
proof -
  from assms(2) obtain w' where run:
    "NewCreatePaymentHandler (gv_store g) (gv_env g) fail (WithMerchant m) r (gw_world s) = (reply, w')"
    "s' = s\<lparr>gw_world := w'\<rparr>"
    by (auto simp: on_world_def split: prod.splits)
  from merchant_provider.authenticated_create [OF store_lookup_provider assms(1) run(1) assms(4,5)]
  show ?thesis
    using assms(3,4) by (auto simp: run(2) adapter_calls_def payment_sent_def)
qed

text \<open>
  The escaped path of a request that a server has received: it stands for the path, and starts
  with a slash if it is not empty and the request is not for the server as a whole.
\<close>

definition escaped_path :: "gostring \<Rightarrow> http_request \<Rightarrow> bool" where
  "escaped_path esc r = (unescape esc = Some (Hr_Path r) \<and> (esc = '''' \<or> hd esc = CHR ''/'' \<or> Hr_URI r = ''*''))"

lemma Split_nonempty: "Split c s \<noteq> []"
  by (induction s) (auto split: list.splits)

lemma Split_single: "Split c s = [x] \<Longrightarrow> s = x"
proof (induction s arbitrary: x)
  case (Cons a s)
  then show ?case
    using Split_nonempty [of c s] by (cases "Split c s") (auto split: if_splits)
qed simp

lemma create_route_path:
  assumes "mux_find meth path esc = Found CreatePaymentRoute" "escaped_path esc r" "Hr_URI r \<noteq> ''*''"
  shows "Hr_Path r = ''/payments''"
proof -
  from assms(1) obtain pat where "mux_match esc = Some (pat, CreatePaymentRoute)"
    by (auto simp: mux_find_def Let_def split: if_splits option.splits)
  then have esc: "esc \<noteq> ''''" and f: "List.find (\<lambda>(pat, _). pattern_matches pat (segments esc)) mux_patterns
      = Some (pat, CreatePaymentRoute)"
    by (simp_all add: mux_match_def split: if_splits)
  then have "(pat, CreatePaymentRoute) \<in> set mux_patterns" "pattern_matches pat (segments esc)"
    by (auto dest!: find_Some_set)
  then have "segments esc = [''payments'']"
    by (auto simp: mux_patterns_def pattern_matches_def Let_def)
  then obtain x where x: "Split CHR ''/'' (drop 1 esc) = [x]"
    "(case unescape x of Some u \<Rightarrow> u | None \<Rightarrow> x) = ''payments''"
    by (auto simp: segments_def)
  from esc assms(2,3) have "esc = CHR ''/'' # x"
    using Split_single [OF x(1)] by (cases esc) (auto simp: escaped_path_def)
  with assms(2) x(2) show ?thesis by (auto simp: escaped_path_def)
qed

definition money_sent :: "'s gateway_env \<Rightarrow> http_request \<Rightarrow> 's gateway \<Rightarrow> 's gateway \<Rightarrow> bool" where
  "money_sent g r s s' =
     (\<exists>m. AuthenticateMerchant (gv_auth g) (Some (store_lookup (gv_merchants g))) r = Inr m
       \<and> IPAllowed (fst (ClientIP (gv_network g) r)) (role_CIDRs (gv_network g) m)
       \<and> Hr_Method r = ''POST'' \<and> Merchant_Role m \<in> {RoleMerchant, RoleAdmin}
       \<and> (payment_sent g m r s s' \<or> refund_sent g m r s s'))"

text \<open>
  What \<open>IsSecureRequestWithTrustedProxies\<close> takes for HTTPS beyond TLS and the target: the first value of
  \<open>X-Forwarded-Proto\<close> or the \<open>proto\<close> of \<open>Forwarded\<close>, where these headers are trusted, from a
  peer on the list, or from any peer if the list is empty.
\<close>

definition told_by_proxy :: "TransportConfig \<Rightarrow> http_request \<Rightarrow> bool" where
  "told_by_proxy t r = (TC_TrustProxyHeaders t
     \<and> (TC_TrustedProxyCIDRs t = [] \<or> (\<exists>a n. RemoteIP (Hr_RemoteAddr r) = Some a
          \<and> n \<in> set (TC_TrustedProxyCIDRs t) \<and> net_Contains n a))
     \<and> (EqualFold (firstHeaderValue (Hr_Header r ''X-Forwarded-Proto'')) ''https''
        \<or> forwardedHeaderHasHTTPS (Hr_Header r ''Forwarded'')))"

lemma secure_request_iff:
  "IsSecureRequestWithTrustedProxies r (TC_TrustProxyHeaders t) (TC_TrustedProxyCIDRs t)
    \<longleftrightarrow> Hr_TLS r \<or> EqualFold (Hr_Scheme r) ''https'' \<or> told_by_proxy t r"
  by (auto simp: IsSecureRequestWithTrustedProxies_def told_by_proxy_def IPAllowed_def list_ex_iff
      split: if_splits option.splits)

lemma can_write_role:
  "AuthenticateMerchant a (Some lookup) r = Inr m \<Longrightarrow> CanWriteMerchantData m t \<Longrightarrow>
    Merchant_Role m \<in> {RoleMerchant, RoleAdmin}"
  using authenticated_role [of a lookup r m] context_role(1) [of "WithMerchant m" m]
  by (auto simp: CanWriteMerchantData_def Let_def split: if_splits)

lemma payment_handler_money:
  assumes "authenticated g (\<lambda>ctx r. on_world (NewCreatePaymentHandler (gv_store g) (gv_env g) fail ctx r)) r s
      = (reply, s')"
    and "adapter_calls s' \<noteq> adapter_calls s" "Hr_Path r = ''/payments''" "whole_is_first r"
  shows "money_sent g r s s'"
  using assms(1)
proof (cases rule: authenticated_cases)
  case (passed m)
  with payment_route_sent [OF passed(1,3) assms(2-4)] show ?thesis by (auto simp: money_sent_def)
qed (use assms(2) in simp)

lemma refund_handler_money:
  assumes "authenticated g (on_refunds g) r s = (reply, s')" and "adapter_calls s' \<noteq> adapter_calls s"
  shows "money_sent g r s s'"
  using assms(1)
proof (cases rule: authenticated_cases)
  case (passed m)
  from refund_route_sent [OF passed(3) assms(2) authenticated_role(2) [OF passed(1)]]
  have sent: "Hr_Method r = ''POST''" "refund_sent g m r s s'" by auto
  then obtain mid where "CanWriteMerchantData m mid" by (auto simp: refund_sent_def)
  with can_write_role [OF passed(1)] passed sent show ?thesis by (auto simp: money_sent_def)
qed (use assms(2) in simp)

lemma reading_handler_calls:
  assumes "authenticated g (\<lambda>ctx r. on_world (h ctx r)) r s = (reply, s')"
    and "\<And>ctx reply w'. h ctx r (gw_world s) = (reply, w') \<Longrightarrow> w_calls w' = w_calls (gw_world s)"
  shows "adapter_calls s' = adapter_calls s"
  using assms(1)
proof (cases rule: authenticated_cases)
  case (passed m)
  show ?thesis by (rule on_world_calls [OF _ passed(3)]) (rule assms(2))
qed

lemmas quiet_handlers = reading_handler_calls [OF _ status_calls] reading_handler_calls [OF _ report_calls]
  providerWebhook_calls [OF on_world_calls [OF yoo_calls]] providerWebhook_calls [OF xml_on_world_calls [OF paw_calls]]
  providerWebhook_calls [OF on_world_calls [OF scan_calls]] providerWebhook_calls [OF soap_calls]
  on_world_calls [OF demo_calls]

lemma quiet_routes:
  "route_handler g route r s = (reply, s') \<Longrightarrow> route \<notin> {CreatePaymentRoute, RefundRoute} \<Longrightarrow>
    adapter_calls s' = adapter_calls s"
  by (cases route) (auto simp: route_handler_def health_handler_def Let_def intro: quiet_handlers)

lemma route_calls:
  assumes "route_handler g route r s = (reply, s')" and "adapter_calls s' \<noteq> adapter_calls s"
    and "route = CreatePaymentRoute \<Longrightarrow> Hr_Path r = ''/payments''" and "whole_is_first r"
  shows "money_sent g r s s'"
proof -
  from quiet_routes [OF assms(1)] assms(2) consider "route = CreatePaymentRoute" | "route = RefundRoute" by blast
  then show ?thesis
    using assms payment_handler_money refund_handler_money
    by cases (simp_all add: route_handler_def Let_def)
qed

subsection \<open>Properties\<close>

text \<open>
  C3: Money moves only for its merchant. Whatever reaches the gateway, on whatever path, an
  adapter is called, for a payment or for a refund, only by a POST of a merchant with a valid
  key, signature and timestamp, whose role may write, from an address that the list of
  the role admits; and, where HTTPS is required, only by a request that came over TLS, through a
  proxy whose word for it is taken, or with a whole \<open>https\<close> URL in its request line, which is the
  client's own claim. A payment is sent by one run of the orchestrator for this very merchant; a
  refund by one call, for a captured payment of a merchant whose data the caller may write. No
  webhook, report, status or redirect calls an adapter.
\<close>

theorem gateway_money:
  assumes "gateway_serve g esc r s = ((headers, reply), s')" and "adapter_calls s' \<noteq> adapter_calls s"
    and "escaped_path esc r" and "whole_is_first r"
  shows "money_sent g r s s' \<and> (TC_RequireHTTPS (gv_transport g) \<longrightarrow>
    Hr_TLS r \<or> EqualFold (Hr_Scheme r) ''https'' \<or> told_by_proxy (gv_transport g) r)"
proof -
  let ?t = "gv_transport g"
  let ?secure = "IsSecureRequestWithTrustedProxies r (TC_TrustProxyHeaders ?t) (TC_TrustedProxyCIDRs ?t)"
  have secure: "TC_RequireHTTPS ?t \<longrightarrow> ?secure"
    using assms(1,2) by (auto simp: gateway_serve_def transport_Middleware_def split: if_splits)
  from assms(1,2) have mux: "serve_mux g esc r s = (reply, s')"
    by (auto simp: gateway_serve_def transport_Middleware_def split: if_splits prod.splits)
  with assms(2) obtain route where route: "Hr_URI r \<noteq> ''*''" "mux_find (Hr_Method r) (Hr_Path r) esc = Found route"
    "route_handler g route r s = (reply, s')"
    by (auto simp: serve_mux_def split: if_splits mux_result.splits)
  have "money_sent g r s s'"
    using create_route_path [OF _ assms(3) route(1)] route(2)
    by (intro route_calls [OF route(3) assms(2) _ assms(4)]) blast
  with secure show ?thesis unfolding secure_request_iff by blast
qed

definition sample_gateway :: "InMemoryTransactionStore gateway_env" where
  "sample_gateway = \<lparr>gv_env = sample_env\<lparr>env_clock := \<lambda>_. 7\<rparr>, gv_store = mem_ops, gv_refundStore = mem_refund_ops (\<lambda>_. []),
     gv_reportStore = (\<lambda>f t s. Inl ''''), gv_refundFactory = rf_factory sample_refund_env, gv_refundID = (\<lambda>_. ''ref_1''),
     gv_ParseFloat = (\<lambda>_. Some NaN), gv_merchants = StaticStore sample_merchant, gv_auth = sample_auth,
     gv_transport = \<lparr>TC_RequireHTTPS = True, TC_TrustProxyHeaders = False, TC_TrustedProxyCIDRs = []\<rparr>,
     gv_network = \<lparr>NC_TrustedProxyCIDRs = [], NC_MerchantAllowedCIDRs = [], NC_AdminAllowedCIDRs = [],
       NC_WebhookAllowedCIDRs = []\<rparr>,
     gv_showIP = (\<lambda>_. ''''), gv_client = (\<lambda>_. Inl ''''), gv_float = (\<lambda>_. (Fin 0, None)), gv_time = (\<lambda>_ _. None),
     gv_hmac = (@), gv_md5 = (\<lambda>s. s), gv_encodeError = writeAuthError, gv_form = (\<lambda>_. Inr []),
     gv_soap = (\<lambda>_. Inl ''''), gv_soapNow = 0\<rparr>"

definition sample_gateway_state :: "InMemoryTransactionStore gateway" where
  "sample_gateway_state = \<lparr>gw_world = sample_world\<lparr>w_store := paid_store\<rparr>, gw_refund_calls = [], gw_xml = None\<rparr>"

text \<open>The refund form of a shop, signed and sent over TLS.\<close>

definition signed_form :: http_request where
  "signed_form = refund_form\<lparr>Hr_URI := ''/refunds/partial/create'', Hr_TLS := True, Hr_Header := \<lambda>h. if h = HeaderMerchantID then ''m''
     else if h = HeaderAPIKey then ''key'' else if h = HeaderTimestamp then ''90''
     else if h = HeaderSignature then ''s90.POST./refunds/partial/create.h''
     else if h = ''Content-Type'' then ''application/x-www-form-urlencoded'' else ''''\<rparr>"

lemma signed_form_authenticated:
  "AuthenticateMerchant sample_auth (Some (static_GetByID (Some sample_merchant))) signed_form = Inr sample_merchant"
proof -
  have trims: "TrimSpace ''m'' = ''m''" "TrimSpace ''key'' = ''key''" "TrimSpace ''90'' = ''90''"
    "TrimSpace ''s90.POST./refunds/partial/create.h'' = ''s90.POST./refunds/partial/create.h''" "ToUpper ''POST'' = ''POST''"
    by (simp_all add: go_eval)
  have role: "NormalizeRole RoleMerchant = RoleMerchant" by (simp add: NormalizeRole_def lit go_eval)
  have "ParseInt64 ''90'' = Some 90"
    by (simp add: ParseInt64_def digits_value_def HasPrefix_def byte_def is_digit_def)
  then show ?thesis
    by (simp add: AuthenticateMerchant_accepts [OF refl refl refl refl] signed_form_def refund_form_def sample_http_def
        sample_merchant_def sample_auth_def static_GetByID_def trims role HeaderMerchantID_def HeaderAPIKey_def
        HeaderTimestamp_def HeaderSignature_def readAndRestoreBody_def BuildSignature_def canonical_def)
qed

lemma signed_form_route: "mux_find ''POST'' ''/refunds/partial/create'' ''/refunds/partial/create'' = Found RefundRoute"
  by code_simp

lemma signed_form_escaped: "escaped_path ''/refunds/partial/create'' signed_form"
  by (simp add: escaped_path_def signed_form_def refund_form_def)

lemma signed_form_same:
  "create_refund e full ctx signed_form w = create_refund e full ctx refund_form w"
proof -
  have "Hr_Header signed_form ''Content-Type'' = Hr_Header refund_form ''Content-Type''"
    "Hr_Form signed_form = Hr_Form refund_form" "Hr_Body signed_form = Hr_Body refund_form"
    by (simp_all add: signed_form_def refund_form_def HeaderMerchantID_def HeaderAPIKey_def
        HeaderTimestamp_def HeaderSignature_def)
  then have "decodeCreateRefundRequest f signed_form = decodeCreateRefundRequest f refund_form" for f
    by (simp only: decodeCreateRefundRequest_def decode_body_def body_first_def)
  moreover have "Hr_Method signed_form = Hr_Method refund_form" "Hr_Path signed_form = Hr_Path refund_form"
    by (simp_all add: signed_form_def)
  ultimately show ?thesis by (simp only: create_refund_def)
qed

lemma signed_form_sent:
  "adapter_calls (snd (gateway_serve sample_gateway ''/refunds/partial/create'' signed_form sample_gateway_state))
    \<noteq> adapter_calls sample_gateway_state"
proof -
  have view: "refund_view sample_gateway_state = sample_refund_world" "refund_env_of sample_gateway = sample_refund_env"
    by (simp_all add: refund_view_def sample_gateway_state_def sample_refund_world_def sample_world_def
        refund_env_of_def sample_gateway_def sample_refund_env_def sample_env_def)
  have req: "Hr_TLS signed_form" "Hr_Method signed_form = ''POST''" "Hr_Path signed_form = ''/refunds/partial/create''"
    "Hr_URI signed_form \<noteq> ''*''" by (simp_all add: signed_form_def refund_form_def)
  have ctx: "WithMerchant sample_merchant = Some sample_merchant" "MerchantFromContext (Some sample_merchant) = Some sample_merchant"
    using sample_refund_auth(1) by (simp_all add: WithMerchant_def sample_merchant_def NormalizeRole_def lit go_eval)
  obtain reply w' where run: "create_refund sample_refund_env False (Some sample_merchant) refund_form sample_refund_world
      = (reply, w')" by fastforce
  have secure: "IsSecureRequestWithTrustedProxies signed_form b nets" for b nets
    by (simp add: IsSecureRequestWithTrustedProxies_def req)
  have nets: "NC_MerchantAllowedCIDRs (gv_network sample_gateway) = []" "NC_AdminAllowedCIDRs (gv_network sample_gateway) = []"
    "gv_auth sample_gateway = sample_auth"
    "store_lookup (gv_merchants sample_gateway) = static_GetByID (Some sample_merchant)"
    by (simp_all add: sample_gateway_def store_lookup_def)
  have "on_refunds sample_gateway (Some sample_merchant) signed_form sample_gateway_state
      = (reply, put_refunds w' sample_gateway_state)"
    by (simp add: on_refunds_def refunds_ServeHTTP_def req view signed_form_same run)
  then have "route_handler sample_gateway RefundRoute signed_form sample_gateway_state
      = (reply, put_refunds w' sample_gateway_state)"
    by (simp add: route_handler_def authenticated_def Middleware_def nets signed_form_authenticated ctx
        AuthenticatedNetworkMiddleware_def IPAllowed_def Let_def)
  then have "snd (gateway_serve sample_gateway ''/refunds/partial/create'' signed_form sample_gateway_state)
      = put_refunds w' sample_gateway_state"
    by (simp add: gateway_serve_def transport_Middleware_def secure serve_mux_def req signed_form_route)
  moreover have "rw_calls w' \<noteq> []"
    using sample_refund_sent unfolding run by (simp add: sample_refund_world_def)
  ultimately show ?thesis
    by (simp add: adapter_calls_def put_refunds_def sample_gateway_state_def)
qed

theorem gateway_money_witness:
  "money_sent sample_gateway signed_form sample_gateway_state
    (snd (gateway_serve sample_gateway ''/refunds/partial/create'' signed_form sample_gateway_state))"
proof -
  obtain headers reply s' where run: "gateway_serve sample_gateway ''/refunds/partial/create'' signed_form
      sample_gateway_state = ((headers, reply), s')" by (metis prod.collapse)
  have "whole_is_first signed_form"
    by (simp add: whole_is_first_def body_json_def signed_form_def refund_form_def sample_http_def)
  from gateway_money [OF run _ signed_form_escaped this] signed_form_sent show ?thesis by (simp add: run)
qed

subsection \<open>Starting in production\<close>

lemma ValidateOutboundURLs_None:
  assumes "ValidateOutboundURLs urlParse True vals = None" "(n, v) \<in> set vals" "TrimSpace v \<noteq> ''''"
  shows "\<exists>scheme host. urlParse (TrimSpace v) = Inr (scheme, host) \<and> EqualFold scheme ''https'' \<and> host \<noteq> ''''"
proof -
  have "List.find (\<lambda>e. e \<noteq> None) (map (\<lambda>(n, v). ValidateHTTPSURL urlParse n v False) vals) = None"
    using assms(1) by (auto simp: ValidateOutboundURLs_def split: option.splits dest: find_Some_set)
  then have "ValidateHTTPSURL urlParse n v False = None"
    using assms(2) by (force simp: find_None_iff)
  with assms(3) show ?thesis
    by (auto simp: ValidateHTTPSURL_def Let_def split: sum.splits if_splits)
qed

text \<open>What a configuration that was accepted guarantees.\<close>

lemma startup_config_accepted:
  assumes "startup_config env urlParse = Inr st"
  shows "TC_RequireHTTPS (St_Transport st) = (BoolEnv env ''REQUIRE_HTTPS'' \<or> IsProductionEnv (env ''APP_ENV''))"
    and "TC_TrustedProxyCIDRs (St_Transport st) = NC_TrustedProxyCIDRs (St_Network st)"
    and "IsProductionEnv (env ''APP_ENV'') \<Longrightarrow> TC_TrustProxyHeaders (St_Transport st) \<Longrightarrow>
      NC_TrustedProxyCIDRs (St_Network st) \<noteq> []"
    and "TC_RequireHTTPS (St_Transport st) \<Longrightarrow> ValidateOutboundURLs urlParse True
      [(''PAYMENT_RETURN_URL'', env ''PAYMENT_RETURN_URL''), (''MERCHANT_WEBHOOK_URL'', env ''MERCHANT_WEBHOOK_URL'')] = None"
proof -
  have dev: "\<not> IsProductionEnv ''''" by (simp add: IsProductionEnv_def go_eval)
  show "TC_RequireHTTPS (St_Transport st) = (BoolEnv env ''REQUIRE_HTTPS'' \<or> IsProductionEnv (env ''APP_ENV''))"
    "TC_TrustedProxyCIDRs (St_Transport st) = NC_TrustedProxyCIDRs (St_Network st)"
    "IsProductionEnv (env ''APP_ENV'') \<Longrightarrow> TC_TrustProxyHeaders (St_Transport st) \<Longrightarrow>
      NC_TrustedProxyCIDRs (St_Network st) \<noteq> []"
    "TC_RequireHTTPS (St_Transport st) \<Longrightarrow> ValidateOutboundURLs urlParse True
      [(''PAYMENT_RETURN_URL'', env ''PAYMENT_RETURN_URL''), (''MERCHANT_WEBHOOK_URL'', env ''MERCHANT_WEBHOOK_URL'')] = None"
    using assms dev
    by (auto simp: startup_config_def TransportConfigFromEnv_def Let_def split: sum.splits option.splits if_splits)
qed

text \<open>
  C7: How far a production gateway keeps to HTTPS. If the process starts with \<open>APP_ENV=production\<close>,
  the requests that it serves, with the HSTS header, are exactly those that came over TLS, those
  with a whole \<open>https\<close> URL in their request line, and those from a peer in one of the configured
  proxy networks whose headers say HTTPS; every other request is answered 426 without any effect and
  without that header. The second sort is a hole: a client may write such a URL on a plain
  connection. And the return URL and the merchant's webhook URL, the two outbound URLs that are
  looked at, are HTTPS with a host if they are set.
\<close>

theorem startup_https:
  assumes "startup_config env urlParse = Inr st" and "IsProductionEnv (env ''APP_ENV'')"
    and "gv_transport g = St_Transport st" and "gateway_serve g esc r s = ((headers, reply), s')"
  shows "(if Hr_TLS r \<or> EqualFold (Hr_Scheme r) ''https''
        \<or> TC_TrustProxyHeaders (St_Transport st)
          \<and> (\<exists>a n. RemoteIP (Hr_RemoteAddr r) = Some a
            \<and> n \<in> set (NC_TrustedProxyCIDRs (St_Network st)) \<and> net_Contains n a)
          \<and> (EqualFold (firstHeaderValue (Hr_Header r ''X-Forwarded-Proto'')) ''https''
             \<or> forwardedHeaderHasHTTPS (Hr_Header r ''Forwarded''))
      then serve_mux g esc r s = (reply, s')
        \<and> (''Strict-Transport-Security'', ''max-age=31536000; includeSubDomains'') \<in> set headers
      else fst reply = 426 \<and> s' = s \<and> ''Strict-Transport-Security'' \<notin> fst ` set headers)
    \<and> (\<forall>name\<in>{''PAYMENT_RETURN_URL'', ''MERCHANT_WEBHOOK_URL''}. TrimSpace (env name) \<noteq> '''' \<longrightarrow>
        (\<exists>scheme host. urlParse (TrimSpace (env name)) = Inr (scheme, host)
          \<and> EqualFold scheme ''https'' \<and> host \<noteq> ''''))"
proof (intro conjI ballI impI)
  note st = startup_config_accepted [OF assms(1)]
  let ?t = "St_Transport st"
  let ?secure = "IsSecureRequestWithTrustedProxies r (TC_TrustProxyHeaders ?t) (TC_TrustedProxyCIDRs ?t)"
  have req: "TC_RequireHTTPS ?t" using st(1) assms(2) by simp
  have run: "if ?secure then serve_mux g esc r s = (reply, s')
        \<and> (''Strict-Transport-Security'', ''max-age=31536000; includeSubDomains'') \<in> set headers
      else fst reply = 426 \<and> s' = s \<and> ''Strict-Transport-Security'' \<notin> fst ` set headers"
    using assms(4) req
    by (auto simp: gateway_serve_def transport_Middleware_def assms(3) SetSecurityHeaders_def reply_json_def
        split: if_splits prod.splits)
  have "told_by_proxy ?t r \<longleftrightarrow> TC_TrustProxyHeaders ?t
      \<and> (\<exists>a n. RemoteIP (Hr_RemoteAddr r) = Some a
        \<and> n \<in> set (NC_TrustedProxyCIDRs (St_Network st)) \<and> net_Contains n a)
      \<and> (EqualFold (firstHeaderValue (Hr_Header r ''X-Forwarded-Proto'')) ''https''
         \<or> forwardedHeaderHasHTTPS (Hr_Header r ''Forwarded''))"
    using st(3) [OF assms(2)] unfolding told_by_proxy_def st(2) by blast
  with run show "if Hr_TLS r \<or> EqualFold (Hr_Scheme r) ''https''
        \<or> TC_TrustProxyHeaders (St_Transport st)
          \<and> (\<exists>a n. RemoteIP (Hr_RemoteAddr r) = Some a
            \<and> n \<in> set (NC_TrustedProxyCIDRs (St_Network st)) \<and> net_Contains n a)
          \<and> (EqualFold (firstHeaderValue (Hr_Header r ''X-Forwarded-Proto'')) ''https''
             \<or> forwardedHeaderHasHTTPS (Hr_Header r ''Forwarded''))
      then serve_mux g esc r s = (reply, s')
        \<and> (''Strict-Transport-Security'', ''max-age=31536000; includeSubDomains'') \<in> set headers
      else fst reply = 426 \<and> s' = s \<and> ''Strict-Transport-Security'' \<notin> fst ` set headers"
    unfolding secure_request_iff by argo
  fix name assume "name \<in> {''PAYMENT_RETURN_URL'', ''MERCHANT_WEBHOOK_URL''}" "TrimSpace (env name) \<noteq> ''''"
  then show "\<exists>scheme host. urlParse (TrimSpace (env name)) = Inr (scheme, host)
      \<and> EqualFold scheme ''https'' \<and> host \<noteq> ''''"
    using ValidateOutboundURLs_None [OF st(4) [OF req], of name "env name"] by auto
qed

definition production_env :: "gostring \<Rightarrow> gostring" where
  "production_env name = (if name = ''APP_ENV'' then ''production'' else if name = ''TLS_CERT_FILE'' then ''c''
     else if name = ''TLS_KEY_FILE'' then ''k'' else if name = ''MERCHANT_WEBHOOK_URL'' then ''u'' else '''')"

definition production_startup :: startup where
  "production_startup = \<lparr>St_Addr = '':8080'', St_AppEnv = ''production'',
     St_Transport = \<lparr>TC_RequireHTTPS = True, TC_TrustProxyHeaders = False, TC_TrustedProxyCIDRs = []\<rparr>,
     St_Network = \<lparr>NC_TrustedProxyCIDRs = [], NC_MerchantAllowedCIDRs = [], NC_AdminAllowedCIDRs = [],
       NC_WebhookAllowedCIDRs = []\<rparr>, St_CertFile = ''c'', St_KeyFile = ''k''\<rparr>"

lemma production_starts:
  "startup_config production_env (\<lambda>_. Inr (''https'', ''h'')) = Inr production_startup"
  "IsProductionEnv (production_env ''APP_ENV'')"
proof -
  have trims: "TrimSpace ''production'' = ''production''" "TrimSpace ''c'' = ''c''" "TrimSpace ''k'' = ''k''"
    "TrimSpace ''u'' = ''u''" "TrimSpace '''' = ''''" "ToLower ''production'' = ''production''" "ToLower '''' = ''''"
    by (simp_all add: go_eval)
  have fold: "EqualFold ''https'' ''https''" by (simp add: EqualFold_def)
  show "IsProductionEnv (production_env ''APP_ENV'')"
    by (simp add: production_env_def IsProductionEnv_def trims)
  show "startup_config production_env (\<lambda>_. Inr (''https'', ''h'')) = Inr production_startup"
    by (simp add: startup_config_def production_env_def production_startup_def NetworkConfigFromEnv_def named_list_def
        ParseCIDRList_def ValidateTLSConfig_def TransportConfigFromEnv_def IsProductionEnv_def BoolEnv_def
        ValidateOutboundURLs_def ValidateHTTPSURL_def listen_addr_def trims fold)
qed

text \<open>The same environment, with no database and no credentials, serves the built-in merchant.\<close>

lemma production_demo_credentials:
  "connect_services production_env init = Inr False"
  "merchants_of sha256 production_env False reveal db = StaticStore
     \<lparr>Merchant_ID = ''merchant_12345'', Merchant_Name = default_merchant_name,
      Merchant_APIKeyHash = sha256 ''demo_api_key'', Merchant_SecretKey = ''demo_secret_key'',
      Merchant_Role = RoleMerchant, Merchant_Active = True\<rparr>"
  by (simp_all add: connect_services_def merchants_of_def NewStaticMerchantStoreFromEnv_def production_env_def
      getenv_or_def)

text \<open>A request in the clear is refused; the same request with a whole URL in its first line is served.\<close>

theorem startup_https_witness:
  "fst (snd (fst (gateway_serve (sample_gateway\<lparr>gv_transport := St_Transport production_startup\<rparr>) ''/payments''
      unsigned_http sample_gateway_state))) = 426
   \<and> gateway_serve (sample_gateway\<lparr>gv_transport := St_Transport production_startup\<rparr>) ''/payments''
      (unsigned_http\<lparr>Hr_Scheme := ''HTTPS''\<rparr>) sample_gateway_state \<noteq>
     gateway_serve (sample_gateway\<lparr>gv_transport := St_Transport production_startup\<rparr>) ''/payments''
      unsigned_http sample_gateway_state"
proof -
  let ?g = "sample_gateway\<lparr>gv_transport := St_Transport production_startup\<rparr>"
  obtain headers reply s' where run: "gateway_serve ?g ''/payments'' unsigned_http sample_gateway_state
      = ((headers, reply), s')" by (metis prod.collapse)
  obtain headers' reply' s2 where run': "gateway_serve ?g ''/payments'' (unsigned_http\<lparr>Hr_Scheme := ''HTTPS''\<rparr>)
      sample_gateway_state = ((headers', reply'), s2)" by (metis prod.collapse)
  have off: "\<not> EqualFold '''' ''https''" by (simp add: EqualFold_def runes_ascii is_ascii_def byte_def)
  have on: "EqualFold ''HTTPS'' ''https''" by code_simp
  have "\<not> Hr_TLS unsigned_http" "Hr_Scheme unsigned_http = ''''"
    "NC_TrustedProxyCIDRs (St_Network production_startup) = []"
    by (simp_all add: unsigned_http_def sample_http_def production_startup_def)
  then have plain: "fst reply = 426 \<and> ''Strict-Transport-Security'' \<notin> fst ` set headers"
    using startup_https [OF production_starts _ run] off by simp
  have "(''Strict-Transport-Security'', ''max-age=31536000; includeSubDomains'') \<in> set headers'"
    using startup_https [OF production_starts _ run'] on by simp
  then have "''Strict-Transport-Security'' \<in> fst ` set headers'" by force
  with plain have "headers' \<noteq> headers" by blast
  with plain show ?thesis by (simp add: run run')
qed

end
