(* ===== verification/Event_Log.thy ===== *)
theory Event_Log
  imports Logging Validator
begin

section \<open>The event loggers (\<open>internal/subsystems/logging\<close>)\<close>

text \<open>
  \<open>MaskSensitive\<close>, which runs three regular expressions over every message, and the two loggers
  behind the contract \<open>EventLogger\<close>. Each expression is written as the function that finds its
  leftmost match: in \<open>cvvJSONRegexp\<close> and \<open>secretRegexp\<close> no choice but the name and the length
  of the secret can be undone later, and \<open>\b\d{13,19}\b\<close> matches exactly the words of 13 to 19
  digits, a word being a maximal run of ASCII letters, digits and underscores. \<open>(?i)\<close> also
  folds the long s and the Kelvin sign. A text is a byte string; none of the expressions can
  match inside the encoding of a rune above ASCII.
\<close>

subsection \<open>Character classes\<close>

definition re_space :: "char \<Rightarrow> bool" where
  "re_space c = (byte c \<in> {9, 10, 12, 13, 32})"

definition re_digit :: "char \<Rightarrow> bool" where
  "re_digit c = (48 \<le> byte c \<and> byte c \<le> 57)"

definition re_word :: "char \<Rightarrow> bool" where
  "re_word c = (re_digit c \<or> 65 \<le> byte c \<and> byte c \<le> 90 \<or> 97 \<le> byte c \<and> byte c \<le> 122 \<or> c = CHR ''_'')"

definition fold_byte :: "char \<Rightarrow> char" where
  "fold_byte c = (if 65 \<le> byte c \<and> byte c \<le> 90 then char_of (byte c + 32) else c)"

text \<open>The rest of \<open>s\<close> after a name, ignoring case.\<close>

fun fold_match :: "gostring \<Rightarrow> gostring \<Rightarrow> gostring option" where
  "fold_match [] s = Some s"
| "fold_match (p # ps) s =
     (if s \<noteq> [] \<and> fold_byte (hd s) = fold_byte p then fold_match ps (tl s)
      else if fold_byte p = CHR ''s'' \<and> HasPrefix s [CHR 0xC5, CHR 0xBF] then fold_match ps (drop 2 s)
      else if fold_byte p = CHR ''k'' \<and> HasPrefix s [CHR 0xE2, CHR 0x84, CHR 0xAA] then fold_match ps (drop 3 s)
      else None)"

definition opt_quote :: "gostring \<Rightarrow> gostring" where
  "opt_quote s = (if s \<noteq> [] \<and> hd s = CHR 0x22 then tl s else s)"

text \<open>\<open>\s*[:=]\s*\<close>\<close>

definition re_assign :: "gostring \<Rightarrow> gostring option" where
  "re_assign s = (case dropWhile re_space s of
     c # r \<Rightarrow> if c = CHR '':'' \<or> c = CHR ''='' then Some (dropWhile re_space r) else None
   | [] \<Rightarrow> None)"

subsection \<open>Card verification codes\<close>

text \<open>After the name: what is left at the first digit, and after the three or four digits.\<close>

definition cvv_tail :: "gostring \<Rightarrow> (gostring \<times> gostring) option" where
  "cvv_tail s = (case re_assign (opt_quote s) of
     None \<Rightarrow> None
   | Some r \<Rightarrow> (let r = opt_quote r; n = length (takeWhile re_digit (take 4 r)) in
       if 3 \<le> n then Some (r, drop n r) else None))"

fun first_some :: "'a option list \<Rightarrow> 'a option" where
  "first_some [] = None"
| "first_some (x # xs) = (case x of None \<Rightarrow> first_some xs | Some y \<Rightarrow> Some y)"

definition cvv_match :: "gostring \<Rightarrow> (gostring \<times> gostring) option" where
  "cvv_match s = first_some (map (\<lambda>name. Option.bind (fold_match name (opt_quote s)) cvv_tail)
     [''CVV_code'', ''cvv'', ''cvc'', ''cid''])"

lemma first_some_map: "first_some (map f xs) = Some y \<Longrightarrow> \<exists>x\<in>set xs. f x = Some y"
  by (induction xs) (auto split: option.splits)

lemma fold_match_length: "fold_match p s = Some r \<Longrightarrow> length r \<le> length s"
  by (induction p s rule: fold_match.induct) (auto split: if_splits)

lemma opt_quote_length: "length (opt_quote s) \<le> length s"
  by (simp add: opt_quote_def)

lemma re_assign_length: "re_assign s = Some r \<Longrightarrow> length r \<le> length s"
proof -
  assume r: "re_assign s = Some r"
  then obtain c t where t: "dropWhile re_space s = c # t" "r = dropWhile re_space t"
    by (auto simp: re_assign_def split: list.splits if_splits)
  have "length r \<le> length t" unfolding t(2) by (rule length_dropWhile_le)
  moreover have "Suc (length t) \<le> length s" using length_dropWhile_le [of re_space s] by (simp add: t(1))
  ultimately show ?thesis by simp
qed

lemma cvv_tail_length: "cvv_tail s = Some (r, t) \<Longrightarrow> length t < length s"
proof -
  assume c: "cvv_tail s = Some (r, t)"
  then obtain q where q: "re_assign (opt_quote s) = Some q" "r = opt_quote q"
    "3 \<le> length (takeWhile re_digit (take 4 r))" "t = drop (length (takeWhile re_digit (take 4 r))) r"
    by (auto simp: cvv_tail_def Let_def split: option.splits if_splits)
  have "length (takeWhile re_digit (take 4 r)) \<le> length (take 4 r)" by (rule length_takeWhile_le)
  then have "length (takeWhile re_digit (take 4 r)) \<le> length r" by simp
  then have "length t < length r" using q(3,4) by simp
  with re_assign_length [OF q(1)] opt_quote_length [of s] opt_quote_length [of q] show ?thesis
    by (simp add: q(2))
qed

lemma cvv_match_length: "cvv_match s = Some (r, t) \<Longrightarrow> length t < length s"
proof -
  assume "cvv_match s = Some (r, t)"
  then obtain name where "Option.bind (fold_match name (opt_quote s)) cvv_tail = Some (r, t)"
    using first_some_map [of "\<lambda>name. Option.bind (fold_match name (opt_quote s)) cvv_tail"]
    unfolding cvv_match_def by blast
  then obtain u where "fold_match name (opt_quote s) = Some u" "cvv_tail u = Some (r, t)"
    unfolding bind_eq_Some_conv by blast
  with fold_match_length [of name "opt_quote s" u] cvv_tail_length [of u r t] opt_quote_length [of s]
  show ?thesis by simp
qed

text \<open>\<open>cvvJSONRegexp.ReplaceAllString(value, `${1}[REDACTED]${2}`)\<close>: of several closing quotes one is kept.\<close>

function mask_cvv :: "gostring \<Rightarrow> gostring" where
  "mask_cvv s = (case cvv_match s of
     Some (r, t) \<Rightarrow> take (length s - length r) s @ ''[REDACTED]''
       @ (if t \<noteq> [] \<and> hd t = CHR 0x22 then [CHR 0x22] else []) @ mask_cvv (dropWhile (\<lambda>c. c = CHR 0x22) t)
   | None \<Rightarrow> (case s of [] \<Rightarrow> [] | c # cs \<Rightarrow> c # mask_cvv cs))"
  by pat_completeness auto

termination
proof (relation "measure length")
  fix s :: gostring and x r t
  assume "cvv_match s = Some x" "(r, t) = x"
  then have "cvv_match s = Some (r, t)" by simp
  with length_dropWhile_le [of "\<lambda>c. c = CHR 0x22" t] show "(dropWhile (\<lambda>c. c = CHR 0x22) t, s) \<in> measure length"
    by (auto dest: cvv_match_length)
qed auto

declare mask_cvv.simps [simp del]

subsection \<open>Provider secrets\<close>

text \<open>The longest secret that ends at a word boundary; \<open>prev\<close> is the character before \<open>s\<close>.\<close>

definition secret_end :: "gostring \<Rightarrow> nat option" where
  "secret_end r = List.find (\<lambda>n. re_word (r ! (n - 1)) \<noteq> (n < length r \<and> re_word (r ! n)))
     (rev [1..<Suc (length (takeWhile (\<lambda>c. \<not> re_space c) r))])"

definition secret_match :: "char option \<Rightarrow> gostring \<Rightarrow> gostring option" where
  "secret_match prev s = (if (case prev of None \<Rightarrow> False | Some c \<Rightarrow> re_word c) then None
     else first_some (map (\<lambda>name. Option.bind (Option.bind (fold_match name s) re_assign)
       (\<lambda>r. map_option (\<lambda>n. drop n r) (secret_end r))) [''YOOKASSA_SECRET_KEY'', ''PAYANYWAY_INTEGRITY_CODE'']))"

lemma secret_end_pos: "secret_end r = Some n \<Longrightarrow> 0 < n \<and> n \<le> length r"
proof -
  assume "secret_end r = Some n"
  then have "n \<in> set [1..<Suc (length (takeWhile (\<lambda>c. \<not> re_space c) r))]"
    unfolding secret_end_def by (metis find_Some_set set_rev)
  moreover have "length (takeWhile (\<lambda>c. \<not> re_space c) r) \<le> length r" by (rule length_takeWhile_le)
  ultimately show ?thesis by auto
qed

lemma secret_match_length: "secret_match prev s = Some t \<Longrightarrow> length t < length s"
proof -
  assume "secret_match prev s = Some t"
  then obtain name where "Option.bind (Option.bind (fold_match name s) re_assign)
      (\<lambda>r. map_option (\<lambda>n. drop n r) (secret_end r)) = Some t"
    using first_some_map [of "\<lambda>name. Option.bind (Option.bind (fold_match name s) re_assign)
      (\<lambda>r. map_option (\<lambda>n. drop n r) (secret_end r))"]
    unfolding secret_match_def by (meson option.distinct(1))
  then obtain u r n where "fold_match name s = Some u" "re_assign u = Some r"
    "secret_end r = Some n" "t = drop n r"
    by (auto simp: bind_eq_Some_conv)
  with fold_match_length [of name s u] re_assign_length [of u r] secret_end_pos [of r n]
  show ?thesis by auto
qed

function mask_secret :: "char option \<Rightarrow> gostring \<Rightarrow> gostring" where
  "mask_secret prev s = (case secret_match prev s of
     Some t \<Rightarrow> ''[REDACTED_SECRET]'' @ mask_secret (Some (s ! (length s - length t - 1))) t
   | None \<Rightarrow> (case s of [] \<Rightarrow> [] | c # cs \<Rightarrow> c # mask_secret (Some c) cs))"
  by pat_completeness auto

termination
  by (relation "measure (length \<circ> snd)") (auto dest: secret_match_length)

declare mask_secret.simps [simp del]

subsection \<open>Card numbers\<close>

fun log_luhn :: "gostring \<Rightarrow> bool \<Rightarrow> int \<Rightarrow> int" where
  "log_luhn [] dbl s = s"
| "log_luhn (c # cs) dbl s =
     (let digit = int ((byte c + 208) mod 256);
          digit = (if dbl then (if 2 * digit > 9 then 2 * digit - 9 else 2 * digit) else digit)
      in log_luhn cs (\<not> dbl) (s + digit))"

definition log_luhnValid :: "gostring \<Rightarrow> bool" where
  "log_luhnValid number = (log_luhn (rev number) False 0 mod 10 = 0)"

definition pan_word :: "gostring \<Rightarrow> bool" where
  "pan_word w = (13 \<le> length w \<and> length w \<le> 19 \<and> list_all re_digit w \<and> log_luhnValid w)"

text \<open>\<open>panCandidateRegexp.ReplaceAllStringFunc\<close>, word by word.\<close>

function mask_pan :: "gostring \<Rightarrow> gostring" where
  "mask_pan s = (case s of [] \<Rightarrow> []
   | c # cs \<Rightarrow> if re_word c
       then (let w = takeWhile re_word s in (if pan_word w then log_MaskCardNumber w else w) @ mask_pan (dropWhile re_word s))
       else c # mask_pan cs)"
  by pat_completeness auto

termination
  by (relation "measure length") (auto simp: less_Suc_eq_le length_dropWhile_le)

declare mask_pan.simps [simp del]

definition MaskSensitive :: "gostring \<Rightarrow> gostring" where
  "MaskSensitive v = (if v = '''' then '''' else mask_pan (mask_secret None (mask_cvv v)))"

subsection \<open>No card number is left as a word\<close>

function words :: "gostring \<Rightarrow> gostring list" where
  "words s = (case s of [] \<Rightarrow> []
   | c # cs \<Rightarrow> if re_word c then takeWhile re_word s # words (dropWhile re_word s) else words cs)"
  by pat_completeness auto

termination
  by (relation "measure length") (auto simp: less_Suc_eq_le length_dropWhile_le)

declare words.simps [simp del]

definition word_start :: "gostring \<Rightarrow> bool" where
  "word_start s = (s \<noteq> [] \<and> re_word (hd s))"

lemma words_simps [simp]:
  "words [] = []" "\<not> re_word c \<Longrightarrow> words (c # s) = words s"
  by (subst words.simps, simp)+

lemma words_append:
  "list_all re_word w \<Longrightarrow> w \<noteq> [] \<Longrightarrow> \<not> word_start t \<Longrightarrow> words (w @ t) = w # words t"
proof -
  assume w: "list_all re_word w" "w \<noteq> []" and t: "\<not> word_start t"
  obtain c cs where c: "w = c # cs" "re_word c" using w by (cases w) auto
  have "takeWhile re_word (w @ t) = w @ takeWhile re_word t" "dropWhile re_word (w @ t) = dropWhile re_word t"
    using w(1) by (simp_all add: list_all_iff takeWhile_append2 dropWhile_append2)
  moreover have "takeWhile re_word t = []" "dropWhile re_word t = t"
    using t by (cases t; simp add: word_start_def)+
  ultimately have "takeWhile re_word (w @ t) = w" "dropWhile re_word (w @ t) = t" by simp_all
  then show ?thesis using c by (subst words.simps) simp
qed

lemma words_stars: "words (replicate n CHR ''*'' @ t) = words t"
  by (induction n) (simp_all add: re_word_def re_digit_def byte_def)

lemma digits_words: "list_all re_digit w \<Longrightarrow> list_all re_word w"
  by (auto simp: list_all_iff re_word_def)

lemma pan_digits: "pan_word w \<Longrightarrow> log_MaskCardNumber w
    = take 6 w @ replicate (length w - 10) CHR ''*'' @ drop (length w - 4) w"
proof -
  assume w: "pan_word w"
  then have "\<forall>c\<in>set w. is_digit (byte c)"
    by (auto simp: pan_word_def list_all_iff re_digit_def is_digit_def byte_def)
  then have "digitsOnly w = w" by (rule digitsOnly_id)
  with w show ?thesis by (auto simp: pan_word_def log_MaskCardNumber_eq MaskCardNumber_def Let_def)
qed

lemma words_masked:
  assumes "pan_word w" "\<not> word_start t"
  shows "words (log_MaskCardNumber w @ t) = take 6 w # drop (length w - 4) w # words t"
proof -
  let ?n = "length w"
  have n: "13 \<le> ?n" and d: "list_all re_digit w" using assms(1) by (auto simp: pan_word_def)
  have "list_all re_word (take 6 w)" "list_all re_word (drop (?n - 4) w)"
    using digits_words [OF d] by (auto simp: list_all_iff dest: in_set_takeD in_set_dropD)
  moreover have "take 6 w \<noteq> []" "drop (?n - 4) w \<noteq> []" using n by auto
  moreover have "\<not> word_start (replicate (?n - 10) CHR ''*'' @ drop (?n - 4) w @ t)"
    using n by (cases "?n - 10") (auto simp: word_start_def re_word_def re_digit_def byte_def)
  ultimately show ?thesis
    unfolding pan_digits [OF assms(1)] using assms(2) by (simp add: words_append words_stars)
qed

lemma mask_pan_start: "word_start (mask_pan s) \<Longrightarrow> word_start s"
  by (subst (asm) mask_pan.simps) (auto simp: word_start_def split: list.splits if_splits)

lemma dropWhile_start: "\<not> word_start (dropWhile re_word s)"
  using hd_dropWhile [of re_word s] by (auto simp: word_start_def)

text \<open>The words after masking are the words before, every card number cut into its ends.\<close>

lemma words_mask_pan:
  "words (mask_pan s) = concat (map (\<lambda>w. if pan_word w then [take 6 w, drop (length w - 4) w] else [w]) (words s))"
proof (induction s rule: mask_pan.induct)
  case (1 s)
  show ?case
  proof (cases s)
    case (Cons c cs)
    show ?thesis
    proof (cases "re_word c")
      case True
      let ?w = "takeWhile re_word s" and ?t = "mask_pan (dropWhile re_word s)"
      have w: "list_all re_word ?w" "?w \<noteq> []"
        using True Cons by (auto simp: list_all_iff dest: set_takeWhileD)
      have t: "\<not> word_start ?t" using mask_pan_start dropWhile_start by blast
      have "mask_pan s = (if pan_word ?w then log_MaskCardNumber ?w else ?w) @ ?t"
        using True Cons by (subst mask_pan.simps) simp
      moreover have "words s = ?w # words (dropWhile re_word s)"
        using True Cons by (subst words.simps) simp
      ultimately show ?thesis
        using 1(1) [OF Cons True refl] words_masked [OF _ t, of ?w] words_append [OF w t] by auto
    next
      case False
      then show ?thesis using 1(2) [OF Cons False] Cons by (subst mask_pan.simps) simp
    qed
  qed (simp add: mask_pan.simps)
qed

lemma mask_pan_clean: "w \<in> set (words (mask_pan s)) \<Longrightarrow> \<not> pan_word w"
  by (auto simp: words_mask_pan pan_word_def split: if_splits)

lemma fold_bytes:
  "fold_byte CHR ''C'' = CHR ''c''" "fold_byte CHR ''c'' = CHR ''c''" "fold_byte CHR ''V'' = CHR ''v''"
  "fold_byte CHR ''v'' = CHR ''v''" "fold_byte CHR ''_'' = CHR ''_''" "fold_byte CHR ''o'' = CHR ''o''"
  "fold_byte CHR ''d'' = CHR ''d''" "fold_byte CHR ''e'' = CHR ''e''" "fold_byte CHR ''i'' = CHR ''i''"
  "fold_byte CHR 0x22 = CHR 0x22"
  by code_simp+

lemma fold_names:
  "fold_match ''CVV_code'' (''CVV_code'' @ CHR 0x22 # q) = Some (CHR 0x22 # q)"
  "fold_match ''CVV_code'' (''cvv'' @ CHR 0x22 # q) = None"
  "fold_match ''CVV_code'' (''cvc'' @ CHR 0x22 # q) = None"
  "fold_match ''CVV_code'' (''cid'' @ CHR 0x22 # q) = None"
  "fold_match ''cvv'' (''cvv'' @ CHR 0x22 # q) = Some (CHR 0x22 # q)"
  "fold_match ''cvv'' (''cvc'' @ CHR 0x22 # q) = None"
  "fold_match ''cvv'' (''cid'' @ CHR 0x22 # q) = None"
  "fold_match ''cvc'' (''cvc'' @ CHR 0x22 # q) = Some (CHR 0x22 # q)"
  "fold_match ''cvc'' (''cid'' @ CHR 0x22 # q) = None"
  "fold_match ''cid'' (''cid'' @ CHR 0x22 # q) = Some (CHR 0x22 # q)"
  by (simp_all add: fold_bytes)

lemma cvv_match_json:
  assumes "name \<in> {''CVV_code'', ''cvv'', ''cvc'', ''cid''}" "list_all re_digit d" "length d \<in> {3, 4}"
  shows "cvv_match (CHR 0x22 # name @ [CHR 0x22, CHR '':'', CHR 0x22] @ d @ CHR 0x22 # post)
    = Some (d @ CHR 0x22 # post, CHR 0x22 # post)"
proof -
  let ?r = "d @ CHR 0x22 # post"
  have quote: "\<not> re_digit (CHR 0x22)" "\<not> re_space (CHR 0x22)" "\<not> re_space (CHR '':'')"
    by (simp_all add: re_digit_def re_space_def byte_def)
  obtain x xs where d: "d = x # xs" "re_digit x" using assms(2,3) by (cases d) auto
  then have x: "x \<noteq> CHR 0x22" using quote(1) by auto
  have n: "length (takeWhile re_digit (take 4 ?r)) = length d"
    using assms(2,3) quote(1) by (auto simp: list_all_iff takeWhile_append takeWhile_eq_all_conv)
  have tail: "cvv_tail (CHR 0x22 # CHR '':'' # CHR 0x22 # ?r) = Some (?r, CHR 0x22 # post)"
    using x assms(3) n by (auto simp: cvv_tail_def re_assign_def opt_quote_def quote Let_def d(1))
  have "first_some (map (\<lambda>n. Option.bind (fold_match n (name @ q)) cvv_tail) [''CVV_code'', ''cvv'', ''cvc'', ''cid''])
      = Some z" if "q = CHR 0x22 # q'" "cvv_tail q = Some z" for q q' z
    using assms(1) fold_names [of q'] that(2) unfolding that(1)
    by (elim insertE emptyE) (simp_all only: list.map first_some.simps bind.bind_lzero bind.bind_lunit option.case)
  from this [OF refl tail] show ?thesis
    by (simp add: cvv_match_def opt_quote_def)
qed

text \<open>
  A match that starts before a quote, which a name follows, ends before that quote: what stands
  left of a member cannot keep the scan from finding it.
\<close>

definition name_start :: "gostring \<Rightarrow> bool" where
  "name_start z = (z \<noteq> [] \<and> hd z \<in> {CHR ''C'', CHR ''c''})"

lemma fold_match_quote:
  "fold_match name p = Some u \<Longrightarrow> fold_match name (p @ CHR 0x22 # z) = Some (u @ CHR 0x22 # z)"
  "name \<in> {''CVV_code'', ''cvv'', ''cvc'', ''cid''} \<Longrightarrow> fold_match name p = None \<Longrightarrow>
    fold_match name (p @ CHR 0x22 # z) = None"
proof -
  have step: "fold_match name p = Some u \<Longrightarrow> fold_match name (p @ CHR 0x22 # z) = Some (u @ CHR 0x22 # z)" for name u
  proof (induction name p rule: fold_match.induct)
    case (2 c cs s)
    then show ?case by (cases s) (auto simp: HasPrefix_iff split: if_splits)
  qed simp
  then show "fold_match name p = Some u \<Longrightarrow> fold_match name (p @ CHR 0x22 # z) = Some (u @ CHR 0x22 # z)" .
  have none: "fold_match name p = None \<Longrightarrow> \<forall>c\<in>set name. fold_byte c \<notin> {CHR 0x22, CHR ''s'', CHR ''k''} \<Longrightarrow>
      fold_match name (p @ CHR 0x22 # z) = None" for name
  proof (induction name p rule: fold_match.induct)
    case (2 c cs s)
    then show ?case by (cases s) (auto simp: fold_bytes split: if_splits)
  qed simp
  show "name \<in> {''CVV_code'', ''cvv'', ''cvc'', ''cid''} \<Longrightarrow> fold_match name p = None \<Longrightarrow>
    fold_match name (p @ CHR 0x22 # z) = None"
    by (rule none) (auto simp: fold_bytes)
qed

lemma dropWhile_quote:
  assumes "\<not> P (CHR 0x22)"
  shows "dropWhile P (p @ CHR 0x22 # z) = dropWhile P p @ CHR 0x22 # z"
  using assms by (induction p) auto

lemma quote_class: "\<not> re_space (CHR 0x22)" "\<not> re_digit (CHR 0x22)" "\<not> re_space (CHR ''c'')" "\<not> re_space (CHR ''C'')"
  "\<not> re_digit (CHR ''c'')" "\<not> re_digit (CHR ''C'')"
  by (simp_all add: re_space_def re_digit_def byte_def)

lemma re_assign_quote:
  "re_assign (p @ CHR 0x22 # z) = map_option (\<lambda>r. r @ CHR 0x22 # z) (re_assign p)"
  by (cases "dropWhile re_space p")
    (simp_all add: re_assign_def dropWhile_quote quote_class del: dropWhile_eq_Nil_conv)

lemma takeWhile_quote: "\<not> P x \<Longrightarrow> takeWhile P (p @ x # z) = takeWhile P p"
  by (induction p) auto

lemma re_assign_name: "name_start z \<Longrightarrow> re_assign z = None"
  by (cases z) (auto simp: name_start_def re_assign_def quote_class)

lemma digits_quote:
  "takeWhile re_digit (take 4 (p @ CHR 0x22 # z)) = takeWhile re_digit (take 4 p)"
proof (cases "length p < 4")
  case True
  then obtain k where k: "4 - length p = Suc k" by (metis Suc_diff_Suc)
  have "take 4 (p @ CHR 0x22 # z) = p @ CHR 0x22 # take k z" using True k by simp
  with True show ?thesis by (simp add: takeWhile_quote quote_class)
qed simp

lemma cvv_tail_quote:
  assumes z: "name_start z"
  shows "cvv_tail (p @ CHR 0x22 # z) = map_option (\<lambda>(r, t). (r @ CHR 0x22 # z, t @ CHR 0x22 # z)) (cvv_tail p)"
proof (cases p)
  case Nil
  then show ?thesis using re_assign_name [OF z] by (simp add: cvv_tail_def opt_quote_def re_assign_def)
next
  case (Cons c cs)
  then have "opt_quote (p @ CHR 0x22 # z) = opt_quote p @ CHR 0x22 # z" by (simp add: opt_quote_def)
  then have head: "re_assign (opt_quote (p @ CHR 0x22 # z))
      = map_option (\<lambda>r. r @ CHR 0x22 # z) (re_assign (opt_quote p))" by (simp add: re_assign_quote)
  show ?thesis
  proof (cases "re_assign (opt_quote p)")
    case None
    with head show ?thesis by (simp add: cvv_tail_def)
  next
    case (Some r)
    show ?thesis
    proof (cases r)
      case Nil
      obtain x xs where "z = x # xs" "\<not> re_digit x" using z by (cases z) (auto simp: name_start_def quote_class)
      with Nil Some head show ?thesis by (simp add: cvv_tail_def opt_quote_def)
    next
      case (Cons d ds)
      then have q: "opt_quote (r @ CHR 0x22 # z) = opt_quote r @ CHR 0x22 # z" by (simp add: opt_quote_def)
      have "length (takeWhile re_digit (take 4 (opt_quote r))) \<le> length (take 4 (opt_quote r))"
        by (rule length_takeWhile_le)
      then have "length (takeWhile re_digit (take 4 (opt_quote r))) \<le> length (opt_quote r)" by simp
      then show ?thesis using Some head by (simp add: cvv_tail_def q digits_quote Let_def del: take_append)
    qed
  qed
qed

lemma cvv_match_quote:
  assumes z: "name_start z" and p: "p \<noteq> []"
  shows "cvv_match (p @ CHR 0x22 # z) = map_option (\<lambda>(r, t). (r @ CHR 0x22 # z, t @ CHR 0x22 # z)) (cvv_match p)"
proof -
  let ?f = "\<lambda>s name. Option.bind (fold_match name (opt_quote s)) cvv_tail"
  have q: "opt_quote (p @ CHR 0x22 # z) = opt_quote p @ CHR 0x22 # z" using p by (cases p) (simp_all add: opt_quote_def)
  have one: "?f (p @ CHR 0x22 # z) name = map_option (\<lambda>(r, t). (r @ CHR 0x22 # z, t @ CHR 0x22 # z)) (?f p name)"
    if "name \<in> {''CVV_code'', ''cvv'', ''cvc'', ''cid''}" for name
    using fold_match_quote(1) [of name "opt_quote p" _ z] fold_match_quote(2) [OF that, of "opt_quote p" z]
    by (cases "fold_match name (opt_quote p)") (simp_all add: q cvv_tail_quote [OF z])
  have some: "first_some (map (\<lambda>n. map_option g (f n)) ns) = map_option g (first_some (map f ns))"
    for f :: "gostring \<Rightarrow> (gostring \<times> gostring) option" and g :: "gostring \<times> gostring \<Rightarrow> gostring \<times> gostring" and ns
    by (induction ns) (auto split: option.splits)
  have each: "map (?f (p @ CHR 0x22 # z)) ns
      = map (\<lambda>n. map_option (\<lambda>(r, t). (r @ CHR 0x22 # z, t @ CHR 0x22 # z)) (?f p n)) ns"
    if "set ns \<subseteq> {''CVV_code'', ''cvv'', ''cvc'', ''cid''}" for ns
    using that one by (intro map_cong refl) blast
  have names: "set [''CVV_code'', ''cvv'', ''cvc'', ''cid''] \<subseteq> {''CVV_code'', ''cvv'', ''cvc'', ''cid''}" by simp
  show ?thesis unfolding cvv_match_def
    by (rule trans [OF arg_cong [where f = first_some, OF each [OF names]] some])
qed

text \<open>Two members that differ in their code only are masked alike, wherever they stand.\<close>

definition string_member :: "gostring \<Rightarrow> gostring \<Rightarrow> gostring \<Rightarrow> gostring" where
  "string_member name d post = name @ [CHR 0x22, CHR '':'', CHR 0x22] @ d @ CHR 0x22 # post"

lemma mask_cvv_step:
  "cvv_match (h @ r) = Some (r, CHR 0x22 # t) \<Longrightarrow>
    mask_cvv (h @ r) = h @ ''[REDACTED]'' @ CHR 0x22 # mask_cvv (dropWhile (\<lambda>c. c = CHR 0x22) t)"
  by (subst mask_cvv.simps) simp

lemma mask_cvv_member:
  assumes name: "name \<in> {''CVV_code'', ''cvv'', ''cvc'', ''cid''}" and d: "list_all re_digit d" "length d \<in> {3, 4}"
  shows "mask_cvv (CHR 0x22 # string_member name d post) = CHR 0x22 # string_member name ''[REDACTED]'' (mask_cvv (dropWhile (\<lambda>c. c = CHR 0x22) post))"
    and "mask_cvv (string_member name d post) = string_member name ''[REDACTED]'' (mask_cvv (dropWhile (\<lambda>c. c = CHR 0x22) post))"
proof -
  let ?r = "d @ CHR 0x22 # post" and ?head = "name @ [CHR 0x22, CHR '':'', CHR 0x22]"
  have split: "CHR 0x22 # string_member name d post = (CHR 0x22 # ?head) @ ?r" "string_member name d post = ?head @ ?r"
    unfolding string_member_def by (simp_all only: append.simps append_assoc)
  have m: "cvv_match ((CHR 0x22 # ?head) @ ?r) = Some (?r, CHR 0x22 # post)"
    using cvv_match_json [OF name d, of post] by (simp only: append.simps append_assoc)
  moreover have "opt_quote ((CHR 0x22 # ?head) @ ?r) = ?head @ ?r" by (simp add: opt_quote_def)
  moreover have "opt_quote (?head @ ?r) = ?head @ ?r" using name by (auto simp: opt_quote_def)
  ultimately have m': "cvv_match (?head @ ?r) = Some (?r, CHR 0x22 # post)" by (simp only: cvv_match_def)
  show "mask_cvv (CHR 0x22 # string_member name d post) = CHR 0x22 # string_member name ''[REDACTED]'' (mask_cvv (dropWhile (\<lambda>c. c = CHR 0x22) post))"
    unfolding split(1) mask_cvv_step [OF m] by (simp only: string_member_def append.simps append_assoc)
  show "mask_cvv (string_member name d post) = string_member name ''[REDACTED]'' (mask_cvv (dropWhile (\<lambda>c. c = CHR 0x22) post))"
    unfolding split(2) mask_cvv_step [OF m'] by (simp only: string_member_def append.simps append_assoc)
qed

lemma dropWhile_quotes:
  "hd z \<noteq> CHR 0x22 \<Longrightarrow> z \<noteq> [] \<Longrightarrow> dropWhile (\<lambda>c. c = CHR 0x22) (t @ CHR 0x22 # z)
    = (if \<forall>c\<in>set t. c = CHR 0x22 then z else dropWhile (\<lambda>c. c = CHR 0x22) t @ CHR 0x22 # z)"
  by (induction t) (auto simp: neq_Nil_conv)

lemma mask_cvv_same:
  assumes name: "name \<in> {''CVV_code'', ''cvv'', ''cvc'', ''cid''}"
    and d: "list_all re_digit d" "length d \<in> {3, 4}" and d': "list_all re_digit d'" "length d' \<in> {3, 4}"
  shows "mask_cvv (pre @ CHR 0x22 # string_member name d post) = mask_cvv (pre @ CHR 0x22 # string_member name d' post)"
proof (induction pre rule: measure_induct_rule [where f = length])
  case (less pre)
  have start: "name_start (string_member name x post)" for x using name by (auto simp: string_member_def name_start_def)
  have quoted: "hd (string_member name x post) \<noteq> CHR 0x22" "string_member name x post \<noteq> []" for x
    using name by (auto simp: string_member_def)
  show ?case
  proof (cases "pre = []")
    case True
    then show ?thesis by (simp add: mask_cvv_member(1) [OF name d] mask_cvv_member(1) [OF name d'])
  next
    case False
    note match = cvv_match_quote [OF start False]
    show ?thesis
    proof (cases "cvv_match pre")
      case None
      then obtain c cs where pre: "pre = c # cs" using False by (cases pre) auto
      have "mask_cvv (pre @ CHR 0x22 # string_member name x post) = c # mask_cvv (cs @ CHR 0x22 # string_member name x post)" for x
        using match [of x] None by (subst mask_cvv.simps) (simp add: pre)
      with less [of cs] pre show ?thesis by simp
    next
      case (Some rt)
      obtain r t where rt: "rt = (r, t)" by fastforce
      have len: "length t < length pre" using cvv_match_length Some rt by simp
      let ?z = "\<lambda>x. string_member name x post" and ?D = "dropWhile (\<lambda>c. c = CHR 0x22)"
      have cut: "take (length (pre @ CHR 0x22 # z) - length (r @ CHR 0x22 # z)) (pre @ CHR 0x22 # z)
          = take (length pre - length r) pre" for z
        by simp
      have run: "mask_cvv (pre @ CHR 0x22 # ?z x) = take (length pre - length r) pre @ ''[REDACTED]''
          @ (if hd (t @ [CHR 0x22]) = CHR 0x22 then [CHR 0x22] else []) @ mask_cvv (?D (t @ CHR 0x22 # ?z x))" for x
      proof -
        have "hd (t @ CHR 0x22 # ?z x) = hd (t @ [CHR 0x22])" by (cases t) simp_all
        then show ?thesis using match [of x] cut [of "?z x"] Some rt by (subst mask_cvv.simps) simp
      qed
      have "mask_cvv (?D (t @ CHR 0x22 # ?z d)) = mask_cvv (?D (t @ CHR 0x22 # ?z d'))"
      proof (cases "\<forall>c\<in>set t. c = CHR 0x22")
        case True
        then show ?thesis
          by (simp add: dropWhile_quotes [OF quoted] mask_cvv_member(2) [OF name d] mask_cvv_member(2) [OF name d'])
      next
        case False
        have "length (?D t) < length pre" using len length_dropWhile_le [of "\<lambda>c. c = CHR 0x22" t] by linarith
        from less [OF this] show ?thesis by (simp only: dropWhile_quotes [OF quoted] if_not_P [OF False])
      qed
      then show ?thesis by (simp only: run)
    qed
  qed
qed

subsection \<open>The loggers\<close>

text \<open>The defaults of an event, common to both loggers.\<close>

definition event_defaults :: "gotime \<Rightarrow> PaymentEvent \<Rightarrow> PaymentEvent" where
  "event_defaults now event =
     event\<lparr>Ev_Timestamp := (if IsZero (Ev_Timestamp event) then now else Ev_Timestamp event),
       Ev_Level := (if Ev_Level event = '''' then LogLevelInfo else Ev_Level event),
       Ev_Service := (if Ev_Service event = '''' then ''orchestrator'' else Ev_Service event),
       Ev_Message := (if Ev_Message event = '''' then Ev_Details event else Ev_Message event)\<rparr>"

text \<open>\<open>Format("2006-01-02T15:04:05.000Z07:00")\<close> of a time in UTC.\<close>

definition FormatMillis :: "gotime \<Rightarrow> gostring" where
  "FormatMillis t = (let s = FormatRFC3339 t; ms = nat (t mod Second div 1000000) in
     TrimSuffix s ''Z'' @ ''.'' @ [char_of (48 + ms div 100)] @ two_digits (ms mod 100) @ ''Z'')"

text \<open>The key and value pairs that are handed to the go-kit logger.\<close>

definition console_Log :: "gotime \<Rightarrow> PaymentEvent \<Rightarrow> (gostring \<times> gostring) list" where
  "console_Log now event = (let event = event_defaults now event; message = MaskSensitive (Ev_Message event) in
     [(''level'', Ev_Level event), (''service'', Ev_Service event), (''event'', Ev_Type event),
      (''merchant_id'', Ev_MerchantID event), (''payment_id'', Ev_PaymentID event),
      (''status'', Ev_CurrentStatus event), (''ts'', FormatMillis (Ev_Timestamp event)),
      (''message'', message)])"

text \<open>
  The tables of the Postgres logger: the codes of the two dictionaries and the entries, each with
  the rows of its context. \<open>fail\<close> is the error of a statement. The names and descriptions of
  the dictionaries are not kept. A context is iterated in the order of its list.
\<close>

record log_entry =
  Le_Timestamp :: gotime
  Le_Level :: gostring
  Le_Message :: gostring
  Le_Environment :: gostring
  Le_CorrelationID :: "gostring option"
  Le_MerchantID :: gostring
  Le_PaymentID :: gostring
  Le_IdempotencyKey :: gostring
  Le_CurrentStatus :: gostring
  Le_Service :: gostring
  Le_Event :: gostring
  Le_Context :: "gostring \<rightharpoonup> gostring"

record log_tables =
  Lt_services :: "gostring set"
  Lt_events :: "gostring set"
  Lt_entries :: "log_entry list"

datatype log_statement = AddService gostring | AddEvent gostring | Begin | AddEntry log_entry
  | AddContext gostring gostring | Commit

type_synonym log_fail = "log_statement \<Rightarrow> goerror option"

definition seedDictionaries :: log_tables where
  "seedDictionaries = \<lparr>Lt_services = {''api_gateway'', ''validator'', ''orchestrator'', ''antifraud'', ''tokenizer'',
       ''adapter'', ''notifications'', ''logging'', ''database''},
     Lt_events = {''payment_received'', ''payment_validated'', ''fraud_checked'', ''tokenized'', ''adapter_called'',
       ''adapter_result_received'', ''payment_response_sent'', ''payment_failed'', ''notification_sent'',
       ''notification_failed'', ''merchant_webhook_received'', ''authorization_failed'', ''network_access_denied''},
     Lt_entries = []\<rparr>"

definition log_normalize :: "gotime \<Rightarrow> PaymentEvent \<Rightarrow> PaymentEvent" where
  "log_normalize now event =
     (let event = event_defaults now event;
          event = event\<lparr>Ev_Message := (if Ev_Message event = '''' then Ev_Type event else Ev_Message event),
            Ev_CorrelationID := (if Ev_CorrelationID event = '''' then Ev_PaymentID event else Ev_CorrelationID event)\<rparr>
      in event\<lparr>Ev_Message := MaskSensitive (Ev_Message event), Ev_Details := MaskSensitive (Ev_Details event),
           Ev_Context := map (\<lambda>(k, v). (k, MaskSensitive v)) (Ev_Context event)\<rparr>)"

definition ensureDictionaryValues :: "log_fail \<Rightarrow> PaymentEvent \<Rightarrow> log_tables \<Rightarrow> goerror option \<times> log_tables" where
  "ensureDictionaryValues fail event L =
     (case fail (AddService (Ev_Service event)) of
        Some err \<Rightarrow> (Some err, L)
      | None \<Rightarrow> (let L = L\<lparr>Lt_services := insert (Ev_Service event) (Lt_services L)\<rparr> in
          case fail (AddEvent (Ev_Type event)) of
            Some err \<Rightarrow> (Some err, L)
          | None \<Rightarrow> (None, L\<lparr>Lt_events := insert (Ev_Type event) (Lt_events L)\<rparr>)))"

fun add_context :: "log_fail \<Rightarrow> (gostring \<times> gostring) list \<Rightarrow> log_entry \<Rightarrow> log_entry result" where
  "add_context fail [] x = Inr x"
| "add_context fail ((k, v) # kvs) x =
     (if k = '''' then add_context fail kvs x
      else (case fail (AddContext k v) of
        Some err \<Rightarrow> Inl err
      | None \<Rightarrow> add_context fail kvs (x\<lparr>Le_Context := (Le_Context x)(k \<mapsto> v)\<rparr>)))"

definition log_entry_of :: "gostring \<Rightarrow> PaymentEvent \<Rightarrow> log_entry" where
  "log_entry_of environment event =
     \<lparr>Le_Timestamp = Ev_Timestamp event, Le_Level = Ev_Level event, Le_Message = Ev_Message event,
      Le_Environment = environment,
      Le_CorrelationID = (if Ev_CorrelationID event = '''' then None else Some (Ev_CorrelationID event)),
      Le_MerchantID = Ev_MerchantID event, Le_PaymentID = Ev_PaymentID event,
      Le_IdempotencyKey = Ev_IdempotencyKey event, Le_CurrentStatus = Ev_CurrentStatus event,
      Le_Service = Ev_Service event, Le_Event = Ev_Type event, Le_Context = Map.empty\<rparr>"

text \<open>The transaction: the entry, its context and the commit, or nothing.\<close>

definition postgres_Log :: "log_fail \<Rightarrow> gostring \<Rightarrow> gotime \<Rightarrow> PaymentEvent \<Rightarrow> log_tables \<Rightarrow>
    goerror option \<times> log_tables" where
  "postgres_Log fail environment now event L =
     (if Ev_Type event = '''' then (Some ''event type is required'', L)
      else (let event = log_normalize now event in
        case ensureDictionaryValues fail event L of
          (Some err, L) \<Rightarrow> (Some err, L)
        | (None, L) \<Rightarrow>
            (case fail Begin of
               Some err \<Rightarrow> (Some err, L)
             | None \<Rightarrow> (let entry = log_entry_of environment event in
                 case fail (AddEntry entry) of
                   Some err \<Rightarrow> (Some err, L)
                 | None \<Rightarrow> (case add_context fail (Ev_Context event) entry of
                     Inl err \<Rightarrow> (Some err, L)
                   | Inr entry \<Rightarrow> (case fail Commit of
                       Some err \<Rightarrow> (Some err, L)
                     | None \<Rightarrow> (None, L\<lparr>Lt_entries := Lt_entries L @ [entry]\<rparr>)))))))"

definition NewPostgresEventLogger_environment :: "gostring \<Rightarrow> gostring" where
  "NewPostgresEventLogger_environment environment = (if environment = '''' then ''dev'' else environment)"

lemma add_context_spec:
  assumes "add_context fail kvs x = Inr y"
  shows "\<exists>ctx. y = x\<lparr>Le_Context := ctx\<rparr> \<and> dom ctx = dom (Le_Context x) \<union> (fst ` set kvs - {''''})
    \<and> (\<forall>k v. ctx k = Some v \<longrightarrow> Le_Context x k = Some v \<or> (k, v) \<in> set kvs)"
  using assms
proof (induction fail kvs x rule: add_context.induct)
  case (1 fail x)
  then show ?case by (intro exI [of _ "Le_Context x"]) simp
next
  case (2 fail k v kvs x)
  show ?case
  proof (cases "k = ''''")
    case True
    then have "add_context fail kvs x = Inr y" using 2(3) by simp
    from 2(1) [OF True this] obtain ctx where c: "y = x\<lparr>Le_Context := ctx\<rparr>
      \<and> dom ctx = dom (Le_Context x) \<union> (fst ` set kvs - {''''})
      \<and> (\<forall>k v. ctx k = Some v \<longrightarrow> Le_Context x k = Some v \<or> (k, v) \<in> set kvs)" by (elim exE)
    note ctx = c [THEN conjunct1] c [THEN conjunct2, THEN conjunct1] c [THEN conjunct2, THEN conjunct2]
    have "fst ` set ((k, v) # kvs) - {''''} = fst ` set kvs - {''''}" using True by auto
    with ctx(2) have dom: "dom ctx = dom (Le_Context x) \<union> (fst ` set ((k, v) # kvs) - {''''})" by (simp only:)
    from ctx(3) have "\<forall>j u. ctx j = Some u \<longrightarrow> Le_Context x j = Some u \<or> (j, u) \<in> set ((k, v) # kvs)" by auto
    with ctx(1) dom show ?thesis by (intro exI [of _ ctx] conjI)
  next
    case False
    let ?x = "x\<lparr>Le_Context := (Le_Context x)(k \<mapsto> v)\<rparr>"
    from 2(3) False have none: "fail (AddContext k v) = None" and rec: "add_context fail kvs ?x = Inr y"
      by (auto split: option.splits)
    from 2(2) [OF False none rec] obtain ctx where c: "y = ?x\<lparr>Le_Context := ctx\<rparr>
      \<and> dom ctx = dom (Le_Context ?x) \<union> (fst ` set kvs - {''''})
      \<and> (\<forall>k v. ctx k = Some v \<longrightarrow> Le_Context ?x k = Some v \<or> (k, v) \<in> set kvs)" by (elim exE)
    note ctx = c [THEN conjunct1] c [THEN conjunct2, THEN conjunct1] c [THEN conjunct2, THEN conjunct2]
    from ctx(3) have vals: "\<forall>j u. ctx j = Some u \<longrightarrow> Le_Context x j = Some u \<or> (j, u) \<in> set ((k, v) # kvs)"
      by (auto split: if_splits)
    have "dom ctx = dom (Le_Context x) \<union> (fst ` set ((k, v) # kvs) - {''''})" using ctx(2) False by auto
    with vals show ?thesis unfolding ctx(1) by (intro exI [of _ ctx] conjI) simp_all
  qed
qed

lemma postgres_Log_cases:
  assumes "postgres_Log fail env now event L = (err, L')"
  obtains (failed) msg where "err = Some msg" "Lt_entries L' = Lt_entries L"
      "Lt_services L \<subseteq> Lt_services L'" "Lt_events L \<subseteq> Lt_events L'"
  | (stored) ev entry where "err = None" "Ev_Type event \<noteq> ''''" "ev = log_normalize now event"
      "add_context fail (Ev_Context ev) (log_entry_of env ev) = Inr entry"
      "Lt_entries L' = Lt_entries L @ [entry]"
      "Lt_services L' = insert (Ev_Service ev) (Lt_services L)" "Lt_events L' = insert (Ev_Type ev) (Lt_events L)"
proof -
  let ?ev = "log_normalize now event"
  show thesis
  proof (cases "Ev_Type event = ''''")
    case True
    then show thesis using assms by (intro failed) (auto simp: postgres_Log_def)
  next
    case False
    obtain r L1 where d: "ensureDictionaryValues fail ?ev L = (r, L1)" by fastforce
    then have L1: "Lt_entries L1 = Lt_entries L" "Lt_services L \<subseteq> Lt_services L1" "Lt_events L \<subseteq> Lt_events L1"
      by (auto simp: ensureDictionaryValues_def Let_def split: option.splits)
    have run: "(case r of Some err \<Rightarrow> (Some err, L1) | None \<Rightarrow> (case fail Begin of Some err \<Rightarrow> (Some err, L1)
       | None \<Rightarrow> (case fail (AddEntry (log_entry_of env ?ev)) of Some err \<Rightarrow> (Some err, L1)
       | None \<Rightarrow> (case add_context fail (Ev_Context ?ev) (log_entry_of env ?ev) of Inl err \<Rightarrow> (Some err, L1)
       | Inr entry \<Rightarrow> (case fail Commit of Some err \<Rightarrow> (Some err, L1)
       | None \<Rightarrow> (None, L1\<lparr>Lt_entries := Lt_entries L1 @ [entry]\<rparr>)))))) = (err, L')"
      using assms False by (simp add: postgres_Log_def d Let_def cong: option.case_cong sum.case_cong split: option.split_asm)
    show thesis
    proof (cases err)
      case (Some msg)
      with run have "L' = L1" by (auto split: option.splits sum.splits)
      with L1 show thesis by (intro failed [OF Some]) simp_all
    next
      case None
      with run obtain entry where r: "r = None" "add_context fail (Ev_Context ?ev) (log_entry_of env ?ev) = Inr entry"
        "L' = L1\<lparr>Lt_entries := Lt_entries L1 @ [entry]\<rparr>"
        by (auto split: option.splits sum.splits)
      from d r(1) have "Lt_services L1 = insert (Ev_Service ?ev) (Lt_services L)"
        "Lt_events L1 = insert (Ev_Type ?ev) (Lt_events L)"
        by (auto simp: ensureDictionaryValues_def Let_def split: option.splits)
      with r(3) L1(1) show thesis by (intro stored [OF None False refl r(2)]) simp_all
    qed
  qed
qed

text \<open>
  A stored entry: its codes are in the dictionaries, and neither its message nor a value of its
  context has a card number as a word. The merchant, payment, correlation and idempotency
  identifiers are not masked, so nothing is said of them.
\<close>

definition clean_text :: "gostring \<Rightarrow> bool" where
  "clean_text s = (\<forall>w\<in>set (words s). \<not> pan_word w)"

definition entry_ok :: "log_tables \<Rightarrow> log_entry \<Rightarrow> bool" where
  "entry_ok L x = (Le_Service x \<in> Lt_services L \<and> Le_Event x \<in> Lt_events L
     \<and> Le_Event x \<noteq> '''' \<and> Le_Service x \<noteq> '''' \<and> Le_Level x \<noteq> '''' \<and> \<not> IsZero (Le_Timestamp x)
     \<and> Le_CorrelationID x \<noteq> Some '''' \<and> '''' \<notin> dom (Le_Context x)
     \<and> clean_text (Le_Message x) \<and> (\<forall>v\<in>ran (Le_Context x). clean_text v))"

definition log_ok :: "log_tables \<Rightarrow> bool" where
  "log_ok L = list_all (entry_ok L) (Lt_entries L)"

lemma clean_MaskSensitive: "clean_text (MaskSensitive v)"
  using mask_pan_clean by (auto simp: clean_text_def MaskSensitive_def)

lemma log_normalize_simps:
  "Ev_Type (log_normalize now event) = Ev_Type event" "Ev_Level (log_normalize now event) \<noteq> ''''"
  "Ev_Service (log_normalize now event) \<noteq> ''''" "\<not> IsZero now \<Longrightarrow> \<not> IsZero (Ev_Timestamp (log_normalize now event))"
  "\<exists>m. Ev_Message (log_normalize now event) = MaskSensitive m"
  "Ev_Context (log_normalize now event) = map (\<lambda>(k, v). (k, MaskSensitive v)) (Ev_Context event)"
  by (auto simp: log_normalize_def event_defaults_def Let_def lit)

lemma entry_ok_mono:
  "entry_ok L x \<Longrightarrow> Lt_services L \<subseteq> Lt_services L' \<Longrightarrow> Lt_events L \<subseteq> Lt_events L' \<Longrightarrow> entry_ok L' x"
  by (auto simp: entry_ok_def)

subsection \<open>Properties\<close>

text \<open>
  What it does not hide: a text without a whole card number stays as it is, so that grouped
  digits or digits next to a letter pass; and of a longer code the rest is left.
\<close>

lemma mask_pan_grouped: "\<forall>w\<in>set (words s). \<not> pan_word w \<Longrightarrow> mask_pan s = s"
proof (induction s rule: mask_pan.induct)
  case (1 s)
  show ?case
  proof (cases s)
    case (Cons c cs)
    show ?thesis
    proof (cases "re_word c")
      case True
      have w: "words s = takeWhile re_word s # words (dropWhile re_word s)"
        using True Cons by (subst words.simps) simp
      with 1(3) have "\<not> pan_word (takeWhile re_word s)" "\<forall>w\<in>set (words (dropWhile re_word s)). \<not> pan_word w" by auto
      with 1(1) [OF Cons True refl] True Cons show ?thesis by (subst mask_pan.simps) simp
    next
      case False
      with 1(2) [OF Cons False] 1(3) Cons show ?thesis by (subst mask_pan.simps) simp
    qed
  qed (simp add: mask_pan.simps)
qed

lemma long_code_left: "mask_cvv ''cvv=12345'' = ''cvv=[REDACTED]5''"
  by code_simp

text \<open>
  C16: What \<open>MaskSensitive\<close> hides. No word of a masked text (a maximal run of letters, digits and
  underscores) is a card number, a run of 13 to 19 digits with a correct check digit. And a
  verification code that is written as a string member of a JSON document is hidden wherever
  the member stands: between any texts before and after it, codes of three or four digits are masked
  to the same text. Applied once per member, this hides every code of a document.
\<close>

theorem MaskSensitive_hides:
  "(\<forall>w\<in>set (words (MaskSensitive v)). \<not> pan_word w)
   \<and> (name \<in> {''CVV_code'', ''cvv'', ''cvc'', ''cid''} \<and> list_all re_digit d \<and> length d \<in> {3, 4}
       \<and> list_all re_digit d' \<and> length d' \<in> {3, 4}
     \<longrightarrow> MaskSensitive (pre @ CHR 0x22 # name @ [CHR 0x22, CHR '':'', CHR 0x22] @ d @ CHR 0x22 # post)
       = MaskSensitive (pre @ CHR 0x22 # name @ [CHR 0x22, CHR '':'', CHR 0x22] @ d' @ CHR 0x22 # post))"
proof (intro conjI impI)
  show "\<forall>w\<in>set (words (MaskSensitive v)). \<not> pan_word w"
    using clean_MaskSensitive [of v] by (simp add: clean_text_def)
next
  assume h: "name \<in> {''CVV_code'', ''cvv'', ''cvc'', ''cid''} \<and> list_all re_digit d \<and> length d \<in> {3, 4}
       \<and> list_all re_digit d' \<and> length d' \<in> {3, 4}"
  then have "mask_cvv (pre @ CHR 0x22 # string_member name d post) = mask_cvv (pre @ CHR 0x22 # string_member name d' post)"
    by (elim conjE) (rule mask_cvv_same)
  then show "MaskSensitive (pre @ CHR 0x22 # name @ [CHR 0x22, CHR '':'', CHR 0x22] @ d @ CHR 0x22 # post)
       = MaskSensitive (pre @ CHR 0x22 # name @ [CHR 0x22, CHR '':'', CHR 0x22] @ d' @ CHR 0x22 # post)"
    unfolding MaskSensitive_def string_member_def by (simp only: append_is_Nil_conv list.distinct simp_thms if_False)
qed

text \<open>A code after another one, in a document whose other names hold the letter c.\<close>

theorem MaskSensitive_hides_witness:
  "MaskSensitive (''{cc:1,cvv:777'' @ CHR 0x22 # ''CVV_code'' @ [CHR 0x22, CHR '':'', CHR 0x22] @ ''123'' @ CHR 0x22 # ''}'')
   = MaskSensitive (''{cc:1,cvv:777'' @ CHR 0x22 # ''CVV_code'' @ [CHR 0x22, CHR '':'', CHR 0x22] @ ''9870'' @ CHR 0x22 # ''}'')"
  by (rule MaskSensitive_hides [THEN conjunct2, rule_format]) (simp add: re_digit_def byte_def)

text \<open>
  C15: The log tables stay well formed. An event is stored as a whole, with every named value of its
  context, or not at all, and no error leaves a part of it. Every stored entry has its service
  and its event in the dictionaries, a type, a level and a time. No unbroken card number is a word
  of its message or of a value of its context; the identifiers of merchant, payment, idempotency and
  correlation are stored as the event has them, unmasked.
\<close>

theorem postgres_Log_wellformed:
  assumes "log_ok L" and "\<not> IsZero now" and "postgres_Log fail environment now event L = (err, L')"
  shows "log_ok L'
    \<and> (err \<noteq> None \<longrightarrow> Lt_entries L' = Lt_entries L)
    \<and> (err = None \<longrightarrow> (\<exists>x. Lt_entries L' = Lt_entries L @ [x] \<and> Le_Event x = Ev_Type event
        \<and> Le_MerchantID x = Ev_MerchantID event \<and> Le_PaymentID x = Ev_PaymentID event
        \<and> Le_IdempotencyKey x = Ev_IdempotencyKey event
        \<and> (Ev_CorrelationID event \<noteq> '''' \<longrightarrow> Le_CorrelationID x = Some (Ev_CorrelationID event))
        \<and> dom (Le_Context x) = fst ` set (Ev_Context event) - {''''}))"
  using assms(3)
proof (cases rule: postgres_Log_cases)
  case (failed msg)
  then have "log_ok L'"
    using assms(1) entry_ok_mono [of L _ L'] by (auto simp: log_ok_def list_all_iff)
  with failed show ?thesis by simp
next
  case (stored ev entry)
  obtain ctx where c: "entry = (log_entry_of environment ev)\<lparr>Le_Context := ctx\<rparr>
      \<and> dom ctx = dom (Le_Context (log_entry_of environment ev)) \<union> (fst ` set (Ev_Context ev) - {''''})
      \<and> (\<forall>k v. ctx k = Some v \<longrightarrow> Le_Context (log_entry_of environment ev) k = Some v \<or> (k, v) \<in> set (Ev_Context ev))"
    using add_context_spec [OF stored(4)] by (elim exE)
    note ctx = c [THEN conjunct1] c [THEN conjunct2, THEN conjunct1] c [THEN conjunct2, THEN conjunct2]
  have empty: "Le_Context (log_entry_of environment ev) = Map.empty" by (simp add: log_entry_of_def)
  note norm = log_normalize_simps [of now event, folded stored(3)]
  have keys: "dom ctx = fst ` set (Ev_Context event) - {''''}"
    using ctx(2) by (simp add: empty norm(6) image_image case_prod_beta)
  have vals: "\<forall>v\<in>ran ctx. clean_text v"
  proof
    fix v assume "v \<in> ran ctx"
    then obtain k where "(k, v) \<in> (\<lambda>(k, v). (k, MaskSensitive v)) ` set (Ev_Context event)"
      using ctx(3) unfolding empty norm(6) ran_def set_map mem_Collect_eq by (metis option.distinct(1))
    then obtain u where "v = MaskSensitive u" by auto
    then show "clean_text v" by (simp add: clean_MaskSensitive)
  qed
  obtain m where "Ev_Message ev = MaskSensitive m" using norm(5) by blast
  then have "entry_ok L' entry"
    using norm(1-3) norm(4) [OF assms(2)] stored(2) keys vals clean_MaskSensitive
    by (simp add: entry_ok_def ctx(1) log_entry_of_def stored(6,7))
  moreover have "entry_ok L' x" if "entry_ok L x" for x
    using that by (rule entry_ok_mono) (auto simp: stored(6,7))
  ultimately have "log_ok L'"
    using assms(1) by (auto simp: log_ok_def list_all_iff stored(5))
  moreover have "Le_Event entry = Ev_Type event \<and> Le_MerchantID entry = Ev_MerchantID event
      \<and> Le_PaymentID entry = Ev_PaymentID event \<and> Le_IdempotencyKey entry = Ev_IdempotencyKey event
      \<and> (Ev_CorrelationID event \<noteq> '''' \<longrightarrow> Le_CorrelationID entry = Some (Ev_CorrelationID event))"
    unfolding ctx(1) by (simp add: log_entry_of_def norm(1), simp add: stored(3) log_normalize_def event_defaults_def Let_def)
  ultimately show ?thesis
    using stored(1,5) keys by (simp add: ctx(1))
qed

theorem postgres_Log_wellformed_witness:
  "let event = \<lparr>Ev_Type = ''payment_received'', Ev_Level = '''', Ev_Service = '''', Ev_MerchantID = ''m'', Ev_PaymentID = ''p'',
      Ev_IdempotencyKey = '''', Ev_CorrelationID = '''', Ev_CurrentStatus = '''', Ev_Timestamp = zero_time,
      Ev_Message = ''card 4111111111111111'', Ev_Details = '''', Ev_Context = [(''step'', ''start'')]\<rparr>;
    L = snd (postgres_Log (\<lambda>_. None) ''dev'' (zero_time + 1) event seedDictionaries)
   in log_ok L \<and> (\<exists>x. Lt_entries L = [x] \<and> Le_Event x = ''payment_received'' \<and> dom (Le_Context x) = {''step''})"
proof -
  let ?event = "\<lparr>Ev_Type = ''payment_received'', Ev_Level = '''', Ev_Service = '''', Ev_MerchantID = ''m'', Ev_PaymentID = ''p'',
      Ev_IdempotencyKey = '''', Ev_CorrelationID = '''', Ev_CurrentStatus = '''', Ev_Timestamp = zero_time,
      Ev_Message = ''card 4111111111111111'', Ev_Details = '''', Ev_Context = [(''step'', ''start'')]\<rparr>"
  let ?run = "postgres_Log (\<lambda>_. None) ''dev'' (zero_time + 1) ?event seedDictionaries"
  have "fst ?run = None" by (simp add: postgres_Log_def ensureDictionaryValues_def log_normalize_def event_defaults_def Let_def)
  moreover have "log_ok seedDictionaries" "\<not> IsZero (zero_time + 1)" "Lt_entries seedDictionaries = []"
    by (simp_all add: log_ok_def seedDictionaries_def IsZero_def)
  ultimately show ?thesis
    using postgres_Log_wellformed [OF _ _ prod.collapse [symmetric], of seedDictionaries "zero_time + 1" "\<lambda>_. None" "''dev''" ?event]
    by (simp add: Let_def) blast
qed

end
