(* ===== verification/Notifications.thy ===== *)
theory Notifications
  imports Adapters Webhooks
begin

section \<open>Merchant notifications (\<open>internal/subsystems/notifications\<close>)\<close>

text \<open>
  The notifications behind the contract that the orchestrator and the webhooks call. One
  \<open>Notify\<close> sends a signed POST to the merchant, records the delivery and logs it. The state
  \<open>ntf_state\<close> holds the table of deliveries (by delivery id, as the \<open>ON CONFLICT\<close> clause of
  the insert keeps it), the log and the requests sent. Parameters (\<open>ntf_env\<close>) are the clock,
  the error of building a request for a URL, the merchant's answer (a status code or the error
  of the request), the error of the database for a row, and the HMAC-SHA256 of the bytes of a
  document. \<open>NOW()\<close> is the reading of the clock at the insert.
\<close>

record WebhookNotifications =
  WN_callbackURL :: gostring
  WN_secret :: gostring
  WN_pool :: bool
  WN_logger :: bool

record MerchantNotificationPayload =
  MN_Event :: gostring
  MN_PaymentID :: gostring
  MN_MerchantID :: gostring
  MN_IdempotencyKey :: gostring
  MN_Status :: gostring
  MN_Amount :: AmountMoney
  MN_PaymentMethod :: gostring
  MN_Details :: TransactionDetails
  MN_ErrorCode :: gostring
  MN_ErrorMessage :: gostring
  MN_OccurredAt :: gotime

text \<open>The fields that are copied from the transaction details are kept together as \<open>MN_Details\<close>.\<close>

definition enc_MerchantNotificationPayload :: "MerchantNotificationPayload \<Rightarrow> json" where
  "enc_MerchantNotificationPayload p = (let td = MN_Details p in JObj (
     emit_str ''event'' (MN_Event p) @ emit_str ''payment_id'' (MN_PaymentID p) @
     emit_str ''merchant_id'' (MN_MerchantID p) @ emit_str ''idempotency_key'' (MN_IdempotencyKey p) @
     emit_str ''status'' (MN_Status p) @ [(''amount'', enc_AmountMoney (MN_Amount p))] @
     emit_str ''payment_method'' (MN_PaymentMethod p) @ emit_str ''payment_system'' (TD_PaymentSystem td) @
     omit_str ''provider_status'' (TD_ProviderStatus td) @
     omit_str ''provider_error_code'' (TD_ProviderErrorCode td) @
     omit_str ''provider_error_message'' (TD_ProviderErrorMessage td) @
     omit_str ''cancellation_party'' (TD_CancellationParty td) @
     omit_str ''cancellation_reason'' (TD_CancellationReason td) @
     omit_str ''external_transaction_id'' (TD_ExternalTransactionID td) @
     omit_str ''qr_id'' (TD_QRID td) @ omit_str ''qr_payload'' (TD_QRPayload td) @
     omit_str ''qr_image_data_uri'' (TD_QRImageDataURI td) @ omit_str ''qr_expires_at'' (TD_QRExpiresAt td) @
     omit_str ''participant_bank'' (TD_ParticipantBank td) @ omit_str ''schema_version'' (TD_SchemaVersion td) @
     omit_str ''settlement_hint'' (TD_SettlementHint td) @ omit_str ''money_mark'' (TD_MoneyMark td) @
     omit_str ''smart_contract_id'' (TD_SmartContractID td) @
     omit_str ''smart_contract_result'' (TD_SmartContractResult td) @
     omit_str ''smart_contract_reason'' (TD_SmartContractReason td) @
     omit_str ''platform_message_id'' (TD_PlatformMessageID td) @
     omit_str ''platform_transport'' (TD_PlatformTransport td) @
     omit_str ''error_code'' (MN_ErrorCode p) @ omit_str ''error_message'' (MN_ErrorMessage p) @
     [(''occurred_at'', JTime (MN_OccurredAt p))]))"

definition eventName :: "gostring \<Rightarrow> gostring" where
  "eventName status = (let st = ToUpper (TrimSpace status) in
     if st = StatusCaptured then ''payment.captured'' else if st = StatusDeclined then ''payment.declined''
     else if st = StatusFailed then ''payment.failed'' else if st = StatusPending then ''payment.pending''
     else if st = StatusCancelled then ''payment.cancelled'' else ''payment.status_changed'')"

definition notification_payload :: "PaymentResponse \<Rightarrow> gotime \<Rightarrow> MerchantNotificationPayload" where
  "notification_payload resp t =
     \<lparr>MN_Event = eventName (Resp_CurrentStatus resp), MN_PaymentID = Resp_ID resp,
      MN_MerchantID = Resp_MerchantID resp, MN_IdempotencyKey = Resp_IdempotencyKey resp,
      MN_Status = Resp_CurrentStatus resp, MN_Amount = RInfo_Amount (Resp_PaymentInfo resp),
      MN_PaymentMethod = Method_Type (RInfo_PaymentMethodData (Resp_PaymentInfo resp)),
      MN_Details = Resp_TransactionDetails resp,
      MN_ErrorCode = (case Resp_Error resp of None \<Rightarrow> '''' | Some err \<Rightarrow> Err_Code err),
      MN_ErrorMessage = (case Resp_Error resp of None \<Rightarrow> '''' | Some err \<Rightarrow> Err_Message err),
      MN_OccurredAt = t\<rparr>"

subsection \<open>State\<close>

record delivery =
  Dl_MerchantID :: gostring
  Dl_PaymentID :: gostring
  Dl_IdempotencyKey :: gostring
  Dl_EventType :: gostring
  Dl_CallbackURL :: gostring
  Dl_StatusCode :: "int option"
  Dl_Success :: bool
  Dl_ErrorMessage :: "gostring option"
  Dl_CreatedAt :: gotime

record ntf_env =
  ne_clock :: "nat \<Rightarrow> gotime"
  ne_newRequest :: "gostring \<Rightarrow> goerror option"
  ne_do :: "http_call \<Rightarrow> int result"
  ne_db :: "gostring \<Rightarrow> delivery \<Rightarrow> goerror option"
  ne_hmac :: "gostring \<Rightarrow> jtext \<Rightarrow> gostring"

record ntf_state =
  nt_tick :: nat
  nt_deliveries :: "gostring \<rightharpoonup> delivery"
  nt_log :: "PaymentEvent list"
  nt_calls :: "http_call list"

definition ntf_now :: "ntf_env \<Rightarrow> ntf_state \<Rightarrow> gotime" where
  "ntf_now e s = ne_clock e (nt_tick s)"

definition ntf_tick :: "ntf_state \<Rightarrow> ntf_state" where
  "ntf_tick s = s\<lparr>nt_tick := Suc (nt_tick s)\<rparr>"

definition recordDelivery :: "ntf_env \<Rightarrow> WebhookNotifications \<Rightarrow> gostring \<Rightarrow> PaymentResponse \<Rightarrow> gostring \<Rightarrow>
    bool \<Rightarrow> int \<Rightarrow> gostring \<Rightarrow> ntf_state \<Rightarrow> ntf_state" where
  "recordDelivery e n deliveryID resp event success statusCode errMsg s =
     (if \<not> WN_pool n then s
      else (let code = (if statusCode = 0 then None else Some statusCode);
                msg = (if errMsg = '''' then None else Some errMsg);
                row = \<lparr>Dl_MerchantID = Resp_MerchantID resp, Dl_PaymentID = Resp_ID resp,
                  Dl_IdempotencyKey = Resp_IdempotencyKey resp, Dl_EventType = event,
                  Dl_CallbackURL = WN_callbackURL n, Dl_StatusCode = code, Dl_Success = success,
                  Dl_ErrorMessage = msg, Dl_CreatedAt = ntf_now e s\<rparr>;
                s' = ntf_tick s
            in if ne_db e deliveryID row \<noteq> None then s'
               else s'\<lparr>nt_deliveries := (nt_deliveries s')(deliveryID \<mapsto>
                 (case nt_deliveries s' deliveryID of None \<Rightarrow> row
                  | Some old \<Rightarrow> old\<lparr>Dl_StatusCode := code, Dl_Success := success, Dl_ErrorMessage := msg\<rparr>))\<rparr>))"

definition ntf_log :: "ntf_env \<Rightarrow> WebhookNotifications \<Rightarrow> PaymentResponse \<Rightarrow> gostring \<Rightarrow> bool \<Rightarrow> int \<Rightarrow>
    gostring \<Rightarrow> gostring \<Rightarrow> ntf_state \<Rightarrow> ntf_state" where
  "ntf_log e n resp event success statusCode errMsg deliveryID s =
     (if \<not> WN_logger n then s
      else ntf_tick (s\<lparr>nt_log := nt_log s @ [webhook_event
        (if success then EventNotificationSent else EventNotificationFailed)
        (if success then LogLevelInfo else LogLevelWarn) ''notifications'' (Resp_MerchantID resp) (Resp_ID resp)
        (Resp_IdempotencyKey resp) (Resp_CurrentStatus resp)
        (if success then ''Merchant notification sent'' else ''Merchant notification failed'')
        [(''delivery_id'', deliveryID), (''merchant_event'', event),
         (''callback_url_set'', FormatBool (WN_callbackURL n \<noteq> '''')), (''status_code'', Itoa statusCode),
         (''success'', FormatBool success), (''error_message'', errMsg)] (ntf_now e s)]\<rparr>))"

definition signBody :: "ntf_env \<Rightarrow> gostring \<Rightarrow> jtext \<Rightarrow> gostring" where
  "signBody e secret body = ''sha256='' @ ne_hmac e secret body"

definition notification_request :: "ntf_env \<Rightarrow> WebhookNotifications \<Rightarrow> PaymentResponse \<Rightarrow> gostring \<Rightarrow>
    gostring \<Rightarrow> jtext \<Rightarrow> http_call" where
  "notification_request e n resp event deliveryID body =
     \<lparr>Hc_Method = ''POST'', Hc_URL = WN_callbackURL n, Hc_Auth = ('''', ''''),
      Hc_Headers = [(''Content-Type'', ''application/json; charset=utf-8''),
        (''X-Payment-Gateway-Event'', event), (''X-Payment-Gateway-Delivery'', deliveryID),
        (''Idempotency-Key'', Resp_IdempotencyKey resp)]
        @ (if WN_secret n \<noteq> '''' then [(''X-Payment-Gateway-Signature'', signBody e (WN_secret n) body)] else []),
      Hc_Body = body\<rparr>"

definition ntf_Enabled :: "WebhookNotifications \<Rightarrow> bool" where
  "ntf_Enabled n = (TrimSpace (WN_callbackURL n) \<noteq> '''')"

definition NewWebhookNotificationsFromEnv :: "(gostring \<Rightarrow> gostring) \<Rightarrow> gostring \<Rightarrow> goerror option \<Rightarrow> bool \<Rightarrow>
    WebhookNotifications result" where
  "NewWebhookNotificationsFromEnv env dsn dbError logger =
     (case (if dsn = '''' then None else dbError) of
        Some err \<Rightarrow> Inl err
      | None \<Rightarrow> Inr \<lparr>WN_callbackURL = TrimSpace (env ''MERCHANT_WEBHOOK_URL''),
          WN_secret = TrimSpace (env ''MERCHANT_WEBHOOK_SECRET''), WN_pool = (dsn \<noteq> ''''), WN_logger = logger\<rparr>)"

text \<open>From the request on, for the sanitised response.\<close>

definition deliver_notification :: "ntf_env \<Rightarrow> WebhookNotifications \<Rightarrow> PaymentResponse \<Rightarrow> gostring \<Rightarrow> gostring \<Rightarrow>
    jtext \<Rightarrow> ntf_state \<Rightarrow> goerror option \<times> ntf_state" where
  "deliver_notification e n resp event deliveryID body s =
     (case ne_newRequest e (WN_callbackURL n) of
        Some err \<Rightarrow> (Some err, recordDelivery e n deliveryID resp event False 0 err s)
      | None \<Rightarrow>
          (let req = notification_request e n resp event deliveryID body;
               s = s\<lparr>nt_calls := nt_calls s @ [req]\<rparr> in
           case ne_do e req of
             Inl err \<Rightarrow> (Some err, ntf_log e n resp event False 0 err deliveryID
               (recordDelivery e n deliveryID resp event False 0 err s))
           | Inr code \<Rightarrow>
               (let success = (200 \<le> code \<and> code < 300);
                    errMsg = (if success then '''' else ''merchant webhook returned HTTP '' @ Itoa code);
                    s = ntf_log e n resp event success code errMsg deliveryID
                      (recordDelivery e n deliveryID resp event success code errMsg s)
                in (if success then None else Some errMsg, s))))"

definition ntf_Notify :: "ntf_env \<Rightarrow> WebhookNotifications \<Rightarrow> PaymentResponse \<Rightarrow> ntf_state \<Rightarrow>
    goerror option \<times> ntf_state" where
  "ntf_Notify e n resp s =
     (let resp = Sanitized resp in
      if \<not> ntf_Enabled n then (None, s)
      else if Resp_ID resp = '''' \<or> Resp_MerchantID resp = ''''
        then (Some ''payment id and merchant id are required for notification'', s)
      else (let payload = notification_payload resp (ntf_now e s); s = ntf_tick s in
        case Marshal (enc_MerchantNotificationPayload payload) of
          Inl err \<Rightarrow> (Some err, s)
        | Inr body \<Rightarrow> deliver_notification e n resp (MN_Event payload) (''ntf_'' @ Itoa (ntf_now e s)) body
            (ntf_tick s)))"

text \<open>\<open>NoOpNotifications\<close>.\<close>

definition NoOp_Notify :: "PaymentResponse \<Rightarrow> ntf_state \<Rightarrow> goerror option \<times> ntf_state" where
  "NoOp_Notify resp s = (None, s)"

subsection \<open>Facts\<close>

lemma recordDelivery_simps [simp]:
  "nt_log (recordDelivery e n d resp ev b c msg s) = nt_log s"
  "nt_calls (recordDelivery e n d resp ev b c msg s) = nt_calls s"
  by (simp_all add: recordDelivery_def ntf_tick_def Let_def)

lemma ntf_log_simps [simp]:
  "nt_deliveries (ntf_log e n resp ev b c msg d s) = nt_deliveries s"
  "nt_calls (ntf_log e n resp ev b c msg d s) = nt_calls s"
  by (simp_all add: ntf_log_def ntf_tick_def)

lemma ntf_log_event:
  "WN_logger n \<Longrightarrow> \<exists>x. nt_log (ntf_log e n resp ev b c msg d s) = nt_log s @ [x]
    \<and> Ev_Type x = (if b then EventNotificationSent else EventNotificationFailed)
    \<and> Ev_MerchantID x = Resp_MerchantID resp \<and> Ev_PaymentID x = Resp_ID resp"
  by (simp add: ntf_log_def ntf_tick_def webhook_event_def)

lemma ntf_tick_simps [simp]:
  "nt_log (ntf_tick s) = nt_log s" "nt_calls (ntf_tick s) = nt_calls s"
  "nt_deliveries (ntf_tick s) = nt_deliveries s"
  by (simp_all add: ntf_tick_def)

text \<open>A delivery is on record: a row of the merchant's payment with its outcome, unless the database refuses it.\<close>

definition on_record :: "ntf_env \<Rightarrow> WebhookNotifications \<Rightarrow> gostring \<Rightarrow> PaymentResponse \<Rightarrow> bool \<Rightarrow> ntf_state \<Rightarrow> bool" where
  "on_record e n d resp success s = (WN_pool n \<longrightarrow> (\<forall>row. ne_db e d row = None) \<longrightarrow>
     (\<exists>row. nt_deliveries s d = Some row \<and> Dl_Success row = success
       \<and> Dl_MerchantID row = Resp_MerchantID resp \<and> Dl_PaymentID row = Resp_ID resp))"

lemma recordDelivery_on_record:
  "nt_deliveries s d = None \<Longrightarrow> on_record e n d resp b (recordDelivery e n d resp ev b c msg s)"
  by (simp add: on_record_def recordDelivery_def Let_def)

lemma deliver_outcome:
  assumes "ne_newRequest e (WN_callbackURL n) = None" and "nt_deliveries s d = None"
    and "deliver_notification e n resp ev d body s = (err, s')"
  shows "nt_calls s' = nt_calls s @ [notification_request e n resp ev d body]
    \<and> (err = None \<longleftrightarrow> (\<exists>code. ne_do e (notification_request e n resp ev d body) = Inr code \<and> 200 \<le> code \<and> code < 300))
    \<and> on_record e n d resp (err = None) s'
    \<and> (WN_logger n \<longrightarrow> (\<exists>x. nt_log s' = nt_log s @ [x]
        \<and> Ev_Type x = (if err = None then EventNotificationSent else EventNotificationFailed)
        \<and> Ev_MerchantID x = Resp_MerchantID resp \<and> Ev_PaymentID x = Resp_ID resp))"
proof -
  let ?req = "notification_request e n resp ev d body" and ?s = "s\<lparr>nt_calls := nt_calls s @ [notification_request e n resp ev d body]\<rparr>"
  have fresh: "nt_deliveries ?s d = None" using assms(2) by simp
  have "\<exists>b c msg. s' = ntf_log e n resp ev b c msg d (recordDelivery e n d resp ev b c msg ?s)
      \<and> b = (err = None) \<and> (b \<longleftrightarrow> (\<exists>code. ne_do e ?req = Inr code \<and> 200 \<le> code \<and> code < 300))"
  proof (cases "ne_do e ?req")
    case (Inl x)
    show ?thesis by (rule exI [of _ False], rule exI [of _ 0], rule exI [of _ x])
      (use assms(1,3) Inl in \<open>auto simp: deliver_notification_def Let_def\<close>)
  next
    case (Inr code)
    let ?ok = "200 \<le> code \<and> code < 300"
    show ?thesis
      by (rule exI [of _ ?ok], rule exI [of _ code],
          rule exI [of _ "if ?ok then '''' else ''merchant webhook returned HTTP '' @ Itoa code"])
        (use assms(1,3) Inr in \<open>auto simp: deliver_notification_def Let_def split: if_splits\<close>)
  qed
  then obtain b c msg where s': "s' = ntf_log e n resp ev b c msg d (recordDelivery e n d resp ev b c msg ?s)"
    and b: "b = (err = None)" "b \<longleftrightarrow> (\<exists>code. ne_do e ?req = Inr code \<and> 200 \<le> code \<and> code < 300)" by blast
  have "on_record e n d resp b s'"
    using recordDelivery_on_record [OF fresh, of e n resp b ev c msg] by (simp add: s' on_record_def)
  moreover have "WN_logger n \<longrightarrow> (\<exists>x. nt_log s' = nt_log s @ [x]
      \<and> Ev_Type x = (if b then EventNotificationSent else EventNotificationFailed)
      \<and> Ev_MerchantID x = Resp_MerchantID resp \<and> Ev_PaymentID x = Resp_ID resp)"
    using ntf_log_event [of n e resp ev b c msg d "recordDelivery e n d resp ev b c msg ?s"] by (simp add: s')
  ultimately show ?thesis using b s' by simp
qed

subsection \<open>Properties\<close>

text \<open>
  C37: Every notification of an identified payment is attempted once and leaves a true record.
  With a callback URL, the merchant is sent one POST with the event of the payment's status,
  signed with the shop's secret if there is one; the call succeeds exactly if the merchant
  answers with a 2xx code, and the log and the table of deliveries say the same of it.
\<close>

theorem notify_attempted_once:
  assumes "ntf_Enabled n" and "Resp_ID resp \<noteq> ''''" and "Resp_MerchantID resp \<noteq> ''''"
    and "ne_newRequest e (WN_callbackURL n) = None"
    and "Marshal (enc_MerchantNotificationPayload (notification_payload (Sanitized resp) (ntf_now e s))) = Inr body"
    and "d = ''ntf_'' @ Itoa (ntf_now e (ntf_tick s))" and "nt_deliveries s d = None"
    and "ntf_Notify e n resp s = (err, s')"
  shows "\<exists>req. nt_calls s' = nt_calls s @ [req] \<and> Hc_Method req = ''POST'' \<and> Hc_URL req = WN_callbackURL n
    \<and> Hc_Body req = body
    \<and> (''X-Payment-Gateway-Event'', eventName (Resp_CurrentStatus resp)) \<in> set (Hc_Headers req)
    \<and> (WN_secret n \<noteq> '''' \<longrightarrow>
        (''X-Payment-Gateway-Signature'', ''sha256='' @ ne_hmac e (WN_secret n) body) \<in> set (Hc_Headers req))
    \<and> (err = None \<longleftrightarrow> (\<exists>code. ne_do e req = Inr code \<and> 200 \<le> code \<and> code < 300))
    \<and> on_record e n d resp (err = None) s'
    \<and> (WN_logger n \<longrightarrow> (\<exists>x. nt_log s' = nt_log s @ [x]
        \<and> Ev_Type x = (if err = None then EventNotificationSent else EventNotificationFailed)
        \<and> Ev_MerchantID x = Resp_MerchantID resp \<and> Ev_PaymentID x = Resp_ID resp))"
proof -
  let ?ev = "eventName (Resp_CurrentStatus resp)"
  have "deliver_notification e n (Sanitized resp) ?ev d body (ntf_tick (ntf_tick s)) = (err, s')"
    using assms(1-3,5,6,8) by (simp add: ntf_Notify_def Let_def notification_payload_def)
  note out = deliver_outcome [OF assms(4) _ this, simplified, OF assms(7)]
  let ?req = "notification_request e n (Sanitized resp) ?ev d body"
  have req: "Hc_Method ?req = ''POST''" "Hc_URL ?req = WN_callbackURL n" "Hc_Body ?req = body"
    "(''X-Payment-Gateway-Event'', ?ev) \<in> set (Hc_Headers ?req)"
    "WN_secret n \<noteq> '''' \<longrightarrow>
      (''X-Payment-Gateway-Signature'', ''sha256='' @ ne_hmac e (WN_secret n) body) \<in> set (Hc_Headers ?req)"
    by (simp_all add: notification_request_def signBody_def)
  have rec: "on_record e n d (Sanitized resp) b s' = on_record e n d resp b s'" for b by (simp add: on_record_def)
  show ?thesis using out req unfolding rec by (intro exI [of _ ?req]) blast
qed

text \<open>A shop that answers 200 to the notification of a captured payment.\<close>

definition shop_env :: ntf_env where
  "shop_env = \<lparr>ne_clock = (\<lambda>_. 5), ne_newRequest = (\<lambda>_. None), ne_do = (\<lambda>_. Inr 200),
     ne_db = (\<lambda>_ _. None), ne_hmac = (\<lambda>_ _. ''h'')\<rparr>"

definition shop_hook :: WebhookNotifications where
  "shop_hook = \<lparr>WN_callbackURL = ''https://shop'', WN_secret = ''s'', WN_pool = True, WN_logger = True\<rparr>"

definition shop_state :: ntf_state where
  "shop_state = \<lparr>nt_tick = 0, nt_deliveries = Map.empty, nt_log = [], nt_calls = []\<rparr>"

definition shop_payment :: PaymentResponse where
  "shop_payment = zero_response\<lparr>Resp_ID := ''p'', Resp_MerchantID := ''m'', Resp_CurrentStatus := ''CAPTURED''\<rparr>"

theorem notify_attempted_once_witness:
  "fst (ntf_Notify shop_env shop_hook shop_payment shop_state) = None
    \<and> length (nt_calls (snd (ntf_Notify shop_env shop_hook shop_payment shop_state))) = 1"
proof -
  have now: "ntf_now shop_env s = 5" for s by (simp add: ntf_now_def shop_env_def)
  have "json_ok (enc_MerchantNotificationPayload (notification_payload (Sanitized shop_payment) 5))"
    by (simp add: enc_MerchantNotificationPayload_def notification_payload_def shop_payment_def zero_response_def
        Sanitized_def emit_str_def omit_str_def enc_AmountMoney_def zero_amount_def zero_details_def Let_def year_ok_def Date_def
        days_from_civil_def)
  then obtain body where body: "Marshal (enc_MerchantNotificationPayload
      (notification_payload (Sanitized shop_payment) (ntf_now shop_env shop_state))) = Inr body"
    by (simp add: now Marshal_def)
  have on: "ntf_Enabled shop_hook" by (simp add: ntf_Enabled_def shop_hook_def go_eval)
  have ids: "Resp_ID shop_payment \<noteq> ''''" "Resp_MerchantID shop_payment \<noteq> ''''"
    "ne_newRequest shop_env (WN_callbackURL shop_hook) = None"
    "nt_deliveries shop_state (''ntf_'' @ Itoa (ntf_now shop_env (ntf_tick shop_state))) = None"
    by (simp_all add: shop_payment_def shop_env_def shop_state_def)
  have calls: "ne_do shop_env r = Inr 200" "nt_calls shop_state = []" for r by (simp_all add: shop_env_def shop_state_def)
  from notify_attempted_once [OF on ids(1-3) body refl ids(4) surjective_pairing] show ?thesis
    by (elim exE conjE) (simp add: calls)
qed

text \<open>
  Notifications tell the merchant's server nothing of the customer. What is sent, recorded,
  logged and answered is the same for any two payments that differ only in the customer's data
  (card, phone, e-mail, wallets) and the items.
\<close>

theorem notify_without_customer_data:
  "ntf_Notify e n (resp\<lparr>Resp_PaymentInfo := (Resp_PaymentInfo resp)\<lparr>RInfo_CustomerData := c, RInfo_Items := xs\<rparr>\<rparr>) s
    = ntf_Notify e n resp s"
proof -
  let ?r = "resp\<lparr>Resp_PaymentInfo := (Resp_PaymentInfo resp)\<lparr>RInfo_CustomerData := c, RInfo_Items := xs\<rparr>\<rparr>"
  have same: "Resp_ID (Sanitized ?r) = Resp_ID (Sanitized resp)"
    "Resp_MerchantID (Sanitized ?r) = Resp_MerchantID (Sanitized resp)"
    "Resp_IdempotencyKey (Sanitized ?r) = Resp_IdempotencyKey (Sanitized resp)"
    "Resp_CurrentStatus (Sanitized ?r) = Resp_CurrentStatus (Sanitized resp)" by simp_all
  have payload: "notification_payload (Sanitized ?r) t = notification_payload (Sanitized resp) t" for t
    by (simp add: notification_payload_def Sanitized_def Let_def)
  have rec: "recordDelivery e n d (Sanitized ?r) ev b k msg = recordDelivery e n d (Sanitized resp) ev b k msg"
    "ntf_log e n (Sanitized ?r) ev b k msg d = ntf_log e n (Sanitized resp) ev b k msg d"
    "notification_request e n (Sanitized ?r) ev d body = notification_request e n (Sanitized resp) ev d body"
    for d ev b k msg body
    unfolding recordDelivery_def ntf_log_def notification_request_def same by (rule refl)+
  have "deliver_notification e n (Sanitized ?r) ev d body = deliver_notification e n (Sanitized resp) ev d body"
    for ev d body unfolding deliver_notification_def rec by (rule refl)
  then show ?thesis unfolding ntf_Notify_def Let_def payload same by (simp only:)
qed

end
