(* ===== verification/Json_Any.thy ===== *)
theory Json_Any
  imports Json "HOL-Library.Sublist" "HOL-Library.Multiset" "HOL-Library.List_Lexorder" "HOL-Library.Char_ord"
begin

section \<open>Documents that pass through a map\<close>

text \<open>
  A \<open>map[string]any\<close> keeps the last of several members with one key and is marshalled with its
  keys sorted (\<open>go_any\<close>). The lemmas of this theory show what survives of a payment response
  that was stored that way: decoding a marshalled struct does not depend on the order of its
  members, because the decoders of two different fields commute.
\<close>

fun go_any :: "json \<Rightarrow> json" and go_any_list :: "json list \<Rightarrow> json list"
  and go_any_members :: "(gostring \<times> json) list \<Rightarrow> (gostring \<times> json) list" where
  "go_any (JObj kvs) = JObj (sort_key fst (last_members (go_any_members kvs)))"
| "go_any (JArr js) = JArr (go_any_list js)"
| "go_any j = j"
| "go_any_list [] = []"
| "go_any_list (j # js) = go_any j # go_any_list js"
| "go_any_members [] = []"
| "go_any_members (kv # kvs) = (fst kv, go_any (snd kv)) # go_any_members kvs"

lemma go_any_list_map: "go_any_list js = map go_any js"
  by (induction js) auto

lemma go_any_members_map: "go_any_members kvs = map (\<lambda>kv. (fst kv, go_any (snd kv))) kvs"
  by (induction kvs) auto

lemma last_members_distinct: "distinct (map fst kvs) \<Longrightarrow> last_members kvs = kvs"
  by (induction kvs) auto

subsection \<open>Decoders that commute\<close>

definition commute :: "(json \<Rightarrow> 'r \<Rightarrow> 'r option) \<Rightarrow> (json \<Rightarrow> 'r \<Rightarrow> 'r option) \<Rightarrow> bool" where
  "commute d d' = (\<forall>v w r. Option.bind (d v r) (d' w) = Option.bind (d' w r) (d v))"

definition independent :: "'r jfields \<Rightarrow> bool" where
  "independent T = (distinct (map fst T) \<and> (\<forall>f\<in>set T. \<forall>g\<in>set T. fst f \<noteq> fst g \<longrightarrow> commute (snd f) (snd g)))"

lemma dec_fields_known:
  "map_of T k = Some d \<Longrightarrow> dec_fields T ((k, v) # kvs) = (\<lambda>r. Option.bind (d v r) (dec_fields T kvs))"
  by (rule ext) (simp add: lookup_field_def split: option.split)

lemma dec_fields_swap:
  assumes "independent T" "map_of T k = Some d" "map_of T k' = Some d'" "k \<noteq> k'"
  shows "dec_fields T ((k, v) # (k', w) # kvs) r = dec_fields T ((k', w) # (k, v) # kvs) r"
proof -
  have "commute d d'"
    using assms map_of_SomeD [OF assms(2)] map_of_SomeD [OF assms(3)]
    unfolding independent_def by (metis fst_conv snd_conv)
  then have "Option.bind (d v r) (d' w) = Option.bind (d' w r) (d v)" by (simp add: commute_def)
  then have "Option.bind (Option.bind (d v r) (d' w)) (dec_fields T kvs)
      = Option.bind (Option.bind (d' w r) (d v)) (dec_fields T kvs)" by simp
  then show ?thesis
    by (simp add: dec_fields_known [OF assms(2)] dec_fields_known [OF assms(3)] del: dec_fields.simps)
qed

lemma dec_fields_front:
  assumes "independent T" "k \<in> dom (map_of T)" "fst ` set xs \<subseteq> dom (map_of T)" "k \<notin> fst ` set xs"
  shows "dec_fields T (xs @ (k, v) # ys) r = dec_fields T ((k, v) # xs @ ys) r"
  using assms(3,4)
proof (induction xs arbitrary: r)
  case (Cons x xs)
  obtain k' w where x: "x = (k', w)" by (cases x)
  from Cons.prems x assms(2) obtain d d' where d: "map_of T k = Some d" "map_of T k' = Some d'" "k \<noteq> k'"
    by auto
  have "dec_fields T (x # xs @ (k, v) # ys) r = Option.bind (d' w r) (dec_fields T (xs @ (k, v) # ys))"
    by (simp add: x dec_fields_known [OF d(2)] del: dec_fields.simps)
  also have "\<dots> = Option.bind (d' w r) (dec_fields T ((k, v) # xs @ ys))"
  proof -
    have "dec_fields T (xs @ (k, v) # ys) = dec_fields T ((k, v) # xs @ ys)"
      by (rule ext, rule Cons.IH) (use Cons.prems in auto)
    then show ?thesis by (simp only:)
  qed
  also have "\<dots> = dec_fields T ((k', w) # (k, v) # xs @ ys) r"
    by (simp add: dec_fields_known [OF d(2)] del: dec_fields.simps)
  also have "\<dots> = dec_fields T ((k, v) # (k', w) # xs @ ys) r"
    by (rule dec_fields_swap [OF assms(1) d(2,1)]) (use d(3) in simp)
  finally show ?case by (simp add: x del: dec_fields.simps)
qed simp

lemma dec_fields_perm:
  assumes "independent T" "mset kvs = mset kvs'" "distinct (map fst kvs)" "fst ` set kvs \<subseteq> dom (map_of T)"
  shows "dec_fields T kvs r = dec_fields T kvs' r"
  using assms(2-4)
proof (induction kvs arbitrary: kvs' r)
  case (Cons x kvs)
  from Cons.prems(1) obtain xs ys where split: "kvs' = xs @ x # ys"
    by (metis list.set_intros(1) mset_eq_setD split_list)
  with Cons.prems(1) have rest: "mset kvs = mset (xs @ ys)" by simp
  have set: "set kvs = set (xs @ ys)" using rest by (rule mset_eq_setD)
  obtain k v where x: "x = (k, v)" by (cases x)
  from Cons.prems(3) x obtain d where d: "map_of T k = Some d" by auto
  have "dec_fields T (x # kvs) r = Option.bind (d v r) (dec_fields T kvs)"
    by (simp add: x dec_fields_known [OF d] del: dec_fields.simps)
  also have "\<dots> = Option.bind (d v r) (dec_fields T (xs @ ys))"
  proof -
    have "dec_fields T kvs = dec_fields T (xs @ ys)"
      by (rule ext, rule Cons.IH [OF rest]) (use Cons.prems(2,3) in auto)
    then show ?thesis by (simp only:)
  qed
  also have "\<dots> = dec_fields T ((k, v) # xs @ ys) r"
    by (simp add: dec_fields_known [OF d] del: dec_fields.simps)
  also have "\<dots> = dec_fields T kvs' r"
    unfolding split x by (rule dec_fields_front [symmetric, OF assms(1)])
      (use Cons.prems(2,3) x d set in auto)
  finally show ?case .
qed simp

fun pairwise_commute :: "'r jfields \<Rightarrow> bool" where
  "pairwise_commute [] = True"
| "pairwise_commute (f # T) = (list_all (\<lambda>g. commute (snd f) (snd g)) T \<and> pairwise_commute T)"

lemma commute_sym: "commute d d' \<Longrightarrow> commute d' d"
  by (simp add: commute_def)

lemma pairwise_commuteD:
  "pairwise_commute T \<Longrightarrow> f \<in> set T \<Longrightarrow> g \<in> set T \<Longrightarrow> fst f \<noteq> fst g \<Longrightarrow> commute (snd f) (snd g)"
  by (induction T) (auto simp: list_all_iff intro: commute_sym)

lemma independentI: "distinct (map fst T) \<Longrightarrow> pairwise_commute T \<Longrightarrow> independent T"
  by (simp add: independent_def pairwise_commuteD)

text \<open>
  A decoder that at most writes one field (\<open>leaf\<close>), and the decoder of a nested struct, which
  also reads it.
\<close>

definition leaf :: "(json \<Rightarrow> 'r \<Rightarrow> 'r option) \<Rightarrow> (('a \<Rightarrow> 'a) \<Rightarrow> 'r \<Rightarrow> 'r) \<Rightarrow> bool" where
  "leaf d upd = (\<forall>j. (\<forall>r. d j r = None) \<or> (\<forall>r. d j r = Some r) \<or> (\<exists>x. \<forall>r. d j r = Some (upd (\<lambda>_. x) r)))"

definition nested :: "(json \<Rightarrow> 'r \<Rightarrow> 'r option) \<Rightarrow> ('r \<Rightarrow> 'a) \<Rightarrow> (('a \<Rightarrow> 'a) \<Rightarrow> 'r \<Rightarrow> 'r) \<Rightarrow> bool" where
  "nested d get upd = (\<forall>j. \<exists>h. \<forall>r. d j r = map_option (\<lambda>x. upd (\<lambda>_. x) r) (h (get r)))"

lemma leafI:
  "(\<And>j. (\<forall>r. d j r = None) \<or> (\<forall>r. d j r = Some r) \<or> (\<exists>x. \<forall>r. d j r = Some (upd (\<lambda>_. x) r))) \<Longrightarrow> leaf d upd"
  by (simp add: leaf_def)

lemma leaf_simps:
  "leaf (dec_str upd) upd" "leaf (dec_num upd1) upd1" "leaf (dec_int upd2) upd2"
  "leaf (dec_bool upd3) upd3" "leaf (dec_time upd4) upd4" "leaf (dec_items upd5) upd5"
  by (rule leafI, case_tac j, auto simp: dec_str_def dec_num_def dec_int_def dec_bool_def dec_time_def
      dec_items_def split: f64.split option.split)+

lemma nested_simps: "nested (dec_sub get upd T) get upd" "nested (dec_error get' upd') get' upd'"
proof -
  show "nested (dec_sub get upd T) get upd"
    unfolding nested_def
  proof
    show "\<exists>h. \<forall>r. dec_sub get upd T j r = map_option (\<lambda>x. upd (\<lambda>_. x) r) (h (get r))" for j
      by (rule exI [of _ "dec_struct T j"]) (auto simp: dec_sub_def split: option.split)
  qed
  show "nested (dec_error get' upd') get' upd'"
    unfolding nested_def
  proof
    show "\<exists>h. \<forall>r. dec_error get' upd' j r = map_option (\<lambda>x. upd' (\<lambda>_. x) r) (h (get' r))" for j
      by (rule exI [of _ "\<lambda>g. case j of JNull \<Rightarrow> Some None | _ \<Rightarrow> map_option Some (dec_struct tab_GatewayError j
          (case g of None \<Rightarrow> \<lparr>Err_Code = '''', Err_Message = ''''\<rparr> | Some e \<Rightarrow> e))"])
        (auto simp: dec_error_def Let_def split: option.split json.split)
  qed
qed

lemma commute_leaf:
  assumes "leaf d upd" "leaf d' upd'" "\<And>x y r. upd (\<lambda>_. x) (upd' (\<lambda>_. y) r) = upd' (\<lambda>_. y) (upd (\<lambda>_. x) r)"
  shows "commute d d'"
  unfolding commute_def
proof (intro allI)
  fix v w r
  show "Option.bind (d v r) (d' w) = Option.bind (d' w r) (d v)"
    using assms(1) [unfolded leaf_def, rule_format, of v] assms(2) [unfolded leaf_def, rule_format, of w] assms(3)
    by (elim disjE exE) simp_all
qed

lemma commute_nested_leaf:
  assumes "nested d get upd" "leaf d' upd'" "\<And>x r. get (upd' (\<lambda>_. x) r) = get r"
    "\<And>x y r. upd (\<lambda>_. x) (upd' (\<lambda>_. y) r) = upd' (\<lambda>_. y) (upd (\<lambda>_. x) r)"
  shows "commute d d'"
  unfolding commute_def
proof (intro allI)
  fix v w r
  obtain h where h: "d v r = map_option (\<lambda>x. upd (\<lambda>_. x) r) (h (get r))" for r
    using assms(1) unfolding nested_def by blast
  show "Option.bind (d v r) (d' w) = Option.bind (d' w r) (d v)"
    using assms(2) [unfolded leaf_def, rule_format, of w] assms(3,4)
    by (cases "h (get r)"; elim disjE exE) (simp_all add: h)
qed

lemma commute_nested:
  assumes "nested d get upd" "nested d' get' upd'" "\<And>x r. get (upd' (\<lambda>_. x) r) = get r"
    "\<And>x r. get' (upd (\<lambda>_. x) r) = get' r"
    "\<And>x y r. upd (\<lambda>_. x) (upd' (\<lambda>_. y) r) = upd' (\<lambda>_. y) (upd (\<lambda>_. x) r)"
  shows "commute d d'"
  unfolding commute_def
proof (intro allI)
  fix v w r
  obtain h where h: "d v r = map_option (\<lambda>x. upd (\<lambda>_. x) r) (h (get r))" for r
    using assms(1) unfolding nested_def by blast
  obtain h' where h': "d' w r = map_option (\<lambda>x. upd' (\<lambda>_. x) r) (h' (get' r))" for r
    using assms(2) unfolding nested_def by blast
  show "Option.bind (d v r) (d' w) = Option.bind (d' w r) (d v)"
    using assms(3-5) by (cases "h (get r)"; cases "h' (get' r)") (simp_all add: h h')
qed

lemmas commute_pairs = commute_leaf commute_nested_leaf commute_nested_leaf [THEN commute_sym] commute_nested

lemma independent_simps:
  "independent tab_AmountMoney" "independent tab_PaymentItem" "independent tab_DigitalRubleData"
  "independent tab_CustomerData" "independent tab_GatewayError"
  "independent tab_PaymentInfoResponse" "independent tab_PaymentResponse"
  by ((rule independentI; simp add: tab_AmountMoney_def tab_PaymentItem_def tab_DigitalRubleData_def
      tab_CustomerData_def tab_GatewayError_def tab_PaymentInfoResponse_def
      tab_PaymentResponse_def),
      ((intro conjI)?; (rule commute_pairs, rule leaf_simps nested_simps, rule leaf_simps nested_simps))?,
      simp_all)+

lemma independent_PaymentMethodData: "independent tab_PaymentMethodData"
  by (rule independentI; simp add: tab_PaymentMethodData_def)

lemma independent_TransactionDetails: "independent tab_TransactionDetails"
proof (rule independentI)
  show "distinct (map fst tab_TransactionDetails)" by (simp add: tab_TransactionDetails_def)
  show "pairwise_commute tab_TransactionDetails"
    unfolding tab_TransactionDetails_def pairwise_commute.simps list.pred_inject snd_conv
    by (intro conjI TrueI commute_leaf [OF leaf_simps(1) leaf_simps(1)] commute_leaf [OF leaf_simps(1) leaf_simps(3)]) simp_all
qed

subsection \<open>What survives of a marshalled struct\<close>

definition stable :: "(json \<Rightarrow> 'r \<Rightarrow> 'r option) \<Rightarrow> json \<Rightarrow> bool" where
  "stable d j = (\<forall>r. d (go_any j) r = d j r)"

lemma stable_leaf:
  "stable (dec_str upd) j" "stable (dec_num upd1) j" "stable (dec_int upd2) j"
  "stable (dec_bool upd3) j" "stable (dec_time upd4) j"
  by (cases j; simp add: stable_def dec_str_def dec_num_def dec_int_def dec_bool_def dec_time_def)+

lemma dec_fields_stable:
  assumes "\<forall>(k, j)\<in>set kvs. \<exists>d. map_of T k = Some d \<and> stable d j"
  shows "dec_fields T (map (\<lambda>kv. (fst kv, go_any (snd kv))) kvs) = dec_fields T kvs"
  using assms
proof (induction kvs)
  case (Cons x kvs)
  obtain k j where x: "x = (k, j)" by (cases x)
  with Cons.prems obtain d where d: "map_of T k = Some d" "stable d j" by auto
  have "dec_fields T (map (\<lambda>kv. (fst kv, go_any (snd kv))) kvs) = dec_fields T kvs"
    using Cons by simp
  then show ?case using d(2)
    by (simp add: x dec_fields_known [OF d(1)] stable_def del: dec_fields.simps)
qed simp

text \<open>A struct whose members are those of its table, in order, some left out.\<close>

lemma subseq_distinct: "subseq xs ys \<Longrightarrow> distinct ys \<Longrightarrow> distinct xs"
  by (metis distinct_nthsI subseq_conv_nths)

lemma stable_struct:
  assumes "independent T" "subseq (map fst kvs) (map fst T)"
    "\<forall>(k, j)\<in>set kvs. \<exists>d. map_of T k = Some d \<and> stable d j"
  shows "stable (dec_struct T) (JObj kvs)"
proof -
  let ?any = "map (\<lambda>kv. (fst kv, go_any (snd kv))) kvs"
  have keys: "map fst ?any = map fst kvs" by simp
  have dist: "distinct (map fst kvs)"
    using assms(1,2) subseq_distinct unfolding independent_def by blast
  have any: "distinct (map fst ?any)" unfolding keys by (rule dist)
  have "fst ` set ?any \<subseteq> dom (map_of T)"
    using assms(3) by fastforce
  then have "dec_fields T ?any r = dec_fields T (sort_key fst ?any) r" for r
    by (intro dec_fields_perm [OF assms(1) _ any]) simp_all
  moreover have "last_members ?any = ?any"
    by (rule last_members_distinct [OF any])
  ultimately show ?thesis
    by (simp add: stable_def dec_struct_def go_any_members_map dec_fields_stable [OF assms(3)])
qed

definition member_ok :: "'r jfields \<Rightarrow> gostring \<times> json \<Rightarrow> bool" where
  "member_ok T kv = (\<exists>d. map_of T (fst kv) = Some d \<and> stable d (snd kv))"

lemma member_ok_emit:
  "list_all P (emit_str k s) = P (k, JStr (to_valid_utf8 s))"
  "list_all P (omit_str k s) = (s = '''' \<or> P (k, JStr (to_valid_utf8 s)))"
  "list_all P (omit_bool k b) = (b \<longrightarrow> P (k, JBool True))"
  "list_all P (omit_items k xs) = (xs = [] \<or> P (k, JArr (map enc_PaymentItem xs)))"
  by (auto simp: emit_str_def omit_str_def omit_bool_def omit_items_def)

lemma subseq_emit:
  "subseq (map fst kvs) ks \<Longrightarrow> subseq (map fst (emit_str k s @ kvs)) (k # ks)"
  "subseq (map fst kvs) ks \<Longrightarrow> subseq (map fst (omit_str k s @ kvs)) (k # ks)"
  "subseq (map fst kvs) ks \<Longrightarrow> subseq (map fst (omit_bool k b @ kvs)) (k # ks)"
  "subseq (map fst kvs) ks \<Longrightarrow> subseq (map fst (omit_items k xs @ kvs)) (k # ks)"
  "subseq (map fst (emit_str k s)) [k]" "subseq (map fst (omit_str k s)) [k]" "subseq (map fst (omit_bool k b)) [k]"
  by (auto simp: emit_str_def omit_str_def omit_bool_def omit_items_def)

lemma stable_structI:
  "independent T \<Longrightarrow> subseq (map fst kvs) (map fst T) \<Longrightarrow> list_all (member_ok T) kvs \<Longrightarrow> stable (dec_struct T) (JObj kvs)"
  by (rule stable_struct) (auto simp: list_all_iff member_ok_def)

lemmas member_ok_eval = member_ok_emit list_all_append member_ok_def stable_leaf

lemma stable_AmountMoney: "stable (dec_struct tab_AmountMoney) (enc_AmountMoney r)"
  unfolding enc_AmountMoney_def
  by (rule stable_structI [OF independent_simps(1)])
    (simp_all add: tab_AmountMoney_def subseq_emit member_ok_eval del: map_append)

lemma stable_leaf_structs:
  "stable (dec_struct tab_PaymentItem) (enc_PaymentItem it)"
  "stable (dec_struct tab_DigitalRubleData) (enc_DigitalRubleData rd)"
  "stable (dec_struct tab_CustomerData) (enc_CustomerData cd)"
  "stable (dec_struct tab_GatewayError) (enc_GatewayError ge)"
  "stable (dec_struct tab_PaymentMethodData) (enc_PaymentMethodData pm)"
  unfolding enc_PaymentItem_def enc_DigitalRubleData_def enc_CustomerData_def enc_GatewayError_def
    enc_PaymentMethodData_def
  by (rule stable_structI [OF independent_simps(2)],
      simp_all add: tab_PaymentItem_def subseq_emit member_ok_eval del: map_append)
    (rule stable_structI [OF independent_simps(3)],
      simp_all add: tab_DigitalRubleData_def subseq_emit member_ok_eval del: map_append,
     rule stable_structI [OF independent_simps(4)],
      simp_all add: tab_CustomerData_def subseq_emit member_ok_eval del: map_append,
     rule stable_structI [OF independent_simps(5)],
      simp_all add: tab_GatewayError_def subseq_emit member_ok_eval del: map_append,
     rule stable_structI [OF independent_PaymentMethodData],
      simp_all add: tab_PaymentMethodData_def subseq_emit member_ok_eval del: map_append)

lemma stable_TransactionDetails: "stable (dec_struct tab_TransactionDetails) (enc_TransactionDetails r)"
  unfolding enc_TransactionDetails_def
  by (rule stable_structI [OF independent_TransactionDetails])
    (simp_all add: tab_TransactionDetails_def subseq_emit member_ok_eval del: map_append)

lemma stable_sub: "stable (dec_struct T) j \<Longrightarrow> stable (dec_sub get upd T) j"
  by (simp add: stable_def dec_sub_def)

lemma stable_items: "stable (dec_items upd) (JArr (map enc_PaymentItem xs))"
proof -
  have "dec_item_list (map go_any (map enc_PaymentItem xs)) = dec_item_list (map enc_PaymentItem xs)"
    using stable_leaf_structs(1) by (induction xs) (simp_all add: stable_def split: option.split)
  then show ?thesis by (simp add: stable_def dec_items_def go_any_list_map)
qed

lemma stable_error: "stable (dec_error get upd) (case x of None \<Rightarrow> JNull | Some e \<Rightarrow> enc_GatewayError e)"
proof (cases x)
  case (Some e)
  obtain b where b: "enc_GatewayError e = JObj b" by (simp add: enc_GatewayError_def)
  show ?thesis
    using stable_leaf_structs(4) [of e] by (simp add: Some stable_def dec_error_def b Let_def)
qed (simp add: stable_def dec_error_def)

lemma stable_PaymentInfoResponse: "stable (dec_struct tab_PaymentInfoResponse) (enc_PaymentInfoResponse r)"
  unfolding enc_PaymentInfoResponse_def
  by (rule stable_structI [OF independent_simps(6)])
    (simp_all add: tab_PaymentInfoResponse_def subseq_emit member_ok_eval stable_items
      stable_sub stable_AmountMoney stable_leaf_structs del: map_append)

lemma stable_PaymentResponse: "stable (dec_struct tab_PaymentResponse) (enc_PaymentResponse r)"
  unfolding enc_PaymentResponse_def
  by (rule stable_structI [OF independent_simps(7)])
    (simp_all add: tab_PaymentResponse_def subseq_emit member_ok_eval stable_error
      stable_sub stable_PaymentInfoResponse stable_TransactionDetails del: map_append)

text \<open>A marshalled response that went through a map is still that response.\<close>

lemma unmarshal_go_any:
  assumes "utf8_PaymentResponse r"
  shows "UnmarshalResponse (JDoc (go_any (enc_PaymentResponse r))) = Some r"
  using stable_PaymentResponse [of r] dec_PaymentResponse [OF assms]
  by (simp add: UnmarshalResponse_def stable_def)

lemma go_any_ok:
  "json_ok j \<Longrightarrow> json_ok (go_any j)" "json_oks js \<Longrightarrow> json_oks (go_any_list js)"
  "json_okm kvs \<Longrightarrow> json_okm (go_any_members kvs)"
proof (induction j and js and kvs rule: go_any_go_any_list_go_any_members.induct)
  case (1 kvs)
  then have "json_okm (go_any_members kvs)" by simp
  then show ?case using last_members_subset [of "go_any_members kvs"]
    by (auto simp: json_okm_set)
qed auto

end
