(* ===== verification/Postgres_Store.thy ===== *)
theory Postgres_Store
  imports Reports Refunds Json_Any
begin

section \<open>The Postgres transaction store (\<open>storage/postgres_store.go\<close>, \<open>storage/reporting.go\<close>)\<close>

text \<open>
  The store behind the contracts \<open>TransactionStore\<close>, \<open>RefundStore\<close> and \<open>ReportStore\<close> that is used
  in production. Its two tables are lists of rows; every method runs one statement, which is one
  step: it takes effect or fails as a whole. What belongs to the database is a parameter
  (\<open>pg_env\<close>):

  \<^item> \<open>pe_fail\<close>: the error of a statement with these arguments in this state (a lost connection,
    a text the encoding does not admit);
  \<^item> \<open>pe_jsonb\<close>: what a \<open>JSONB\<close> column keeps of a document, or why it rejects it. The law that
    the properties use is \<open>jsonb_keeps\<close>: read into a map, it is the document;
  \<^item> \<open>pe_numeric\<close>: what a \<open>NUMERIC(18,2)\<close> column keeps of a float;
  \<^item> \<open>pe_scan\<close>, \<open>pe_scan_refunds\<close>: the order in which the rows are visited, so that rows with
    equal times may come in any order;
  \<^item> \<open>pe_upper\<close>, \<open>pe_text\<close>: the functions \<open>UPPER\<close> and \<open>->>\<close> (for values that are no strings),
    \<open>pe_clock\<close> the readings of \<open>NOW()\<close>.
  A \<open>TIMESTAMPTZ\<close> keeps microseconds. The constraints \<open>UNIQUE\<close> of the schema are written out:
  \<open>ON CONFLICT\<close> updates the row with the key it names, and an insert or update that would
  repeat another unique key is an error.
\<close>

record payment_tx =
  Ptx_MerchantID :: gostring
  Ptx_PaymentID :: gostring
  Ptx_IdempotencyKey :: gostring
  Ptx_Status :: gostring
  Ptx_Payload :: json
  Ptx_UpdatedAt :: gotime
  Ptx_CreatedAt :: gotime

record pg_state =
  pg_transactions :: "payment_tx list"
  pg_refunds :: "Refund list"
  pg_tick :: nat

datatype pg_statement = InsertTransaction | SelectByKey | SelectByPayment
  | InsertRefund | SelectRefundByID | SelectRefundByKey | SelectRefunds | SelectReport

record pg_env =
  pe_fail :: "pg_statement \<Rightarrow> gostring list \<Rightarrow> pg_state \<Rightarrow> goerror option"
  pe_jsonb :: "json \<Rightarrow> json result"
  pe_numeric :: "f64 \<Rightarrow> f64 result"
  pe_scan :: "payment_tx list \<Rightarrow> payment_tx list"
  pe_scan_refunds :: "Refund list \<Rightarrow> Refund list"
  pe_upper :: "gostring \<Rightarrow> gostring"
  pe_text :: "json \<Rightarrow> gostring"
  pe_clock :: "nat \<Rightarrow> gotime"

definition jsonb_keeps :: "pg_env \<Rightarrow> bool" where
  "jsonb_keeps E = (\<forall>d d'. pe_jsonb E d = Inr d' \<longrightarrow> go_any d' = go_any d)"

definition pg_time :: "gotime \<Rightarrow> gotime" where
  "pg_time t = t div 1000 * 1000"

subsection \<open>Transactions\<close>

definition pg_payload :: "jtext \<Rightarrow> json result" where
  "pg_payload payloadJSON = (if payloadJSON = JRaw '''' then Inr (JObj [])
     else (case SanitizePaymentPayloadJSON payloadJSON of
       JRaw _ \<Rightarrow> Inl ''invalid character in JSON'' | JDoc d \<Rightarrow> Inr d))"

text \<open>\<open>ON CONFLICT ... DO UPDATE\<close>: \<open>same\<close> are the rows with the key of \<open>row\<close>, \<open>change\<close> updates one.\<close>

definition upsert :: "('a \<Rightarrow> bool) \<Rightarrow> ('a \<Rightarrow> 'a) \<Rightarrow> 'a \<Rightarrow> 'a list \<Rightarrow> 'a list" where
  "upsert same change row rows = (if list_ex same rows
     then map (\<lambda>old. if same old then change old else old) rows else rows @ [row])"

definition same_tx :: "payment_tx \<Rightarrow> payment_tx \<Rightarrow> bool" where
  "same_tx row old = (Ptx_MerchantID old = Ptx_MerchantID row
     \<and> Ptx_IdempotencyKey old = Ptx_IdempotencyKey row)"

definition upsert_tx :: "payment_tx \<Rightarrow> payment_tx list \<Rightarrow> payment_tx list" where
  "upsert_tx row = upsert (same_tx row) (\<lambda>old. row\<lparr>Ptx_CreatedAt := Ptx_CreatedAt old\<rparr>) row"

definition pg_Save :: "pg_env \<Rightarrow> gostring \<Rightarrow> gostring \<Rightarrow> gostring \<Rightarrow> gostring \<Rightarrow> jtext \<Rightarrow> gotime \<Rightarrow> pg_state \<Rightarrow>
    goerror option \<times> pg_state" where
  "pg_Save E merchantID paymentID idempotencyKey status payloadJSON updatedAt s =
     (if merchantID = '''' \<or> idempotencyKey = ''''
      then (Some ''merchantID and idempotencyKey are required'', s)
      else (case pg_payload payloadJSON of
        Inl err \<Rightarrow> (Some err, s)
      | Inr d \<Rightarrow> (case pe_jsonb E d of
          Inl err \<Rightarrow> (Some err, s)
        | Inr payload \<Rightarrow>
            (case pe_fail E InsertTransaction [merchantID, paymentID, idempotencyKey, status] s of
               Some err \<Rightarrow> (Some err, s)
             | None \<Rightarrow> (None, s\<lparr>pg_transactions := upsert_tx \<lparr>Ptx_MerchantID = merchantID,
                 Ptx_PaymentID = paymentID, Ptx_IdempotencyKey = idempotencyKey, Ptx_Status = status,
                 Ptx_Payload = payload, Ptx_UpdatedAt = pg_time updatedAt,
                 Ptx_CreatedAt = pg_time (pe_clock E (pg_tick s))\<rparr> (pg_transactions s),
                 pg_tick := Suc (pg_tick s)\<rparr>)))))"

text \<open>A row scanned into a status and a \<open>map[string]any\<close>, which is marshalled again.\<close>

definition scan_tx :: "payment_tx option \<Rightarrow> (gostring \<times> jtext) option result" where
  "scan_tx row = (case row of
     None \<Rightarrow> Inr None
   | Some x \<Rightarrow> (case Ptx_Payload x of
       JNull \<Rightarrow> Inr (Some (Ptx_Status x, JDoc JNull))
     | JObj kvs \<Rightarrow> (case Marshal (go_any (JObj kvs)) of
         Inl err \<Rightarrow> Inl err | Inr b \<Rightarrow> Inr (Some (Ptx_Status x, b)))
     | _ \<Rightarrow> Inl ''can't scan into dest[1]: json: cannot unmarshal into Go value of type map[string]interface {}''))"

definition pg_GetByIdempotencyKey :: "pg_env \<Rightarrow> gostring \<Rightarrow> gostring \<Rightarrow> pg_state \<Rightarrow>
    (gostring \<times> jtext) option result" where
  "pg_GetByIdempotencyKey E merchantID idempotencyKey s =
     (if merchantID = '''' \<or> idempotencyKey = '''' then Inl ''merchantID and idempotencyKey are required''
      else (case pe_fail E SelectByKey [merchantID, idempotencyKey] s of
        Some err \<Rightarrow> Inl err
      | None \<Rightarrow> scan_tx (List.find (\<lambda>x. Ptx_MerchantID x = merchantID \<and> Ptx_IdempotencyKey x = idempotencyKey)
          (pg_transactions s))))"

definition first_row :: "'a list \<Rightarrow> 'a option" where
  "first_row rows = (case rows of [] \<Rightarrow> None | x # _ \<Rightarrow> Some x)"

definition pg_GetByPaymentID :: "pg_env \<Rightarrow> gostring \<Rightarrow> gostring \<Rightarrow> pg_state \<Rightarrow> (gostring \<times> jtext) option result" where
  "pg_GetByPaymentID E merchantID paymentID s =
     (if merchantID = '''' \<or> paymentID = '''' then Inl ''merchantID and paymentID are required''
      else (case pe_fail E SelectByPayment [merchantID, paymentID] s of
        Some err \<Rightarrow> Inl err
      | None \<Rightarrow> scan_tx (first_row (sort_key (\<lambda>x. - Ptx_UpdatedAt x)
          (filter (\<lambda>x. Ptx_MerchantID x = merchantID \<and> Ptx_PaymentID x = paymentID)
            (pe_scan E (pg_transactions s)))))))"

definition pg_ops :: "pg_env \<Rightarrow> pg_state store_ops" where
  "pg_ops E = \<lparr>op_Save = pg_Save E, op_GetByIdempotencyKey = pg_GetByIdempotencyKey E,
     op_GetByPaymentID = pg_GetByPaymentID E\<rparr>"

subsection \<open>Refunds\<close>

definition refund_row :: "Refund \<Rightarrow> f64 \<Rightarrow> Refund" where
  "refund_row refund amount = refund\<lparr>Refund_Amount := amount, Refund_CreatedAt := pg_time (Refund_CreatedAt refund),
     Refund_UpdatedAt := pg_time (Refund_UpdatedAt refund)\<rparr>"

definition same_refund :: "Refund \<Rightarrow> Refund \<Rightarrow> bool" where
  "same_refund row old = (Refund_MerchantID old = Refund_MerchantID row \<and> Refund_ID old = Refund_ID row)"

definition key_taken :: "Refund \<Rightarrow> Refund list \<Rightarrow> bool" where
  "key_taken row rows = list_ex (\<lambda>old. \<not> same_refund row old \<and> Refund_MerchantID old = Refund_MerchantID row
     \<and> Refund_IdempotencyKey old = Refund_IdempotencyKey row) rows"

definition upsert_refund :: "Refund \<Rightarrow> Refund list \<Rightarrow> Refund list" where
  "upsert_refund row = upsert (same_refund row) (\<lambda>old. row\<lparr>Refund_CreatedAt := Refund_CreatedAt old\<rparr>) row"

definition pg_SaveRefund :: "pg_env \<Rightarrow> Refund \<Rightarrow> pg_state \<Rightarrow> goerror option \<times> pg_state" where
  "pg_SaveRefund E refund s =
     (if Refund_MerchantID refund = '''' \<or> Refund_ID refund = '''' \<or> Refund_PaymentID refund = ''''
        \<or> Refund_IdempotencyKey refund = ''''
      then (Some ''merchantID, refundID, paymentID and idempotencyKey are required'', s)
      else (let refund = refund\<lparr>Refund_Status := NormalizeRefundStatus (Refund_Status refund)\<rparr> in
        case pe_numeric E (Refund_Amount refund) of
          Inl err \<Rightarrow> (Some err, s)
        | Inr amount \<Rightarrow>
            (case pe_fail E InsertRefund [Refund_MerchantID refund, Refund_ID refund] s of
               Some err \<Rightarrow> (Some err, s)
             | None \<Rightarrow>
                 if key_taken refund (pg_refunds s)
                 then (Some ''duplicate key value violates unique constraint'', s)
                 else (None, s\<lparr>pg_refunds := upsert_refund (refund_row refund amount) (pg_refunds s)\<rparr>))))"

definition scanRefund :: "Refund \<Rightarrow> Refund" where
  "scanRefund row = row\<lparr>Refund_Status := NormalizeRefundStatus (Refund_Status row)\<rparr>"

definition getRefund :: "pg_env \<Rightarrow> pg_statement \<Rightarrow> gostring list \<Rightarrow> (Refund \<Rightarrow> bool) \<Rightarrow> pg_state \<Rightarrow>
    Refund option result" where
  "getRefund E stmt args P s = (case pe_fail E stmt args s of
     Some err \<Rightarrow> Inl err | None \<Rightarrow> Inr (map_option scanRefund (List.find P (pg_refunds s))))"

definition pg_GetRefundByID :: "pg_env \<Rightarrow> gostring \<Rightarrow> gostring \<Rightarrow> pg_state \<Rightarrow> Refund option result" where
  "pg_GetRefundByID E merchantID refundID s =
     (if merchantID = '''' \<or> refundID = '''' then Inl ''merchantID and refundID are required''
      else getRefund E SelectRefundByID [merchantID, refundID]
        (\<lambda>r. Refund_MerchantID r = merchantID \<and> Refund_ID r = refundID) s)"

definition pg_GetRefundByIdempotencyKey :: "pg_env \<Rightarrow> gostring \<Rightarrow> gostring \<Rightarrow> pg_state \<Rightarrow> Refund option result" where
  "pg_GetRefundByIdempotencyKey E merchantID idempotencyKey s =
     (if merchantID = '''' \<or> idempotencyKey = '''' then Inl ''merchantID and idempotencyKey are required''
      else getRefund E SelectRefundByKey [merchantID, idempotencyKey]
        (\<lambda>r. Refund_MerchantID r = merchantID \<and> Refund_IdempotencyKey r = idempotencyKey) s)"

definition pg_ListRefundsByPaymentID :: "pg_env \<Rightarrow> gostring \<Rightarrow> gostring \<Rightarrow> pg_state \<Rightarrow> Refund list result" where
  "pg_ListRefundsByPaymentID E merchantID paymentID s =
     (if merchantID = '''' then Inl ''merchantID is required''
      else (case pe_fail E SelectRefunds [merchantID, paymentID] s of
        Some err \<Rightarrow> Inl err
      | None \<Rightarrow> Inr (map scanRefund (sort_key (\<lambda>r. - Refund_CreatedAt r)
          (filter (\<lambda>r. Refund_MerchantID r = merchantID \<and> (paymentID = '''' \<or> Refund_PaymentID r = paymentID))
            (pe_scan_refunds E (pg_refunds s)))))))"

definition pg_refund_ops :: "pg_env \<Rightarrow> pg_state refund_ops" where
  "pg_refund_ops E = \<lparr>op_SaveRefund = pg_SaveRefund E, op_GetRefundByID = pg_GetRefundByID E,
     op_GetRefundByIdempotencyKey = pg_GetRefundByIdempotencyKey E,
     op_ListRefundsByPaymentID = pg_ListRefundsByPaymentID E\<rparr>"

subsection \<open>The report query\<close>

definition json_member :: "gostring \<Rightarrow> json option \<Rightarrow> json option" where
  "json_member k j = (case j of Some (JObj kvs) \<Rightarrow> map_of kvs k | _ \<Rightarrow> None)"

text \<open>\<open>COALESCE(j->>k, '')\<close>\<close>

definition json_text :: "pg_env \<Rightarrow> gostring \<Rightarrow> json option \<Rightarrow> gostring" where
  "json_text E k j = (case json_member k j of
     None \<Rightarrow> '''' | Some JNull \<Rightarrow> '''' | Some (JStr v) \<Rightarrow> v
   | Some (JTime t) \<Rightarrow> FormatRFC3339Nano t | Some v \<Rightarrow> pe_text E v)"

definition report_row :: "pg_env \<Rightarrow> TransactionReportFilter \<Rightarrow> payment_tx \<Rightarrow> bool" where
  "report_row E f x = (Ptx_MerchantID x = Flt_MerchantID f
     \<and> (case Flt_DateFrom f of None \<Rightarrow> True | Some t \<Rightarrow> pg_time t \<le> Ptx_CreatedAt x)
     \<and> (case Flt_DateTo f of None \<Rightarrow> True | Some t \<Rightarrow> Ptx_CreatedAt x \<le> pg_time t)
     \<and> (Flt_Status f \<noteq> '''' \<longrightarrow> pe_upper E (Ptx_Status x) = pe_upper E (Flt_Status f))
     \<and> (Flt_PaymentSystem f \<noteq> '''' \<longrightarrow>
          pe_upper E (json_text E ''payment_system'' (json_member ''transaction_details'' (Some (Ptx_Payload x))))
            = pe_upper E (Flt_PaymentSystem f))
     \<and> (Flt_PaymentMethod f \<noteq> '''' \<longrightarrow> json_text E ''type'' (json_member ''payment_method_data''
          (json_member ''payment_info'' (Some (Ptx_Payload x)))) = Flt_PaymentMethod f))"

definition scan_report_row :: "payment_tx \<Rightarrow> storedReportTx" where
  "scan_report_row x = \<lparr>Rt_MerchantID = Ptx_MerchantID x, Rt_PaymentID = Ptx_PaymentID x,
     Rt_IdempotencyKey = Ptx_IdempotencyKey x, Rt_Status = Ptx_Status x, Rt_PayloadJSON = JDoc (Ptx_Payload x),
     Rt_CreatedAt = Ptx_CreatedAt x, Rt_UpdatedAt = Ptx_UpdatedAt x\<rparr>"

definition pg_BuildTransactionReport :: "pg_env \<Rightarrow> pg_state report_store" where
  "pg_BuildTransactionReport E f generatedAt s =
     (let f = normalizeTransactionReportFilter f in
      if Flt_MerchantID f = '''' then Inl ''merchant_id is required''
      else (case pe_fail E SelectReport [Flt_MerchantID f, Flt_Status f, Flt_PaymentSystem f, Flt_PaymentMethod f] s of
        Some err \<Rightarrow> Inl err
      | None \<Rightarrow> Inr (buildTransactionReport f (map scan_report_row (take (nat (Flt_Limit f))
          (sort_key (\<lambda>x. - Ptx_CreatedAt x) (filter (report_row E f) (pe_scan E (pg_transactions s)))))) generatedAt)))"

subsection \<open>Rows and keys\<close>

lemma pg_ops_simps [simp]:
  "op_Save (pg_ops E) = pg_Save E" "op_GetByIdempotencyKey (pg_ops E) = pg_GetByIdempotencyKey E"
  "op_GetByPaymentID (pg_ops E) = pg_GetByPaymentID E"
  by (simp_all add: pg_ops_def)

text \<open>Finding a row by a key after an update in place.\<close>

lemma find_append_one: "List.find Q (xs @ [x]) = (case List.find Q xs of None \<Rightarrow> if Q x then Some x else None | Some y \<Rightarrow> Some y)"
  by (induction xs) auto

lemma find_map_same:
  assumes "\<And>x. same x \<Longrightarrow> Q (change x)" "\<And>x. Q x \<Longrightarrow> same x"
  shows "list_ex same xs \<Longrightarrow>
    \<exists>x\<in>set xs. same x \<and> List.find Q (map (\<lambda>x. if same x then change x else x) xs) = Some (change x)"
proof (induction xs)
  case (Cons x xs)
  show ?case
  proof (cases "same x")
    case True
    with assms(1) show ?thesis by auto
  next
    case False
    with Cons obtain y where "y \<in> set xs" "same y"
      "List.find Q (map (\<lambda>x. if same x then change x else x) xs) = Some (change y)" by auto
    moreover have "\<not> Q x" using False assms(2) by blast
    ultimately show ?thesis using False by auto
  qed
qed simp

lemma find_upsert_same:
  assumes "\<And>x. same x \<Longrightarrow> Q (change x)" "\<And>x. Q x \<Longrightarrow> same x" "Q row"
  shows "\<exists>y. List.find Q (upsert same change row rows) = Some y \<and> (y = row \<or> (\<exists>x\<in>set rows. same x \<and> y = change x))"
proof (cases "list_ex same rows")
  case True
  with find_map_same [of same Q change rows, OF assms(1,2) True] show ?thesis by (auto simp: upsert_def)
next
  case False
  then have "List.find Q rows = None" using assms(2) by (auto simp: find_None_iff list_ex_iff)
  with False assms(3) show ?thesis by (simp add: upsert_def find_append_one)
qed

lemma find_upsert_other:
  assumes "\<And>x. same x \<Longrightarrow> \<not> Q (change x) \<and> \<not> Q x" "\<not> Q row"
  shows "List.find Q (upsert same change row rows) = List.find Q rows"
proof -
  have "List.find Q (map (\<lambda>x. if same x then change x else x) rows) = List.find Q rows"
    using assms(1) by (induction rows) auto
  with assms(2) show ?thesis by (simp add: upsert_def find_append_one split: option.split)
qed

abbreviation tx_key :: "gostring \<Rightarrow> gostring \<Rightarrow> payment_tx \<Rightarrow> bool" where
  "tx_key m k \<equiv> \<lambda>x. Ptx_MerchantID x = m \<and> Ptx_IdempotencyKey x = k"

lemma find_upsert_tx:
  "\<exists>c. List.find (tx_key (Ptx_MerchantID row) (Ptx_IdempotencyKey row)) (upsert_tx row rows)
    = Some (row\<lparr>Ptx_CreatedAt := c\<rparr>)"
proof -
  obtain y where y: "List.find (tx_key (Ptx_MerchantID row) (Ptx_IdempotencyKey row)) (upsert_tx row rows) = Some y"
    "y = row \<or> (\<exists>x\<in>set rows. same_tx row x \<and> y = row\<lparr>Ptx_CreatedAt := Ptx_CreatedAt x\<rparr>)"
    unfolding upsert_tx_def
    using find_upsert_same [of "same_tx row" "tx_key (Ptx_MerchantID row) (Ptx_IdempotencyKey row)"
        "\<lambda>old. row\<lparr>Ptx_CreatedAt := Ptx_CreatedAt old\<rparr>" row rows] by (auto simp: same_tx_def)
  have "row = row\<lparr>Ptx_CreatedAt := Ptx_CreatedAt row\<rparr>" by simp
  with y show ?thesis by metis
qed

lemma find_upsert_tx_other:
  "(m, k) \<noteq> (Ptx_MerchantID row, Ptx_IdempotencyKey row) \<Longrightarrow>
    List.find (tx_key m k) (upsert_tx row rows) = List.find (tx_key m k) rows"
  unfolding upsert_tx_def by (rule find_upsert_other) (auto simp: same_tx_def)

lemma pg_Save_cases:
  assumes "pg_Save E m p k st pay t s = (e, s')"
  obtains (failed) err where "e = Some err" "s' = s"
  | (saved) d payload row where "e = None" "pg_payload pay = Inr d" "pe_jsonb E d = Inr payload"
      "Ptx_MerchantID row = m" "Ptx_PaymentID row = p" "Ptx_IdempotencyKey row = k" "Ptx_Status row = st"
      "Ptx_Payload row = payload" "pg_transactions s' = upsert_tx row (pg_transactions s)"
      "pg_refunds s' = pg_refunds s"
proof (cases e)
  case None
  with assms obtain d payload where d: "pg_payload pay = Inr d" "pe_jsonb E d = Inr payload"
    by (auto simp: pg_Save_def split: if_splits sum.splits)
  let ?row = "\<lparr>Ptx_MerchantID = m, Ptx_PaymentID = p, Ptx_IdempotencyKey = k, Ptx_Status = st,
    Ptx_Payload = payload, Ptx_UpdatedAt = pg_time t, Ptx_CreatedAt = pg_time (pe_clock E (pg_tick s))\<rparr>"
  show thesis
    by (rule saved [OF None d, of ?row])
      (use assms d None in \<open>auto simp: pg_Save_def split: if_splits option.splits\<close>)
next
  case (Some err)
  with assms show thesis
    by (intro failed [OF Some]) (auto simp: pg_Save_def split: if_splits sum.splits option.splits)
qed

lemma scan_tx_object:
  assumes "go_any p = go_any (JObj kvs)" "Ptx_Payload x = p" "json_ok (JObj kvs)"
  shows "scan_tx (Some x) = Inr (Some (Ptx_Status x, JDoc (go_any (JObj kvs))))"
proof -
  from assms(1) obtain kvs' where p: "p = JObj kvs'" by (cases p) auto
  have "json_ok (go_any p)" unfolding assms(1) by (rule go_any_ok(1) [OF assms(3)])
  then show ?thesis using assms(1,2) by (simp add: scan_tx_def p Marshal_def)
qed

text \<open>A stored response is found again, and decodes to itself.\<close>

lemma pg_saved_response:
  assumes "jsonb_keeps E" "pg_Save E m p k st (JDoc (enc_PaymentResponse r)) t s = (None, s')"
    and "Sanitized r = r" "json_ok (enc_PaymentResponse r)" "utf8_PaymentResponse r" "Resp_ID r \<noteq> ''''"
  shows "\<exists>x. List.find (tx_key m k) (pg_transactions s') = Some x
    \<and> scan_tx (Some x) = Inr (Some (st, JDoc (go_any (enc_PaymentResponse r))))"
  using assms(2)
proof (cases rule: pg_Save_cases)
  case (saved d payload row)
  then have d: "d = enc_PaymentResponse r"
    using stored_payload(1) [OF assms(3-6)] by (simp add: pg_payload_def)
  obtain kvs where kvs: "enc_PaymentResponse r = JObj kvs" by (simp add: enc_PaymentResponse_def)
  obtain c where "List.find (tx_key m k) (pg_transactions s') = Some (row\<lparr>Ptx_CreatedAt := c\<rparr>)"
    using find_upsert_tx [of row "pg_transactions s"] saved by auto
  moreover have "scan_tx (Some (row\<lparr>Ptx_CreatedAt := c\<rparr>)) = Inr (Some (st, JDoc (go_any (enc_PaymentResponse r))))"
    using scan_tx_object [of payload kvs "row\<lparr>Ptx_CreatedAt := c\<rparr>"] assms(1,4) saved(3,7,8) d
    by (simp add: jsonb_keeps_def kvs)
  ultimately show ?thesis by blast
qed simp

lemma pg_response_store: "jsonb_keeps E \<Longrightarrow> response_store (pg_ops E)"
proof unfold_locales
  fix m p k st r t s s' x
  assume "jsonb_keeps E" and save: "op_Save (pg_ops E) m p k st (JDoc (enc_PaymentResponse r)) t s = (None, s')"
    and r: "Sanitized r = r" "json_ok (enc_PaymentResponse r)" "utf8_PaymentResponse r" "Resp_ID r \<noteq> ''''"
    and get: "op_GetByIdempotencyKey (pg_ops E) m k s' = Inr x"
  then obtain y where "List.find (tx_key m k) (pg_transactions s') = Some y"
    "scan_tx (Some y) = Inr (Some (st, JDoc (go_any (enc_PaymentResponse r))))"
    using pg_saved_response [of E m p k st r t s s'] by auto
  with get have "x = Some (st, JDoc (go_any (enc_PaymentResponse r)))"
    by (auto simp: pg_GetByIdempotencyKey_def split: if_splits option.splits)
  then show "\<exists>j. x = Some (st, JDoc j) \<and> UnmarshalResponse (JDoc j) = Some r"
    using unmarshal_go_any [OF r(3)] by blast
qed

definition pg_save_step :: "pg_env \<Rightarrow> pg_state \<Rightarrow>
    gostring \<times> gostring \<times> gostring \<times> gostring \<times> jtext \<times> gotime \<Rightarrow> pg_state" where
  "pg_save_step E s x = (case x of (m, p, k, st, pay, t) \<Rightarrow> snd (pg_Save E m p k st pay t s))"

lemma pg_saves_frame:
  assumes "list_all (\<lambda>(m', p, k', st, pay, t). (m, k) \<noteq> (m', k')) xs"
  shows "List.find (tx_key m k) (pg_transactions (foldl (pg_save_step E) s xs))
    = List.find (tx_key m k) (pg_transactions s)"
  using assms
proof (induction xs arbitrary: s)
  case (Cons x xs)
  obtain m' p k' st pay t where x: "x = (m', p, k', st, pay, t)" by (cases x)
  obtain e s' where s': "pg_Save E m' p k' st pay t s = (e, s')" by fastforce
  have "List.find (tx_key m k) (pg_transactions s') = List.find (tx_key m k) (pg_transactions s)"
    using s'
  proof (cases rule: pg_Save_cases)
    case (saved d payload row)
    have "(m, k) \<noteq> (Ptx_MerchantID row, Ptx_IdempotencyKey row)"
      using Cons.prems x saved(4,6) by auto
    then show ?thesis unfolding saved(9) by (rule find_upsert_tx_other)
  qed simp
  with Cons show ?case by (simp add: x s' pg_save_step_def)
qed simp

lemma pg_Save_response_ok:
  assumes "pg_Save E m p k st (JDoc (enc_PaymentResponse r)) t s = (e, s')" "m \<noteq> ''''" "k \<noteq> ''''"
    and "Sanitized r = r" "json_ok (enc_PaymentResponse r)" "utf8_PaymentResponse r" "Resp_ID r \<noteq> ''''"
    and "pe_jsonb E (enc_PaymentResponse r) = Inr d" "\<And>stmt args s. pe_fail E stmt args s = None"
  shows "e = None"
  using assms stored_payload(1) [OF assms(4-7)] by (auto simp: pg_Save_def pg_payload_def)

subsection \<open>Properties\<close>

text \<open>
  C14: Idempotency on Postgres. Suppose the database answers and its JSONB column keeps the
  documents it accepts. After a new payment whose identifiers are not padded, and after any
  number of saves under other keys, by this or other merchants, a further call with the
  merchant and the idempotency key answers the same response, although the document comes back
  re-ordered, and does nothing else but log it.
\<close>

theorem CreatePayment_idempotent_postgres:
  assumes "jsonb_keeps E" and "\<And>stmt args s. pe_fail E stmt args s = None"
    and "new_payment (pg_ops E) req w" and "CreatePayment (pg_ops E) e req w = ((resp, err), w')"
    and "TrimSpace (Req_MerchantID req) = Req_MerchantID req"
    and "TrimSpace (Req_IdempotencyKey req) = Req_IdempotencyKey req"
    and "TrimSpace (Req_PaymentID req) = Req_PaymentID req"
    and "utf8_PaymentResponse resp" and "json_ok (enc_PaymentResponse resp)"
    and "pe_jsonb E (enc_PaymentResponse resp) = Inr d"
    and "Req_MerchantID again = Req_MerchantID req" "Req_IdempotencyKey again = Req_IdempotencyKey req"
    and "Req_PaymentID again \<noteq> ''''"
    and "w_store w2 = foldl (pg_save_step E) (w_store w') xs"
    and "list_all (\<lambda>(m, p, k, st, pay, t). (Req_MerchantID req, Req_IdempotencyKey req) \<noteq> (m, k)) xs"
  shows "\<exists>w3. CreatePayment (pg_ops E) e2 again w2 = ((resp, None), w3) \<and> w_store w3 = w_store w2
    \<and> w_calls w3 = w_calls w2 \<and> w_notes w3 = w_notes w2 \<and> w_tokens w3 = w_tokens w2
    \<and> w_status w3 = w_status w2 \<and> w_velocity w3 = w_velocity w2 \<and> w_sessions w3 = w_sessions w2"
proof -
  note ids = assms(3) [unfolded new_payment_def]
  from assms(3,4) obtain q se w1 where q: "answered (pg_ops E) q resp se w1 w'"
    "Req_MerchantID q = Req_MerchantID req" "Req_IdempotencyKey q = Req_IdempotencyKey req"
    "Req_PaymentID q = Req_PaymentID req"
    by (cases rule: new_payment_cases) (auto simp: normalizeRequest_def assms(5-7))
  then have san: "Sanitized resp = resp" "Resp_ID resp \<noteq> ''''"
    using ids by (simp_all add: answered_def)
  obtain t where save: "pg_Save E (Req_MerchantID req) (Req_PaymentID req) (Req_IdempotencyKey req)
      (Resp_CurrentStatus resp) (JDoc (enc_PaymentResponse resp)) t (w_store w1) = (se, w_store w')"
    using q by (auto simp: answered_def marshalled [OF san(1) assms(9)])
  have se: "se = None"
    by (rule pg_Save_response_ok [OF save _ _ san(1) assms(9,8) san(2) assms(10,2)]) (use ids in auto)
  have found: "pg_GetByIdempotencyKey E (Req_MerchantID req) (Req_IdempotencyKey req) s
      = scan_tx (List.find (tx_key (Req_MerchantID req) (Req_IdempotencyKey req)) (pg_transactions s))" for s
    using ids assms(2) by (simp add: pg_GetByIdempotencyKey_def)
  have "pg_GetByIdempotencyKey E (Req_MerchantID req) (Req_IdempotencyKey req) (w_store w2)
      = pg_GetByIdempotencyKey E (Req_MerchantID req) (Req_IdempotencyKey req) (w_store w')"
    unfolding found assms(14) pg_saves_frame [OF assms(15)] ..
  moreover have "\<exists>x. pg_GetByIdempotencyKey E (Req_MerchantID req) (Req_IdempotencyKey req) (w_store w') = Inr x"
    using pg_saved_response [OF assms(1) save [unfolded se] san(1) assms(9,8) san(2)] by (auto simp: found)
  ultimately show ?thesis
    using response_store.answered_replay [OF pg_response_store [OF assms(1)], where r = again and e = e2 and ?w2.0 = w2]
      q(1) [unfolded se] q(2-4) ids assms(8,9,11-13) by auto
qed

text \<open>A database that answers every statement and stores documents as they are.\<close>

definition sample_pg :: pg_env where
  "sample_pg = \<lparr>pe_fail = \<lambda>_ _ _. None, pe_jsonb = Inr, pe_numeric = Inr, pe_scan = \<lambda>rows. rows,
     pe_scan_refunds = \<lambda>rows. rows, pe_upper = ToUpper, pe_text = \<lambda>_. '''', pe_clock = \<lambda>_. Date 2026 5 1\<rparr>"

definition empty_pg :: pg_state where
  "empty_pg = \<lparr>pg_transactions = [], pg_refunds = [], pg_tick = 0\<rparr>"

definition pg_world :: "pg_state world" where
  "pg_world = \<lparr>w_tick = 0, w_store = empty_pg, w_status = Map.empty,
     w_sessions = Map.empty, w_velocity = newVelocityStore, w_tokens = 0, w_log = [], w_calls = [],
     w_notes = [], w_sleeps = []\<rparr>"

theorem CreatePayment_idempotent_postgres_witness:
  "\<exists>w w3. CreatePayment (pg_ops sample_pg) sample_env bare_request w = ((bare_response, None), w3) \<and> w \<noteq> pg_world"
proof -
  have new: "new_payment (pg_ops sample_pg) bare_request pg_world"
    by (simp add: new_payment_def bare_request_def pg_world_def pg_GetByIdempotencyKey_def sample_pg_def empty_pg_def
        scan_tx_def)
  obtain err w' where run: "CreatePayment (pg_ops sample_pg) cancelled_env bare_request pg_world = ((bare_response, err), w')"
    using bare_run_any [OF new] by blast
  have ids: "Req_MerchantID bare_request = ''m''" "Req_IdempotencyKey bare_request = ''k''"
    "Req_PaymentID bare_request = ''p''" by (simp_all add: bare_request_def)
  have trim: "TrimSpace ''m'' = ''m''" "TrimSpace ''k'' = ''k''" "TrimSpace ''p'' = ''p''"
    by (simp_all add: go_eval)
  have pg: "jsonb_keeps sample_pg" "\<And>stmt args s. pe_fail sample_pg stmt args s = None"
    "pe_jsonb sample_pg d = Inr d" for d
    by (simp_all add: jsonb_keeps_def sample_pg_def)
  let ?other = "(''m2'', ''p'', ''k'', StatusFailed, JRaw '''', 7)"
  let ?w = "w'\<lparr>w_store := foldl (pg_save_step sample_pg) (w_store w') [?other]\<rparr>"
  from CreatePayment_idempotent_postgres [OF pg(1,2) new run _ _ _ bare_encodes pg(3),
      where again = bare_request and ?w2.0 = ?w and ?e2.0 = sample_env and xs = "[?other]"]
  obtain w3 where replayed: "CreatePayment (pg_ops sample_pg) sample_env bare_request ?w = ((bare_response, None), w3)"
    by (auto simp: ids trim)
  have "pg_transactions (w_store ?w) \<noteq> []"
    by (auto simp: pg_save_step_def pg_Save_def pg_payload_def sample_pg_def upsert_tx_def upsert_def)
  then have "w_store ?w \<noteq> empty_pg" by (auto simp: empty_pg_def)
  moreover have "w_store pg_world = empty_pg" by (simp add: pg_world_def)
  ultimately have "?w \<noteq> pg_world" by metis
  with replayed show ?thesis by blast
qed

subsection \<open>One refund per key\<close>

definition refund_rows_ok :: "Refund list \<Rightarrow> bool" where
  "refund_rows_ok rows = (distinct (map (\<lambda>r. (Refund_MerchantID r, Refund_ID r)) rows)
     \<and> distinct (map (\<lambda>r. (Refund_MerchantID r, Refund_IdempotencyKey r)) rows))"

abbreviation refund_id :: "gostring \<Rightarrow> gostring \<Rightarrow> Refund \<Rightarrow> bool" where
  "refund_id m i \<equiv> \<lambda>r. Refund_MerchantID r = m \<and> Refund_ID r = i"

abbreviation refund_key :: "gostring \<Rightarrow> gostring \<Rightarrow> Refund \<Rightarrow> bool" where
  "refund_key m k \<equiv> \<lambda>r. Refund_MerchantID r = m \<and> Refund_IdempotencyKey r = k"

lemma distinct_map_update:
  assumes "distinct (map f xs)" "\<And>x y. x \<in> set xs \<Longrightarrow> y \<in> set xs \<Longrightarrow> P x \<Longrightarrow> P y \<Longrightarrow> x = y"
    "\<And>x y. x \<in> set xs \<Longrightarrow> y \<in> set xs \<Longrightarrow> P x \<Longrightarrow> \<not> P y \<Longrightarrow> f (g x) \<noteq> f y"
  shows "distinct (map f (map (\<lambda>x. if P x then g x else x) xs))"
  using assms
proof (induction xs)
  case (Cons x xs)
  have "distinct (map f (map (\<lambda>x. if P x then g x else x) xs))"
    by (rule Cons.IH) (use Cons.prems in auto)
  moreover have "f (if P x then g x else x) \<notin> set (map f (map (\<lambda>x. if P x then g x else x) xs))"
  proof
    assume "f (if P x then g x else x) \<in> set (map f (map (\<lambda>x. if P x then g x else x) xs))"
    then obtain y where y: "y \<in> set xs" "f (if P x then g x else x) = f (if P y then g y else y)" by auto
    have "x \<noteq> y" using Cons.prems(1) y(1) by auto
    then have "\<not> (P x \<and> P y)" using Cons.prems(2) y(1) by auto
    then show False
      using y Cons.prems(1) Cons.prems(3) [of x y] Cons.prems(3) [of y x]
      by (auto split: if_splits)
  qed
  ultimately show ?case by simp
qed simp

lemma upsert_refund_ok:
  assumes "refund_rows_ok rows" "\<not> key_taken row rows"
  shows "refund_rows_ok (upsert_refund row rows)"
proof (cases "list_ex (same_refund row) rows")
  case True
  have one: "x = y" if "x \<in> set rows" "y \<in> set rows" "same_refund row x" "same_refund row y" for x y
    using assms(1) that unfolding refund_rows_ok_def same_refund_def
    by (auto simp: distinct_map inj_on_def)
  show ?thesis
    unfolding refund_rows_ok_def upsert_refund_def upsert_def if_P [OF True]
  proof (intro conjI distinct_map_update one)
    show "distinct (map (\<lambda>r. (Refund_MerchantID r, Refund_ID r)) rows)"
      "distinct (map (\<lambda>r. (Refund_MerchantID r, Refund_IdempotencyKey r)) rows)"
      using assms(1) by (simp_all add: refund_rows_ok_def)
  qed (use assms(2) in \<open>auto simp: same_refund_def key_taken_def list_ex_iff\<close>)
next
  case False
  then show ?thesis
    using assms by (auto simp: refund_rows_ok_def upsert_refund_def upsert_def same_refund_def key_taken_def list_ex_iff)
qed

text \<open>The row a refund is stored as, up to its creation time.\<close>

lemma pg_SaveRefund_cases:
  assumes "pg_SaveRefund E r s = (e, s')"
  obtains (failed) err where "e = Some err" "s' = s"
  | (saved) amount row where "e = None" "pe_numeric E (Refund_Amount r) = Inr amount"
      "row = refund_row (r\<lparr>Refund_Status := NormalizeRefundStatus (Refund_Status r)\<rparr>) amount"
      "\<not> key_taken r (pg_refunds s)" "pg_refunds s' = upsert_refund row (pg_refunds s)"
      "Refund_MerchantID r \<noteq> ''''" "Refund_ID r \<noteq> ''''" "Refund_IdempotencyKey r \<noteq> ''''"
proof (cases e)
  case None
  have taken: "key_taken (r\<lparr>Refund_Status := x\<rparr>) rows = key_taken r rows" for x rows
    by (simp add: key_taken_def same_refund_def)
  from None assms obtain amount where a: "pe_numeric E (Refund_Amount r) = Inr amount"
    by (auto simp: pg_SaveRefund_def Let_def split: if_splits sum.splits)
  show thesis
    by (rule saved [OF None a refl])
      (use assms a None taken in \<open>auto simp: pg_SaveRefund_def Let_def split: if_splits option.splits\<close>)
next
  case (Some err)
  with assms show thesis
    by (intro failed [OF Some]) (auto simp: pg_SaveRefund_def Let_def split: if_splits sum.splits option.splits)
qed

lemma find_upsert_refund:
  assumes "\<not> key_taken row rows"
  shows "\<exists>c. List.find (refund_id (Refund_MerchantID row) (Refund_ID row)) (upsert_refund row rows)
      = Some (row\<lparr>Refund_CreatedAt := c\<rparr>)"
    and "(m, i) \<noteq> (Refund_MerchantID row, Refund_ID row) \<Longrightarrow>
      List.find (refund_id m i) (upsert_refund row rows) = List.find (refund_id m i) rows"
proof -
  obtain y where y: "List.find (refund_id (Refund_MerchantID row) (Refund_ID row)) (upsert_refund row rows) = Some y"
    "y = row \<or> (\<exists>x\<in>set rows. same_refund row x \<and> y = row\<lparr>Refund_CreatedAt := Refund_CreatedAt x\<rparr>)"
    unfolding upsert_refund_def
    using find_upsert_same [of "same_refund row" "refund_id (Refund_MerchantID row) (Refund_ID row)"
        "\<lambda>old. row\<lparr>Refund_CreatedAt := Refund_CreatedAt old\<rparr>" row rows] by (auto simp: same_refund_def)
  have "row = row\<lparr>Refund_CreatedAt := Refund_CreatedAt row\<rparr>" by simp
  with y show "\<exists>c. List.find (refund_id (Refund_MerchantID row) (Refund_ID row)) (upsert_refund row rows)
      = Some (row\<lparr>Refund_CreatedAt := c\<rparr>)" by metis
  show "List.find (refund_id m i) (upsert_refund row rows) = List.find (refund_id m i) rows"
    if "(m, i) \<noteq> (Refund_MerchantID row, Refund_ID row)"
    unfolding upsert_refund_def by (rule find_upsert_other) (use that in \<open>auto simp: same_refund_def\<close>)
qed

text \<open>With the key free elsewhere, the search by key finds the row that the search by identifier finds.\<close>

lemma find_refund_by_key:
  assumes "refund_rows_ok rows" "List.find (refund_id m i) rows = Some x"
  shows "List.find (refund_key m (Refund_IdempotencyKey x)) rows = Some x"
proof -
  have x: "x \<in> set rows" "Refund_MerchantID x = m" using find_Some_set [OF assms(2)] by auto
  then have "List.find (refund_key m (Refund_IdempotencyKey x)) rows \<noteq> None"
    by (auto simp: find_None_iff)
  then obtain y where y: "List.find (refund_key m (Refund_IdempotencyKey x)) rows = Some y" by blast
  then have "y \<in> set rows" "Refund_MerchantID y = m" "Refund_IdempotencyKey y = Refund_IdempotencyKey x"
    using find_Some_set [OF y] by auto
  with x have "y = x"
    using assms(1) by (auto simp: refund_rows_ok_def distinct_map inj_on_def)
  with y show ?thesis by simp
qed

text \<open>What is read back of a refund that was saved with the amount \<open>a\<close> and created at \<open>c\<close>.\<close>

definition stored_refund :: "Refund \<Rightarrow> f64 \<Rightarrow> gotime \<Rightarrow> Refund" where
  "stored_refund r a c = r\<lparr>Refund_Status := NormalizeRefundStatus (Refund_Status r), Refund_Amount := a,
     Refund_CreatedAt := c, Refund_UpdatedAt := pg_time (Refund_UpdatedAt r)\<rparr>"

lemma scanned_refund:
  "scanRefund (refund_row (r\<lparr>Refund_Status := NormalizeRefundStatus (Refund_Status r)\<rparr>) a\<lparr>Refund_CreatedAt := c\<rparr>)
    = stored_refund r a c"
  by (simp add: scanRefund_def refund_row_def stored_refund_def NormalizeRefundStatus_range)

text \<open>
  C39: One refund per key on Postgres. The table never holds two refunds of a merchant with the
  same identifier or the same idempotency key: a save that would give a used key to another
  refund is refused and changes nothing. A save that succeeds is found under the identifier and
  under the key, with the normalised status and the amount the column keeps, and every refund
  with another identifier is found as before.
\<close>

theorem pg_refund_keys:
  assumes "refund_rows_ok (pg_refunds s)" and "pg_SaveRefund E r s = (e, s')"
    and "\<And>stmt args s. stmt \<noteq> InsertRefund \<Longrightarrow> pe_fail E stmt args s = None"
  shows "refund_rows_ok (pg_refunds s')
    \<and> (e \<noteq> None \<longrightarrow> s' = s)
    \<and> ((\<exists>old\<in>set (pg_refunds s). Refund_MerchantID old = Refund_MerchantID r \<and> Refund_ID old \<noteq> Refund_ID r
          \<and> Refund_IdempotencyKey old = Refund_IdempotencyKey r) \<longrightarrow> e \<noteq> None)
    \<and> (e = None \<longrightarrow> (\<exists>amount c. pe_numeric E (Refund_Amount r) = Inr amount
        \<and> pg_GetRefundByID E (Refund_MerchantID r) (Refund_ID r) s' = Inr (Some (stored_refund r amount c))
        \<and> pg_GetRefundByIdempotencyKey E (Refund_MerchantID r) (Refund_IdempotencyKey r) s'
            = Inr (Some (stored_refund r amount c)))
        \<and> (\<forall>m i. (m, i) \<noteq> (Refund_MerchantID r, Refund_ID r) \<longrightarrow>
            pg_GetRefundByID E m i s' = pg_GetRefundByID E m i s))"
  using assms(2)
proof (cases rule: pg_SaveRefund_cases)
  case (saved amount row)
  have ids: "Refund_MerchantID row = Refund_MerchantID r" "Refund_ID row = Refund_ID r"
    "Refund_IdempotencyKey row = Refund_IdempotencyKey r"
    by (simp_all add: saved(3) refund_row_def)
  then have free: "\<not> key_taken row (pg_refunds s)"
    using saved(4) by (simp add: key_taken_def same_refund_def)
  have ok: "refund_rows_ok (pg_refunds s')"
    unfolding saved(5) by (rule upsert_refund_ok [OF assms(1) free])
  obtain c where c: "List.find (refund_id (Refund_MerchantID r) (Refund_ID r)) (pg_refunds s') = Some (row\<lparr>Refund_CreatedAt := c\<rparr>)"
    using find_upsert_refund(1) [OF free] by (auto simp: saved(5) ids)
  have k: "List.find (refund_key (Refund_MerchantID r) (Refund_IdempotencyKey r)) (pg_refunds s') = Some (row\<lparr>Refund_CreatedAt := c\<rparr>)"
    using find_refund_by_key [OF ok c] by (simp add: ids)
  have scan: "scanRefund (row\<lparr>Refund_CreatedAt := c\<rparr>) = stored_refund r amount c"
    unfolding saved(3) by (rule scanned_refund)
  have here: "pg_GetRefundByID E (Refund_MerchantID r) (Refund_ID r) s' = Inr (Some (stored_refund r amount c))"
    "pg_GetRefundByIdempotencyKey E (Refund_MerchantID r) (Refund_IdempotencyKey r) s' = Inr (Some (stored_refund r amount c))"
    using saved(6-8) by (simp_all add: pg_GetRefundByID_def pg_GetRefundByIdempotencyKey_def getRefund_def assms(3) c k scan)
  have others: "pg_GetRefundByID E m i s' = pg_GetRefundByID E m i s"
    if "(m, i) \<noteq> (Refund_MerchantID r, Refund_ID r)" for m i
    using find_upsert_refund(2) [OF free, of m i] that
    by (simp add: pg_GetRefundByID_def getRefund_def assms(3) saved(5) ids)
  have unused: "\<not> (\<exists>old\<in>set (pg_refunds s). Refund_MerchantID old = Refund_MerchantID r
      \<and> Refund_ID old \<noteq> Refund_ID r \<and> Refund_IdempotencyKey old = Refund_IdempotencyKey r)"
    using saved(4) by (auto simp: key_taken_def same_refund_def list_ex_iff)
  show ?thesis
  proof (intro conjI impI)
    show "\<exists>amount c. pe_numeric E (Refund_Amount r) = Inr amount
        \<and> pg_GetRefundByID E (Refund_MerchantID r) (Refund_ID r) s' = Inr (Some (stored_refund r amount c))
        \<and> pg_GetRefundByIdempotencyKey E (Refund_MerchantID r) (Refund_IdempotencyKey r) s'
            = Inr (Some (stored_refund r amount c))"
      by (intro exI [of _ amount] exI [of _ c] conjI saved(2) here)
  qed (use ok saved(1) others unused in blast)+
qed (use assms(1) in auto)

theorem pg_refund_keys_witness:
  "fst (pg_SaveRefund sample_pg (sample_refund\<lparr>Refund_ID := ''ref_2''\<rparr>)
      (snd (pg_SaveRefund sample_pg sample_refund empty_pg))) \<noteq> None"
proof -
  let ?s = "snd (pg_SaveRefund sample_pg sample_refund empty_pg)" and ?r = "sample_refund\<lparr>Refund_ID := ''ref_2''\<rparr>"
  have rows: "\<exists>old. pg_refunds ?s = [old] \<and> Refund_MerchantID old = ''m'' \<and> Refund_ID old = ''ref_1''
      \<and> Refund_IdempotencyKey old = ''k''"
    by (simp add: pg_SaveRefund_def sample_pg_def sample_refund_def empty_pg_def key_taken_def upsert_refund_def
        upsert_def refund_row_def Let_def)
  then have ok: "refund_rows_ok (pg_refunds ?s)" by (auto simp: refund_rows_ok_def)
  obtain e s' where run: "pg_SaveRefund sample_pg ?r ?s = (e, s')" by fastforce
  have fail: "pe_fail sample_pg stmt args s = None" for stmt args s by (simp add: sample_pg_def)
  from rows have "\<exists>old\<in>set (pg_refunds ?s). Refund_MerchantID old = Refund_MerchantID ?r \<and> Refund_ID old \<noteq> Refund_ID ?r
      \<and> Refund_IdempotencyKey old = Refund_IdempotencyKey ?r"
    by (auto simp: sample_refund_def)
  with pg_refund_keys [OF ok run fail] have "e \<noteq> None" by blast
  then show ?thesis by (simp add: run)
qed

subsection \<open>Reports\<close>

text \<open>
  The report on Postgres. In whatever order the database visits the rows, the report lists
  the stored transactions of exactly the requested merchant that pass the filter, newest first,
  up to a limit between 1 and 500, and leaves out nothing newer than what it lists. No other
  merchant's transaction appears, whatever the identifiers look like.
\<close>

theorem pg_report_latest:
  assumes "pg_BuildTransactionReport E f t s = Inr rep" and "g = normalizeTransactionReportFilter f"
    and "mset (pe_scan E (pg_transactions s)) = mset (pg_transactions s)"
  shows "1 \<le> Flt_Limit g \<and> Flt_Limit g \<le> 500 \<and> (\<exists>listed rest.
      Rep_Transactions rep = map report_item (map scan_report_row listed)
    \<and> mset (listed @ rest) = mset (filter (report_row E g) (pg_transactions s))
    \<and> int (length listed) = min (Flt_Limit g) (int (length (listed @ rest)))
    \<and> (\<forall>x\<in>set listed. Ptx_MerchantID x = TrimSpace (Flt_MerchantID f))
    \<and> sorted_wrt (\<lambda>a b. Ptx_CreatedAt b \<le> Ptx_CreatedAt a) listed
    \<and> (\<forall>a\<in>set listed. \<forall>b\<in>set rest. Ptx_CreatedAt b \<le> Ptx_CreatedAt a))"
proof -
  let ?rs = "sort_key (\<lambda>x. - Ptx_CreatedAt x) (filter (report_row E g) (pe_scan E (pg_transactions s)))"
  let ?n = "nat (Flt_Limit g)"
  have sorted: "sorted_wrt (\<lambda>a b. Ptx_CreatedAt b \<le> Ptx_CreatedAt a) ?rs"
    using sorted_sort_key [of "\<lambda>x. - Ptx_CreatedAt x" "filter (report_row E g) (pe_scan E (pg_transactions s))"]
    by (simp add: sorted_wrt_map)
  have rows: "Rep_Transactions rep = map report_item (map scan_report_row (take ?n ?rs))"
    using assms(1) by (auto simp: pg_BuildTransactionReport_def Let_def assms(2) split: if_splits option.splits)
  have bag: "mset (take ?n ?rs @ drop ?n ?rs) = mset (filter (report_row E g) (pg_transactions s))"
    using assms(3) by (simp only: append_take_drop_id mset_sort mset_filter)
  have "\<forall>x\<in>set (take ?n ?rs). Ptx_MerchantID x = TrimSpace (Flt_MerchantID f)"
    by (auto simp: report_row_def assms(2) normalizeTransactionReportFilter_def dest!: in_set_takeD)
  moreover have "int (length (take ?n ?rs)) = min (Flt_Limit g) (int (length (take ?n ?rs @ drop ?n ?rs)))"
    using report_limit_bounds [of f] unfolding assms(2) append_take_drop_id length_take by linarith
  ultimately show ?thesis
    using rows bag sorted_wrt_take [OF sorted, of ?n] take_sorted_split [OF sorted, of ?n] report_limit_bounds [of f]
    unfolding assms(2) by blast
qed

definition sample_row :: "gostring \<Rightarrow> gotime \<Rightarrow> payment_tx" where
  "sample_row k t = \<lparr>Ptx_MerchantID = ''m'', Ptx_PaymentID = ''p'', Ptx_IdempotencyKey = k,
     Ptx_Status = StatusCaptured, Ptx_Payload = JObj [], Ptx_UpdatedAt = t, Ptx_CreatedAt = t\<rparr>"

definition two_rows :: pg_state where
  "two_rows = \<lparr>pg_transactions = [sample_row ''k'' 5, sample_row ''l'' 9], pg_refunds = [], pg_tick = 2\<rparr>"

theorem pg_report_latest_witness:
  "\<exists>rep x. pg_BuildTransactionReport sample_pg latest_filter 11 two_rows = Inr rep \<and> Rep_Transactions rep = [x]"
proof -
  have fail: "pe_fail sample_pg stmt args s = None" for stmt args s by (simp add: sample_pg_def)
  have merchant: "Flt_MerchantID latest_filter \<noteq> ''''" by (simp add: latest_filter_def)
  obtain rep where run: "pg_BuildTransactionReport sample_pg latest_filter 11 two_rows = Inr rep"
    by (simp add: pg_BuildTransactionReport_def latest_filter_normal merchant fail Let_def)
  have scan: "mset (pe_scan sample_pg (pg_transactions two_rows)) = mset (pg_transactions two_rows)"
    by (simp add: sample_pg_def)
  have two: "filter (report_row sample_pg latest_filter) (pg_transactions two_rows) = pg_transactions two_rows"
    by (simp add: two_rows_def report_row_def sample_row_def latest_filter_def)
  obtain listed rest where listed: "Rep_Transactions rep = map report_item (map scan_report_row listed)"
    "mset (listed @ rest) = mset (pg_transactions two_rows)"
    "int (length listed) = min (Flt_Limit latest_filter) (int (length (listed @ rest)))"
    using pg_report_latest [OF run latest_filter_normal [symmetric] scan, unfolded two] by blast
  have "length (listed @ rest) = 2"
    using arg_cong [OF listed(2), of size] by (simp add: two_rows_def)
  then have "length listed = 1" using listed(3) by (simp add: latest_filter_def)
  with listed(1) run show ?thesis by (auto simp: length_Suc_conv)
qed


end
