(* ===== verification/Spec2Isabelle.thy ===== *)
theory Spec2Isabelle
  imports Gateway Event_Log Notifications Postgres_Store
begin

text \<open>
  A verification library of the payment gateway of this repository (the Go code under
  \<open>src/cmd\<close> and \<open>src/internal\<close>): a shallow embedding, one definition per function, one record
  per struct, with the theorems that say what the program does.

  \<^bold>\<open>The program.\<close> A merchant sends a signed \<open>POST /payments\<close>. Middleware filters the request by
  source address, enforces HTTPS and authenticates the merchant by an API key and an HMAC
  signature. The handler hands the decoded request to the orchestrator, which takes it through
  idempotency, validation, antifraud, routing and tokenization, calls the adapter of a payment
  provider up to three times, saves the sanitised answer, notifies the merchant and logs every
  step. Providers report later changes to webhooks. Other endpoints read the status of a payment,
  create and find refunds and build reports. \<open>main.go\<close> puts it together: with Postgres stores when
  a data source is configured, and with stores in memory otherwise.

  \<^bold>\<open>Conventions.\<close>
  \<^item> A Go string is a byte string (\<open>gostring\<close>, a \<open>char list\<close>); functions of the package
    \<open>strings\<close> work on bytes or on decoded runes as the library does (\<open>GoStrings\<close>). A \<open>float64\<close>
    is the datatype \<open>f64\<close> of exact finite values, two infinities and NaN, whose comparisons are
    those of IEEE; times are nanoseconds and dates those of the calendar (\<open>GoNum\<close>). An IP
    address is a \<open>128 word\<close>, a mask another, and a network match is bitwise (\<open>Network\<close>).
  \<^item> \<open>(value, error)\<close> is a sum, \<open>Inl\<close> the text of the error; where the source returns a value
    beside an error, it is a pair. Every early return is a branch. An error the source discards
    is discarded.
  \<^item> State is passed explicitly: \<open>'s world\<close> for the orchestrator and the webhooks,
    \<open>'s refund_world\<close>, \<open>ntf_state\<close>, \<open>log_tables\<close>, \<open>pg_state\<close> for the others. What a component
    does to the outside is a trace in the state (adapter calls, notifications, events, sleeps,
    SQL rows). Stores are used through records of operations (\<open>store_ops\<close>, \<open>refund_ops\<close>), so the
    same handlers run on either store.
  \<^item> A JSON or XML text is a tree, or a text that is no document; a decoder is a table from
    member names to setters, case folding and type errors included.

  \<^bold>\<open>Theories.\<close> In the order of their dependencies:
  \<^item> \<open>Prelude\<close>, \<open>GoStrings\<close>, \<open>GoNum\<close>: collections of simplification rules (\<open>lit\<close>, \<open>go_eval\<close>), the
    byte strings, numbers and times above, with their round trips and bounds.
  \<^item> \<open>Dto\<close> (\<open>dto/*.go\<close>, \<open>contracts/interfaces.go\<close>): the records, the statuses, the error
    catalogue, the masks, and \<open>Sanitized\<close>, which hides what must not leave the process.
  \<^item> \<open>Json\<close>, \<open>Json_Any\<close>, \<open>Http\<close>, \<open>Xml\<close>: documents, requests and replies; the payload sanitiser
    (\<open>SanitizePaymentPayloadJSON\<close>), the round trip of a response, and why reading a document into
    a map and writing it again loses nothing but duplicates and order.
  \<^item> \<open>Validator\<close> (\<open>payment_data_validator.go\<close>): normalisation, the struct tags over the
    validation model, the registered tags, the messages. \<open>valid_payment\<close> is the abstract
    specification, and the Luhn lemmas say what the checksum detects.
  \<^item> \<open>Antifraud\<close> (four files of \<open>subsystems/antifraud\<close>): the rules and their score, the Rego
    policy, the disposable domains, and the velocity store with its invariant and the
    declarative counts that the counting loop computes.
  \<^item> \<open>Storage\<close> (\<open>inmemory_store.go\<close>), \<open>Routing\<close> (\<open>router.go\<close>, \<open>card_scheme.go\<close>), \<open>Logging\<close>
    (\<open>masking.go\<close>): the store and its contract, the choice of the payment system and the
    adapter, the masks of an event.
  \<^item> \<open>Orchestrator\<close>, \<open>Payments\<close> (\<open>orchestrator/simple/*.go\<close>): \<open>CreatePayment\<close> with its retry
    loop, state manager and sessions; then its outcome, idempotency, order of events and
    independence of the card verification code.
  \<^item> \<open>Merchant_Auth\<close>, \<open>Payments_Api\<close>, \<open>Refunds\<close>, \<open>Network\<close>: authentication and both merchant
    stores (\<open>subsystems/merchantauth\<close>), the payment and refund endpoints (\<open>httpapi/payments\<close>,
    \<open>httpapi/refunds\<close>), and the middleware (\<open>httpapi/security\<close>).
  \<^item> \<open>Digital_Ruble\<close>, \<open>Adapters\<close>, \<open>Providers\<close>: marked money and the SOAP messages
    (\<open>subsystems/digitalruble\<close>), the adapters (\<open>subsystems/adapter\<close>), the factories that
    \<open>factory.go\<close> fills from the environment and the route table (\<open>subsystems/routing\<close>).
  \<^item> \<open>Webhooks\<close>, \<open>Webhook_Payanyway\<close>, \<open>Webhook_Sandbox\<close> (\<open>httpapi/webhooks\<close>): the notifications
    of YooKassa and PayAnyWay, the scan of a QR code, the SOAP endpoint, the demo receiver.
  \<^item> \<open>Reports\<close>, \<open>Secrets\<close>, \<open>Notifications\<close>, \<open>Tokenizer\<close>, \<open>Event_Log\<close>, \<open>Postgres_Store\<close>: reports
    and their endpoint (\<open>reporting.go\<close>, \<open>httpapi/reports\<close>), the Vault protector, signed
    notifications with their table of deliveries, both tokenizers, both event loggers with the
    regular expressions of \<open>MaskSensitive\<close>, and the Postgres store of payments and refunds.
  \<^item> \<open>Gateway\<close> (\<open>cmd/payment-gateway/main.go\<close>): the settings a start is refused for, the wiring,
    \<open>http.ServeMux\<close> and every handler behind its filters, as one function from a request and the
    state of the process to a reply and the next state (\<open>gateway_serve\<close>).
\<close>

text \<open>
  \<^bold>\<open>What the properties say.\<close>
  \<^item> Payments (\<open>Payments\<close>, \<open>Storage\<close>, \<open>Postgres_Store\<close>): a new payment ends in an accepted
    status without an error or in a refused one with an error, is announced once and makes at
    most three adapter calls (\<open>CreatePayment_outcome\<close>); a repeated key answers the same
    response and changes nothing, on the store in memory and on Postgres
    (\<open>CreatePayment_idempotent\<close>, \<open>CreatePayment_idempotent_postgres\<close>); the events follow the
    life cycle, given as the inductive relation \<open>event_next\<close>; a failed save is described as it
    is; large amounts never reach an adapter, and the card verification code only matters to
    the validation.
  \<^item> Access (\<open>Merchant_Auth\<close>, \<open>Network\<close>, \<open>Payments_Api\<close>, \<open>Refunds\<close>, \<open>Reports\<close>, \<open>Gateway\<close>):
    exactly which requests are authenticated, that the signed text determines the request, which
    addresses pass, that merchants act for and read themselves only, and for the whole process
    that money moves only for a signed request of the merchant (\<open>gateway_money\<close>) and which
    requests production takes for HTTPS (\<open>startup_https\<close>), a whole \<open>https\<close> URL in the request line
    of a plain connection among them.
  \<^item> Providers (\<open>Adapters\<close>, \<open>Webhooks\<close>, \<open>Webhook_Payanyway\<close>, \<open>Webhook_Sandbox\<close>, \<open>Digital_Ruble\<close>,
    \<open>Providers\<close>): what an answer or a notification can do to a payment and what it cannot, and
    which provider a payment goes to. Some of them state a weakness of the code as it is.
  \<^item> Data (\<open>Dto\<close>, \<open>Json\<close>, \<open>Event_Log\<close>, \<open>Tokenizer\<close>, \<open>Secrets\<close>): what is hidden in responses,
    logs and tokens, stated by two inputs that differ in the hidden part only and give one
    result, and the round trips of responses, SOAP messages and secrets.
  \<^item> Tables and counters (\<open>Antifraud\<close>, \<open>Reports\<close>, \<open>Notifications\<close>, \<open>Event_Log\<close>,
    \<open>Postgres_Store\<close>): invariants of the velocity store, the log tables and the refund table,
    the rows and sums of a report, the attempt of every notification.

  \<^bold>\<open>Interfaces.\<close> Where one component relies on a contract of another, the contract is a locale
  with the lemmas of its client, interpreted on the definitions of its providers:
  \<^item> \<open>transaction_store\<close> (\<open>Storage\<close>: what a lookup returns after a save), interpreted by the store
    in memory, and the weaker \<open>response_store\<close> (\<open>Payments\<close>: the saved response is read back up
    to equal documents), of which it is a \<open>sublocale\<close>; Postgres gives the latter by the lemma
    \<open>pg_response_store\<close>, under \<open>jsonb_keeps\<close>;
  \<^item> \<open>payment_adapter\<close> and \<open>settled_adapter\<close> (\<open>Adapters\<close>: which statuses an adapter may answer,
    and that every call gets an answer that ends the retry loop), interpreted by every adapter of the repository and by
    the adapters of a configured \<open>provider\<close>;
  \<^item> \<open>merchant_provider\<close> (\<open>Merchant_Auth\<close>: a found merchant has the identifier asked for),
    interpreted by the static store and by the Postgres table.

  \<^bold>\<open>Termination and bounds.\<close> No definition uses fuel. The recursions that are not structural
  (\<open>send_loop\<close>, \<open>runes\<close>, the trimming loops, \<open>domain_loop\<close>, \<open>json_chars\<close>, the scans of the three
  regular expressions) terminate by a measure on the remaining attempts or bytes. The bounds are
  those of the source: three attempts, amounts up to 1000000, reports of 1 to 500 rows,
  timestamps of five minutes either way, SOAP bodies of 128 KiB, velocity windows of 5 and 30
  minutes, 1 and 24 hours. A Go \<open>int\<close> that only counts is an \<open>int\<close>.

  \<^bold>\<open>Parameters.\<close> Code outside the repository is an argument of the definitions that use it:
  \<^item> the built-in tags of the validator library (documented by \<open>documented_tags\<close>), the OPA engine
    (its policy is a text of the repository and is translated), the QR encoder, the error
    encoder of go-kit;
  \<^item> SHA-256, HMAC and MD5; random bytes; the parsers of numbers, times and URLs; the form, the
    document and the escaped path of a request;
  \<^item> the HTTP clients: what a provider, a merchant or the Vault server answers to a call;
  \<^item> the database: which statements fail, the order of rows, what a \<open>JSONB\<close> or \<open>NUMERIC\<close> column
    keeps; the environment variables and the readings of the clock.
  A law of such a parameter is a named hypothesis (\<open>documented_tags\<close>, \<open>jsonb_keeps\<close>, a server that
  decrypts what it encrypted), and the witness of a property gives a concrete instance.

  \<^bold>\<open>Not modelled.\<close> A call of a handler runs from its first statement to its last: the mutexes
  make the methods of the stores atomic, but calls that interleave between them are not covered,
  so the idempotency theorems speak of repetitions one after the other. Case mapping is exact for
  ASCII and Cyrillic, which covers every text it is compared with; letters of other alphabets keep
  their case. Left out as pure input
  and output: listening and the access log, the connection pools, the \<open>CREATE TABLE\<close> statements
  (their keys are built into the operations), and timeouts of contexts and clients, except that
  a context or a client may fail at any call. Texts of JSON and XML are not parsed. Constructors
  that only fill a struct with what the records have, and interface declarations, have no
  definition of their own.
\<close>

end
